(* ===== verification/Prelude.thy ===== *)
theory Prelude
  imports Main "HOL-Library.Sublist"
begin

text \<open>
  The shared vocabulary of the development: Go's (value, error) results as
  sums, the few functions of the Go standard library the service calls on
  strings and slices (strings.TrimPrefix, strings.HasPrefix, strings.Cut,
  strings.Join), and the hint collections the component theories extend.
\<close>

named_theorems matcher_simps \<open>how the problem matchers unfold on an error tree\<close>
named_theorems handler_simps \<open>how a handler's input reads unfold\<close>
named_theorems config_simps \<open>how a configuration block merges and finalizes\<close>

section \<open>Strings\<close>

text \<open>strings.HasPrefix(s, p).\<close>
definition has_prefix :: "string \<Rightarrow> string \<Rightarrow> bool" where
  "has_prefix p s = (take (length p) s = p)"

text \<open>strings.TrimPrefix(s, p): s without p, or s itself.\<close>
definition trim_prefix :: "string \<Rightarrow> string \<Rightarrow> string" where
  "trim_prefix p s = (if has_prefix p s then drop (length p) s else s)"

text \<open>strings.TrimSuffix(s, p).\<close>
definition trim_suffix :: "string \<Rightarrow> string \<Rightarrow> string" where
  "trim_suffix p s = rev (trim_prefix (rev p) (rev s))"

text \<open>strings.Cut at a one-character separator: the text before it, the text
  after it, and whether it was found.\<close>
fun cut_at :: "char \<Rightarrow> string \<Rightarrow> string \<times> string \<times> bool" where
  "cut_at c [] = ([], [], False)"
| "cut_at c (x # xs) =
     (if x = c then ([], xs, True)
      else (case cut_at c xs of (a, b, ok) \<Rightarrow> (x # a, b, ok)))"

text \<open>strings.Split at a one-character separator: never empty, one part more
  than the separators the text holds.\<close>
fun split_at :: "char \<Rightarrow> string \<Rightarrow> string list" where
  "split_at c [] = [[]]"
| "split_at c (x # xs) =
     (if x = c then [] # split_at c xs
      else (case split_at c xs of
              [] \<Rightarrow> [[x]]
            | y # ys \<Rightarrow> (x # y) # ys))"

text \<open>strings.Join.\<close>
fun join_with :: "string \<Rightarrow> string list \<Rightarrow> string" where
  "join_with sep [] = []"
| "join_with sep [x] = x"
| "join_with sep (x # y # ys) = x @ sep @ join_with sep (y # ys)"

text \<open>A decimal number, as strconv.Itoa and the verb %d print it.\<close>
fun decimal :: "nat \<Rightarrow> string" where
  "decimal n = (if n < 10 then [char_of (48 + n)] else decimal (n div 10) @ [char_of (48 + n mod 10)])"

declare decimal.simps [simp del]

definition itoa :: "int \<Rightarrow> string" where
  "itoa i = (if i < 0 then ''-'' @ decimal (nat (- i)) else decimal (nat i))"

text \<open>The verb %q, strconv.Quote, on the bytes of a text whose characters past ASCII
  are printable.\<close>
definition hex_digit :: "nat \<Rightarrow> char" where
  "hex_digit n = (if n < 10 then char_of (48 + n) else char_of (87 + n))"

definition quoted_char :: "char \<Rightarrow> string" where
  "quoted_char c =
     (let n = of_char c :: nat
      in if n = 34 \<or> n = 92 then [CHR 0x5C, c]
         else if n = 7 then CHR 0x5C # ''a'' else if n = 8 then CHR 0x5C # ''b''
         else if n = 9 then CHR 0x5C # ''t'' else if n = 10 then CHR 0x5C # ''n''
         else if n = 11 then CHR 0x5C # ''v'' else if n = 12 then CHR 0x5C # ''f''
         else if n = 13 then CHR 0x5C # ''r''
         else if n < 32 \<or> n = 127 then CHR 0x5C # ''x'' @ [hex_digit (n div 16), hex_digit (n mod 16)]
         else [c])"

definition quoted :: "string \<Rightarrow> string" where
  "quoted s = CHR 0x22 # concat (map quoted_char s) @ [CHR 0x22]"

lemma has_prefix_iff: "has_prefix p s \<longleftrightarrow> (\<exists>t. s = p @ t)"
  unfolding has_prefix_def by (metis append_eq_conv_conj append_take_drop_id)

lemma trim_prefix_append [simp]: "trim_prefix p (p @ s) = s"
  by (simp add: trim_prefix_def has_prefix_def)

lemma trim_prefix_other: "\<not> has_prefix p s \<Longrightarrow> trim_prefix p s = s"
  by (simp add: trim_prefix_def)

lemma trim_prefix_cases: "trim_prefix p s = s \<or> s = p @ trim_prefix p s"
  by (auto simp: trim_prefix_def has_prefix_iff)

lemma split_at_not_Nil [simp]: "split_at c s \<noteq> []"
  by (induction s) (auto split: list.splits)

lemma split_at_no_sep: "c \<notin> set s \<Longrightarrow> split_at c s = [s]"
  by (induction s) auto

lemma split_at_append: "c \<notin> set s \<Longrightarrow> split_at c (s @ c # t) = s # split_at c t"
  by (induction s) auto

text \<open>Splitting a joined list at its separator gives the parts back, when no
  part holds the separator.\<close>
lemma split_at_join:
  assumes "xs \<noteq> []" "\<forall>x\<in>set xs. c \<notin> set x"
  shows "split_at c (join_with [c] xs) = xs"
  using assms
  by (induction "[c]" xs rule: join_with.induct) (auto simp: split_at_no_sep split_at_append)

lemma join_with_Cons: "ys \<noteq> [] \<Longrightarrow> join_with sep (y # ys) = y @ sep @ join_with sep ys"
  by (cases ys) auto

lemma join_split_at: "join_with [c] (split_at c s) = s"
proof (induction s)
  case (Cons x xs)
  then show ?case
    by (cases "split_at c xs"; cases "tl (split_at c xs)") (auto simp: join_with_Cons)
qed simp

lemma cut_at_found:
  "c \<notin> set a \<Longrightarrow> cut_at c (a @ c # b) = (a, b, True)"
  by (induction a) auto

lemma cut_at_absent: "c \<notin> set s \<Longrightarrow> cut_at c s = (s, [], False)"
  by (induction s) auto

lemma cut_at_spec:
  "cut_at c s = (a, b, ok) \<Longrightarrow> c \<notin> set a \<and> (if ok then s = a @ c # b else s = a \<and> b = [])"
  by (induction s arbitrary: a b ok) (auto split: if_splits prod.splits)

section \<open>Association lists read in order\<close>

lemma find_Some_in: "List.find P xs = Some x \<Longrightarrow> x \<in> set xs \<and> P x"
  by (auto simp: find_Some_iff)

lemma find_append: "List.find P (xs @ ys) = (case List.find P xs of None \<Rightarrow> List.find P ys | r \<Rightarrow> r)"
  by (induction xs) auto

lemma find_map_key:
  assumes "distinct (map k xs)" "x \<in> set xs"
  shows "List.find (\<lambda>y. k y = k x) xs = Some x"
  using assms by (induction xs) (auto simp: rev_image_eqI)

lemma find_unique:
  assumes "x \<in> set xs" "p x" "\<And>y. y \<in> set xs \<Longrightarrow> p y \<Longrightarrow> y = x"
  shows "List.find p xs = Some x"
proof (cases "List.find p xs")
  case None
  with assms(1,2) show ?thesis by (auto simp: find_None_iff)
next
  case (Some y)
  from find_Some_in [OF Some] have "y = x" by (intro assms(3)) simp_all
  with Some show ?thesis by simp
qed

end
