(* ===== verification/Errors.thy ===== *)
theory Errors
  imports Prelude
begin

text \<open>
  Go's errors as values. An error is a tree: a node has a kind (the sentinel
  variable or the concrete type it is), the text its Error method returns,
  and the errors its Unwrap method returns. errors.Is and errors.As walk the
  tree in preorder, as package errors documents. fmt.Errorf with %w verbs and
  errors.Join build inner nodes of the kind Wrapped. How a library error
  unwraps is the tree it is given as, so no law of a library is built in here.
\<close>

section \<open>The errors the service tells apart\<close>

datatype ekind =
    Wrapped                       \<comment> \<open>fmt.Errorf with %w, errors.Join\<close>
  | Plain                         \<comment> \<open>errors.New at the place it is returned\<close>
  \<comment> \<open>data\<close>
  | BodyRead | BodyTimeout
  \<comment> \<open>blobfs\<close>
  | InvalidName | InvalidPath | InvalidKey | InvalidID | RootDirectory
  | BlobNotFound | NameTaken | IDTaken | NotEmpty | Referenced
  | Deleting | NotDeleting | InvalidTransition | BlobCycle
  | DeletingError bool            \<comment> \<open>*blobfs.DeletingError and its Directory\<close>
  | NameError | IDError
  \<comment> \<open>go-storage\<close>
  | ObjectNotFound | TooLarge | ContainerNotFound | StoreNotReady | StoreUnavailable
  \<comment> \<open>sqlate, sqlate/query and go-database\<close>
  | Directives | VersionMismatch
  | CursorError | UnknownFieldError | UnknownOperatorError | InvalidValueError
  | UniqueViolation | ForeignKeyViolation | CheckViolation | ConnectionFailed
  | ConstraintError ekind string  \<comment> \<open>*sqlate.ConstraintError: its Class and Constraint\<close>
  | DatabaseNotReady
  \<comment> \<open>the standard library\<close>
  | NoRows | EOF | UnexpectedEOF | NetError bool | NotExist
  \<comment> \<open>go-web-sdk\<close>
  | UploadError | QueryError | RequestError
  \<comment> \<open>the domains\<close>
  | OrgValidation | OrgCycle
  | DocValidation | NoDocuments
  \<comment> \<open>go-database's admin service\<close>
  | AdminValidation
  | UnknownSet | UnknownState | SeedDisabled | Unconfirmed | AdminConflict
  | OtherKind string

datatype err = Err (kind: ekind) (error_text: string) (unwrap: "err list")

type_synonym 'a result = "err + 'a"

fun nodes :: "err \<Rightarrow> err list" where
  "nodes (Err k t cs) = Err k t cs # concat (map nodes cs)"

text \<open>errors.Is(e, target) for a sentinel target.\<close>
definition errors_is :: "ekind \<Rightarrow> err \<Rightarrow> bool" where
  "errors_is k e = list_ex (\<lambda>n. kind n = k) (nodes e)"

text \<open>errors.As(e, &target): the first node of the target's type.\<close>
definition errors_as :: "(ekind \<Rightarrow> bool) \<Rightarrow> err \<Rightarrow> err option" where
  "errors_as p e = List.find (\<lambda>n. p (kind n)) (nodes e)"

text \<open>fmt.Errorf("<text>: %w", e).\<close>
definition wrapf :: "string \<Rightarrow> err \<Rightarrow> err" where
  "wrapf txt e = Err Wrapped (txt @ '': '' @ error_text e) [e]"

text \<open>fmt.Errorf("%w: %w", a, b).\<close>
definition wrap2 :: "err \<Rightarrow> err \<Rightarrow> err" where
  "wrap2 a b = Err Wrapped (error_text a @ '': '' @ error_text b) [a, b]"

text \<open>fmt.Errorf("%w: <text>", e), the form a sentinel takes its reason in.\<close>
definition wrap_reason :: "err \<Rightarrow> string \<Rightarrow> err" where
  "wrap_reason e txt = Err Wrapped (error_text e @ '': '' @ txt) [e]"

text \<open>errors.New(txt).\<close>
definition plain :: "string \<Rightarrow> err" where
  "plain txt = Err Plain txt []"

text \<open>The errors of a list that are not nil.\<close>
fun present :: "'a option list \<Rightarrow> 'a list" where
  "present [] = []"
| "present (None # xs) = present xs"
| "present (Some x # xs) = x # present xs"

text \<open>errors.Join: nil when every error is nil, and otherwise one node over the
  others, their texts on a line each.\<close>
definition errors_join :: "err option list \<Rightarrow> err option" where
  "errors_join es = (let cs = present es in
     if cs = [] then None
     else Some (Err Wrapped (join_with [CHR 0x0A] (map error_text cs)) cs))"

section \<open>How the walks see a wrapped and a joined error\<close>

lemma errors_is_Err [simp]:
  "errors_is k (Err k' t cs) \<longleftrightarrow> k' = k \<or> (\<exists>c\<in>set cs. errors_is k c)"
  by (auto simp: errors_is_def list_ex_iff)

lemma errors_as_Err:
  "errors_as p (Err k t cs) =
     (if p k then Some (Err k t cs)
      else List.find (\<lambda>n. p (kind n)) (concat (map nodes cs)))"
  by (simp add: errors_as_def)

lemma errors_is_wrapf [simp]: "k \<noteq> Wrapped \<Longrightarrow> errors_is k (wrapf txt e) = errors_is k e"
  by (simp add: wrapf_def)

lemma errors_as_wrapf [simp]: "\<not> p Wrapped \<Longrightarrow> errors_as p (wrapf txt e) = errors_as p e"
  by (simp add: wrapf_def errors_as_def)

lemma errors_is_wrap_reason [simp]:
  "k \<noteq> Wrapped \<Longrightarrow> errors_is k (wrap_reason e txt) = errors_is k e"
  by (simp add: wrap_reason_def)

lemma errors_as_wrap_reason [simp]:
  "\<not> p Wrapped \<Longrightarrow> errors_as p (wrap_reason e txt) = errors_as p e"
  by (simp add: wrap_reason_def errors_as_def)

lemma errors_is_wrap2 [simp]:
  "k \<noteq> Wrapped \<Longrightarrow> errors_is k (wrap2 a b) \<longleftrightarrow> errors_is k a \<or> errors_is k b"
  by (simp add: wrap2_def)

lemma errors_as_wrap2:
  "\<not> p Wrapped \<Longrightarrow>
   errors_as p (wrap2 a b) = (case errors_as p a of None \<Rightarrow> errors_as p b | r \<Rightarrow> r)"
  by (simp add: wrap2_def errors_as_def find_append split: option.splits)

lemma errors_is_plain [simp]: "k \<noteq> Plain \<Longrightarrow> \<not> errors_is k (plain txt)"
  by (simp add: plain_def)

lemma errors_as_kind:
  "errors_as p e = Some n \<Longrightarrow> p (kind n) \<and> n \<in> set (nodes e)"
  unfolding errors_as_def by (auto dest: find_Some_in)

lemma errors_as_None_iff: "errors_as p e = None \<longleftrightarrow> (\<forall>n\<in>set (nodes e). \<not> p (kind n))"
  by (auto simp: errors_as_def find_None_iff)

lemma errors_is_as: "errors_is k e \<longleftrightarrow> errors_as (\<lambda>x. x = k) e \<noteq> None"
  by (auto simp: errors_is_def errors_as_None_iff list_ex_iff)

lemma set_present: "set (present es) = {x. Some x \<in> set es}"
  by (induction es rule: present.induct) auto

lemma errors_join_simps [simp]:
  "errors_join [] = None"
  "errors_join (None # es) = errors_join es"
  by (simp_all add: errors_join_def)

lemma errors_join_one: "errors_join [Some e] = Some (Err Wrapped (error_text e) [e])"
  by (simp add: errors_join_def)

lemma errors_join_two:
  "errors_join [Some a, Some b] =
     Some (Err Wrapped (error_text a @ [CHR 0x0A] @ error_text b) [a, b])"
  by (simp add: errors_join_def)

lemma present_Nil_iff: "present es = [] \<longleftrightarrow> (\<forall>e\<in>set es. e = None)"
  by (induction es rule: present.induct) auto

lemma errors_join_None_iff: "errors_join es = None \<longleftrightarrow> (\<forall>e\<in>set es. e = None)"
  by (simp add: errors_join_def Let_def present_Nil_iff)

lemma errors_is_join:
  assumes "errors_join es = Some e" "k \<noteq> Wrapped"
  shows "errors_is k e \<longleftrightarrow> (\<exists>x. Some x \<in> set es \<and> errors_is k x)"
  using assms by (auto simp: errors_join_def Let_def set_present split: if_splits)

lemmas error_walk_simps = errors_is_wrapf errors_as_wrapf errors_is_wrap_reason
  errors_as_wrap_reason errors_is_wrap2 errors_as_wrap2 errors_is_plain

end
