(* ===== verification/Reads.thy ===== *)
theory Reads
  imports Errors
begin

text \<open>
  data/directives.go: how a parsed request query becomes the query library's
  read directives, and how a collection read is addressed, by cursor or by page
  number. The library's operator names and its two reads are parameters.
\<close>

section \<open>The request's query and the library's directives\<close>

record web_sort =
  ws_field :: string
  ws_desc :: bool

record web_filter =
  wf_field :: string
  wf_op :: string
  wf_values :: "string list"

record web_query =
  q_page :: int
  q_size :: int
  q_cursor :: string
  q_sort :: "web_sort list"
  q_filters :: "web_filter list"

text \<open>The value of a library filter: absent, one text, or every text of a
  membership.\<close>
datatype fvalue = NoValue | One string | Many "string list"

record qfilter =
  qf_field :: string
  qf_op :: string
  qf_value :: fvalue

record directives =
  d_sort :: "(string \<times> bool) list"
  d_filters :: "qfilter list"

text \<open>The names the library gives the operators the code tells apart.\<close>
record op_names =
  OpEq :: string
  OpIn :: string
  OpIsNull :: string
  OpIsNotNull :: string

definition filters :: "op_names \<Rightarrow> web_filter \<Rightarrow> qfilter list" where
  "filters ops f =
    (let op = (if wf_op f = [] then (if length (wf_values f) > 1 then OpIn ops else OpEq ops)
               else wf_op f)
     in if op = OpIn ops
        then [\<lparr>qf_field = wf_field f, qf_op = op, qf_value = Many (wf_values f)\<rparr>]
        else if op = OpIsNull ops \<or> op = OpIsNotNull ops
        then [\<lparr>qf_field = wf_field f, qf_op = op, qf_value = NoValue\<rparr>]
        else map (\<lambda>v. \<lparr>qf_field = wf_field f, qf_op = op, qf_value = One v\<rparr>) (wf_values f))"

definition Directives_of :: "op_names \<Rightarrow> web_query \<Rightarrow> directives" where
  "Directives_of ops q =
    \<lparr>d_sort = map (\<lambda>s. (ws_field s, ws_desc s)) (q_sort q),
     d_filters = concat (map (filters ops) (q_filters q))\<rparr>"

section \<open>The reads\<close>

text \<open>A collection as the library returns it; c_total is None for query.NoTotal.\<close>
record 'a collection =
  c_items :: "'a list"
  c_total :: "int option"
  c_more :: bool
  c_next :: string

record ('a, 's) projection =
  continue_read :: "'s \<Rightarrow> directives \<Rightarrow> string \<Rightarrow> int \<Rightarrow> 'a collection result"
  list_read :: "'s \<Rightarrow> directives \<Rightarrow> int \<times> int \<Rightarrow> 'a collection result"

definition Read :: "op_names \<Rightarrow> ('a, 's) projection \<Rightarrow> 's \<Rightarrow> web_query \<Rightarrow> 'a collection result" where
  "Read ops p s q =
    (let d = Directives_of ops q
     in if q_cursor q \<noteq> [] then continue_read p s d (q_cursor q) (q_size q)
        else list_read p s d (q_page q, q_size q))"

text \<open>blobfs's directory listings, the same two reads under a directory's id.\<close>
record ('a, 's) listing =
  continue_under :: "'s \<Rightarrow> string \<Rightarrow> directives \<Rightarrow> string \<Rightarrow> int \<Rightarrow> 'a collection result"
  list_under :: "'s \<Rightarrow> string \<Rightarrow> directives \<Rightarrow> int \<times> int \<Rightarrow> 'a collection result"

definition ReadListing ::
    "op_names \<Rightarrow> ('a, 's) listing \<Rightarrow> string \<Rightarrow> 's \<Rightarrow> web_query \<Rightarrow> 'a collection result" where
  "ReadListing ops l i s q =
    (let d = Directives_of ops q
     in if q_cursor q \<noteq> [] then continue_under l s i d (q_cursor q) (q_size q)
        else list_under l s i d (q_page q, q_size q))"

record paging =
  pg_total :: "int option"
  pg_more :: bool
  pg_next :: string

definition Paging :: "'a collection \<Rightarrow> paging" where
  "Paging c = \<lparr>pg_total = c_total c, pg_more = c_more c, pg_next = c_next c\<rparr>"

section \<open>What the lowering keeps\<close>

text \<open>The texts a library filter compares with.\<close>
fun fvalue_texts :: "fvalue \<Rightarrow> string list" where
  "fvalue_texts NoValue = []"
| "fvalue_texts (One v) = [v]"
| "fvalue_texts (Many vs) = vs"

definition filter_texts :: "qfilter list \<Rightarrow> (string \<times> string) list" where
  "filter_texts fs = concat (map (\<lambda>f. map (\<lambda>v. (qf_field f, v)) (fvalue_texts (qf_value f))) fs)"

text \<open>A request filter that asks for a null or a non-null field carries no value
  into the predicate.\<close>
definition null_test :: "op_names \<Rightarrow> web_filter \<Rightarrow> bool" where
  "null_test ops f \<longleftrightarrow> wf_op f \<noteq> OpIn ops \<and> wf_op f \<in> {OpIsNull ops, OpIsNotNull ops}"

definition ops_ok :: "op_names \<Rightarrow> bool" where
  "ops_ok ops \<longleftrightarrow> distinct [[], OpEq ops, OpIn ops, OpIsNull ops, OpIsNotNull ops]"

lemma filters_texts:
  assumes "ops_ok ops"
  shows "filter_texts (filters ops f) =
     (if null_test ops f then [] else map (\<lambda>v. (wf_field f, v)) (wf_values f))"
  using assms
  by (auto simp: filters_def filter_texts_def null_test_def ops_ok_def Let_def o_def
      concat_map_singleton)

lemma filter_texts_append: "filter_texts (fs @ gs) = filter_texts fs @ filter_texts gs"
  by (simp add: filter_texts_def)

text \<open>The predicate holds the request's values: lowering a query loses, repeats
  and reorders no filter value; only a null test's value is dropped. The sorts
  are kept one for one in order.\<close>
theorem Directives_texts:
  assumes "ops_ok ops"
  shows "filter_texts (d_filters (Directives_of ops q)) =
           concat (map (\<lambda>f. if null_test ops f then [] else map (\<lambda>v. (wf_field f, v)) (wf_values f))
                     (q_filters q))
       \<and> d_sort (Directives_of ops q) = map (\<lambda>s. (ws_field s, ws_desc s)) (q_sort q)"
proof -
  have "filter_texts (concat (map (filters ops) fs)) =
      concat (map (\<lambda>f. if null_test ops f then [] else map (\<lambda>v. (wf_field f, v)) (wf_values f)) fs)"
    for fs
    by (induction fs) (simp_all add: filter_texts_append filters_texts [OF assms],
        simp add: filter_texts_def)
  then show ?thesis
    by (simp add: Directives_of_def)
qed

definition sample_ops :: op_names where
  "sample_ops = \<lparr>OpEq = ''eq'', OpIn = ''in'', OpIsNull = ''null'', OpIsNotNull = ''notnull''\<rparr>"

definition sample_query :: web_query where
  "sample_query = \<lparr>q_page = 1, q_size = 20, q_cursor = [], q_sort = [],
     q_filters = [\<lparr>wf_field = ''code'', wf_op = [], wf_values = [''a'', ''b'']\<rparr>,
                  \<lparr>wf_field = ''parent_id'', wf_op = ''null'', wf_values = [[]]\<rparr>]\<rparr>"

theorem Directives_texts_witness:
  "filter_texts (d_filters (Directives_of sample_ops sample_query)) = [(''code'', ''a''), (''code'', ''b'')]"
  using Directives_texts [of sample_ops sample_query]
  by (simp add: ops_ok_def sample_ops_def sample_query_def null_test_def)

end
