(* ===== verification/Problems.thy ===== *)
theory Problems
  imports Errors
begin

text \<open>
  data/status.go: the problem every store error is answered with, and the
  curated details a conflict carries. The locale states what a domain's
  matcher promises the handlers: the operation chain an error was wrapped in
  never changes its problem, and a matched error is never answered as a
  success. The matchers of the domains interpret it in their own theories.
\<close>

section \<open>The matcher\<close>

record problem =
  p_status :: nat
  p_detail :: string

definition DetailNameTaken :: string where
  "DetailNameTaken = ''an entry with that name already exists''"
definition DetailNotEmpty :: string where
  "DetailNotEmpty = ''the directory is not empty''"
definition DetailDeleting :: string where
  "DetailDeleting = ''the directory is being deleted''"
definition DetailFileDeleting :: string where
  "DetailFileDeleting = ''the file is being deleted''"
definition DetailReferenced :: string where
  "DetailReferenced = ''the file is referenced''"
definition DetailConflict :: string where
  "DetailConflict = ''the request conflicts with the current state''"

definition curated :: "string set" where
  "curated = {DetailNameTaken, DetailNotEmpty, DetailDeleting, DetailFileDeleting,
     DetailReferenced, DetailConflict}"

definition Conflict :: "string \<Rightarrow> problem" where
  "Conflict detail = \<lparr>p_status = 409, p_detail = detail\<rparr>"

definition no_detail :: "nat \<Rightarrow> problem" where
  "no_detail code = \<lparr>p_status = code, p_detail = []\<rparr>"

definition ErrBodyRead :: err where
  "ErrBodyRead = Err BodyRead ''the request body could not be read'' []"

definition ErrBodyTimeout :: err where
  "ErrBodyTimeout = Err BodyTimeout ''the request body did not arrive in time'' []"

text \<open>The typed refusals requestDetail asks for, in its order.\<close>
definition typed_refusals :: "ekind list" where
  "typed_refusals = [CursorError, UnknownFieldError, UnknownOperatorError, InvalidValueError,
     NameError, IDError]"

definition refusal_sentinels :: "ekind list" where
  "refusal_sentinels = [InvalidName, InvalidPath, InvalidKey, InvalidID, RootDirectory, Directives]"

text \<open>The first kind of the list the error holds, as the error holding it. A
  sentinel is one value of its library, so the text of its occurrence is the
  sentinel's own.\<close>
fun first_kind :: "ekind list \<Rightarrow> err \<Rightarrow> err option" where
  "first_kind [] e = None"
| "first_kind (k # ks) e =
     (case errors_as (\<lambda>x. x = k) e of Some n \<Rightarrow> Some n | None \<Rightarrow> first_kind ks e)"

definition requestDetail :: "err \<Rightarrow> string" where
  "requestDetail e =
     (let text = (case first_kind typed_refusals e of
                    Some n \<Rightarrow> error_text n
                  | None \<Rightarrow> (case first_kind refusal_sentinels e of
                               Some n \<Rightarrow> error_text n
                             | None \<Rightarrow> []))
      in trim_prefix ''query: '' (trim_prefix ''blobfs: '' text))"

fun is_deleting :: "ekind \<Rightarrow> bool" where
  "is_deleting (DeletingError d) = True"
| "is_deleting _ = False"

text \<open>errors.As(err, &deleting) && !deleting.Directory: the first DeletingError
  decides.\<close>
definition file_deleting :: "err \<Rightarrow> bool" where
  "file_deleting e = (case errors_as is_deleting e of
      Some n \<Rightarrow> kind n = DeletingError False
    | None \<Rightarrow> False)"

definition Status :: "err \<Rightarrow> problem option" where
  "Status e =
   (if errors_is BodyRead e then Some \<lparr>p_status = 400, p_detail = error_text ErrBodyRead\<rparr>
    else if errors_is BodyTimeout e then Some \<lparr>p_status = 408, p_detail = error_text ErrBodyTimeout\<rparr>
    else if errors_is InvalidName e \<or> errors_is InvalidPath e \<or> errors_is InvalidKey e
         \<or> errors_is InvalidID e \<or> errors_is RootDirectory e
         then Some \<lparr>p_status = 400, p_detail = requestDetail e\<rparr>
    else if errors_is BlobNotFound e \<or> errors_is ObjectNotFound e then Some (no_detail 404)
    else if errors_is NameTaken e \<or> errors_is IDTaken e then Some (Conflict DetailNameTaken)
    else if errors_is NotEmpty e then Some (Conflict DetailNotEmpty)
    else if errors_is Referenced e then Some (Conflict DetailReferenced)
    else if file_deleting e then Some (Conflict DetailFileDeleting)
    else if errors_is Deleting e then Some (Conflict DetailDeleting)
    else if errors_is NotDeleting e \<or> errors_is InvalidTransition e \<or> errors_is BlobCycle e
         then Some (Conflict DetailConflict)
    else if errors_is TooLarge e then Some (no_detail 413)
    else if errors_is ContainerNotFound e \<or> errors_is StoreNotReady e \<or> errors_is StoreUnavailable e
         then Some (no_detail 503)
    else if errors_is Directives e then Some \<lparr>p_status = 400, p_detail = requestDetail e\<rparr>
    else if errors_is NoRows e then Some (no_detail 404)
    else if errors_is UniqueViolation e \<or> errors_is ForeignKeyViolation e
         then Some (Conflict DetailConflict)
    else if errors_is VersionMismatch e then Some (no_detail 412)
    else if errors_is DatabaseNotReady e \<or> errors_is ConnectionFailed e \<or> errors_is UnexpectedEOF e
         then Some (no_detail 503)
    else None)"

section \<open>What a matcher promises\<close>

lemma first_kind_wrapf [simp]: "Wrapped \<notin> set ks \<Longrightarrow> first_kind ks (wrapf txt e) = first_kind ks e"
  by (induction ks) (auto split: option.splits)

lemma first_kind_wrap_reason [simp]:
  "Wrapped \<notin> set ks \<Longrightarrow> first_kind ks (wrap_reason e txt) = first_kind ks e"
  by (induction ks) (auto split: option.splits)

lemma first_kind_sound:
  "first_kind ks e = Some n \<Longrightarrow> kind n \<in> set ks \<and> n \<in> set (nodes e)"
  by (induction ks) (auto split: option.splits dest: errors_as_kind)

lemma first_kind_exists: "k \<in> set ks \<Longrightarrow> errors_is k e \<Longrightarrow> first_kind ks e \<noteq> None"
  by (induction ks) (auto simp: errors_is_as split: option.splits)

lemma Wrapped_not_refusal: "Wrapped \<notin> set typed_refusals" "Wrapped \<notin> set refusal_sentinels"
  by (simp_all add: typed_refusals_def refusal_sentinels_def)

lemma requestDetail_wrapf [matcher_simps]: "requestDetail (wrapf txt e) = requestDetail e"
  unfolding requestDetail_def first_kind_wrapf [OF Wrapped_not_refusal(1)]
    first_kind_wrapf [OF Wrapped_not_refusal(2)] by (rule refl)

text \<open>The detail of a 400 is the text of a refusal in the tree, the library's
  prefix removed.\<close>
definition refusal_text :: "err \<Rightarrow> string \<Rightarrow> bool" where
  "refusal_text e d = list_ex (\<lambda>n. kind n \<in> set (typed_refusals @ refusal_sentinels)
     \<and> d = trim_prefix ''query: '' (trim_prefix ''blobfs: '' (error_text n))) (nodes e)"

lemma requestDetail_refusal:
  assumes "k \<in> set refusal_sentinels" "errors_is k e"
  shows "refusal_text e (requestDetail e)"
proof (cases "first_kind typed_refusals e")
  case None
  with first_kind_exists [OF assms] first_kind_sound [of refusal_sentinels e] show ?thesis
    by (fastforce simp: refusal_text_def requestDetail_def list_ex_iff)
next
  case (Some n)
  with first_kind_sound [of typed_refusals e] show ?thesis
    by (fastforce simp: refusal_text_def requestDetail_def list_ex_iff)
qed

lemma requestDetail_refusals:
  "errors_is InvalidName e \<or> errors_is InvalidPath e \<or> errors_is InvalidKey e
     \<or> errors_is InvalidID e \<or> errors_is RootDirectory e \<or> errors_is Directives e
   \<Longrightarrow> refusal_text e (requestDetail e)"
  by (elim disjE) (erule requestDetail_refusal [rotated]; simp add: refusal_sentinels_def)+

lemma file_deleting_wrapf [matcher_simps]: "file_deleting (wrapf txt e) = file_deleting e"
  by (simp add: file_deleting_def)

text \<open>The SDK's error writer asks the group's matchers in the order it was given
  them.\<close>
fun first_match :: "(err \<Rightarrow> problem option) list \<Rightarrow> err \<Rightarrow> problem option" where
  "first_match [] e = None"
| "first_match (m # ms) e = (case m e of Some p \<Rightarrow> Some p | None \<Rightarrow> first_match ms e)"

locale problem_matcher =
  fixes matcher :: "err \<Rightarrow> problem option"
  assumes wrap_stable: "matcher (wrapf txt e) = matcher e"
    and refusal: "matcher e = Some p \<Longrightarrow> 400 \<le> p_status p \<and> p_status p < 600"
begin

lemma chain_stable: "matcher (foldr wrapf chain e) = matcher e"
  by (induction chain) (simp_all add: wrap_stable)

lemma never_success: "matcher e = Some p \<Longrightarrow> p_status p \<noteq> 200 \<and> p_status p \<noteq> 201 \<and> p_status p \<noteq> 204"
  using refusal by fastforce

end

text \<open>A domain's matcher before the shared one, as every route group composes
  them, keeps the promise.\<close>
locale composed_matchers = own: problem_matcher own_status + shared: problem_matcher shared_status
  for own_status shared_status
begin

lemma group_stable:
  "first_match [own_status, shared_status] (foldr wrapf chain e)
     = first_match [own_status, shared_status] e"
  by (simp add: own.chain_stable shared.chain_stable split: option.splits)

end

sublocale composed_matchers \<subseteq> group: problem_matcher "first_match [own_status, shared_status]"
  by unfold_locales
    (auto simp: own.wrap_stable shared.wrap_stable split: option.splits
       dest: own.refusal shared.refusal)

lemmas Status_problem_simps = Conflict_def no_detail_def

interpretation data_status: problem_matcher Status
  by unfold_locales
    (auto simp: Status_def matcher_simps Status_problem_simps split: if_splits)

section \<open>The properties of the shared matcher\<close>

text \<open>C10. What the wire tells: every error the shared matcher answers gets one of
  seven codes. A 409 carries one of the six curated details and never the
  error's own text; a 404, a 412, a 413 and a 503 carry no detail; a 408 and the
  400 of a broken upload carry their fixed sentence; and every other 400 carries
  the text of one refusal in the error's tree, without its library prefix and
  without any text of the operations around it.\<close>
theorem Status_answers:
  "case Status e of
     None \<Rightarrow> True
   | Some p \<Rightarrow>
       (p_status p = 409 \<and> p_detail p \<in> curated)
     \<or> (p_status p \<in> {404, 412, 413, 503} \<and> p_detail p = [])
     \<or> p = \<lparr>p_status = 408, p_detail = error_text ErrBodyTimeout\<rparr>
     \<or> p = \<lparr>p_status = 400, p_detail = error_text ErrBodyRead\<rparr>
     \<or> (p_status p = 400 \<and> refusal_text e (p_detail p))"
  using requestDetail_refusals [of e]
  by (auto simp: Status_def Status_problem_simps curated_def)

text \<open>The operation chain does not show: an error answers the same problem, code
  and detail, under any chain of operations that wrapped it.\<close>
theorem Status_chain: "Status (foldr wrapf chain e) = Status e"
  by (rule data_status.chain_stable)

end
