(* ===== verification/DocEntities.thy ===== *)
theory DocEntities
  imports Problems
begin

text \<open>
  domain/document/entities.go and the presentation at the end of its storage.go:
  the document layer's entities, the commands and the rules their fields obey,
  a named state's trees, and how a blobfs row is shown. blobfs's name rule and
  uuid.Parse are parameters; its rows and statuses are the records below, with a
  constructor for a status the layer does not name.
\<close>

section \<open>blobfs's rows\<close>

datatype bdir_status = BDirActive | BDirDeleting | BDirOther string
datatype bfile_status = BPending | BAvailable | BDeleting | BFileOther string

record bdir =
  bd_id :: string
  bd_parent :: "string option"
  bd_name :: string
  bd_status :: bdir_status
  bd_version :: int

record bfile =
  bf_id :: string
  bf_dir :: string
  bf_name :: string
  bf_key :: string
  bf_status :: bfile_status
  bf_size :: "int option"
  bf_etag :: "string option"
  bf_content_type :: string
  bf_version :: int

section \<open>The API's entities\<close>

datatype directory_status = DirectoryActive | DirectoryDeleting
datatype file_status = FilePending | FileAvailable | FileDeleting

record directory =
  dir_id :: string
  dir_parent :: "string option"
  dir_name :: string
  dir_path :: string
  dir_status :: directory_status
  dir_version :: int

record doc_file =
  f_id :: string
  f_directory :: string
  f_name :: string
  f_status :: file_status
  f_size :: "int option"
  f_content_type :: string
  f_version :: int

record create_directory =
  cd_parent :: string
  cd_name :: string

record move_directory =
  md_parent :: string
  md_name :: string

record move_file =
  mf_directory :: string
  mf_name :: string

record doc_identity =
  di_id :: string
  di_version :: int

record directory_data =
  dd_directory :: string
  dd_org :: string
  dd_parent :: "string option"
  dd_name :: string
  dd_version :: int

record directory_deleted_data =
  ddd_directory :: string
  ddd_org :: string
  ddd_version :: int

record file_uploaded_data =
  fu_file :: string
  fu_org :: string
  fu_directory :: string
  fu_name :: string
  fu_content_type :: string
  fu_size :: "int option"
  fu_etag :: "string option"
  fu_version :: int

record file_deleted_data =
  fd_file :: string
  fd_org :: string
  fd_version :: int

text \<open>An entry of a named state: id, name, entries (None for an absent list),
  content type and content.\<close>
datatype seed_entry = SeedEntry (se_id: string) (se_name: string)
  (se_entries: "seed_entry list option") (se_content_type: string) (se_content: string)

record seed_tree =
  st_organization :: string
  st_root :: string
  st_entries :: "seed_entry list"

section \<open>The field rules\<close>

definition RootAlias :: string where
  "RootAlias = ''root''"

definition DocErrValidation :: err where
  "DocErrValidation = Err DocValidation ''invalid command'' []"

definition errRootMove :: err where
  "errRootMove = wrap_reason DocErrValidation ''the document root cannot be moved''"

definition validDirectory :: "(string \<Rightarrow> bool) \<Rightarrow> string \<Rightarrow> string \<Rightarrow> err option" where
  "validDirectory is_uuid field i =
     (if i = [] then Some (wrap_reason DocErrValidation (field @ '' is required: root or a directory id''))
      else if i = RootAlias then None
      else if is_uuid i then None
      else Some (wrap_reason DocErrValidation (field @ '' must be root or a UUID'')))"

text \<open>name_rule is blobfs.ValidateName after blobfs.NormalizeName. The refusal is
  fmt.Errorf("%w: name: %w", ErrValidation, err).\<close>
definition doc_validName :: "(string \<Rightarrow> err option) \<Rightarrow> string \<Rightarrow> err option" where
  "doc_validName name_rule name =
     (case name_rule name of
        None \<Rightarrow> None
      | Some e \<Rightarrow> Some (Err Wrapped (error_text DocErrValidation @ '': name: '' @ error_text e)
                         [DocErrValidation, e]))"

definition create_directory_Validate ::
    "(string \<Rightarrow> bool) \<Rightarrow> (string \<Rightarrow> err option) \<Rightarrow> create_directory \<Rightarrow> err option" where
  "create_directory_Validate is_uuid name_rule c =
     errors_join [validDirectory is_uuid ''parent_id'' (cd_parent c), doc_validName name_rule (cd_name c)]"

definition move_directory_Validate ::
    "(string \<Rightarrow> bool) \<Rightarrow> (string \<Rightarrow> err option) \<Rightarrow> move_directory \<Rightarrow> err option" where
  "move_directory_Validate is_uuid name_rule m =
     errors_join [validDirectory is_uuid ''parent_id'' (md_parent m), doc_validName name_rule (md_name m)]"

definition move_file_Validate ::
    "(string \<Rightarrow> bool) \<Rightarrow> (string \<Rightarrow> err option) \<Rightarrow> move_file \<Rightarrow> err option" where
  "move_file_Validate is_uuid name_rule m =
     errors_join [validDirectory is_uuid ''directory_id'' (mf_directory m), doc_validName name_rule (mf_name m)]"

text \<open>seedEntry.directory.\<close>
fun entry_directory :: "seed_entry \<Rightarrow> bool result" where
  "entry_directory (SeedEntry i name entries ct content) =
     (let file = (ct \<noteq> [] \<or> content \<noteq> [])
      in if entries \<noteq> None \<and> file
         then Inl (plain (''entry '' @ name @ '' is both a directory and a file''))
         else if entries = None \<and> ct = []
         then Inl (plain (''entry '' @ name @ '' is neither a directory (entries) nor a file (content_type)''))
         else Inr (entries \<noteq> None))"

section \<open>Presentation\<close>

definition errUnknownStatus :: err where
  "errUnknownStatus = plain ''document: a blobfs status the layer does not name''"

fun directoryStatus :: "bdir_status \<Rightarrow> directory_status result" where
  "directoryStatus BDirActive = Inr DirectoryActive"
| "directoryStatus BDirDeleting = Inr DirectoryDeleting"
| "directoryStatus (BDirOther s) = Inl (wrapf (''directory status '' @ quoted s) errUnknownStatus)"

fun fileStatus :: "bfile_status \<Rightarrow> file_status result" where
  "fileStatus BPending = Inr FilePending"
| "fileStatus BAvailable = Inr FileAvailable"
| "fileStatus BDeleting = Inr FileDeleting"
| "fileStatus (BFileOther s) = Inl (wrapf (''file status '' @ quoted s) errUnknownStatus)"

definition directoryOf :: "bdir \<Rightarrow> string \<Rightarrow> directory result" where
  "directoryOf d root =
     (case directoryStatus (bd_status d) of
        Inl e \<Rightarrow> Inl (wrapf (''directory '' @ bd_id d) e)
      | Inr status \<Rightarrow>
          Inr \<lparr>dir_id = bd_id d,
               dir_parent = (if bd_id d = root then None else bd_parent d),
               dir_name = (if bd_id d = root then ''/'' else bd_name d),
               dir_path = [], dir_status = status, dir_version = bd_version d\<rparr>)"

definition fileOf :: "bfile \<Rightarrow> doc_file result" where
  "fileOf f =
     (case fileStatus (bf_status f) of
        Inl e \<Rightarrow> Inl (wrapf (''file '' @ bf_id f) e)
      | Inr status \<Rightarrow>
          Inr \<lparr>f_id = bf_id f, f_directory = bf_dir f, f_name = bf_name f, f_status = status,
               f_size = bf_size f, f_content_type = bf_content_type f, f_version = bf_version f\<rparr>)"

text \<open>present: each of a listing's rows by of, or the first row's refusal.\<close>
fun present_rows :: "('t \<Rightarrow> 'u result) \<Rightarrow> 't list \<Rightarrow> 'u list result" where
  "present_rows of_row [] = Inr []"
| "present_rows of_row (x # xs) =
     (case of_row x of
        Inl e \<Rightarrow> Inl e
      | Inr y \<Rightarrow> (case present_rows of_row xs of Inl e \<Rightarrow> Inl e | Inr ys \<Rightarrow> Inr (y # ys)))"

section \<open>What the rules and the presentation give\<close>

lemma validDirectory_None:
  "validDirectory is_uuid field i = None \<longleftrightarrow> i \<noteq> [] \<and> (i = RootAlias \<or> is_uuid i)"
  by (simp add: validDirectory_def RootAlias_def)

lemma doc_validName_None [simp]: "doc_validName name_rule n = None \<longleftrightarrow> name_rule n = None"
  by (simp add: doc_validName_def split: option.splits)

lemma doc_rule_errors:
  "validDirectory is_uuid field i = Some e \<Longrightarrow> errors_is DocValidation e"
  "doc_validName name_rule n = Some e \<Longrightarrow> errors_is DocValidation e"
  by (auto simp: validDirectory_def doc_validName_def DocErrValidation_def
      split: if_splits option.splits)

lemma directoryOf_id: "directoryOf d root = Inr out \<Longrightarrow> dir_id out = bd_id d"
  by (auto simp: directoryOf_def split: sum.splits)

lemma present_rows_Inr_iff:
  "present_rows of_row xs = Inr ys \<longleftrightarrow> list_all2 (\<lambda>x y. of_row x = Inr y) xs ys"
proof (induction xs arbitrary: ys)
  case (Cons x xs)
  then show ?case
    by (auto simp: list_all2_Cons1 Cons.IH [symmetric] split: sum.splits)
qed auto

lemma present_rows_Inl:
  "present_rows of_row xs = Inl e \<Longrightarrow> \<exists>x\<in>set xs. of_row x = Inl e"
  by (induction xs) (auto split: sum.splits)

lemma entry_directory_cases:
  "entry_directory e = Inr True \<longleftrightarrow> se_entries e \<noteq> None \<and> se_content_type e = [] \<and> se_content e = []"
  "entry_directory e = Inr False \<longleftrightarrow> se_entries e = None \<and> se_content_type e \<noteq> []"
  by (cases e; auto simp: Let_def)+

section \<open>A file's stages in order\<close>

text \<open>The stages a file passes, in the order the protocols take it through them:
  pending, available, deleting.\<close>
instantiation file_status :: linorder
begin

fun stage :: "file_status \<Rightarrow> nat" where
  "stage FilePending = 0"
| "stage FileAvailable = 1"
| "stage FileDeleting = 2"

definition less_eq_file_status :: "file_status \<Rightarrow> file_status \<Rightarrow> bool" where
  "a \<le> b \<longleftrightarrow> stage a \<le> stage b"

definition less_file_status :: "file_status \<Rightarrow> file_status \<Rightarrow> bool" where
  "a < b \<longleftrightarrow> stage a < stage b"

instance
proof
  fix x y :: file_status
  assume "x \<le> y" "y \<le> x"
  then show "x = y"
    by (cases x; cases y) (simp_all add: less_eq_file_status_def)
qed (auto simp: less_eq_file_status_def less_file_status_def)

end

end
