(* ===== verification/Objects.thy ===== *)
theory Objects
  imports DocEntities
begin

text \<open>
  data/storage.go and data/sweep.go: which files a download serves, the adapter
  over the object store, whose put tells a failed body from a failed store, and one
  pass of the files reclaimer. The object store and blobfs's sweep are parameters.
\<close>

section \<open>Serving a file\<close>

record web_object =
  wo_content_type :: string
  wo_size :: int
  wo_etag :: string

text \<open>The download's description and the key its open streams.\<close>
record download =
  dl_object :: web_object
  dl_key :: string

text \<open>The name fmt prints of a blobfs status.\<close>
fun status_text :: "bfile_status \<Rightarrow> string" where
  "status_text BPending = ''pending''"
| "status_text BAvailable = ''available''"
| "status_text BDeleting = ''deleting''"
| "status_text (BFileOther s) = s"

definition BlobErrNotFound :: err where
  "BlobErrNotFound = Err BlobNotFound ''blobfs: not found'' []"

definition Serve :: "bfile \<Rightarrow> download result" where
  "Serve f =
     (case (bf_status f, bf_size f, bf_etag f) of
        (BAvailable, Some len, Some etag) \<Rightarrow>
          Inr \<lparr>dl_object = \<lparr>wo_content_type = bf_content_type f, wo_size = len, wo_etag = etag\<rparr>,
               dl_key = bf_key f\<rparr>
      | _ \<Rightarrow> Inl (wrapf (''file '' @ bf_id f @ '' is '' @ status_text (bf_status f)) BlobErrNotFound))"

section \<open>The object store's adapter\<close>

text \<open>One Read of the request body: how many bytes it gave, and its error.\<close>
type_synonym body_read = "nat \<times> err option"

text \<open>bodyReader.Read: the first error other than io.EOF is kept.\<close>
definition bodyReader_Read :: "err option \<Rightarrow> body_read \<Rightarrow> err option" where
  "bodyReader_Read kept r =
     (case snd r of
        None \<Rightarrow> kept
      | Some e \<Rightarrow> if kind e \<noteq> EOF \<and> kept = None then Some e else kept)"

fun is_net :: "ekind \<Rightarrow> bool" where
  "is_net (NetError _) = True"
| "is_net _ = False"

definition timedOut :: "err \<Rightarrow> bool" where
  "timedOut e = (case errors_as is_net e of Some n \<Rightarrow> kind n = NetError True | None \<Rightarrow> False)"

text \<open>web.Upload: a request's body, its length and its declared type.\<close>
record upload =
  up_body :: "body_read list"
  up_size :: int
  up_content_type :: string
  up_media_type :: string

record blob_object =
  bo_size :: int
  bo_content_type :: string
  bo_etag :: string

text \<open>The store library: put reads the body as far as it likes, and returns how many
  reads it made and its result, the stored size and entity tag.\<close>
record object_store =
  os_put :: "string \<Rightarrow> body_read list \<Rightarrow> string \<Rightarrow> int \<Rightarrow> nat \<times> (int \<times> string) result"
  os_get :: "string \<Rightarrow> string result"
  os_delete :: "string \<Rightarrow> err option"
  os_validate_key :: "string \<Rightarrow> err option"

definition ValidateKey :: "object_store \<Rightarrow> string \<Rightarrow> err option" where
  "ValidateKey st key = os_validate_key st key"

definition PutObject ::
    "object_store \<Rightarrow> string \<Rightarrow> body_read list \<Rightarrow> string \<Rightarrow> int \<Rightarrow> blob_object result" where
  "PutObject st key body content_type len =
     (let (reads, res) = os_put st key body content_type len;
          body_err = foldl bodyReader_Read None (take reads body)
      in case res of
           Inl e \<Rightarrow>
             (case body_err of
                Some b \<Rightarrow> if timedOut b then Inl (wrap2 ErrBodyTimeout b) else Inl (wrap2 ErrBodyRead b)
              | None \<Rightarrow> Inl e)
         | Inr (sz, etag) \<Rightarrow> Inr \<lparr>bo_size = sz, bo_content_type = content_type, bo_etag = etag\<rparr>)"

definition OpenObject :: "object_store \<Rightarrow> string \<Rightarrow> string result" where
  "OpenObject st key = os_get st key"

definition DeleteObject :: "object_store \<Rightarrow> string \<Rightarrow> err option" where
  "DeleteObject st key = os_delete st key"

section \<open>The files reclaimer\<close>

record sweep_result =
  sw_files :: nat
  sw_directories :: nat
  sw_stale :: nat
  sw_more :: bool

text \<open>Pass: the sweep's result and error become the reclaimer's report; the second
  part is what is logged at info, the counts of the pass.\<close>
definition Pass :: "(nat \<Rightarrow> int \<Rightarrow> sweep_result \<times> err option) \<Rightarrow> int \<Rightarrow> nat \<Rightarrow> (bool \<times> err option) \<times> sweep_result list" where
  "Pass sweep staleAge budget =
     (let (res, e) = sweep budget staleAge
      in ((sw_more res, e),
          if e \<noteq> None \<or> sw_files res + sw_directories res + sw_stale res > 0 then [res] else []))"

section \<open>Whose fault a failed upload is\<close>

lemma bodyReader_Read_simps [simp]:
  "bodyReader_Read kept (n, None) = kept"
  "bodyReader_Read None (n, Some e) = (if kind e = EOF then None else Some e)"
  "bodyReader_Read (Some k) r = Some k"
  by (auto simp: bodyReader_Read_def split: option.splits)

lemma fold_kept: "foldl bodyReader_Read (Some e) rs = Some e"
  by (induction rs) auto

text \<open>What the reader keeps is the first error of the body that is not io.EOF.\<close>
lemma fold_first:
  "foldl bodyReader_Read None rs =
     List.find (\<lambda>e. kind e \<noteq> EOF) (present (map snd rs))"
proof (induction rs)
  case (Cons r rs)
  obtain n eo where r: "r = (n, eo)" by fastforce
  with Cons show ?case
    by (cases eo) (auto simp: fold_kept)
qed simp

lemma timedOut_kind: "timedOut e \<Longrightarrow> errors_is (NetError True) e"
  by (auto simp: timedOut_def errors_is_def list_ex_iff dest!: errors_as_kind split: option.splits)

text \<open>C24. A failed upload is blamed on the side that failed: when the store's put
  fails and the body it read had failed, the answer is 408 for a body whose
  deadline passed and 400 for any other, whatever the store reported, so a
  truncated upload is never answered as an outage; when the body did not fail, the
  error is the store's own. A put that succeeds reports the caller's content type.\<close>
theorem put_blames_the_body:
  assumes "os_put st key body content_type len = (reads, res)"
    "body_err = List.find (\<lambda>e. kind e \<noteq> EOF) (present (map snd (take reads body)))"
    "\<forall>b. body_err = Some b \<longrightarrow> \<not> errors_is BodyRead b"
  shows "case res of
      Inr (sz, etag) \<Rightarrow> PutObject st key body content_type len
        = Inr \<lparr>bo_size = sz, bo_content_type = content_type, bo_etag = etag\<rparr>
    | Inl e \<Rightarrow> (case body_err of
          None \<Rightarrow> PutObject st key body content_type len = Inl e
        | Some b \<Rightarrow> \<exists>e'. PutObject st key body content_type len = Inl e' \<and>
            map_option p_status (Status e') = Some (if timedOut b then 408 else 400))"
proof -
  have body: "foldl bodyReader_Read None (take reads body) = body_err"
    by (simp add: assms(2) fold_first)
  have "map_option p_status (Status (wrap2 ErrBodyTimeout b)) = Some 408" if "body_err = Some b" for b
    using assms(3) that by (simp add: Status_def ErrBodyTimeout_def)
  moreover have "map_option p_status (Status (wrap2 ErrBodyRead b)) = Some 400" for b
    by (simp add: Status_def ErrBodyRead_def)
  ultimately show ?thesis
    by (auto simp: PutObject_def assms(1) body split: sum.splits option.splits)
qed

definition short_body :: "body_read list" where
  "short_body = [(4096, None), (100, Some (Err UnexpectedEOF ''unexpected EOF'' []))]"

definition failing_store :: object_store where
  "failing_store = \<lparr>os_put = (\<lambda>key body ct len. (length body, Inl (Err StoreUnavailable ''put failed'' []))),
     os_get = (\<lambda>key. Inl (Err ObjectNotFound ''no object'' [])), os_delete = (\<lambda>key. None),
     os_validate_key = (\<lambda>key. None)\<rparr>"

theorem put_blames_the_body_witness:
  "\<exists>e'. PutObject failing_store ''k'' short_body ''text/plain'' 9000 = Inl e' \<and>
     map_option p_status (Status e') = Some 400"
proof -
  let ?cut = "Err UnexpectedEOF ''unexpected EOF'' []"
  have put: "os_put failing_store ''k'' short_body ''text/plain'' 9000
      = (length short_body, Inl (Err StoreUnavailable ''put failed'' []))"
    by (simp add: failing_store_def)
  have body: "Some ?cut = List.find (\<lambda>e. kind e \<noteq> EOF) (present (map snd (take (length short_body) short_body)))"
    by (simp add: short_body_def)
  have "\<not> timedOut ?cut" by (simp add: timedOut_def errors_as_def)
  with put_blames_the_body [OF put body] show ?thesis by simp
qed

lemma Serve_Inr:
  "Serve f = Inr d \<longleftrightarrow> bf_status f = BAvailable \<and> (\<exists>len etag. bf_size f = Some len \<and> bf_etag f = Some etag
     \<and> d = \<lparr>dl_object = \<lparr>wo_content_type = bf_content_type f, wo_size = len, wo_etag = etag\<rparr>, dl_key = bf_key f\<rparr>)"
  by (auto simp: Serve_def split: bfile_status.splits option.splits)

lemma Serve_Inl:
  assumes "Serve f = Inl e"
  shows "errors_is BlobNotFound e \<and> Status e = Some (no_detail 404)"
proof -
  from assms have "e = wrapf (''file '' @ bf_id f @ '' is '' @ status_text (bf_status f)) BlobErrNotFound"
    by (simp add: Serve_def split: bfile_status.splits option.splits)
  then show ?thesis by (simp add: Status_def wrapf_def BlobErrNotFound_def)
qed

end
