(* ===== verification/OrgEntities.thy ===== *)
theory OrgEntities
  imports Problems
begin

text \<open>
  domain/organization/entities.go: the layer's entities, the commands and the
  rules their own fields obey, the transfer body's presence rule, and the logo's
  media types. uuid.Parse is a parameter (the set of texts it accepts).
\<close>

section \<open>The entities\<close>

record organization =
  o_id :: string
  o_parent :: "string option"
  o_code :: string
  o_name :: string
  o_version :: int
  o_path :: string

record create_organization =
  c_parent :: "string option"
  c_code :: string
  c_name :: string

record edit_organization =
  e_code :: string
  e_name :: string

record transfer_organization =
  t_parent :: "string option"
  t_present :: bool

record identity =
  i_id :: string
  i_version :: int

record organization_data =
  od_id :: string
  od_parent :: "string option"
  od_code :: string
  od_name :: string
  od_version :: int

record organization_deleted_data =
  odd_id :: string
  odd_version :: int

record logo_uploaded_data =
  lu_file :: string
  lu_org :: string
  lu_content_type :: string
  lu_size :: int
  lu_etag :: string
  lu_version :: int

record logo_deleted_data =
  ld_file :: string
  ld_org :: string
  ld_version :: int

record seed_row =
  s_parent :: string
  s_code :: string
  s_name :: string

record logo_seed_row =
  ls_organization :: string
  ls_id :: string
  ls_fixture :: string

section \<open>The field rules\<close>

definition OrgErrValidation :: err where
  "OrgErrValidation = Err OrgValidation ''invalid command'' []"

definition lower_alnum :: "char \<Rightarrow> bool" where
  "lower_alnum c \<longleftrightarrow> (let n = (of_char c :: nat) in (97 \<le> n \<and> n \<le> 122) \<or> (48 \<le> n \<and> n \<le> 57))"

text \<open>codePattern, ^[a-z0-9]+(-[a-z0-9]+)*$, as its automaton: the flag says a word
  has begun, so a hyphen may follow and the text may end.\<close>
fun match_code :: "bool \<Rightarrow> string \<Rightarrow> bool" where
  "match_code inword [] = inword"
| "match_code inword (c # cs) =
     (if lower_alnum c then match_code True cs
      else if c = CHR ''-'' \<and> inword then match_code False cs
      else False)"

definition validCode :: "string \<Rightarrow> err option" where
  "validCode code =
     (if match_code False code then None
      else Some (wrap_reason OrgErrValidation ''code must be lowercase words joined by single hyphens''))"

definition validName :: "string \<Rightarrow> err option" where
  "validName name =
     (if name = [] then Some (wrap_reason OrgErrValidation ''name must not be empty'') else None)"

definition validParent :: "(string \<Rightarrow> bool) \<Rightarrow> string option \<Rightarrow> err option" where
  "validParent is_uuid parent =
     (case parent of
        None \<Rightarrow> None
      | Some p \<Rightarrow> if is_uuid p then None
                  else Some (wrap_reason OrgErrValidation ''parent_id must be a UUID''))"

definition create_Validate :: "(string \<Rightarrow> bool) \<Rightarrow> create_organization \<Rightarrow> err option" where
  "create_Validate is_uuid c =
     errors_join [validCode (c_code c), validName (c_name c), validParent is_uuid (c_parent c)]"

definition edit_Validate :: "edit_organization \<Rightarrow> err option" where
  "edit_Validate e = errors_join [validCode (e_code e), validName (e_name e)]"

definition transfer_Validate :: "(string \<Rightarrow> bool) \<Rightarrow> transfer_organization \<Rightarrow> err option" where
  "transfer_Validate is_uuid t =
     (if \<not> t_present t
      then Some (wrap_reason OrgErrValidation
             ''parent_id is required; null moves the organization to the root'')
      else validParent is_uuid (t_parent t))"

section \<open>The transfer's body\<close>

text \<open>A JSON value as encoding/json reads it; an object's members in the order the
  text has them.\<close>
datatype json =
    JNull
  | JBool bool
  | JNumber string
  | JString string
  | JArray "json list"
  | JObject "(string \<times> json) list"

text \<open>json.Unmarshal into a map of raw messages: null leaves the map nil, a
  repeated key keeps its last value, and no other value is a map.\<close>
fun raw_object :: "json \<Rightarrow> (string \<times> json) list result" where
  "raw_object JNull = Inr []"
| "raw_object (JObject ms) = Inr ms"
| "raw_object _ = Inl (plain ''json: cannot unmarshal into Go value of type map[string]json.RawMessage'')"

fun string_pointer :: "json \<Rightarrow> string option result" where
  "string_pointer JNull = Inr None"
| "string_pointer (JString s) = Inr (Some s)"
| "string_pointer _ = Inl (plain ''json: cannot unmarshal into Go value of type string'')"

definition transfer_UnmarshalJSON :: "json \<Rightarrow> transfer_organization result" where
  "transfer_UnmarshalJSON b =
     (case raw_object b of
        Inl e \<Rightarrow> Inl e
      | Inr raw \<Rightarrow>
          (case List.find (\<lambda>m. fst m \<noteq> ''parent_id'') raw of
             Some m \<Rightarrow> Inl (plain (''json: unknown field '' @ quoted (fst m)))
           | None \<Rightarrow>
               (case map_of (rev raw) ''parent_id'' of
                  None \<Rightarrow> Inr \<lparr>t_parent = None, t_present = False\<rparr>
                | Some v \<Rightarrow>
                    (case string_pointer v of
                       Inl e \<Rightarrow> Inl e
                     | Inr p \<Rightarrow> Inr \<lparr>t_parent = p, t_present = True\<rparr>))))"

section \<open>The logo's media types\<close>

definition logoTypes :: "string \<Rightarrow> string option" where
  "logoTypes = map_of
     [(''image/png'', ''.png''), (''image/jpeg'', ''.jpg''), (''image/webp'', ''.webp''), (''image/gif'', ''.gif'')]"

definition logoExtension :: "string \<Rightarrow> string result" where
  "logoExtension mediaType =
     (case logoTypes mediaType of
        None \<Rightarrow> Inl (Err UploadError (''a logo is PNG, JPEG, WebP, or GIF, not '' @ quoted mediaType) [])
      | Some ext \<Rightarrow> Inr ext)"

section \<open>What the rules accept\<close>

text \<open>The language of the pattern, as it is written: a word, and then words each
  after one hyphen.\<close>
definition code_word :: "string \<Rightarrow> bool" where
  "code_word w \<longleftrightarrow> w \<noteq> [] \<and> list_all lower_alnum w"

lemma hyphen_not_alnum [simp]: "\<not> lower_alnum (CHR ''-'')"
  by (simp add: lower_alnum_def)

lemma slash_not_alnum [simp]: "\<not> lower_alnum (CHR ''/'')"
  by (simp add: lower_alnum_def)

lemma match_code_split:
  "match_code True cs \<longleftrightarrow>
     list_all lower_alnum (hd (split_at CHR ''-'' cs)) \<and> list_all code_word (tl (split_at CHR ''-'' cs))"
  "match_code False cs \<longleftrightarrow> list_all code_word (split_at CHR ''-'' cs)"
  by (induction cs) (auto simp: code_word_def split: list.splits)

lemma match_code_chars: "match_code b cs \<Longrightarrow> set cs \<subseteq> {c. lower_alnum c \<or> c = CHR ''-''}"
  by (induction b cs rule: match_code.induct) (auto split: if_splits)

lemma match_code_no_slash: "match_code b cs \<Longrightarrow> CHR ''/'' \<notin> set cs"
  using match_code_chars [of b cs] by auto

lemma validCode_None [simp]: "validCode code = None \<longleftrightarrow> match_code False code"
  by (simp add: validCode_def)

lemma validName_None [simp]: "validName name = None \<longleftrightarrow> name \<noteq> []"
  by (simp add: validName_def)

lemma rule_errors:
  "validCode code = Some e \<Longrightarrow> errors_is OrgValidation e"
  "validName name = Some e \<Longrightarrow> errors_is OrgValidation e"
  "validParent is_uuid p = Some e \<Longrightarrow> errors_is OrgValidation e"
  by (auto simp: validCode_def validName_def validParent_def OrgErrValidation_def
      split: if_splits option.splits)

text \<open>The code rule is the pattern: a code passes exactly when splitting it at
  its hyphens gives words, each of one or more of a-z and 0-9; the empty code, a
  doubled, leading or trailing hyphen and any other character fail.\<close>
theorem validCode_pattern:
  "validCode code = None \<longleftrightarrow>
     (\<exists>ws. ws \<noteq> [] \<and> list_all code_word ws \<and> code = join_with ''-'' ws)"
proof
  assume "validCode code = None"
  then have "list_all code_word (split_at CHR ''-'' code)"
    by (simp add: match_code_split)
  moreover have "join_with ''-'' (split_at CHR ''-'' code) = code"
    by (rule join_split_at)
  ultimately show "\<exists>ws. ws \<noteq> [] \<and> list_all code_word ws \<and> code = join_with ''-'' ws"
    by (metis split_at_not_Nil)
next
  assume "\<exists>ws. ws \<noteq> [] \<and> list_all code_word ws \<and> code = join_with ''-'' ws"
  then obtain ws where ws: "ws \<noteq> []" "list_all code_word ws" "code = join_with ''-'' ws"
    by blast
  then have "\<forall>w\<in>set ws. CHR ''-'' \<notin> set w"
    using hyphen_not_alnum by (force simp: list_all_iff code_word_def)
  with ws show "validCode code = None"
    by (simp add: match_code_split split_at_join)
qed

text \<open>C21. A transfer says where to: a body passes decoding and validation exactly
  when it is an object whose only key is parent_id, given at least once, and its
  last value is null, a move to the root, or the text of a UUID. A body without
  the key is never read as a move to the root.\<close>
theorem transfer_body:
  "(\<exists>t. transfer_UnmarshalJSON b = Inr t \<and> transfer_Validate is_uuid t = None \<and> t_parent t = p) \<longleftrightarrow>
   (\<exists>ms. b = JObject ms \<and> ms \<noteq> [] \<and> (\<forall>m\<in>set ms. fst m = ''parent_id'') \<and>
      (case p of None \<Rightarrow> snd (last ms) = JNull
               | Some s \<Rightarrow> snd (last ms) = JString s \<and> is_uuid s))"
proof -
  have last_key: "map_of (rev ms) ''parent_id'' = (if ms = [] then None else Some (snd (last ms)))"
    if "\<forall>m\<in>set ms. fst m = ''parent_id''" for ms :: "(string \<times> json) list"
    using that by (cases ms rule: rev_cases) (auto simp: map_add_def)
  have no_other: "List.find (\<lambda>m. fst m \<noteq> ''parent_id'') ms = None \<longleftrightarrow>
      (\<forall>m\<in>set ms. fst m = ''parent_id'')" for ms :: "(string \<times> json) list"
    by (force simp: find_None_iff)
  show ?thesis
  proof (cases b)
    case (JObject ms)
    show ?thesis
    proof (cases "(\<forall>m\<in>set ms. fst m = ''parent_id'') \<and> ms \<noteq> []")
      case True
      then show ?thesis
        using JObject no_other [of ms] last_key [of ms]
        by (cases "snd (last ms)")
          (auto simp: transfer_UnmarshalJSON_def transfer_Validate_def validParent_def split: option.splits)
    next
      case False
      then show ?thesis
        using JObject no_other [of ms]
        by (auto simp: transfer_UnmarshalJSON_def transfer_Validate_def split: option.splits)
    qed
  qed (auto simp: transfer_UnmarshalJSON_def transfer_Validate_def)
qed

theorem transfer_body_witness:
  "\<exists>t. transfer_UnmarshalJSON (JObject [(''parent_id'', JNull)]) = Inr t
     \<and> transfer_Validate (\<lambda>_. False) t = None \<and> t_parent t = None"
  using transfer_body [of "JObject [(''parent_id'', JNull)]" "\<lambda>_. False" None] by simp

end
