(* ===== verification/Database.thy ===== *)
theory Database
  imports OrgEntities DocEntities
begin

text \<open>
  The database the domains share, as their SQL sees it: the organization table
  and its two owner tables (data/migrations), the outbox the recorder writes a
  command's events to, and blobfs's own tables and objects, left abstract. The
  transaction, the recorder and the errors of the driver are a library record.
  A step is a state transformer with Go's error as a sum.
\<close>

section \<open>Events\<close>

text \<open>The data of every event the service emits, one constructor per payload type.\<close>
datatype payload =
    OrganizationP organization_data
  | OrganizationDeletedP organization_deleted_data
  | LogoUploadedP logo_uploaded_data
  | LogoDeletedP logo_deleted_data
  | DirectoryP directory_data
  | DirectoryDeletedP directory_deleted_data
  | FileP file_uploaded_data
  | FileDeletedP file_deleted_data
  | StateP string

datatype event = Event (ev_type: string) (ev_subject: string) (ev_data: payload)

section \<open>The tables\<close>

text \<open>organization, migration 0001.\<close>
record org_row =
  r_id :: string
  r_parent :: "string option"
  r_code :: string
  r_name :: string
  r_version :: int

text \<open>organization_image, migration 0002.\<close>
record image_row =
  im_org :: string
  im_file :: string
  im_active :: bool

text \<open>organization_directory, migration 0003.\<close>
record owner_row =
  ow_dir :: string
  ow_org :: string

record 'f db =
  orgs :: "org_row list"
  images :: "image_row list"
  owners :: "owner_row list"
  outbox :: "event list"
  blobs :: 'f

type_synonym ('s, 'a) step = "'s \<Rightarrow> 'a result \<times> 's"

section \<open>The libraries beneath\<close>

text \<open>What the stores use of sqlate and the recorder:
  \<^item> mint is the engine's uuidv7 for an insert into the state;
  \<^item> bump is the version sql.guard_set leaves;
  \<^item> violation is the driver's error for a violated constraint, by class and name;
  \<^item> no_rows, mismatch are sql.ErrNoRows and query.ErrVersionMismatch as returned;
  \<^item> begin_tx is the error of opening a transaction, if any;
  \<^item> end_tx gives, from the state before, the state after the body and the body's
    error, the error Transact returns and the state it leaves;
  \<^item> record_events writes the queued events in the open transaction;
  \<^item> take_lock is the error of taking an advisory lock, if any.\<close>
record 'f lib =
  mint :: "'f db \<Rightarrow> string"
  bump :: "int \<Rightarrow> int"
  violation :: "ekind \<Rightarrow> string \<Rightarrow> err"
  no_rows :: err
  mismatch :: err
  begin_tx :: "'f db \<Rightarrow> err option"
  end_tx :: "'f db \<Rightarrow> 'f db \<Rightarrow> err option \<Rightarrow> err option \<times> 'f db"
  record_events :: "event list \<Rightarrow> ('f db, unit) step"
  take_lock :: "string \<Rightarrow> 'f db \<Rightarrow> err option"

fun failure :: "'a result \<Rightarrow> err option" where
  "failure (Inl e) = Some e"
| "failure (Inr _) = None"

text \<open>DB.Transact: the body runs in a transaction of its own, ended by its error.\<close>
definition transact :: "'f lib \<Rightarrow> ('f db, 'a) step \<Rightarrow> ('f db, 'a) step" where
  "transact l body s =
     (case begin_tx l s of
        Some e \<Rightarrow> (Inl e, s)
      | None \<Rightarrow>
          (let (r, s1) = body s
           in case end_tx l s s1 (failure r) of
                (Some e, s2) \<Rightarrow> (Inl e, s2)
              | (None, s2) \<Rightarrow> (r, s2)))"

text \<open>Recorder.Emit: the body with its queue, whose events are recorded in the
  same transaction once the body returns without an error.\<close>
definition emit :: "'f lib \<Rightarrow> ('f db, 'a \<times> event list) step \<Rightarrow> ('f db, 'a) step" where
  "emit l body s =
     (case body s of
        (Inl e, s1) \<Rightarrow> (Inl e, s1)
      | (Inr (a, q), s1) \<Rightarrow>
          (case record_events l q s1 of
             (Inl e, s2) \<Rightarrow> (Inl e, s2)
           | (Inr _, s2) \<Rightarrow> (Inr a, s2)))"

text \<open>Steps in sequence, the first error ending them.\<close>
definition andthen :: "('s, 'a) step \<Rightarrow> ('a \<Rightarrow> ('s, 'b) step) \<Rightarrow> ('s, 'b) step" where
  "andthen m k s =
     (case m s of (Inl e, s1) \<Rightarrow> (Inl e, s1) | (Inr a, s1) \<Rightarrow> k a s1)"

definition give :: "'a \<Rightarrow> ('s, 'a) step" where
  "give a s = (Inr a, s)"

definition refuse :: "err \<Rightarrow> ('s, 'a) step" where
  "refuse e s = (Inl e, s)"

text \<open>A read in a step: it leaves the state.\<close>
definition reading :: "('s \<Rightarrow> 'a result) \<Rightarrow> ('s, 'a) step" where
  "reading f s = (f s, s)"

section \<open>What the libraries document\<close>

text \<open>The contracts relied on: an inserted row's id is new, the driver classifies a
  violation under its class, a failed body rolls back and keeps its error, a
  committed one keeps its state or fails whole, and the recorder appends the
  events or fails, an empty queue writing nothing.\<close>
definition lib_ok :: "'f lib \<Rightarrow> bool" where
  "lib_ok l \<longleftrightarrow>
     (\<forall>s. mint l s \<notin> r_id ` set (orgs s)) \<and>
     (\<forall>c n. errors_is c (violation l c n)) \<and>
     (\<forall>c n. c \<in> {CheckViolation, UniqueViolation, ForeignKeyViolation} \<longrightarrow>
        \<not> errors_is NoRows (violation l c n)) \<and>
     errors_is NoRows (no_rows l) \<and> errors_is VersionMismatch (mismatch l) \<and>
     (\<forall>s. record_events l [] s = (Inr (), s)) \<and>
     (\<forall>s s1 e. end_tx l s s1 (Some e) = (Some e, s)) \<and>
     (\<forall>s s1. end_tx l s s1 None = (None, s1) \<or> (\<exists>e. end_tx l s s1 None = (Some e, s))) \<and>
     (\<forall>q s. record_events l q s = (Inr (), s\<lparr>outbox := outbox s @ q\<rparr>) \<or>
            (\<exists>e. record_events l q s = (Inl e, s)))"

lemma lib_okD:
  assumes "lib_ok l"
  shows "mint l s \<notin> r_id ` set (orgs s)"
    and "errors_is c (violation l c n)"
    and "end_tx l s s1 (Some e) = (Some e, s)"
    and "end_tx l s s1 None = (None, s1) \<or> (\<exists>e. end_tx l s s1 None = (Some e, s))"
    and "record_events l q s = (Inr (), s\<lparr>outbox := outbox s @ q\<rparr>) \<or> (\<exists>e. record_events l q s = (Inl e, s))"
  using assms unfolding lib_ok_def by auto

lemma lib_ok_errors:
  assumes "lib_ok l"
  shows "c \<in> {CheckViolation, UniqueViolation, ForeignKeyViolation} \<Longrightarrow> \<not> errors_is NoRows (violation l c n)"
    and "errors_is NoRows (no_rows l)" and "errors_is VersionMismatch (mismatch l)"
    and "record_events l [] s = (Inr (), s)"
  using assms unfolding lib_ok_def by auto

lemma andthen_Inr_iff:
  "andthen m k s = (Inr b, s2) \<longleftrightarrow> (\<exists>a s1. m s = (Inr a, s1) \<and> k a s1 = (Inr b, s2))"
  by (auto simp: andthen_def split: prod.splits sum.splits)

lemma andthen_Inl_iff:
  "andthen m k s = (Inl e, s2) \<longleftrightarrow>
     m s = (Inl e, s2) \<or> (\<exists>a s1. m s = (Inr a, s1) \<and> k a s1 = (Inl e, s2))"
  by (auto simp: andthen_def split: prod.splits sum.splits)

lemma give_iff [simp]: "give a s = (r, s') \<longleftrightarrow> r = Inr a \<and> s' = s"
  by (auto simp: give_def)

lemma refuse_iff [simp]: "refuse e s = (r, s') \<longleftrightarrow> r = Inl e \<and> s' = s"
  by (auto simp: refuse_def)

lemma reading_iff [simp]: "reading f s = (r, s') \<longleftrightarrow> f s = r \<and> s' = s"
  by (auto simp: reading_def)

lemmas step_iffs = andthen_Inr_iff andthen_Inl_iff give_iff refuse_iff reading_iff

text \<open>A transaction that fails leaves the state it began in.\<close>
lemma transact_Inl:
  "lib_ok l \<Longrightarrow> transact l body s = (Inl e, s') \<Longrightarrow> s' = s"
  using lib_okD(3)[of l s] lib_okD(4)[of l s]
  by (auto simp: transact_def Let_def split: option.splits prod.splits sum.splits)
    (metis (no_types, lifting) failure.elims lib_okD(3,4) option.inject prod.inject)+

lemma transact_Inr:
  assumes "lib_ok l" "transact l body s = (Inr a, s')"
  shows "body s = (Inr a, s')"
proof -
  obtain r s1 where b: "body s = (r, s1)" by fastforce
  show ?thesis
  proof (cases r)
    case (Inl e)
    with assms b lib_okD(3) [OF assms(1), of s s1 e] show ?thesis
      by (simp add: transact_def split: option.splits)
  next
    case (Inr x)
    with assms b lib_okD(4) [OF assms(1), of s s1] show ?thesis
      by (auto simp: transact_def split: option.splits)
  qed
qed

lemma emit_Inr:
  assumes "lib_ok l" "emit l body s = (Inr a, s')"
  obtains q s1 where "body s = (Inr (a, q), s1)" "s' = s1\<lparr>outbox := outbox s1 @ q\<rparr>"
proof -
  from assms(2) obtain q s1 where b: "body s = (Inr (a, q), s1)" "record_events l q s1 = (Inr (), s')"
    by (auto simp: emit_def split: prod.splits sum.splits)
  with lib_okD(5) [OF assms(1), of q s1] have "s' = s1\<lparr>outbox := outbox s1 @ q\<rparr>"
    by auto
  with b that show ?thesis by blast
qed

text \<open>A command is a transaction around an emitting body: when it succeeds its
  state is the body's with the queued events appended.\<close>
lemma command_Inr:
  assumes "lib_ok l" "transact l (emit l body) s = (Inr a, s')"
  obtains q s1 where "body s = (Inr (a, q), s1)" "s' = s1\<lparr>outbox := outbox s1 @ q\<rparr>"
  using emit_Inr [OF assms(1) transact_Inr [OF assms]] that by blast

lemma command_body_Inl:
  assumes "lib_ok l" "body s = (Inl e, s1)" "begin_tx l s = None"
  shows "transact l (emit l body) s = (Inl e, s)"
  using assms lib_okD(3) [OF assms(1), of s s1 e] by (simp add: transact_def emit_def)

lemma command_Inl:
  "lib_ok l \<Longrightarrow> transact l (emit l body) s = (Inl e, s') \<Longrightarrow> s' = s"
  by (rule transact_Inl)

section \<open>Advisory locks\<close>

text \<open>data/locks.go: the registry's names, and Lock, the lock statement in the
  caller's transaction.\<close>
definition LockOrganizationTree :: string where
  "LockOrganizationTree = ''organization.tree''"

definition LockSweepPrefix :: string where
  "LockSweepPrefix = ''sweep.''"

definition Lock :: "'f lib \<Rightarrow> string \<Rightarrow> ('f db, unit) step" where
  "Lock l name s = (case take_lock l name s of Some e \<Rightarrow> (Inl e, s) | None \<Rightarrow> (Inr (), s))"

lemma Lock_iff: "Lock l name s = (r, s') \<longleftrightarrow>
    s' = s \<and> r = (case take_lock l name s of Some e \<Rightarrow> Inl e | None \<Rightarrow> Inr ())"
  by (auto simp: Lock_def split: option.splits)

section \<open>A driver that keeps the contracts\<close>

text \<open>A new id: longer than every id of the table.\<close>
definition fresh_id :: "'f db \<Rightarrow> string" where
  "fresh_id s = replicate (Suc (foldr (\<lambda>r n. max (length (r_id r)) n) (orgs s) 0)) (CHR ''x'')"

fun plain_end :: "'f db \<Rightarrow> 'f db \<Rightarrow> err option \<Rightarrow> err option \<times> 'f db" where
  "plain_end s s1 None = (None, s1)"
| "plain_end s s1 (Some e) = (Some e, s)"

definition plain_lib :: "'f lib" where
  "plain_lib = \<lparr>mint = fresh_id, bump = (\<lambda>v. v + 1),
     violation = (\<lambda>c n. Err (ConstraintError c n) n [Err c n []]),
     no_rows = Err NoRows ''sql: no rows in result set'' [],
     mismatch = Err VersionMismatch ''query: version mismatch'' [],
     begin_tx = (\<lambda>s. None), end_tx = plain_end,
     record_events = (\<lambda>q s. (Inr (), s\<lparr>outbox := outbox s @ q\<rparr>)),
     take_lock = (\<lambda>n s. None)\<rparr>"

lemma fresh_id_new: "fresh_id s \<notin> r_id ` set (orgs s)"
proof
  assume "fresh_id s \<in> r_id ` set (orgs s)"
  then obtain r where r: "r \<in> set (orgs s)" "r_id r = fresh_id s" by auto
  have "r \<in> set os \<Longrightarrow> length (r_id r) \<le> foldr (\<lambda>r n. max (length (r_id r)) n) os 0" for os
    by (induction os) auto
  from this [OF r(1)] r(2) show False by (simp add: fresh_id_def)
qed

lemma plain_lib_ok: "lib_ok plain_lib"
  by (auto simp: lib_ok_def plain_lib_def fresh_id_new)

text \<open>A database that answers: no transaction, lock or outbox write fails.\<close>
definition calm :: "'f lib \<Rightarrow> bool" where
  "calm l \<longleftrightarrow> (\<forall>s. begin_tx l s = None) \<and> (\<forall>s s1. end_tx l s s1 None = (None, s1)) \<and>
     (\<forall>q s. record_events l q s = (Inr (), s\<lparr>outbox := outbox s @ q\<rparr>)) \<and>
     (\<forall>n s. take_lock l n s = None)"

lemma plain_lib_calm: "calm plain_lib"
  by (simp add: calm_def plain_lib_def)

lemma calm_command:
  "calm l \<Longrightarrow> body s = (Inr (a, q), s1) \<Longrightarrow>
   transact l (emit l body) s = (Inr a, s1\<lparr>outbox := outbox s1 @ q\<rparr>)"
  by (simp add: calm_def transact_def emit_def)

text \<open>A driver that keeps the contracts and whose guard moves the version on.\<close>
typedef 'f driver = "{l :: 'f lib. lib_ok l \<and> (\<forall>v. v < bump l v)}"
  morphisms lib_of Driver
  by (rule exI [of _ plain_lib]) (simp add: plain_lib_ok, simp add: plain_lib_def)

lemma lib_of_ok [simp]: "lib_ok (lib_of d)"
  using lib_of [of d] by simp

lemma lib_of_bump: "v < bump (lib_of d) v"
  using lib_of [of d] by simp

lemma driver_cases:
  assumes "lib_ok l" "\<forall>v. v < bump l v"
  obtains d where "l = lib_of d"
proof -
  from assms have "l = lib_of (Driver l)" by (simp add: Driver_inverse)
  with that show thesis by blast
qed

definition empty_db :: "'f \<Rightarrow> 'f db" where
  "empty_db f = \<lparr>orgs = [], images = [], owners = [], outbox = [], blobs = f\<rparr>"

end
