(* ===== verification/OrgTable.thy ===== *)
theory OrgTable
  imports Database
begin

text \<open>
  The organization table: migration 0001's constraints and the statements of
  domain/organization/statements, each on the rows it reads and writes. The
  recursive walk of in_subtree.sql may not end on rows that form a cycle, so it
  is a partial function; the lineage of organization_view.sql runs from the roots
  a level at a time. The invariant says that every row's parents lead to a root,
  and every statement that writes the table keeps it.
\<close>

section \<open>The statements\<close>

definition find_row :: "org_row list \<Rightarrow> string \<Rightarrow> org_row option" where
  "find_row os i = List.find (\<lambda>r. r_id r = i) os"

text \<open>What the table's constraints say of a row beside the other rows: the checks,
  the keys, then the foreign key.\<close>
definition row_violation :: "'f lib \<Rightarrow> org_row list \<Rightarrow> org_row \<Rightarrow> err option" where
  "row_violation l others r =
     (if \<not> match_code False (r_code r) then Some (violation l CheckViolation ''cc_organization_code'')
      else if r_name r = [] then Some (violation l CheckViolation ''cc_organization_name'')
      else if r_parent r = Some (r_id r)
        then Some (violation l CheckViolation ''cc_organization_parent_not_self'')
      else if list_ex (\<lambda>x. r_id x = r_id r) others
        then Some (violation l UniqueViolation ''organization_pkey'')
      else if list_ex (\<lambda>x. r_parent x = r_parent r \<and> r_code x = r_code r) others
        then Some (violation l UniqueViolation ''uq_organization_parent_code'')
      else (case r_parent r of
              None \<Rightarrow> None
            | Some p \<Rightarrow> if find_row others p = None
                        then Some (violation l ForeignKeyViolation ''organization_parent_id_fkey'')
                        else None))"

text \<open>create.sql: the engine mints the id, and version defaults to 1.\<close>
definition create_row :: "'f lib \<Rightarrow> create_organization \<Rightarrow> ('f db, identity) step" where
  "create_row l c s =
     (let r = \<lparr>r_id = mint l s, r_parent = c_parent c, r_code = c_code c, r_name = c_name c, r_version = 1\<rparr>
      in case row_violation l (orgs s) r of
           Some e \<Rightarrow> (Inl e, s)
         | None \<Rightarrow> (Inr \<lparr>i_id = r_id r, i_version = r_version r\<rparr>, s\<lparr>orgs := orgs s @ [r]\<rparr>))"

definition put_row :: "org_row \<Rightarrow> org_row list \<Rightarrow> org_row list" where
  "put_row r os = map (\<lambda>x. if r_id x = r_id r then r else x) os"

definition other_rows :: "string \<Rightarrow> org_row list \<Rightarrow> org_row list" where
  "other_rows i os = filter (\<lambda>x. r_id x \<noteq> i) os"

text \<open>A guarded statement: it matches the row with the id at the version; when it
  matches none, version.sql tells the missing row from the other version.\<close>
definition guarded :: "'f lib \<Rightarrow> string \<Rightarrow> int \<Rightarrow> (org_row \<Rightarrow> ('f db, int) step) \<Rightarrow> ('f db, int) step" where
  "guarded l i v act s =
     (case find_row (orgs s) i of
        None \<Rightarrow> (Inl (no_rows l), s)
      | Some r \<Rightarrow> if r_version r \<noteq> v then (Inl (mismatch l), s) else act r s)"

text \<open>An UPDATE's write of the matched row, which the constraints check.\<close>
definition update_row :: "'f lib \<Rightarrow> org_row \<Rightarrow> ('f db, int) step" where
  "update_row l r s =
     (case row_violation l (other_rows (r_id r) (orgs s)) r of
        Some e \<Rightarrow> (Inl e, s)
      | None \<Rightarrow> (Inr (r_version r), s\<lparr>orgs := put_row r (orgs s)\<rparr>))"

text \<open>edit.sql.\<close>
definition edit_row :: "'f lib \<Rightarrow> string \<Rightarrow> int \<Rightarrow> edit_organization \<Rightarrow> ('f db, int) step" where
  "edit_row l i v e =
     guarded l i v (\<lambda>r. update_row l (r\<lparr>r_code := e_code e, r_name := e_name e, r_version := bump l (r_version r)\<rparr>))"

text \<open>transfer.sql.\<close>
definition transfer_row :: "'f lib \<Rightarrow> string \<Rightarrow> int \<Rightarrow> transfer_organization \<Rightarrow> ('f db, int) step" where
  "transfer_row l i v t =
     guarded l i v (\<lambda>r. update_row l (r\<lparr>r_parent := t_parent t, r_version := bump l (r_version r)\<rparr>))"

text \<open>delete.sql: a child, an image and an owned document root each refuse it
  through their foreign keys.\<close>
definition delete_row :: "'f lib \<Rightarrow> string \<Rightarrow> int \<Rightarrow> ('f db, int) step" where
  "delete_row l i v =
     guarded l i v (\<lambda>r s.
       if list_ex (\<lambda>x. r_parent x = Some i) (orgs s)
         then (Inl (violation l ForeignKeyViolation ''organization_parent_id_fkey''), s)
       else if list_ex (\<lambda>m. im_org m = i) (images s)
         then (Inl (violation l ForeignKeyViolation ''fk_organization_image_organization''), s)
       else if list_ex (\<lambda>w. ow_org w = i) (owners s)
         then (Inl (violation l ForeignKeyViolation ''fk_organization_directory_organization''), s)
       else (Inr v, s\<lparr>orgs := other_rows i (orgs s)\<rparr>))"

text \<open>stored.sql.\<close>
definition stored_row :: "'f lib \<Rightarrow> string \<Rightarrow> 'f db \<Rightarrow> organization_data result" where
  "stored_row l i s =
     (case find_row (orgs s) i of
        None \<Rightarrow> Inl (no_rows l)
      | Some r \<Rightarrow> Inr \<lparr>od_id = r_id r, od_parent = r_parent r, od_code = r_code r, od_name = r_name r,
                       od_version = r_version r\<rparr>)"

text \<open>version.sql, the read by the key alone.\<close>
definition version_row :: "'f lib \<Rightarrow> string \<Rightarrow> 'f db \<Rightarrow> int result" where
  "version_row l i s =
     (case find_row (orgs s) i of None \<Rightarrow> Inl (no_rows l) | Some r \<Rightarrow> Inr (r_version r))"

text \<open>find_seeded.sql and seed_organization.sql: the row under the parent with the
  code, the root's parent null.\<close>
definition find_seeded :: "string option \<Rightarrow> string \<Rightarrow> org_row list \<Rightarrow> org_row option" where
  "find_seeded parent code os = List.find (\<lambda>r. r_parent r = parent \<and> r_code r = code) os"

text \<open>seed.sql: no row returns on a conflict of the sibling code, which the reader
  reports as sql.ErrNoRows.\<close>
definition seed_row_insert ::
    "'f lib \<Rightarrow> string option \<Rightarrow> seed_row \<Rightarrow> ('f db, string) step" where
  "seed_row_insert l parent o_row s =
     (let r = \<lparr>r_id = mint l s, r_parent = parent, r_code = s_code o_row, r_name = s_name o_row, r_version = 1\<rparr>
      in if match_code False (r_code r) \<and> r_name r \<noteq> [] \<and> find_seeded parent (s_code o_row) (orgs s) \<noteq> None
         then (Inl (no_rows l), s)
         else case row_violation l (orgs s) r of
                Some e \<Rightarrow> (Inl e, s)
              | None \<Rightarrow> (Inr (r_id r), s\<lparr>orgs := orgs s @ [r]\<rparr>))"

text \<open>The recursive term of in_subtree.sql: the candidate's row, then its parent's,
  and so on. Rows in a cycle make the walk run for ever.\<close>
partial_function (option) ancestors :: "org_row list \<Rightarrow> string \<Rightarrow> string list option" where
  "ancestors os i =
     (case find_row os i of
        None \<Rightarrow> Some []
      | Some r \<Rightarrow>
          (case r_parent r of
             None \<Rightarrow> Some [i]
           | Some p \<Rightarrow> Option.bind (ancestors os p) (\<lambda>is. Some (i # is))))"

text \<open>in_subtree.sql: how many rows of the candidate's walk are the node.\<close>
definition in_subtree :: "org_row list \<Rightarrow> string \<Rightarrow> string \<Rightarrow> nat option" where
  "in_subtree os node candidate =
     map_option (\<lambda>is. length (filter (\<lambda>i. i = node) is)) (ancestors os candidate)"

text \<open>organization_view.sql: the roots, and then a level at a time the rows whose
  parent is in the level before, each with its path.\<close>
definition lineage_roots :: "org_row list \<Rightarrow> (org_row \<times> string) list" where
  "lineage_roots os = map (\<lambda>x. (x, ''/'' @ r_code x)) (filter (\<lambda>x. r_parent x = None) os)"

definition lineage_next :: "org_row list \<Rightarrow> (org_row \<times> string) list \<Rightarrow> (org_row \<times> string) list" where
  "lineage_next os work =
     concat (map (\<lambda>(l, path). map (\<lambda>x. (x, path @ ''/'' @ r_code x))
                                (filter (\<lambda>x. r_parent x = Some (r_id l)) os)) work)"

fun lineage_levels :: "nat \<Rightarrow> org_row list \<Rightarrow> (org_row \<times> string) list \<Rightarrow> (org_row \<times> string) list" where
  "lineage_levels 0 os work = []"
| "lineage_levels (Suc n) os work =
     (if work = [] then [] else work @ lineage_levels n os (lineage_next os work))"

definition organization_of :: "org_row \<times> string \<Rightarrow> organization" where
  "organization_of rp = (case rp of (r, path) \<Rightarrow>
     \<lparr>o_id = r_id r, o_parent = r_parent r, o_code = r_code r, o_name = r_name r,
      o_version = r_version r, o_path = path\<rparr>)"

definition organization_view :: "org_row list \<Rightarrow> organization list" where
  "organization_view os = map organization_of (lineage_levels (length os) os (lineage_roots os))"

section \<open>The way to the root\<close>

inductive chain :: "org_row list \<Rightarrow> string \<Rightarrow> org_row list \<Rightarrow> bool" for os where
  root: "find_row os i = Some r \<Longrightarrow> r_parent r = None \<Longrightarrow> chain os i [r]"
| step: "find_row os i = Some r \<Longrightarrow> r_parent r = Some p \<Longrightarrow> chain os p rs \<Longrightarrow> chain os i (r # rs)"

inductive_cases chain_elims: "chain os i rs"
inductive_cases chain_Cons_elims: "chain os i (r # rs)"

definition chain_path :: "org_row list \<Rightarrow> string" where
  "chain_path rs = concat (map (\<lambda>r. ''/'' @ r_code r) (rev rs))"

definition orgs_ok :: "org_row list \<Rightarrow> bool" where
  "orgs_ok os \<longleftrightarrow>
     distinct (map r_id os) \<and>
     distinct (map (\<lambda>r. (r_parent r, r_code r)) os) \<and>
     (\<forall>r\<in>set os. match_code False (r_code r) \<and> r_name r \<noteq> []) \<and>
     (\<forall>r\<in>set os. \<exists>rs. chain os (r_id r) rs)"

lemma find_row_Some: "find_row os i = Some r \<Longrightarrow> r \<in> set os \<and> r_id r = i"
  unfolding find_row_def by (rule find_Some_in)

lemma find_row_None: "find_row os i = None \<longleftrightarrow> i \<notin> r_id ` set os"
  by (auto simp: find_row_def find_None_iff)

lemma find_row_mem: "distinct (map r_id os) \<Longrightarrow> r \<in> set os \<Longrightarrow> find_row os (r_id r) = Some r"
  unfolding find_row_def by (rule find_map_key)

lemma find_row_append: "find_row os i = Some r \<Longrightarrow> find_row (os @ xs) i = Some r"
  by (simp add: find_row_def find_append)

lemma find_row_append_new: "find_row os (r_id n) = None \<Longrightarrow> find_row (os @ [n]) (r_id n) = Some n"
  by (simp add: find_row_def find_append)

lemma find_row_put:
  "find_row (put_row r os) i = (if i = r_id r \<and> find_row os i \<noteq> None then Some r else find_row os i)"
  by (induction os) (auto simp: find_row_def put_row_def)

lemma find_row_other: "find_row (other_rows i os) j = (if j = i then None else find_row os j)"
  by (induction os) (auto simp: find_row_def other_rows_def)

lemma put_row_ids: "map r_id (put_row r os) = map r_id os"
  by (auto simp: put_row_def)

lemma set_put_row: "set (put_row r os) \<subseteq> insert r (set (other_rows (r_id r) os))"
  by (auto simp: put_row_def other_rows_def)

lemma chain_deterministic: "chain os i rs \<Longrightarrow> chain os i rs' \<Longrightarrow> rs = rs'"
proof (induction arbitrary: rs' rule: chain.induct)
  case (root i r)
  from root.prems root.hyps show ?case by (cases rule: chain_elims) auto
next
  case (step i r p rs)
  from step.prems obtain rs1 where "rs' = r # rs1" "chain os p rs1"
    using step.hyps(1,2) by (cases rule: chain_elims) auto
  with step.IH [of rs1] show ?case by simp
qed

lemma chain_cases:
  assumes "chain os i rs"
  obtains (root) r where "rs = [r]" "find_row os i = Some r" "r_parent r = None"
    | (step) r p rs1 where "rs = r # rs1" "find_row os i = Some r" "r_parent r = Some p" "chain os p rs1"
  using assms by (cases rule: chain_elims) auto

lemma chain_hd: "chain os i rs \<Longrightarrow> rs \<noteq> [] \<and> find_row os i = Some (hd rs)"
  by (induction rule: chain.induct) auto

lemma chain_members: "chain os i rs \<Longrightarrow> r \<in> set rs \<Longrightarrow> find_row os (r_id r) = Some r"
  by (induction rule: chain.induct) (auto dest: find_row_Some)

lemma chain_suffix: "chain os i rs \<Longrightarrow> r \<in> set rs \<Longrightarrow> \<exists>rs'. chain os (r_id r) rs' \<and> length rs' \<le> length rs"
proof (induction rule: chain.induct)
  case (root i r')
  then show ?case using chain.root [of os i r'] by (auto dest: find_row_Some)
next
  case (step i r' p rs)
  then show ?case using chain.step [of os i r' p rs] by (fastforce dest: find_row_Some)
qed

text \<open>A way to the root meets no row twice.\<close>
lemma chain_distinct: "chain os i rs \<Longrightarrow> distinct (map r_id rs)"
proof (induction rule: chain.induct)
  case (step i r p rs)
  have "r_id r \<notin> r_id ` set rs"
  proof
    assume "r_id r \<in> r_id ` set rs"
    with chain_suffix [OF step.hyps(3)] find_row_Some [OF step.hyps(1)]
    obtain rs' where "chain os i rs'" "length rs' \<le> length rs" by fastforce
    with chain_deterministic [OF chain.step [OF step.hyps]] show False by fastforce
  qed
  with step.IH show ?case by simp
qed simp

lemma chain_length: "chain os i rs \<Longrightarrow> length rs \<le> length os"
proof -
  assume c: "chain os i rs"
  then have "set (map r_id rs) \<subseteq> set (map r_id os)"
    by (auto dest!: chain_members [OF c] find_row_Some)
  with chain_distinct [OF c] show ?thesis
    by (metis (no_types, lifting) card_length card_mono distinct_card finite_set length_map order_trans)
qed

text \<open>The walk of in_subtree.sql ends on rows that lead to a root.\<close>
lemma chain_ancestors: "chain os i rs \<Longrightarrow> ancestors os i = Some (map r_id rs)"
  by (induction rule: chain.induct) (subst ancestors.simps, auto dest: find_row_Some)+

lemma ancestors_missing: "find_row os i = None \<Longrightarrow> ancestors os i = Some []"
  by (subst ancestors.simps) simp

lemma orgs_ok_chain: "orgs_ok os \<Longrightarrow> find_row os i = Some r \<Longrightarrow> \<exists>rs. chain os i rs"
  unfolding orgs_ok_def by (auto dest!: find_row_Some)

lemma in_subtree_returns: "orgs_ok os \<Longrightarrow> \<exists>n. in_subtree os node candidate = Some n"
  by (cases "find_row os candidate")
    (auto simp: in_subtree_def ancestors_missing dest!: orgs_ok_chain chain_ancestors)

lemma in_subtree_zero:
  assumes "chain os c rs"
  shows "in_subtree os node c = Some 0 \<longleftrightarrow> node \<notin> r_id ` set rs"
  using chain_ancestors [OF assms] by (auto simp: in_subtree_def filter_empty_conv)

end
