(* ===== verification/OrgForest.thy ===== *)
theory OrgForest
  imports OrgTable
begin

text \<open>
  The organization table as a forest: what each write of it keeps of the way to
  the root, and what the read model of organization_view.sql shows of it.
\<close>

section \<open>Writes keep the way to the root\<close>

lemma chain_append: "chain os i rs \<Longrightarrow> chain (os @ xs) i rs"
  by (induction rule: chain.induct) (auto intro: chain.intros find_row_append)

lemma chain_put_same:
  assumes "chain os i rs" "n \<notin> r_id ` set rs"
    "\<And>j. j \<noteq> n \<Longrightarrow> find_row os' j = find_row os j"
  shows "chain os' i rs"
  using assms
proof (induction rule: chain.induct)
  case (root i r)
  then show ?case using find_row_Some [of os i r] by (auto intro: chain.root)
next
  case (step i r p rs)
  then show ?case using find_row_Some [of os i r] by (auto intro: chain.step)
qed

text \<open>Every row still leads to a root when only one row changed and that row
  leads to one.\<close>
lemma chain_reroute:
  assumes "chain os i rs" "chain os' n rs'"
    "\<And>j. j \<noteq> n \<Longrightarrow> find_row os' j = find_row os j"
  shows "\<exists>rs''. chain os' i rs''"
  using assms(1)
proof (induction rule: chain.induct)
  case (root i r)
  show ?case
  proof (cases "i = n")
    case False
    with root assms(3) show ?thesis by (metis chain.root)
  qed (use assms(2) in blast)
next
  case (step i r p rs)
  show ?case
  proof (cases "i = n")
    case False
    with step assms(3) show ?thesis by (metis chain.step)
  qed (use assms(2) in blast)
qed

lemma row_violation_None:
  "row_violation l others r = None \<longleftrightarrow>
     match_code False (r_code r) \<and> r_name r \<noteq> [] \<and> r_parent r \<noteq> Some (r_id r)
     \<and> (\<forall>x\<in>set others. r_id x \<noteq> r_id r)
     \<and> (\<forall>x\<in>set others. r_parent x = r_parent r \<longrightarrow> r_code x \<noteq> r_code r)
     \<and> (\<forall>p. r_parent r = Some p \<longrightarrow> find_row others p \<noteq> None)"
  by (auto simp: row_violation_def list_ex_iff split: option.splits)

lemma orgs_ok_insert:
  assumes ok: "orgs_ok os" and v: "row_violation l os r = None"
  shows "orgs_ok (os @ [r])"
proof -
  from v have "find_row os (r_id r) = None"
    by (force simp: row_violation_None find_row_None)
  note here = find_row_append_new [OF this]
  have new: "\<exists>rs. chain (os @ [r]) (r_id r) rs"
  proof (cases "r_parent r")
    case None
    with here show ?thesis by (blast intro: chain.root)
  next
    case (Some p)
    with v ok obtain rs where "chain os p rs"
      by (auto simp: row_violation_None dest: orgs_ok_chain)
    with Some here show ?thesis by (blast intro: chain.step chain_append)
  qed
  have "\<exists>rs. chain (os @ [r]) (r_id x) rs" if "x \<in> set os" for x
    using ok that unfolding orgs_ok_def by (blast intro: chain_append)
  moreover have "r_id r \<notin> r_id ` set os" "(r_parent r, r_code r) \<notin> (\<lambda>r. (r_parent r, r_code r)) ` set os"
    using v by (force simp: row_violation_None)+
  ultimately show ?thesis
    using new ok v by (auto simp: orgs_ok_def row_violation_None)
qed

lemma distinct_put_key:
  assumes "distinct (map k os)" "distinct (map r_id os)" "k r \<notin> k ` set (other_rows (r_id r) os)"
  shows "distinct (map k (put_row r os))"
  using assms
proof (induction os)
  case (Cons a os)
  show ?case
  proof (cases "r_id a = r_id r")
    case True
    with Cons.prems(2) have "put_row r os = os" "other_rows (r_id r) os = os"
      by (auto simp: put_row_def other_rows_def intro!: map_idI filter_True) (metis image_eqI)+
    moreover from True Cons.prems(3) have "k r \<notin> k ` set (other_rows (r_id r) os)"
      by (simp add: other_rows_def)
    ultimately show ?thesis using True Cons.prems(1)
      by (simp add: put_row_def)
  next
    case False
    with Cons.prems have "k a \<noteq> k r" by (auto simp: other_rows_def)
    moreover from False Cons have "distinct (map k (put_row r os))" by (simp add: other_rows_def)
    moreover have "k a \<notin> k ` set (put_row r os)"
    proof
      assume "k a \<in> k ` set (put_row r os)"
      then obtain x where "x \<in> set (put_row r os)" "k a = k x" by auto
      with \<open>k a \<noteq> k r\<close> set_put_row [of r os] have "k a \<in> k ` set os" by (auto simp: other_rows_def)
      with Cons.prems(1) show False by simp
    qed
    moreover from False have "put_row r (a # os) = a # put_row r os" by (simp add: put_row_def)
    ultimately show ?thesis by simp
  qed
qed (simp add: put_row_def)

text \<open>A row written over the one with its id keeps the table in order when the
  constraints pass and the row itself leads to a root.\<close>
lemma orgs_ok_put:
  assumes ok: "orgs_ok os" and present: "find_row os (r_id r) \<noteq> None"
    and v: "row_violation l (other_rows (r_id r) os) r = None"
    and way: "\<exists>rs. chain (put_row r os) (r_id r) rs"
  shows "orgs_ok (put_row r os)"
proof -
  let ?os' = "put_row r os"
  have same: "find_row ?os' j = find_row os j" if "j \<noteq> r_id r" for j
    using that by (simp add: find_row_put)
  have "\<exists>rs. chain ?os' (r_id x) rs" if x: "x \<in> set ?os'" for x
  proof (cases "r_id x = r_id r")
    case True
    with way show ?thesis by simp
  next
    case False
    with x set_put_row [of r os] have "x \<in> set os" by (auto simp: other_rows_def)
    with ok obtain rs where "chain os (r_id x) rs" unfolding orgs_ok_def by blast
    with way same show ?thesis by (blast intro: chain_reroute)
  qed
  moreover have "distinct (map (\<lambda>r. (r_parent r, r_code r)) ?os')"
    using ok v by (intro distinct_put_key) (force simp: orgs_ok_def row_violation_None)+
  moreover have "\<forall>x\<in>set ?os'. match_code False (r_code x) \<and> r_name x \<noteq> []"
    using ok v set_put_row [of r os] by (auto simp: orgs_ok_def row_violation_None other_rows_def)
  ultimately show ?thesis
    using ok by (simp add: orgs_ok_def put_row_ids)
qed

text \<open>An edit keeps the row's parent, so the ways to the root stand.\<close>
lemma chain_put_keep:
  assumes ok: "orgs_ok os" and old: "find_row os (r_id r) = Some r0" and par: "r_parent r = r_parent r0"
  shows "\<exists>rs. chain (put_row r os) (r_id r) rs"
proof -
  from orgs_ok_chain [OF ok old] obtain rs where c: "chain os (r_id r) rs" by blast
  have "find_row (put_row r os) (r_id r) = Some r"
    using old by (simp add: find_row_put)
  from c show ?thesis
  proof (cases rule: chain_cases)
    case (root r1)
    with old par \<open>find_row (put_row r os) (r_id r) = Some r\<close> show ?thesis
      by (auto intro: chain.root)
  next
    case (step r1 p rs1)
    from chain_distinct [OF c] step find_row_Some [OF step(2)] have "r_id r \<notin> r_id ` set rs1" by auto
    with step(4) have "chain (put_row r os) p rs1"
      by (rule chain_put_same) (simp add: find_row_put)
    with step old par \<open>find_row (put_row r os) (r_id r) = Some r\<close> show ?thesis
      by (auto intro: chain.step)
  qed
qed

text \<open>A transfer under a parent whose walk does not meet the node.\<close>
lemma chain_put_move:
  assumes old: "find_row os (r_id r) \<noteq> None"
    and par: "\<And>p. r_parent r = Some p \<Longrightarrow> \<exists>rs. chain os p rs \<and> r_id r \<notin> r_id ` set rs"
  shows "\<exists>rs. chain (put_row r os) (r_id r) rs"
proof -
  have here: "find_row (put_row r os) (r_id r) = Some r"
    using old by (simp add: find_row_put)
  show ?thesis
  proof (cases "r_parent r")
    case None
    with here show ?thesis by (auto intro: chain.root)
  next
    case (Some p)
    with par obtain rs where "chain os p rs" "r_id r \<notin> r_id ` set rs" by blast
    then have "chain (put_row r os) p rs"
      by (rule chain_put_same) (simp add: find_row_put)
    with here Some show ?thesis by (auto intro: chain.step)
  qed
qed

text \<open>A row no row names as its parent can go.\<close>
lemma chain_no_child:
  assumes "chain os j rs" "j \<noteq> i" "\<forall>r\<in>set os. r_parent r \<noteq> Some i"
  shows "i \<notin> r_id ` set rs"
  using assms
proof (induction rule: chain.induct)
  case (step j r p rs)
  then have "p \<noteq> i" by (auto dest: find_row_Some)
  with step show ?case by (auto dest: find_row_Some)
qed (auto dest: find_row_Some)

lemma orgs_ok_remove:
  assumes ok: "orgs_ok os" and leaf: "\<forall>r\<in>set os. r_parent r \<noteq> Some i"
  shows "orgs_ok (other_rows i os)"
proof -
  have "\<exists>rs. chain (other_rows i os) (r_id x) rs" if x: "x \<in> set (other_rows i os)" for x
  proof -
    from x have "x \<in> set os" "r_id x \<noteq> i" by (auto simp: other_rows_def)
    with ok obtain rs where c: "chain os (r_id x) rs" unfolding orgs_ok_def by blast
    have "chain (other_rows i os) (r_id x) rs"
      by (rule chain_put_same [OF c chain_no_child [OF c \<open>r_id x \<noteq> i\<close> leaf]]) (simp add: find_row_other)
    then show ?thesis by blast
  qed
  moreover have "distinct (map f (other_rows i os))" if "distinct (map f os)" for f :: "org_row \<Rightarrow> 'k"
    using that by (simp add: other_rows_def distinct_map_filter)
  ultimately show ?thesis
    using ok by (auto simp: orgs_ok_def other_rows_def distinct_map_filter)
qed

section \<open>The read model\<close>

lemma chain_path_Cons: "rs \<noteq> [] \<Longrightarrow> chain_path (r # rs) = chain_path rs @ ''/'' @ r_code r"
  by (simp add: chain_path_def)

fun level :: "org_row list \<Rightarrow> nat \<Rightarrow> (org_row \<times> string) list" where
  "level os 0 = lineage_roots os"
| "level os (Suc k) = lineage_next os (level os k)"

text \<open>A level holds the rows whose way to the root has its length.\<close>
lemma level_members:
  assumes d: "distinct (map r_id os)"
  shows "(r, p) \<in> set (level os k) \<longleftrightarrow>
     r \<in> set os \<and> (\<exists>rs. chain os (r_id r) rs \<and> length rs = Suc k \<and> p = chain_path rs)"
proof (induction k arbitrary: r p)
  case 0
  have "(\<exists>rs. chain os (r_id r) rs \<and> length rs = Suc 0 \<and> p = chain_path rs) \<longleftrightarrow>
      r_parent r = None \<and> p = ''/'' @ r_code r" (is "?l = ?r") if "r \<in> set os"
  proof
    assume ?l
    then obtain rs where rs: "chain os (r_id r) rs" "length rs = Suc 0" "p = chain_path rs" by blast
    from rs(1) show ?r
    proof (cases rule: chain_cases)
      case (root r1)
      with rs(3) find_row_mem [OF d that] show ?thesis by (simp add: chain_path_def)
    next
      case (step r1 q rs1)
      with rs(2) chain_hd [OF step(4)] show ?thesis by simp
    qed
  next
    assume ?r
    with chain.root [OF find_row_mem [OF d that]] show ?l
      by (intro exI [of _ "[r]"]) (simp add: chain_path_def)
  qed
  then show ?case by (auto simp: lineage_roots_def)
next
  case (Suc k)
  show ?case (is "?lhs = ?rhs")
  proof
    assume ?lhs
    then obtain lr lp where l: "(lr, lp) \<in> set (level os k)" "r \<in> set os"
        "r_parent r = Some (r_id lr)" "p = lp @ ''/'' @ r_code r"
      by (auto simp: lineage_next_def)
    with Suc.IH obtain rs where rs: "chain os (r_id lr) rs" "length rs = Suc k" "lp = chain_path rs"
      by blast
    have "chain os (r_id r) (r # rs)"
      by (rule chain.step [OF find_row_mem [OF d l(2)] l(3) rs(1)])
    moreover from rs(2) have "rs \<noteq> []" by auto
    with l(4) rs(3) have "p = chain_path (r # rs)" by (simp add: chain_path_Cons)
    ultimately show ?rhs using l(2) rs(2) by (intro conjI exI [of _ "r # rs"]) simp_all
  next
    assume ?rhs
    then obtain rs where r: "r \<in> set os" "chain os (r_id r) rs" "length rs = Suc (Suc k)" "p = chain_path rs"
      by blast
    from r(2) obtain q rs1 where q: "rs = r # rs1" "r_parent r = Some q" "chain os q rs1"
    proof (cases rule: chain_cases)
      case (root r1)
      with r(3) show ?thesis by simp
    next
      case (step r1 q1 rs1)
      with find_row_mem [OF d r(1)] that show ?thesis by simp
    qed
    from chain_hd [OF q(3)] have h: "rs1 \<noteq> []" "find_row os q = Some (hd rs1)" by auto
    from find_row_Some [OF h(2)] have "hd rs1 \<in> set os" "r_id (hd rs1) = q" by auto
    with q r(3) have "hd rs1 \<in> set os \<and> (\<exists>rs. chain os (r_id (hd rs1)) rs \<and> length rs = Suc k
        \<and> chain_path rs1 = chain_path rs)"
      by (intro conjI exI [of _ rs1]) simp_all
    then have m: "(hd rs1, chain_path rs1) \<in> set (level os k)"
      by (rule Suc.IH [THEN iffD2])
    have "p = chain_path rs1 @ ''/'' @ r_code r"
      using r(4) q(1) h(1) by (simp add: chain_path_Cons)
    with m q(2) r(1) \<open>r_id (hd rs1) = q\<close> show ?lhs
      by (auto simp: lineage_next_def intro!: bexI [of _ "(hd rs1, chain_path rs1)"])
  qed
qed

lemma levels_members:
  "set (lineage_levels n os (level os k)) = (\<Union>j\<in>{k..<k + n}. set (level os j))"
proof (induction n arbitrary: k)
  case (Suc n)
  have empty: "level os j = []" if "level os k = []" "k \<le> j" for j
    using that(2) by (induction rule: dec_induct) (simp_all add: that(1) lineage_next_def)
  have range: "{k..<k + Suc n} = insert k {Suc k..<Suc k + n}" by auto
  show ?case
  proof (cases "level os k = []")
    case True
    with empty have "(\<Union>j\<in>{k..<k + Suc n}. set (level os j)) = {}" by simp
    with True show ?thesis by simp
  next
    case False
    with Suc.IH [of "Suc k"] show ?thesis unfolding range by simp
  qed
qed simp

theorem organization_view_members:
  assumes ok: "orgs_ok os"
  shows "set (organization_view os) =
     {organization_of (r, chain_path rs) | r rs. r \<in> set os \<and> chain os (r_id r) rs}"
proof -
  from ok have d: "distinct (map r_id os)" by (simp add: orgs_ok_def)
  have "(r, p) \<in> set (lineage_levels (length os) os (lineage_roots os)) \<longleftrightarrow>
      r \<in> set os \<and> (\<exists>rs. chain os (r_id r) rs \<and> p = chain_path rs)" for r p
  proof -
    have "(r, p) \<in> set (lineage_levels (length os) os (lineage_roots os)) \<longleftrightarrow>
        (\<exists>j<length os. (r, p) \<in> set (level os j))"
      using levels_members [of "length os" os 0] by auto
    also have "\<dots> \<longleftrightarrow> (\<exists>j<length os. r \<in> set os \<and>
        (\<exists>rs. chain os (r_id r) rs \<and> length rs = Suc j \<and> p = chain_path rs))"
      unfolding level_members [OF d] by (rule refl)
    also have "\<dots> \<longleftrightarrow> r \<in> set os \<and> (\<exists>rs. chain os (r_id r) rs \<and> p = chain_path rs)"
    proof -
      have "\<exists>j<length os. length rs = Suc j" if "chain os (r_id r) rs" for rs
        using chain_length [OF that] chain_hd [OF that] by (cases rs) auto
      then show ?thesis by blast
    qed
    finally show ?thesis .
  qed
  then have "set (lineage_levels (length os) os (lineage_roots os)) =
      {(r, p). r \<in> set os \<and> (\<exists>rs. chain os (r_id r) rs \<and> p = chain_path rs)}"
    by auto
  then show ?thesis
    unfolding organization_view_def set_map by (auto simp del: lineage_levels.simps)
qed

section \<open>A path names one organization\<close>

lemma split_path:
  "\<forall>c\<in>set cs. CHR ''/'' \<notin> set c \<Longrightarrow>
   split_at CHR ''/'' (concat (map (\<lambda>c. CHR ''/'' # c) cs)) = (if cs = [] then [[]] else [] # cs)"
proof (induction cs)
  case (Cons c cs)
  show ?case
  proof (cases cs)
    case Nil
    with Cons.prems show ?thesis by (simp add: split_at_no_sep)
  next
    case (Cons c' cs')
    with Cons.IH Cons.prems show ?thesis by (simp add: split_at_append)
  qed
qed simp

lemma chain_codes: "orgs_ok os \<Longrightarrow> chain os i rs \<Longrightarrow> \<forall>c\<in>set (map r_code rs). CHR ''/'' \<notin> set c"
  by (auto simp: orgs_ok_def dest!: chain_members find_row_Some dest: match_code_no_slash)

lemma chain_path_codes:
  assumes "orgs_ok os" "chain os i rs"
  shows "split_at CHR ''/'' (chain_path rs) = [] # map r_code (rev rs)"
proof -
  have "chain_path rs = concat (map (\<lambda>c. CHR ''/'' # c) (map r_code (rev rs)))"
    by (simp add: chain_path_def o_def)
  with split_path [of "map r_code (rev rs)"] chain_codes [OF assms] chain_hd [OF assms(2)]
  show ?thesis by simp
qed

lemma sibling_codes:
  assumes "orgs_ok os" "r \<in> set os" "r' \<in> set os" "r_parent r = r_parent r'" "r_code r = r_code r'"
  shows "r = r'"
  using assms by (auto simp: orgs_ok_def distinct_map inj_on_def)

lemma chain_same_codes:
  assumes ok: "orgs_ok os"
  shows "chain os i rs \<Longrightarrow> chain os j rs' \<Longrightarrow> map r_code rs = map r_code rs' \<Longrightarrow> rs = rs'"
proof (induction rs arbitrary: i j rs')
  case Nil
  then show ?case using chain_hd by fastforce
next
  case (Cons r rs)
  note c = Cons.prems(1)
  from Cons.prems(3) obtain r' rs1' where rs': "rs' = r' # rs1'" "r_code r = r_code r'"
      "map r_code rs = map r_code rs1'" by (cases rs') auto
  note c' = Cons.prems(2) [unfolded rs'(1)]
  have mem: "r \<in> set os" "r' \<in> set os"
    using chain_hd [OF c] chain_hd [OF c'] find_row_Some by fastforce+
  have "r_parent r = r_parent r' \<and> rs = rs1'"
  proof (cases "rs = []")
    case True
    with rs'(3) c c' show ?thesis by (auto elim!: chain_cases dest: chain_hd)
  next
    case False
    obtain p where p: "r_parent r = Some p" "chain os p rs"
      using c False by (cases rule: chain_cases) auto
    obtain p' where p': "r_parent r' = Some p'" "chain os p' rs1'"
      using c' False rs'(3) by (cases rule: chain_cases) auto
    from Cons.IH [OF p(2) p'(2) rs'(3)] have "rs = rs1'" .
    moreover from this p p' have "p = p'" by (auto dest!: chain_hd find_row_Some)
    ultimately show ?thesis using p p' by simp
  qed
  with sibling_codes [OF ok mem _ rs'(2)] rs'(1) show ?case by simp
qed

lemma chain_path_inj:
  assumes "orgs_ok os" "chain os i rs" "chain os j rs'" "chain_path rs = chain_path rs'"
  shows "rs = rs'"
proof -
  from chain_path_codes [OF assms(1,2)] chain_path_codes [OF assms(1,3)] assms(4)
  have "map r_code rs = map r_code rs'" by (simp add: rev_map [symmetric])
  then show ?thesis by (rule chain_same_codes [OF assms(1-3)])
qed

lemma level_distinct:
  assumes d: "distinct (map r_id os)"
  shows "distinct (map (r_id \<circ> fst) (level os k))"
proof (induction k)
  case 0
  from d show ?case by (simp add: lineage_roots_def o_def distinct_map_filter)
next
  case (Suc k)
  have "distinct (map (r_id \<circ> fst) (lineage_next os work))" if "distinct (map (r_id \<circ> fst) work)" for work
    using that
  proof (induction work)
    case (Cons lp work)
    obtain lr p where lp: "lp = (lr, p)" by fastforce
    have "distinct (map r_id (filter (\<lambda>x. r_parent x = Some (r_id lr)) os))"
      using d by (simp add: distinct_map_filter)
    moreover have "r_id x \<noteq> r_id y"
      if "x \<in> set os" "r_parent x = Some (r_id lr)" "(y, q) \<in> set (lineage_next os work)" for x y q
    proof
      assume "r_id x = r_id y"
      from that(3) have "y \<in> set os" by (auto simp: lineage_next_def)
      with d that(1) \<open>r_id x = r_id y\<close> have "x = y" by (auto simp: distinct_map inj_on_def)
      with that lp Cons.prems show False by (force simp: lineage_next_def)
    qed
    moreover have "lineage_next os (lp # work) =
        map (\<lambda>x. (x, p @ ''/'' @ r_code x)) (filter (\<lambda>x. r_parent x = Some (r_id lr)) os)
        @ lineage_next os work"
      by (simp add: lineage_next_def lp)
    moreover have "distinct (map (r_id \<circ> fst) (lineage_next os work))"
      using Cons by (simp add: o_def)
    ultimately show ?case by (auto simp: o_def)
  qed (simp add: lineage_next_def)
  from this [OF Suc.IH] show ?case by (simp only: level.simps)
qed

text \<open>The read model lists no organization twice.\<close>
lemma organization_view_distinct:
  assumes ok: "orgs_ok os"
  shows "distinct (map o_id (organization_view os))"
proof -
  from ok have d: "distinct (map r_id os)" by (simp add: orgs_ok_def)
  have disj: "j = k" if "(r, p) \<in> set (level os j)" "(r', p') \<in> set (level os k)" "r_id r = r_id r'" for r p r' p' j k
    using that chain_deterministic by (fastforce simp: level_members [OF d])
  have "distinct (map (r_id \<circ> fst) (lineage_levels n os (level os k)))" for n k
  proof (induction n arbitrary: k)
    case (Suc n)
    have "(r_id \<circ> fst) ` set (level os k) \<inter> (r_id \<circ> fst) ` set (lineage_levels n os (level os (Suc k))) = {}"
      unfolding levels_members using disj by fastforce
    with Suc.IH [of "Suc k"] level_distinct [OF d, of k] show ?case by (simp add: o_def)
  qed simp
  from this [of "length os" 0] show ?thesis
    by (simp add: organization_view_def o_def organization_of_def case_prod_beta)
qed

end
