(* ===== verification/OrgStore.thy ===== *)
theory OrgStore
  imports OrgForest Reads
begin

text \<open>
  domain/organization/database.go, messaging.go and service.go: the store's
  commands, each one transaction with its one event, the service's validation in
  front of them, the reads, and the seed contribution. The locale is what a
  version-guarded command promises its callers; the organization's three guarded
  commands interpret it.
\<close>

section \<open>The commands\<close>

definition OrganizationCreated :: string where
  "OrganizationCreated = ''web-service.organization.created''"
definition OrganizationEdited :: string where
  "OrganizationEdited = ''web-service.organization.edited''"
definition OrganizationTransferred :: string where
  "OrganizationTransferred = ''web-service.organization.transferred''"
definition OrganizationDeleted :: string where
  "OrganizationDeleted = ''web-service.organization.deleted''"

definition ErrCycle :: err where
  "ErrCycle = Err OrgCycle ''transfer would create a cycle'' []"

text \<open>raiseStored: the organization as the transaction holds it, raised under its type.\<close>
definition raiseStored :: "'f lib \<Rightarrow> string \<Rightarrow> string \<Rightarrow> 'f db \<Rightarrow> event list result" where
  "raiseStored l ty i s =
     (case stored_row l i s of
        Inl e \<Rightarrow> Inl (wrapf (''the organization '' @ i @ '' after its change'') e)
      | Inr od \<Rightarrow> Inr [Event ty i (OrganizationP od)])"

definition create_body :: "'f lib \<Rightarrow> create_organization \<Rightarrow> ('f db, identity \<times> event list) step" where
  "create_body l c =
     andthen (create_row l c) (\<lambda>ident.
     andthen (reading (raiseStored l OrganizationCreated (i_id ident))) (\<lambda>q.
     give (ident, q)))"

definition store_create :: "'f lib \<Rightarrow> create_organization \<Rightarrow> ('f db, identity) step" where
  "store_create l c = transact l (emit l (create_body l c))"

definition edit_body :: "'f lib \<Rightarrow> string \<Rightarrow> int \<Rightarrow> edit_organization \<Rightarrow> ('f db, identity \<times> event list) step" where
  "edit_body l i v e =
     andthen (edit_row l i v e) (\<lambda>v'.
     andthen (reading (raiseStored l OrganizationEdited i)) (\<lambda>q.
     give (\<lparr>i_id = i, i_version = v'\<rparr>, q)))"

definition store_edit :: "'f lib \<Rightarrow> string \<Rightarrow> int \<Rightarrow> edit_organization \<Rightarrow> ('f db, identity) step" where
  "store_edit l i v e = transact l (emit l (edit_body l i v e))"

text \<open>The walk of the cycle check does not return on rows that form a cycle; the
  table never holds one (in_subtree_returns), so this error is never met.\<close>
definition walk_without_end :: err where
  "walk_without_end = plain ''the ancestor walk does not end''"

definition cycle_check :: "string \<Rightarrow> transfer_organization \<Rightarrow> 'f db \<Rightarrow> unit result" where
  "cycle_check i t s =
     (case t_parent t of
        None \<Rightarrow> Inr ()
      | Some p \<Rightarrow>
          (case in_subtree (orgs s) i p of
             None \<Rightarrow> Inl walk_without_end
           | Some n \<Rightarrow> if n > 0
                       then Inl (wrap_reason ErrCycle (p @ '' is in the subtree of '' @ i))
                       else Inr ()))"

text \<open>A transaction as the statements another session can run between: the advisory
  locks it takes, the reads it goes on from, and the last one, a write with what
  follows it in the transaction, whose row stays locked until the commit.\<close>
datatype ('f, 'a) script =
    Locking string "('f, 'a) script"                 \<comment> \<open>Database.Lock\<close>
  | Checking "'f db \<Rightarrow> unit result" "('f, 'a) script"
  | Writing "('f db, 'a) step"

text \<open>The script run through, nothing in between.\<close>
primrec run_script :: "'f lib \<Rightarrow> ('f, 'a) script \<Rightarrow> ('f db, 'a) step" where
  "run_script l (Locking n k) = andthen (Lock l n) (\<lambda>_. run_script l k)"
| "run_script l (Checking q k) = andthen (reading q) (\<lambda>_. run_script l k)"
| "run_script l (Writing m) = m"

definition transfer_write ::
    "'f lib \<Rightarrow> string \<Rightarrow> int \<Rightarrow> transfer_organization \<Rightarrow> ('f db, identity \<times> event list) step" where
  "transfer_write l i v t =
     andthen (transfer_row l i v t) (\<lambda>v'.
     andthen (reading (raiseStored l OrganizationTransferred i)) (\<lambda>q.
     give (\<lparr>i_id = i, i_version = v'\<rparr>, q)))"

definition transfer_body ::
    "'f lib \<Rightarrow> string \<Rightarrow> int \<Rightarrow> transfer_organization \<Rightarrow> ('f, identity \<times> event list) script" where
  "transfer_body l i v t =
     Locking LockOrganizationTree
    (Checking (cycle_check i t)
    (Writing (transfer_write l i v t)))"

definition store_transfer :: "'f lib \<Rightarrow> string \<Rightarrow> int \<Rightarrow> transfer_organization \<Rightarrow> ('f db, identity) step" where
  "store_transfer l i v t = transact l (emit l (run_script l (transfer_body l i v t)))"

definition delete_body :: "'f lib \<Rightarrow> string \<Rightarrow> int \<Rightarrow> ('f db, unit \<times> event list) step" where
  "delete_body l i v =
     andthen (delete_row l i v) (\<lambda>_.
     give ((), [Event OrganizationDeleted i (OrganizationDeletedP \<lparr>odd_id = i, odd_version = v\<rparr>)]))"

definition store_delete :: "'f lib \<Rightarrow> string \<Rightarrow> int \<Rightarrow> ('f db, unit) step" where
  "store_delete l i v = transact l (emit l (delete_body l i v))"

section \<open>The service\<close>

definition Create :: "(string \<Rightarrow> bool) \<Rightarrow> 'f lib \<Rightarrow> create_organization \<Rightarrow> ('f db, identity) step" where
  "Create is_uuid l c =
     (case create_Validate is_uuid c of Some e \<Rightarrow> refuse e | None \<Rightarrow> store_create l c)"

definition Edit :: "'f lib \<Rightarrow> string \<Rightarrow> int \<Rightarrow> edit_organization \<Rightarrow> ('f db, identity) step" where
  "Edit l i v e = (case edit_Validate e of Some er \<Rightarrow> refuse er | None \<Rightarrow> store_edit l i v e)"

definition Transfer ::
    "(string \<Rightarrow> bool) \<Rightarrow> 'f lib \<Rightarrow> string \<Rightarrow> int \<Rightarrow> transfer_organization \<Rightarrow> ('f db, identity) step" where
  "Transfer is_uuid l i v t =
     (case transfer_Validate is_uuid t of Some e \<Rightarrow> refuse e | None \<Rightarrow> store_transfer l i v t)"

definition Delete :: "'f lib \<Rightarrow> string \<Rightarrow> int \<Rightarrow> ('f db, unit) step" where
  "Delete l i v = store_delete l i v"

text \<open>The read model's single row by a field, as the projection's One reads it.\<close>
definition view_one :: "'f lib \<Rightarrow> (organization \<Rightarrow> bool) \<Rightarrow> 'f db \<Rightarrow> organization result" where
  "view_one l p s =
     (case List.find p (organization_view (orgs s)) of
        None \<Rightarrow> Inl (no_rows l)
      | Some x \<Rightarrow> Inr x)"

text \<open>store.list and Service.List: one page of the projection.\<close>
definition store_list :: "op_names \<Rightarrow> (organization, 'f db) projection \<Rightarrow> web_query \<Rightarrow> 'f db \<Rightarrow> (organization list \<times> paging) result" where
  "store_list ops view q s =
     (case Read ops view s q of Inl e \<Rightarrow> Inl e | Inr c \<Rightarrow> Inr (c_items c, Paging c))"

definition ListOrganizations ::
    "op_names \<Rightarrow> (organization, 'f db) projection \<Rightarrow> web_query \<Rightarrow> 'f db \<Rightarrow> (organization list \<times> paging) result" where
  "ListOrganizations ops view = store_list ops view"

definition Find :: "'f lib \<Rightarrow> string \<Rightarrow> 'f db \<Rightarrow> organization result" where
  "Find l i = view_one l (\<lambda>x. o_id x = i)"

definition FindByPath :: "'f lib \<Rightarrow> string \<Rightarrow> 'f db \<Rightarrow> organization result" where
  "FindByPath l path = view_one l (\<lambda>x. o_path x = path)"

definition org_exists :: "'f lib \<Rightarrow> string \<Rightarrow> 'f db \<Rightarrow> unit result" where
  "org_exists l i s = (case version_row l i s of Inl e \<Rightarrow> Inl e | Inr _ \<Rightarrow> Inr ())"

section \<open>What a command's success gives\<close>

definition stored_data :: "org_row \<Rightarrow> organization_data" where
  "stored_data r = \<lparr>od_id = r_id r, od_parent = r_parent r, od_code = r_code r, od_name = r_name r,
     od_version = r_version r\<rparr>"

text \<open>The events a command raises, appended to the outbox.\<close>
abbreviation emitting :: "'f db \<Rightarrow> event list \<Rightarrow> 'f db" where
  "emitting s q \<equiv> s\<lparr>outbox := outbox s @ q\<rparr>"

lemma raiseStored_Inr:
  "raiseStored l ty i s = Inr q \<longleftrightarrow>
     (\<exists>r. find_row (orgs s) i = Some r \<and> q = [Event ty i (OrganizationP (stored_data r))])"
  by (auto simp: raiseStored_def stored_row_def stored_data_def split: option.splits)

lemma guarded_Inr:
  "guarded l i v act s = (Inr x, s') \<longleftrightarrow>
     (\<exists>r. find_row (orgs s) i = Some r \<and> r_version r = v \<and> act r s = (Inr x, s'))"
  by (auto simp: guarded_def split: option.splits)

lemma update_row_Inr:
  "update_row l r s = (Inr x, s') \<longleftrightarrow>
     row_violation l (other_rows (r_id r) (orgs s)) r = None \<and> x = r_version r \<and>
     s' = s\<lparr>orgs := put_row r (orgs s)\<rparr>"
  by (auto simp: update_row_def split: option.splits)

lemma create_row_Inr:
  "create_row l c s = (Inr x, s') \<longleftrightarrow>
     (let r = \<lparr>r_id = mint l s, r_parent = c_parent c, r_code = c_code c, r_name = c_name c, r_version = 1\<rparr>
      in row_violation l (orgs s) r = None \<and> x = \<lparr>i_id = r_id r, i_version = 1\<rparr> \<and>
         s' = s\<lparr>orgs := orgs s @ [r]\<rparr>)"
  by (auto simp: create_row_def Let_def split: option.splits)

lemma store_create_Inr:
  assumes "lib_ok l" "store_create l c s = (Inr ident, s')"
  obtains r where "r = \<lparr>r_id = mint l s, r_parent = c_parent c, r_code = c_code c, r_name = c_name c, r_version = 1\<rparr>"
    "row_violation l (orgs s) r = None" "ident = \<lparr>i_id = r_id r, i_version = 1\<rparr>"
    "s' = emitting (s\<lparr>orgs := orgs s @ [r]\<rparr>) [Event OrganizationCreated (r_id r) (OrganizationP (stored_data r))]"
proof -
  from command_Inr [OF assms(1) assms(2) [unfolded store_create_def]]
  obtain q s1 where b: "create_body l c s = (Inr (ident, q), s1)" "s' = emitting s1 q" by blast
  let ?r = "\<lparr>r_id = mint l s, r_parent = c_parent c, r_code = c_code c, r_name = c_name c, r_version = 1\<rparr>"
  from b(1) have v: "row_violation l (orgs s) ?r = None" "ident = \<lparr>i_id = r_id ?r, i_version = 1\<rparr>"
      "s1 = s\<lparr>orgs := orgs s @ [?r]\<rparr>" "raiseStored l OrganizationCreated (r_id ?r) s1 = Inr q"
    by (auto simp: create_body_def step_iffs create_row_Inr Let_def)
  have "find_row (orgs s) (mint l s) = None"
    using lib_okD(1) [OF assms(1), of s] by (simp add: find_row_None)
  with find_row_append_new [of "orgs s" ?r]
  have "find_row (orgs s1) (r_id ?r) = Some ?r" using v(3) by simp
  with v b(2) that [of ?r] show ?thesis by (simp add: raiseStored_Inr)
qed

text \<open>The guarded updates: the row at the version, written with the version moved
  on, and the event of the row as it now stands.\<close>
lemma update_event:
  assumes "find_row (orgs s) i = Some r0" "r_id r = i" "s1 = s\<lparr>orgs := put_row r (orgs s)\<rparr>"
    "raiseStored l ty i s1 = Inr q"
  shows "q = [Event ty i (OrganizationP (stored_data r))]"
  using assms by (auto simp: raiseStored_Inr find_row_put)

lemma store_edit_Inr:
  assumes "lib_ok l" "store_edit l i v e s = (Inr ident, s')"
  obtains r0 r where "find_row (orgs s) i = Some r0" "r_version r0 = v"
    "r = r0\<lparr>r_code := e_code e, r_name := e_name e, r_version := bump l v\<rparr>"
    "row_violation l (other_rows i (orgs s)) r = None" "ident = \<lparr>i_id = i, i_version = bump l v\<rparr>"
    "s' = emitting (s\<lparr>orgs := put_row r (orgs s)\<rparr>) [Event OrganizationEdited i (OrganizationP (stored_data r))]"
proof -
  from command_Inr [OF assms(1) assms(2) [unfolded store_edit_def]]
  obtain q s1 where b: "edit_body l i v e s = (Inr (ident, q), s1)" "s' = emitting s1 q" by blast
  then obtain r0 where r0: "find_row (orgs s) i = Some r0" "r_version r0 = v"
      "row_violation l (other_rows (r_id r0) (orgs s)) (r0\<lparr>r_code := e_code e, r_name := e_name e, r_version := bump l v\<rparr>) = None"
      "ident = \<lparr>i_id = i, i_version = bump l v\<rparr>"
      "s1 = s\<lparr>orgs := put_row (r0\<lparr>r_code := e_code e, r_name := e_name e, r_version := bump l v\<rparr>) (orgs s)\<rparr>"
      "raiseStored l OrganizationEdited i s1 = Inr q"
    by (auto simp: edit_body_def edit_row_def step_iffs guarded_Inr update_row_Inr)
  from find_row_Some [OF r0(1)] have "r_id r0 = i" by simp
  with update_event [OF r0(1) _ r0(5,6)] r0 b(2) that show ?thesis by simp
qed

lemma cycle_check_Inr:
  "cycle_check i t s = Inr x \<longleftrightarrow> (\<forall>p. t_parent t = Some p \<longrightarrow> in_subtree (orgs s) i p = Some 0)"
  by (auto simp: cycle_check_def split: option.splits)

lemma store_transfer_Inr:
  assumes "lib_ok l" "store_transfer l i v t s = (Inr ident, s')"
  obtains r0 r where "find_row (orgs s) i = Some r0" "r_version r0 = v"
    "r = r0\<lparr>r_parent := t_parent t, r_version := bump l v\<rparr>"
    "row_violation l (other_rows i (orgs s)) r = None" "ident = \<lparr>i_id = i, i_version = bump l v\<rparr>"
    "\<forall>p. t_parent t = Some p \<longrightarrow> in_subtree (orgs s) i p = Some 0"
    "s' = emitting (s\<lparr>orgs := put_row r (orgs s)\<rparr>) [Event OrganizationTransferred i (OrganizationP (stored_data r))]"
proof -
  from command_Inr [OF assms(1) assms(2) [unfolded store_transfer_def]]
  obtain q s1 where b: "run_script l (transfer_body l i v t) s = (Inr (ident, q), s1)" "s' = emitting s1 q" by blast
  then obtain r0 where r0: "find_row (orgs s) i = Some r0" "r_version r0 = v"
      "row_violation l (other_rows (r_id r0) (orgs s)) (r0\<lparr>r_parent := t_parent t, r_version := bump l v\<rparr>) = None"
      "ident = \<lparr>i_id = i, i_version = bump l v\<rparr>" "\<forall>p. t_parent t = Some p \<longrightarrow> in_subtree (orgs s) i p = Some 0"
      "s1 = s\<lparr>orgs := put_row (r0\<lparr>r_parent := t_parent t, r_version := bump l v\<rparr>) (orgs s)\<rparr>"
      "raiseStored l OrganizationTransferred i s1 = Inr q"
    by (auto simp: transfer_body_def transfer_write_def transfer_row_def step_iffs guarded_Inr update_row_Inr Lock_iff
        cycle_check_Inr split: option.splits)
  from find_row_Some [OF r0(1)] have "r_id r0 = i" by simp
  with update_event [OF r0(1) _ r0(6,7)] r0 b(2) that show ?thesis by simp
qed

lemma store_delete_Inr:
  assumes "lib_ok l" "store_delete l i v s = (Inr x, s')"
  obtains r where "find_row (orgs s) i = Some r" "r_version r = v"
    "\<forall>x\<in>set (orgs s). r_parent x \<noteq> Some i" "\<forall>m\<in>set (images s). im_org m \<noteq> i"
    "\<forall>w\<in>set (owners s). ow_org w \<noteq> i"
    "s' = emitting (s\<lparr>orgs := other_rows i (orgs s)\<rparr>)
            [Event OrganizationDeleted i (OrganizationDeletedP \<lparr>odd_id = i, odd_version = v\<rparr>)]"
proof -
  from command_Inr [OF assms(1) assms(2) [unfolded store_delete_def]]
  obtain q s1 where "delete_body l i v s = (Inr (x, q), s1)" "s' = emitting s1 q" by blast
  with that show ?thesis
    by (auto simp: delete_body_def delete_row_def step_iffs guarded_Inr list_ex_iff split: if_splits)
qed

end
