(* ===== verification/OrgCommands.thy ===== *)
theory OrgCommands
  imports OrgStore
begin

text \<open>
  What the organization's commands promise: the locale of version-guarded
  commands, its interpretation on edit, transfer and delete, and the properties
  of the table's forest, of the guard, of the events and of the reads.
\<close>

section \<open>Version-guarded commands\<close>

text \<open>What a guarded command's caller relies on: a failure leaves the state, a
  command at any version but the row's is refused, and one that succeeds leaves
  the row at another version or removes it.\<close>
locale versioned_commands =
  fixes inv :: "'s \<Rightarrow> bool"
    and run :: "'c \<Rightarrow> string \<Rightarrow> int \<Rightarrow> ('s, unit) step"
    and version_of :: "'s \<Rightarrow> string \<Rightarrow> int option"
  assumes keeps: "inv s \<Longrightarrow> inv (snd (run c i v s))"
    and refused: "run c i v s = (Inl e, s') \<Longrightarrow> s' = s"
    and stale: "inv s \<Longrightarrow> version_of s i \<noteq> Some v \<Longrightarrow> \<exists>e. run c i v s = (Inl e, s)"
    and moved: "inv s \<Longrightarrow> run c i v s = (Inr (), s') \<Longrightarrow> version_of s' i \<noteq> Some v"
begin

text \<open>Once a command at a version succeeded, every other at that version fails.\<close>
lemma no_lost_update:
  assumes "inv s" "run c i v s = (Inr (), s1)"
  shows "\<exists>e. run c' i v s1 = (Inl e, s1)"
  using stale [OF _ moved [OF assms], of c'] keeps [OF assms(1), of c i v] assms(2) by simp

end

text \<open>Commands on one row at one version, one after another: their outcomes.\<close>
fun outcomes :: "('c \<Rightarrow> string \<Rightarrow> int \<Rightarrow> ('s, unit) step) \<Rightarrow> string \<Rightarrow> int \<Rightarrow> 'c list \<Rightarrow> 's \<Rightarrow> unit result list \<times> 's" where
  "outcomes run i v [] s = ([], s)"
| "outcomes run i v (c # cs) s =
     (let (r, s1) = run c i v s; (rs, s2) = outcomes run i v cs s1 in (r # rs, s2))"

context versioned_commands
begin

lemma outcomes_stale:
  "inv s \<Longrightarrow> version_of s i \<noteq> Some v \<Longrightarrow> outcomes run i v cs s = (rs, s') \<Longrightarrow> s' = s \<and> Inr () \<notin> set rs"
proof (induction cs arbitrary: rs)
  case (Cons c cs)
  from stale [OF Cons.prems(1,2), of c] obtain e where "run c i v s = (Inl e, s)" by blast
  with Cons.IH [OF Cons.prems(1,2)] Cons.prems(3) show ?case
    by (auto simp: Let_def split: prod.splits)
qed simp

lemma one_success:
  "inv s \<Longrightarrow> outcomes run i v cs s = (rs, s') \<Longrightarrow> length (filter (\<lambda>r. r = Inr ()) rs) \<le> 1"
proof (induction cs arbitrary: rs s)
  case (Cons c cs)
  obtain r s1 where r: "run c i v s = (r, s1)" by fastforce
  obtain rs1 where rs1: "outcomes run i v cs s1 = (rs1, s')" "rs = r # rs1"
    using Cons.prems(2) r by (auto simp: Let_def split: prod.splits)
  have inv1: "inv s1" using keeps [OF Cons.prems(1), of c i v] r by simp
  show ?case
  proof (cases r)
    case (Inl e)
    with Cons.IH [OF inv1 rs1(1)] rs1(2) show ?thesis by simp
  next
    case (Inr u)
    with moved [OF Cons.prems(1), of c i v s1] r have "version_of s1 i \<noteq> Some v" by simp
    from outcomes_stale [OF inv1 this rs1(1)] have "Inr () \<notin> set rs1" by simp
    then have "filter (\<lambda>r. r = Inr ()) rs1 = []" by (auto simp: filter_empty_conv)
    with rs1(2) show ?thesis by simp
  qed
qed simp

end

section \<open>The organization's guarded commands\<close>

datatype guarded_command =
    EditC edit_organization
  | TransferC transfer_organization
  | DeleteC

definition forget :: "('s, 'a) step \<Rightarrow> ('s, unit) step" where
  "forget m s = (case m s of (Inl e, s') \<Rightarrow> (Inl e, s') | (Inr _, s') \<Rightarrow> (Inr (), s'))"

fun run_guarded :: "(string \<Rightarrow> bool) \<Rightarrow> 'f lib \<Rightarrow> guarded_command \<Rightarrow> string \<Rightarrow> int \<Rightarrow> ('f db, unit) step" where
  "run_guarded is_uuid l (EditC e) i v = forget (Edit l i v e)"
| "run_guarded is_uuid l (TransferC t) i v = forget (Transfer is_uuid l i v t)"
| "run_guarded is_uuid l DeleteC i v = forget (Delete l i v)"

definition org_version :: "'f db \<Rightarrow> string \<Rightarrow> int option" where
  "org_version s i = map_option r_version (find_row (orgs s) i)"

lemma forget_Inl: "forget m s = (Inl e, s') \<longleftrightarrow> m s = (Inl e, s')"
  by (auto simp: forget_def split: prod.splits sum.splits)

lemma forget_Inr: "forget m s = (Inr u, s') \<longleftrightarrow> (\<exists>a. m s = (Inr a, s'))"
  by (auto simp: forget_def split: prod.splits sum.splits)

lemma service_Inr:
  "Create is_uuid l c s = (Inr a, s') \<longleftrightarrow> create_Validate is_uuid c = None \<and> store_create l c s = (Inr a, s')"
  "Edit l i v e s = (Inr a, s') \<longleftrightarrow> edit_Validate e = None \<and> store_edit l i v e s = (Inr a, s')"
  "Transfer is_uuid l i v t s = (Inr a, s') \<longleftrightarrow>
     transfer_Validate is_uuid t = None \<and> store_transfer l i v t s = (Inr a, s')"
  "Delete l i v s = (Inr u, s') \<longleftrightarrow> store_delete l i v s = (Inr u, s')"
  by (auto simp: Create_def Edit_def Transfer_def Delete_def split: option.splits)

lemma service_Inl:
  assumes "lib_ok l"
  shows "Create is_uuid l c s = (Inl er, s') \<Longrightarrow> s' = s"
    and "Edit l i v e s = (Inl er, s') \<Longrightarrow> s' = s"
    and "Transfer is_uuid l i v t s = (Inl er, s') \<Longrightarrow> s' = s"
    and "Delete l i v s = (Inl er, s') \<Longrightarrow> s' = s"
  unfolding Create_def Edit_def Transfer_def Delete_def store_create_def store_edit_def
    store_transfer_def store_delete_def
  by ((simp split: option.splits)?, erule transact_Inl [OF assms])+

text \<open>The forest is kept.\<close>
lemma create_forest:
  assumes "lib_ok l" "orgs_ok (orgs s)" "Create is_uuid l c s = (r, s')"
  shows "orgs_ok (orgs s')"
proof (cases r)
  case (Inl e)
  with service_Inl(1) [OF assms(1)] assms(3) have "s' = s" by blast
  with assms(2) show ?thesis by simp
next
  case (Inr ident)
  with assms(3) have "store_create l c s = (Inr ident, s')" by (simp add: service_Inr)
  then show ?thesis
    by (rule store_create_Inr [OF assms(1)]) (simp add: orgs_ok_insert [OF assms(2)])
qed

lemma put_forest:
  assumes "orgs_ok os" "find_row os i = Some r0" "r_id r = i"
    "row_violation l (other_rows i os) r = None" "\<exists>rs. chain (put_row r os) i rs"
  shows "orgs_ok (put_row r os)"
  using orgs_ok_put [OF assms(1), of r l] assms(2-5) by simp

lemma edit_forest:
  assumes "lib_ok l" "orgs_ok (orgs s)" "store_edit l i v e s = (Inr ident, s')"
  shows "orgs_ok (orgs s')"
proof (rule store_edit_Inr [OF assms(1,3)])
  fix r0 r
  assume r: "find_row (orgs s) i = Some r0" "r = r0\<lparr>r_code := e_code e, r_name := e_name e, r_version := bump l v\<rparr>"
      "row_violation l (other_rows i (orgs s)) r = None"
    and s': "s' = emitting (s\<lparr>orgs := put_row r (orgs s)\<rparr>) [Event OrganizationEdited i (OrganizationP (stored_data r))]"
  from find_row_Some [OF r(1)] r(2) have i: "r_id r = i" by simp
  from chain_put_keep [OF assms(2), of r r0] r i have "\<exists>rs. chain (put_row r (orgs s)) i rs" by simp
  with put_forest [OF assms(2) r(1) i r(3)] s' show ?thesis by simp
qed

text \<open>A parent whose walk counts no node leads to a root without it.\<close>
lemma no_cycle:
  assumes "orgs_ok os" "find_row os p \<noteq> None" "in_subtree os i p = Some 0"
  shows "\<exists>rs. chain os p rs \<and> i \<notin> r_id ` set rs"
  using orgs_ok_chain [OF assms(1)] assms(2,3) in_subtree_zero by fastforce

lemma transfer_forest:
  assumes "lib_ok l" "orgs_ok (orgs s)" "store_transfer l i v t s = (Inr ident, s')"
  shows "orgs_ok (orgs s')"
proof (rule store_transfer_Inr [OF assms(1,3)])
  fix r0 r
  assume r: "find_row (orgs s) i = Some r0" "r = r0\<lparr>r_parent := t_parent t, r_version := bump l v\<rparr>"
      "row_violation l (other_rows i (orgs s)) r = None"
      "\<forall>p. t_parent t = Some p \<longrightarrow> in_subtree (orgs s) i p = Some 0"
    and s': "s' = emitting (s\<lparr>orgs := put_row r (orgs s)\<rparr>) [Event OrganizationTransferred i (OrganizationP (stored_data r))]"
  from find_row_Some [OF r(1)] r(2) have i: "r_id r = i" by simp
  have "\<exists>rs. chain (orgs s) p rs \<and> r_id r \<notin> r_id ` set rs" if "r_parent r = Some p" for p
  proof -
    from that r(3) have "find_row (other_rows i (orgs s)) p \<noteq> None" by (simp add: row_violation_None)
    with that r(2,4) i no_cycle [OF assms(2), of p i] show ?thesis
      by (simp add: find_row_other split: if_splits)
  qed
  with chain_put_move [of "orgs s" r] r(1) i have "\<exists>rs. chain (put_row r (orgs s)) i rs" by simp
  with put_forest [OF assms(2) r(1) i r(3)] s' show ?thesis by simp
qed

lemma delete_forest:
  assumes "lib_ok l" "orgs_ok (orgs s)" "store_delete l i v s = (Inr u, s')"
  shows "orgs_ok (orgs s')"
  by (rule store_delete_Inr [OF assms(1,3)]) (simp add: orgs_ok_remove [OF assms(2)])

lemma run_guarded_Inl:
  assumes "lib_ok l" "run_guarded is_uuid l c i v s = (Inl e, s')"
  shows "s' = s"
  using assms(2) service_Inl(2-4) [OF assms(1), where s = s and s' = s' and er = e]
  by (cases c) (auto simp only: run_guarded.simps forget_Inl)

lemma guarded_forest:
  assumes "lib_ok l" "orgs_ok (orgs s)" "run_guarded is_uuid l c i v s = (r, s')"
  shows "orgs_ok (orgs s')"
proof (cases r)
  case (Inl e)
  with assms(3) run_guarded_Inl [OF assms(1)] have "s' = s" by blast
  with assms(2) show ?thesis by simp
next
  case (Inr u)
  show ?thesis
    using assms(3) unfolding Inr
    by (cases c) (auto simp only: run_guarded.simps forget_Inr service_Inr
        intro: edit_forest [OF assms(1,2)] transfer_forest [OF assms(1,2)] delete_forest [OF assms(1,2)])
qed

text \<open>A guarded command that succeeds found its row at the version, and leaves it at
  another or removes it.\<close>
lemma run_guarded_version:
  assumes "lib_ok l" "\<forall>v. v < bump l v" "run_guarded is_uuid l c i v s = (Inr u, s')"
  shows "org_version s i = Some v \<and> org_version s' i \<noteq> Some v"
proof -
  have bump: "bump l v \<noteq> v" using assms(2) by (metis less_irrefl)
  show ?thesis
  proof (cases c)
    case (EditC e)
    with assms(3) obtain ident where "store_edit l i v e s = (Inr ident, s')"
      by (auto simp: forget_Inr service_Inr)
    then show ?thesis
      by (rule store_edit_Inr [OF assms(1)]) (auto simp: org_version_def find_row_put bump dest!: find_row_Some)
  next
    case (TransferC t)
    with assms(3) obtain ident where "store_transfer l i v t s = (Inr ident, s')"
      by (auto simp: forget_Inr service_Inr)
    then show ?thesis
      by (rule store_transfer_Inr [OF assms(1)]) (auto simp: org_version_def find_row_put bump dest!: find_row_Some)
  next
    case DeleteC
    with assms(3) have "store_delete l i v s = (Inr (), s')"
      by (auto simp: forget_Inr service_Inr)
    then show ?thesis
      by (rule store_delete_Inr [OF assms(1)]) (simp add: org_version_def find_row_other)
  qed
qed

lemma lib_of_bumps: "\<forall>v. v < bump (lib_of d) v"
  by (simp add: lib_of_bump)

interpretation org_guarded: versioned_commands
  "\<lambda>s. orgs_ok (orgs s)" "run_guarded is_uuid (lib_of d)" org_version
  for is_uuid :: "string \<Rightarrow> bool" and d :: "'f driver"
proof unfold_locales
  fix s :: "'f db" and c i v
  assume ok: "orgs_ok (orgs s)"
  obtain r s1 where run: "run_guarded is_uuid (lib_of d) c i v s = (r, s1)" by fastforce
  from guarded_forest [OF lib_of_ok ok run] run
  show "orgs_ok (orgs (snd (run_guarded is_uuid (lib_of d) c i v s)))" by simp
  show "\<exists>e. run_guarded is_uuid (lib_of d) c i v s = (Inl e, s)" if "org_version s i \<noteq> Some v"
  proof (cases r)
    case (Inl e)
    with run run_guarded_Inl [OF lib_of_ok] show ?thesis by blast
  next
    case (Inr u)
    with run run_guarded_version [OF lib_of_ok lib_of_bumps] that show ?thesis by blast
  qed
next
  show "s' = s" if "run_guarded is_uuid (lib_of d) c i v s = (Inl e, s')" for c i v s e s'
    by (rule run_guarded_Inl [OF lib_of_ok that])
next
  show "org_version s' i \<noteq> Some v" if "run_guarded is_uuid (lib_of d) c i v s = (Inr (), s')" for c i v s s'
    using run_guarded_version [OF lib_of_ok lib_of_bumps that] by simp
qed

section \<open>One command, one event\<close>

datatype org_command =
    CreateO create_organization
  | GuardedO guarded_command string int

fun run_org :: "(string \<Rightarrow> bool) \<Rightarrow> 'f lib \<Rightarrow> org_command \<Rightarrow> ('f db, unit) step" where
  "run_org is_uuid l (CreateO c) = forget (Create is_uuid l c)"
| "run_org is_uuid l (GuardedO c i v) = run_guarded is_uuid l c i v"

fun command_event :: "org_command \<Rightarrow> string" where
  "command_event (CreateO c) = OrganizationCreated"
| "command_event (GuardedO (EditC e) i v) = OrganizationEdited"
| "command_event (GuardedO (TransferC t) i v) = OrganizationTransferred"
| "command_event (GuardedO DeleteC i v) = OrganizationDeleted"

definition same_beside :: "'f db \<Rightarrow> 'f db \<Rightarrow> bool" where
  "same_beside s s' \<longleftrightarrow> images s' = images s \<and> owners s' = owners s \<and> blobs s' = blobs s"

text \<open>The organization a command acts on: the one a create answers with, or the one it
  names, at the version it names.\<close>
fun commanded :: "(string \<Rightarrow> bool) \<Rightarrow> 'f lib \<Rightarrow> org_command \<Rightarrow> 'f db \<Rightarrow> string option" where
  "commanded is_uuid l (CreateO x) s =
     (case fst (Create is_uuid l x s) of
        Inr ident \<Rightarrow> if i_version ident = 1 \<and> find_row (orgs s) (i_id ident) = None then Some (i_id ident) else None
      | Inl e \<Rightarrow> None)"
| "commanded is_uuid l (GuardedO g i v) s = (if org_version s i = Some v then Some i else None)"

text \<open>The row a command asks for, from the rows before it.\<close>
fun left_row :: "'f lib \<Rightarrow> org_command \<Rightarrow> string \<Rightarrow> org_row list \<Rightarrow> org_row option" where
  "left_row l (CreateO x) i os =
     Some \<lparr>r_id = i, r_parent = c_parent x, r_code = c_code x, r_name = c_name x, r_version = 1\<rparr>"
| "left_row l (GuardedO (EditC e) j v) i os =
     map_option (\<lambda>r. r\<lparr>r_code := e_code e, r_name := e_name e, r_version := bump l v\<rparr>) (find_row os i)"
| "left_row l (GuardedO (TransferC t) j v) i os =
     map_option (\<lambda>r. r\<lparr>r_parent := t_parent t, r_version := bump l v\<rparr>) (find_row os i)"
| "left_row l (GuardedO DeleteC j v) i os = None"

text \<open>The data of a command's event: the row it left, or what it removed.\<close>
fun left_payload :: "org_command \<Rightarrow> string \<Rightarrow> org_row option \<Rightarrow> payload" where
  "left_payload c i (Some r) = OrganizationP
     \<lparr>od_id = r_id r, od_parent = r_parent r, od_code = r_code r, od_name = r_name r, od_version = r_version r\<rparr>"
| "left_payload (GuardedO g j v) i None = OrganizationDeletedP \<lparr>odd_id = i, odd_version = v\<rparr>"
| "left_payload (CreateO x) i None = OrganizationDeletedP \<lparr>odd_id = i, odd_version = 0\<rparr>"

text \<open>A success told in full; a failure leaves the state.\<close>
definition org_told :: "(string \<Rightarrow> bool) \<Rightarrow> 'f lib \<Rightarrow> org_command \<Rightarrow> string \<Rightarrow> 'f db \<Rightarrow> 'f db \<Rightarrow> bool" where
  "org_told is_uuid l c i s s' \<longleftrightarrow> commanded is_uuid l c s = Some i
     \<and> find_row (orgs s') i = left_row l c i (orgs s)
     \<and> (\<forall>j. j \<noteq> i \<longrightarrow> find_row (orgs s') j = find_row (orgs s) j)
     \<and> outbox s' = outbox s @ [Event (command_event c) i (left_payload c i (left_row l c i (orgs s)))]
     \<and> same_beside s s'"

lemma create_told:
  assumes l: "lib_ok l" and run: "Create is_uuid l x s = (Inr ident, s')"
  shows "org_told is_uuid l (CreateO x) (i_id ident) s s'"
proof -
  from run have "store_create l x s = (Inr ident, s')" by (simp add: service_Inr)
  then show ?thesis
  proof (rule store_create_Inr [OF l])
    fix r
    assume r: "r = \<lparr>r_id = mint l s, r_parent = c_parent x, r_code = c_code x, r_name = c_name x, r_version = 1\<rparr>"
      "ident = \<lparr>i_id = r_id r, i_version = 1\<rparr>"
      "s' = emitting (s\<lparr>orgs := orgs s @ [r]\<rparr>) [Event OrganizationCreated (r_id r) (OrganizationP (stored_data r))]"
    have new: "find_row (orgs s) (r_id r) = None"
      using lib_okD(1) [OF l, of s] by (simp add: r(1) find_row_None)
    from find_row_append_new [OF this] have "find_row (orgs s') (r_id r) = Some r" by (simp add: r(3))
    moreover have "find_row (orgs s') j = find_row (orgs s) j" if "j \<noteq> r_id r" for j
      using that by (auto simp: r(3) find_row_def find_append split: option.splits)
    ultimately show ?thesis
      using new run r by (simp add: org_told_def stored_data_def same_beside_def)
  qed
qed

lemma guarded_told:
  assumes l: "lib_ok l" and run: "run_guarded is_uuid l c i v s = (Inr u, s')"
  shows "org_told is_uuid l (GuardedO c i v) i s s'"
proof (cases c)
  case (EditC e)
  with run obtain ident where "store_edit l i v e s = (Inr ident, s')"
    by (auto simp: forget_Inr service_Inr)
  then show ?thesis
    by (rule store_edit_Inr [OF l])
      (auto simp: EditC org_told_def org_version_def find_row_put stored_data_def same_beside_def dest!: find_row_Some)
next
  case (TransferC t)
  with run obtain ident where "store_transfer l i v t s = (Inr ident, s')"
    by (auto simp: forget_Inr service_Inr)
  then show ?thesis
    by (rule store_transfer_Inr [OF l])
      (auto simp: TransferC org_told_def org_version_def find_row_put stored_data_def same_beside_def dest!: find_row_Some)
next
  case DeleteC
  with run have "store_delete l i v s = (Inr (), s')"
    by (auto simp: forget_Inr service_Inr)
  then show ?thesis
    by (rule store_delete_Inr [OF l]) (auto simp: DeleteC org_told_def org_version_def find_row_other same_beside_def)
qed

lemma run_org_Inl:
  assumes "lib_ok l" "run_org is_uuid l c s = (Inl e, s')"
  shows "s' = s"
  using assms(2) service_Inl(1) [OF assms(1)] run_guarded_Inl [OF assms(1)]
  by (cases c) (auto simp: forget_Inl)

lemma run_org_told:
  assumes "lib_ok l" "run_org is_uuid l c s = (r, s')"
  shows "case r of Inl e \<Rightarrow> s' = s | Inr u \<Rightarrow> \<exists>i. org_told is_uuid l c i s s'"
proof (cases r)
  case (Inl e)
  with run_org_Inl [OF assms(1)] assms(2) show ?thesis by simp
next
  case (Inr u)
  show ?thesis
    by (cases c) (use assms(2) Inr in \<open>auto simp: forget_Inr intro: create_told [OF assms(1)] guarded_told [OF assms(1)]\<close>)
qed

end
