(* ===== verification/OrgSeed.thy ===== *)
theory OrgSeed
  imports OrgCommands
begin

text \<open>
  The organization's seed contribution (domain/organization/database.go: seed,
  Apply and seedOne): the tree of a named state inserted in file order inside the
  seed's transaction, rows already there left as they are. The rows arrive
  decoded; a decoding failure is the caller's.
\<close>

section \<open>Apply\<close>

text \<open>seedOne: the insert, or on sql.ErrNoRows the row already there; the id and
  whether this call inserted it.\<close>
definition seedOne_body ::
    "'f lib \<Rightarrow> string option \<Rightarrow> seed_row \<Rightarrow> ('f db, (string \<times> bool) \<times> event list) step" where
  "seedOne_body l parent row s =
     (case seed_row_insert l parent row s of
        (Inr i, s1) \<Rightarrow>
          (case raiseStored l OrganizationCreated i s1 of
             Inl e \<Rightarrow> (Inl e, s1)
           | Inr q \<Rightarrow> (Inr ((i, True), q), s1))
      | (Inl e, s1) \<Rightarrow>
          if \<not> errors_is NoRows e then (Inl e, s1)
          else (case find_seeded parent (s_code row) (orgs s1) of
                  None \<Rightarrow> (Inl (plain ''neither inserted nor found''), s1)
                | Some r \<Rightarrow> (Inr ((r_id r, False), []), s1)))"

definition seedOne :: "'f lib \<Rightarrow> string option \<Rightarrow> seed_row \<Rightarrow> ('f db, string \<times> bool) step" where
  "seedOne l parent row = emit l (seedOne_body l parent row)"

text \<open>Apply over the decoded rows: ids holds the codes seeded so far, and the count
  beside the error is what was inserted before it.\<close>
fun apply_rows ::
    "'f lib \<Rightarrow> seed_row list \<Rightarrow> (string \<Rightarrow> string option) \<Rightarrow> nat \<Rightarrow> 'f db \<Rightarrow> (nat \<times> err option) \<times> 'f db" where
  "apply_rows l [] ids inserted s = ((inserted, None), s)"
| "apply_rows l (row # rows) ids inserted s =
     (if s_parent row \<noteq> [] \<and> ids (s_parent row) = None
      then ((inserted, Some (plain (''seed organization '' @ s_code row @ '': parent '' @ quoted (s_parent row)
              @ '' not seeded before it''))), s)
      else if ids (s_code row) \<noteq> None
      then ((inserted, Some (plain (''seed organization '' @ s_code row @ '': code reused within the file''))), s)
      else
        (case seedOne l (if s_parent row \<noteq> [] then ids (s_parent row) else None) row s of
           (Inl e, s1) \<Rightarrow> ((inserted, Some (wrapf (''seed organization '' @ s_code row) e)), s1)
         | (Inr (i, ok), s1) \<Rightarrow>
             apply_rows l rows (ids(s_code row \<mapsto> i)) (if ok then Suc inserted else inserted) s1))"

definition org_Apply :: "'f lib \<Rightarrow> seed_row list result \<Rightarrow> 'f db \<Rightarrow> (nat \<times> err option) \<times> 'f db" where
  "org_Apply l decoded s =
     (case decoded of
        Inl e \<Rightarrow> ((0, Some (wrapf ''seed organizations'' e)), s)
      | Inr rows \<Rightarrow> apply_rows l rows Map.empty 0 s)"

section \<open>What a run leaves\<close>

text \<open>The event a seeded row's insert raises.\<close>
definition created_event :: "org_row \<Rightarrow> event" where
  "created_event r = Event OrganizationCreated (r_id r) (OrganizationP (stored_data r))"

lemma seed_row_insert_Inr:
  assumes "lib_ok l" "seed_row_insert l parent row s = (Inr i, s1)"
  obtains r where "r_id r = i" "r_parent r = parent" "r_code r = s_code row" "r_name r = s_name row"
    "row_violation l (orgs s) r = None" "s1 = s\<lparr>orgs := orgs s @ [r]\<rparr>" "find_row (orgs s1) i = Some r"
proof -
  let ?r = "\<lparr>r_id = mint l s, r_parent = parent, r_code = s_code row, r_name = s_name row, r_version = 1\<rparr>"
  from assms(2) have r: "row_violation l (orgs s) ?r = None" "s1 = s\<lparr>orgs := orgs s @ [?r]\<rparr>" "i = mint l s"
    by (auto simp: seed_row_insert_def Let_def split: if_splits option.splits)
  have "find_row (orgs s) (r_id ?r) = None"
    using lib_okD(1) [OF assms(1), of s] by (simp add: find_row_None)
  from find_row_append_new [OF this] r that [of ?r] show ?thesis by simp
qed

lemma seed_row_insert_Inl:
  assumes "lib_ok l" "seed_row_insert l parent row s = (Inl e, s1)" "errors_is NoRows e"
  shows "s1 = s \<and> find_seeded parent (s_code row) (orgs s) \<noteq> None
    \<and> match_code False (s_code row) \<and> s_name row \<noteq> []"
proof -
  have "\<not> errors_is NoRows e" if "row_violation l others r = Some e" for others r
    using that lib_ok_errors(1) [OF assms(1)] by (auto simp: row_violation_def split: if_splits option.splits)
  with assms(2,3) show ?thesis
    by (auto simp: seed_row_insert_def Let_def split: if_splits option.splits)
qed

text \<open>What one seeded row gives: its row under the parent, inserted with its event
  or found with none.\<close>
lemma seedOne_Inr:
  assumes l: "lib_ok l" and ok: "orgs_ok (orgs s)" and run: "seedOne l parent row s = (Inr (i, new), s')"
  obtains rs where "s' = emitting (s\<lparr>orgs := orgs s @ rs\<rparr>) (map created_event rs)"
    "length rs = (if new then 1 else 0)" "orgs_ok (orgs s')"
    "map_option r_id (find_seeded parent (s_code row) (orgs s')) = Some i"
    "match_code False (s_code row)" "s_name row \<noteq> []"
proof -
  from emit_Inr [OF l run [unfolded seedOne_def]] obtain q s1
    where b: "seedOne_body l parent row s = (Inr ((i, new), q), s1)" "s' = emitting s1 q" by blast
  obtain ri s2 where ins: "seed_row_insert l parent row s = (ri, s2)" by fastforce
  show ?thesis
  proof (cases ri)
    case (Inl e)
    with b(1) ins have "errors_is NoRows e" by (auto simp: seedOne_body_def split: if_splits)
    with seed_row_insert_Inl [OF l] ins Inl
    have "s2 = s" and fine: "match_code False (s_code row)" "s_name row \<noteq> []" by blast+
    with b ins Inl \<open>errors_is NoRows e\<close> obtain r where
      "find_seeded parent (s_code row) (orgs s) = Some r" "i = r_id r" "\<not> new" "q = []" "s1 = s"
      by (auto simp: seedOne_body_def split: option.splits)
    with b(2) ok fine that [of "[]"] show ?thesis by simp
  next
    case (Inr j)
    with ins seed_row_insert_Inr [OF l] obtain r where r: "r_id r = j" "r_parent r = parent" "r_code r = s_code row" "r_name r = s_name row"
      "row_violation l (orgs s) r = None" "s2 = s\<lparr>orgs := orgs s @ [r]\<rparr>" "find_row (orgs s2) j = Some r"
      by blast
    with b(1) ins Inr have q: "q = [created_event r]" "s1 = s2" "i = j" new
      by (auto simp: seedOne_body_def raiseStored_Inr created_event_def split: sum.splits)
    have "List.find (\<lambda>r. r_parent r = parent \<and> r_code r = s_code row) (orgs s) = None"
      using r(2-5) by (auto simp: find_None_iff row_violation_None)
    with r have "find_seeded parent (s_code row) (orgs s @ [r]) = Some r"
      by (simp add: find_seeded_def find_append)
    with b(2) q r that [of "[r]"] orgs_ok_insert [OF ok r(5)] row_violation_None [of l "orgs s" r] show ?thesis by simp
  qed
qed

lemma find_seeded_append:
  "find_seeded parent code os = Some r \<Longrightarrow> find_seeded parent code (os @ xs) = Some r"
  by (simp add: find_seeded_def find_append)

text \<open>A run that reports no error appended rows, as many as it counts, each with its
  event and nothing else.\<close>
lemma apply_rows_run:
  assumes l: "lib_ok l"
  shows "orgs_ok (orgs s) \<Longrightarrow> apply_rows l rows ids n s = ((m, None), s') \<Longrightarrow>
    \<exists>rs. s' = emitting (s\<lparr>orgs := orgs s @ rs\<rparr>) (map created_event rs) \<and> m = n + length rs \<and> orgs_ok (orgs s')"
proof (induction rows arbitrary: ids n s)
  case (Cons row rows)
  let ?parent = "if s_parent row \<noteq> [] then ids (s_parent row) else None"
  from Cons.prems(2) obtain i new s1 where one: "seedOne l ?parent row s = (Inr (i, new), s1)"
      "apply_rows l rows (ids(s_code row \<mapsto> i)) (if new then Suc n else n) s1 = ((m, None), s')"
    by (auto split: if_splits prod.splits sum.splits)
  obtain rs where rs: "s1 = emitting (s\<lparr>orgs := orgs s @ rs\<rparr>) (map created_event rs)"
    "length rs = (if new then 1 else 0)" "orgs_ok (orgs s1)"
    using seedOne_Inr [OF l Cons.prems(1) one(1)] by metis
  from Cons.IH [OF rs(3) one(2)] obtain rs1 where
    "s' = emitting (s1\<lparr>orgs := orgs s1 @ rs1\<rparr>) (map created_event rs1)"
    "m = (if new then Suc n else n) + length rs1" "orgs_ok (orgs s')" by blast
  with rs(1,2) show ?case by (intro exI [of _ "rs @ rs1"]) (auto split: if_splits)
qed simp

text \<open>A run over rows that already stand finds each one.\<close>
lemma seedOne_again:
  assumes l: "lib_ok l" and there: "find_seeded parent (s_code row) (orgs s) = Some r"
    and fine: "match_code False (s_code row)" "s_name row \<noteq> []"
  shows "seedOne l parent row s = (Inr (r_id r, False), s)"
  using there fine lib_ok_errors(2,4) [OF l]
  by (simp add: seedOne_def seedOne_body_def seed_row_insert_def emit_def Let_def)

lemma apply_rows_again:
  assumes l: "lib_ok l"
  shows "orgs_ok (orgs s) \<Longrightarrow> apply_rows l rows ids n s = ((m, None), s') \<Longrightarrow>
    orgs t = orgs s' @ xs \<Longrightarrow> apply_rows l rows ids k t = ((k, None), t)"
proof (induction rows arbitrary: ids n s)
  case (Cons row rows)
  let ?parent = "if s_parent row \<noteq> [] then ids (s_parent row) else None"
  from Cons.prems(2) have pass: "\<not> (s_parent row \<noteq> [] \<and> ids (s_parent row) = None)" "ids (s_code row) = None"
    by (auto split: if_splits)
  with Cons.prems(2) obtain i new s1 where one: "seedOne l ?parent row s = (Inr (i, new), s1)"
      "apply_rows l rows (ids(s_code row \<mapsto> i)) (if new then Suc n else n) s1 = ((m, None), s')"
    by (auto split: if_splits prod.splits sum.splits)
  obtain rs where rs: "s1 = emitting (s\<lparr>orgs := orgs s @ rs\<rparr>) (map created_event rs)" "orgs_ok (orgs s1)"
      "map_option r_id (find_seeded ?parent (s_code row) (orgs s1)) = Some i"
      "match_code False (s_code row)" "s_name row \<noteq> []"
    using seedOne_Inr [OF l Cons.prems(1) one(1)] by metis
  from apply_rows_run [OF l rs(2) one(2)] obtain rs1 where "orgs s' = orgs s1 @ rs1" by auto
  with rs(3) Cons.prems(3) obtain r where r: "find_seeded ?parent (s_code row) (orgs t) = Some r" "r_id r = i"
    by (auto simp: find_seeded_append)
  from seedOne_again [OF l r(1) rs(4,5)] r(2) have "seedOne l ?parent row t = (Inr (i, False), t)" by simp
  with pass Cons.IH [OF rs(2) one(2) Cons.prems(3)] show ?case by (simp add: fun_upd_def)
qed simp

lemma org_Apply_again:
  assumes "lib_ok l" "orgs_ok (orgs s)" "org_Apply l raw s = ((m, None), s')"
  shows "org_Apply l raw s' = ((0, None), s')"
  using assms apply_rows_again [OF assms(1,2), of _ Map.empty 0 m s' s' "[]" 0]
  by (auto simp: org_Apply_def split: sum.splits)

lemma org_Apply_run:
  assumes "lib_ok l" "orgs_ok (orgs s)" "org_Apply l raw s = ((m, None), s')"
  shows "\<exists>rs. s' = emitting (s\<lparr>orgs := orgs s @ rs\<rparr>) (map created_event rs) \<and> m = length rs \<and> orgs_ok (orgs s')"
  using assms apply_rows_run [OF assms(1,2), of _ Map.empty 0 m s']
  by (auto simp: org_Apply_def split: sum.splits)

end
