(* ===== verification/Seeding.thy ===== *)
theory Seeding
  imports OrgSeed "HOL-Library.List_Lexorder" "HOL-Library.Char_ord"
begin

text \<open>
  data/data.go and data/seed.go: the statements registry, the verifiers, and the
  seeder over the domains' contributions, rows in one transaction and files after
  it commits. The locale is what a row contribution promises the seeder; the
  organization's interprets it. A state file arrives decoded, a list of rows by
  contribution key; what Transact returns beside an error is left out, so a
  failed transaction reports no counts.
\<close>

section \<open>The registry\<close>

record ('st, 'v) database =
  registry :: "(string \<times> 'st) list"
  verifiers :: "'v list"

text \<open>Register: a name taken twice panics (None).\<close>
definition Register :: "string \<Rightarrow> 'st \<Rightarrow> 'v \<Rightarrow> ('st, 'v) database \<Rightarrow> ('st, 'v) database option" where
  "Register name stmts verifier d =
     (if map_of (registry d) name \<noteq> None then None
      else Some (d\<lparr>registry := registry d @ [(name, stmts)], verifiers := verifiers d @ [verifier]\<rparr>))"

definition Record :: "'v \<Rightarrow> ('st, 'v) database \<Rightarrow> ('st, 'v) database" where
  "Record v d = d\<lparr>verifiers := verifiers d @ [v]\<rparr>"

definition recorded :: "('st, 'v) database \<Rightarrow> 'v list" where
  "recorded d = verifiers d"

text \<open>Registry: the entries in name order.\<close>
definition Registry :: "('st, 'v) database \<Rightarrow> (string \<times> 'st) list" where
  "Registry d = sort_key fst (registry d)"

text \<open>The wiring: the data package's own statements, then each store in turn.\<close>
datatype ('st, 'v) wiring = Registers string 'st 'v | Records 'v

fun wire :: "('st, 'v) wiring list \<Rightarrow> ('st, 'v) database \<Rightarrow> ('st, 'v) database option" where
  "wire [] d = Some d"
| "wire (Registers name stmts v # ws) d =
     (case Register name stmts v d of None \<Rightarrow> None | Some d' \<Rightarrow> wire ws d')"
| "wire (Records v # ws) d = wire ws (Record v d)"

definition New :: "'st \<Rightarrow> 'v \<Rightarrow> ('st, 'v) database option" where
  "New stmts v = Register ''data'' stmts v \<lparr>registry = [], verifiers = []\<rparr>"

section \<open>The seeder\<close>

type_synonym ('r, 's) contribute = "'r \<Rightarrow> 's \<Rightarrow> (nat \<times> err option) \<times> 's"

datatype ('r, 's) contribution =
    RowSeed string "('r, 's) contribute"
  | FileSeed string "('r, 's) contribute"

fun ckey :: "('r, 's) contribution \<Rightarrow> string" where
  "ckey (RowSeed k _) = k"
| "ckey (FileSeed k _) = k"

text \<open>NewSeeder: two contributions under one key panic (None).\<close>
definition NewSeeder :: "('r, 's) contribution list \<Rightarrow> ('r, 's) contribution list option" where
  "NewSeeder cs = (if distinct (map ckey cs) then Some cs else None)"

type_synonym counts = "string \<Rightarrow> nat option"

fun run_rows :: "(string \<times> 'r) list \<Rightarrow> ('r, 's) contribution list \<Rightarrow> counts \<Rightarrow> ('s, counts) step" where
  "run_rows st [] n s = (Inr n, s)"
| "run_rows st (FileSeed k _ # cs) n s = run_rows st cs n s"
| "run_rows st (RowSeed k app # cs) n s =
     (case map_of st k of
        None \<Rightarrow> run_rows st cs n s
      | Some rows \<Rightarrow>
          (case app rows s of
             ((inserted, Some e), s1) \<Rightarrow> (Inl e, s1)
           | ((inserted, None), s1) \<Rightarrow> run_rows st cs (n(k \<mapsto> inserted)) s1))"

fun run_files :: "(string \<times> 'r) list \<Rightarrow> ('r, 's) contribution list \<Rightarrow> counts \<Rightarrow> 's \<Rightarrow> (counts \<times> err option) \<times> 's" where
  "run_files st [] n s = ((n, None), s)"
| "run_files st (RowSeed k _ # cs) n s = run_files st cs n s"
| "run_files st (FileSeed k write # cs) n s =
     (case map_of st k of
        None \<Rightarrow> run_files st cs n s
      | Some rows \<Rightarrow>
          (case write rows s of
             ((stored, Some e), s1) \<Rightarrow> ((n(k \<mapsto> stored), Some (wrapf (''seed '' @ k) e)), s1)
           | ((stored, None), s1) \<Rightarrow> run_files st cs (n(k \<mapsto> stored)) s1))"

text \<open>Every contribution's count starts at zero.\<close>
definition zero_counts :: "('r, 's) contribution list \<Rightarrow> counts" where
  "zero_counts cs = map_of (map (\<lambda>c. (ckey c, 0)) cs)"

text \<open>The keys of the state no contribution reads, in order.\<close>
definition unread_keys :: "(string \<times> 'r) list \<Rightarrow> ('r, 's) contribution list \<Rightarrow> string list" where
  "unread_keys st cs = filter (\<lambda>k. k \<notin> set (map ckey cs)) (sort (map fst st))"

definition Seed ::
    "'f lib \<Rightarrow> (string \<Rightarrow> (string \<times> 'r) list result) \<Rightarrow> ('r, 'f db) contribution list \<Rightarrow> string
     \<Rightarrow> 'f db \<Rightarrow> (counts option \<times> err option) \<times> 'f db" where
  "Seed l readSeed cs name s =
     (case readSeed name of
        Inl e \<Rightarrow> ((None, Some e), s)
      | Inr st \<Rightarrow>
          (case unread_keys st cs of
             k # _ \<Rightarrow> ((None, Some (plain (''seed '' @ name @ '': no contribution reads '' @ quoted k))), s)
           | [] \<Rightarrow>
               (case transact l (run_rows st cs (zero_counts cs)) s of
                  (Inl e, s1) \<Rightarrow> ((None, Some e), s1)
                | (Inr n, s1) \<Rightarrow>
                    (case run_files st cs n s1 of ((n', e), s2) \<Rightarrow> ((Some n', e), s2)))))"

section \<open>What a row contribution promises\<close>

locale row_contribution =
  fixes inv :: "'s \<Rightarrow> bool" and app :: "('r, 's) contribute"
  assumes keeps: "inv s \<Longrightarrow> app rows s = ((n, None), s1) \<Longrightarrow> inv s1"
    and rerun: "inv s \<Longrightarrow> app rows s = ((n, None), s1) \<Longrightarrow> app rows s1 = ((0, None), s1)"
begin

text \<open>Seeding a state again, however often, inserts nothing.\<close>
lemma reruns:
  assumes "inv s" "app rows s = ((n, None), s1)"
  shows "((\<lambda>r :: (nat \<times> err option) \<times> 's. app rows (snd r)) ^^ k) ((0, None), s1) = ((0, None), s1)"
proof (induction k)
  case (Suc k)
  with rerun [OF assms] show ?case by simp
qed simp

lemma rows_pass_again:
  assumes "inv s" "run_rows st [RowSeed k app] n s = (Inr n1, s1)"
  shows "run_rows st [RowSeed k app] m s1
    = (Inr (if map_of st k = None then m else m(k \<mapsto> 0)), s1)"
  using assms rerun by (auto split: option.splits prod.splits)

end

interpretation org_seed: row_contribution "\<lambda>s. orgs_ok (orgs s)" "org_Apply (lib_of d)"
  for d :: "'f driver"
proof unfold_locales
  fix s s1 :: "'f db" and rows n
  assume a: "orgs_ok (orgs s)" "org_Apply (lib_of d) rows s = ((n, None), s1)"
  from org_Apply_run [OF lib_of_ok a] show "orgs_ok (orgs s1)" by auto
  from org_Apply_again [OF lib_of_ok a] show "org_Apply (lib_of d) rows s1 = ((0, None), s1)" .
qed

section \<open>The stages of a seed\<close>

lemma unread_Nil: "unread_keys st cs = [] \<longleftrightarrow> fst ` set st \<subseteq> set (map ckey cs)"
  by (auto simp: unread_keys_def filter_empty_conv)

lemma Seed_unread:
  assumes "readSeed name = Inr st" "\<not> fst ` set st \<subseteq> set (map ckey cs)"
  shows "\<exists>e. Seed l readSeed cs name s = ((None, Some e), s)"
proof -
  from assms(2) obtain k ks where "unread_keys st cs = k # ks"
    unfolding unread_Nil [symmetric] by (cases "unread_keys st cs") auto
  with assms(1) show ?thesis by (simp add: Seed_def)
qed

lemma Seed_stages:
  assumes "lib_ok l" "Seed l readSeed cs name s = ((n, e), s')"
  shows "(e \<noteq> None \<and> n = None \<and> s' = s) \<or>
    (\<exists>st n1 s1 n2. readSeed name = Inr st \<and> fst ` set st \<subseteq> set (map ckey cs) \<and>
       run_rows st cs (zero_counts cs) s = (Inr n1, s1) \<and>
       run_files st cs n1 s1 = ((n2, e), s') \<and> n = Some n2)"
proof (cases "readSeed name")
  case (Inl er)
  with assms(2) show ?thesis by (auto simp: Seed_def)
next
  case read: (Inr st)
  show ?thesis
  proof (cases "unread_keys st cs")
    case (Cons k ks)
    with assms(2) read show ?thesis by (auto simp: Seed_def)
  next
    case Nil
    obtain r s1 where t: "transact l (run_rows st cs (zero_counts cs)) s = (r, s1)" by fastforce
    show ?thesis
    proof (cases r)
      case (Inl er)
      with t transact_Inl [OF assms(1)] have "s1 = s" by blast
      have "Seed l readSeed cs name s = ((None, Some er), s1)"
        unfolding Seed_def read sum.case Nil list.case t Inl prod.case by (rule refl)
      with assms(2) \<open>s1 = s\<close> show ?thesis by auto
    next
      case (Inr n1)
      obtain n2 e2 s2 where f: "run_files st cs n1 s1 = ((n2, e2), s2)" by (metis prod.exhaust)
      have "run_rows st cs (zero_counts cs) s = (Inr n1, s1)"
        by (rule transact_Inr [OF assms(1)]) (use t Inr in simp)
      moreover have "Seed l readSeed cs name s = ((Some n2, e2), s2)"
        unfolding Seed_def read sum.case Nil list.case t Inr prod.case f by (rule refl)
      then have "n = Some n2" "e = e2" "s' = s2" using assms(2) by auto
      moreover have "fst ` set st \<subseteq> set (map ckey cs)"
        using Nil by (rule unread_Nil [THEN iffD1])
      ultimately show ?thesis using read f
        by (intro disjI2 exI [of _ st] exI [of _ n1] exI [of _ s1] exI [of _ n2] conjI) simp_all
    qed
  qed
qed

end
