(* ===== verification/OrgProperties.thy ===== *)
theory OrgProperties
  imports Seeding
begin

text \<open>
  The properties of the organization layer over its whole life: every state its
  commands and seeds reach is a forest, a path names one organization, a command
  commits exactly its event, and a version admits one success.
\<close>

section \<open>The states the layer reaches\<close>

text \<open>From the empty table: any command, any seed in its transaction, and any
  step of another layer, which leaves the organization table as it is.\<close>
inductive org_reach :: "(string \<Rightarrow> bool) \<Rightarrow> 'f lib \<Rightarrow> 'f db \<Rightarrow> bool" for is_uuid l where
  start: "orgs s = [] \<Longrightarrow> org_reach is_uuid l s"
| command: "org_reach is_uuid l s \<Longrightarrow> run_org is_uuid l c s = (r, s') \<Longrightarrow> org_reach is_uuid l s'"
| seed: "org_reach is_uuid l s \<Longrightarrow> org_Apply l raw s = ((n, None), s') \<Longrightarrow> org_reach is_uuid l s'"
| beside: "org_reach is_uuid l s \<Longrightarrow> orgs s' = orgs s \<Longrightarrow> org_reach is_uuid l s'"

lemma run_org_forest:
  assumes "lib_ok l" "orgs_ok (orgs s)" "run_org is_uuid l c s = (r, s')"
  shows "orgs_ok (orgs s')"
proof (cases c)
  case (CreateO x)
  obtain r1 s1 where "Create is_uuid l x s = (r1, s1)" by fastforce
  with assms(3) CreateO create_forest [OF assms(1,2) this] show ?thesis
    by (auto simp: forget_def split: sum.splits)
next
  case (GuardedO g i v)
  with assms(3) guarded_forest [OF assms(1,2)] show ?thesis by simp
qed

text \<open>C1. The organization table is a forest in every state the layer reaches: ids
  and sibling codes are unique, every code and name passes its check, and every
  organization's parents lead to a root, so no transfer ever closes a cycle and
  every walk of the cycle check ends.\<close>
theorem organization_forest:
  assumes "lib_ok l" "org_reach is_uuid l s"
  shows "orgs_ok (orgs s) \<and> (\<forall>node candidate. in_subtree (orgs s) node candidate \<noteq> None)"
proof -
  from assms(2) have "orgs_ok (orgs s)"
  proof (induction rule: org_reach.induct)
    case (start s)
    then show ?case by (simp add: orgs_ok_def)
  next
    case (command s c r s')
    then show ?case using run_org_forest [OF assms(1)] by blast
  next
    case (seed s raw n s')
    then show ?case using org_Apply_run [OF assms(1)] by blast
  qed simp
  with in_subtree_returns show ?thesis by fastforce
qed

definition acme :: create_organization where
  "acme = \<lparr>c_parent = None, c_code = ''acme'', c_name = ''Acme''\<rparr>"

definition acme_row :: org_row where
  "acme_row = \<lparr>r_id = ''x'', r_parent = None, r_code = ''acme'', r_name = ''Acme'', r_version = 1\<rparr>"

definition labs_row :: org_row where
  "labs_row = \<lparr>r_id = ''y'', r_parent = Some ''x'', r_code = ''labs'', r_name = ''Labs'', r_version = 3\<rparr>"

definition demo_db :: "unit db" where
  "demo_db = \<lparr>orgs = [acme_row, labs_row], images = [], owners = [], outbox = [], blobs = ()\<rparr>"

lemma demo_chains:
  "chain [acme_row, labs_row] ''x'' [acme_row]"
  "chain [acme_row, labs_row] ''y'' [labs_row, acme_row]"
proof -
  show x: "chain [acme_row, labs_row] ''x'' [acme_row]"
    by (rule chain.root) (simp_all add: find_row_def acme_row_def)
  show "chain [acme_row, labs_row] ''y'' [labs_row, acme_row]"
    by (rule chain.step [OF _ _ x]) (simp_all add: find_row_def acme_row_def labs_row_def)
qed

lemma demo_fields [simp]:
  "r_id acme_row = ''x''" "r_parent acme_row = None" "r_code acme_row = ''acme''" "r_name acme_row = ''Acme''"
  "r_version acme_row = 1"
  "r_id labs_row = ''y''" "r_parent labs_row = Some ''x''" "r_code labs_row = ''labs''" "r_name labs_row = ''Labs''"
  "r_version labs_row = 3"
  by (simp_all add: acme_row_def labs_row_def)

lemma code_ok_demo: "match_code False ''acme''" "match_code False ''labs''"
  by (simp_all add: lower_alnum_def)

lemma demo_ok: "orgs_ok (orgs demo_db)"
proof -
  have rows: "orgs demo_db = [acme_row, labs_row]" by (simp add: demo_db_def)
  have way: "\<exists>rs. chain [acme_row, labs_row] (r_id r) rs" if "r \<in> {acme_row, labs_row}" for r
  proof (cases "r = acme_row")
    case True
    show ?thesis unfolding True demo_fields by (rule exI, rule demo_chains(1))
  next
    case False
    with that have r: "r = labs_row" by simp
    show ?thesis unfolding r demo_fields by (rule exI, rule demo_chains(2))
  qed
  have fields: "match_code False (r_code r) \<and> r_name r \<noteq> []" if "r \<in> {acme_row, labs_row}" for r
    using that code_ok_demo by (auto simp del: match_code.simps)
  show ?thesis
    unfolding orgs_ok_def rows using way fields by simp
qed

definition created_db :: "unit db" where
  "created_db = snd (run_org (\<lambda>_. True) plain_lib (CreateO acme) (empty_db ()))"

lemma created_reached: "org_reach (\<lambda>_. True) plain_lib created_db"
proof (rule org_reach.command)
  show "org_reach (\<lambda>_. True) plain_lib (empty_db ())"
    by (rule org_reach.start) (simp add: empty_db_def)
  show "run_org (\<lambda>_. True) plain_lib (CreateO acme) (empty_db ())
    = (fst (run_org (\<lambda>_. True) plain_lib (CreateO acme) (empty_db ())), created_db)"
    by (simp add: created_db_def)
qed

theorem organization_forest_witness:
  "orgs_ok (orgs created_db) \<and> (\<forall>node candidate. in_subtree (orgs created_db) node candidate \<noteq> None)"
  by (rule organization_forest [OF plain_lib_ok created_reached])

section \<open>The read model\<close>

lemma view_lookups:
  assumes ok: "orgs_ok (orgs s)"
  shows "distinct (map o_id (organization_view (orgs s)))
    \<and> o_id ` set (organization_view (orgs s)) = r_id ` set (orgs s)
    \<and> (\<forall>x\<in>set (organization_view (orgs s)). Find l (o_id x) s = Inr x \<and> FindByPath l (o_path x) s = Inr x)"
proof -
  note members = organization_view_members [OF ok]
  have ids: "o_id ` set (organization_view (orgs s)) = r_id ` set (orgs s)"
    using ok by (force simp: members organization_of_def orgs_ok_def)
  have d: "distinct (map o_id (organization_view (orgs s)))"
    by (rule organization_view_distinct [OF ok])
  have same: "x = y" if xy: "x \<in> set (organization_view (orgs s))" "y \<in> set (organization_view (orgs s))"
    "o_path y = o_path x" for x y
  proof -
    from xy(1) [unfolded members] obtain r rs where
      x: "x = organization_of (r, chain_path rs)" "r \<in> set (orgs s)" "chain (orgs s) (r_id r) rs" by blast
    from xy(2) [unfolded members] obtain r' rs' where
      y: "y = organization_of (r', chain_path rs')" "r' \<in> set (orgs s)" "chain (orgs s) (r_id r') rs'" by blast
    from xy(3) x(1) y(1) have "chain_path rs = chain_path rs'" by (simp add: organization_of_def)
    from chain_path_inj [OF ok x(3) y(3) this] have "rs = rs'" .
    moreover from ok x(2) y(2) have "find_row (orgs s) (r_id r) = Some r" "find_row (orgs s) (r_id r') = Some r'"
      by (simp_all add: orgs_ok_def find_row_mem)
    ultimately show ?thesis using x y chain_hd by fastforce
  qed
  have "Find l (o_id x) s = Inr x \<and> FindByPath l (o_path x) s = Inr x"
    if x: "x \<in> set (organization_view (orgs s))" for x
  proof -
    from x d have "List.find (\<lambda>y. o_id y = o_id x) (organization_view (orgs s)) = Some x"
      by (intro find_unique) (auto simp: distinct_map inj_on_def)
    moreover from x same have "List.find (\<lambda>y. o_path y = o_path x) (organization_view (orgs s)) = Some x"
      by (intro find_unique) auto
    ultimately show ?thesis by (simp add: Find_def FindByPath_def view_one_def)
  qed
  with d ids show ?thesis by blast
qed

text \<open>C9. A path names one organization: the read model shows every organization
  exactly once, and reading it back by its id or by its composed path finds it and
  no other.\<close>
theorem path_names_one:
  assumes "orgs_ok (orgs s)"
  shows "distinct (map o_id (organization_view (orgs s)))
    \<and> o_id ` set (organization_view (orgs s)) = r_id ` set (orgs s)
    \<and> (\<forall>x\<in>set (organization_view (orgs s)). Find l (o_id x) s = Inr x \<and> FindByPath l (o_path x) s = Inr x)"
  by (rule view_lookups [OF assms])

lemma demo_view: "organization_view (orgs demo_db) =
  [\<lparr>o_id = ''x'', o_parent = None, o_code = ''acme'', o_name = ''Acme'', o_version = 1, o_path = ''/acme''\<rparr>,
   \<lparr>o_id = ''y'', o_parent = Some ''x'', o_code = ''labs'', o_name = ''Labs'', o_version = 3, o_path = ''/acme/labs''\<rparr>]"
  by (simp add: organization_view_def demo_db_def lineage_roots_def lineage_next_def organization_of_def numeral_2_eq_2)

theorem path_names_one_witness:
  "map o_path (organization_view (orgs demo_db)) = [''/acme'', ''/acme/labs''] \<and>
   map_sum id o_id (FindByPath plain_lib ''/acme/labs'' demo_db) = Inr ''y''"
  using path_names_one [OF demo_ok, of plain_lib] unfolding demo_view by simp

end
