(* ===== verification/OrgEffects.thy ===== *)
theory OrgEffects
  imports OrgProperties
begin

text \<open>
  What a command of the organization does to the state: its one event, the one
  success a version admits, exactly when a transfer goes through, and what a seed
  inserts. The demonstration table of OrgProperties carries the witnesses.
\<close>

section \<open>Commands and their events\<close>

text \<open>C4. A command commits exactly its own event, about the organization it acted on
  and only with its change. When it succeeds that organization, the one a create
  answered with or the one the command named, at the named version, is left as the
  command asks and every other one as it was; the outbox gains one event, of the
  command's type, whose subject is that organization and whose data is the row it
  was left as, or, for a delete, its id and the version the row was removed at; and
  nothing beside the organization table changes. When it fails the whole state is the
  one before.\<close>
theorem command_events:
  assumes "lib_ok l" "run_org is_uuid l c s = (r, s')"
  shows "case r of
      Inl e \<Rightarrow> s' = s
    | Inr u \<Rightarrow> \<exists>i. commanded is_uuid l c s = Some i
        \<and> find_row (orgs s') i = left_row l c i (orgs s)
        \<and> (\<forall>j. j \<noteq> i \<longrightarrow> find_row (orgs s') j = find_row (orgs s) j)
        \<and> outbox s' = outbox s @ [Event (command_event c) i (left_payload c i (left_row l c i (orgs s)))]
        \<and> same_beside s s'"
  by (rule run_org_told [OF assms, unfolded org_told_def])

theorem command_events_witness:
  "outbox (snd (run_org (\<lambda>_. True) plain_lib (GuardedO DeleteC ''y'' 3) demo_db)) =
     outbox demo_db @ [Event OrganizationDeleted ''y'' (OrganizationDeletedP \<lparr>odd_id = ''y'', odd_version = 3\<rparr>)]"
proof -
  have "fst (run_org (\<lambda>_. True) plain_lib (GuardedO DeleteC ''y'' 3) demo_db) = Inr ()"
    by (simp add: demo_db_def forget_def Delete_def store_delete_def transact_def emit_def delete_body_def
        andthen_def delete_row_def guarded_def find_row_def give_def plain_lib_def)
  with command_events [OF plain_lib_ok, of "\<lambda>_. True" "GuardedO DeleteC ''y'' 3" demo_db
      "fst (run_org (\<lambda>_. True) plain_lib (GuardedO DeleteC ''y'' 3) demo_db)"
      "snd (run_org (\<lambda>_. True) plain_lib (GuardedO DeleteC ''y'' 3) demo_db)"]
  show ?thesis by (auto split: if_splits)
qed

text \<open>C19. No update is lost: of any edits, transfers and deletes sent to one
  organization at one version, in any order and number, at most one succeeds.\<close>
theorem one_success_per_version:
  assumes "lib_ok l" "\<forall>v. v < bump l v" "orgs_ok (orgs s)"
    "outcomes (run_guarded is_uuid l) i v cs s = (rs, s')"
  shows "length (filter (\<lambda>r. r = Inr ()) rs) \<le> 1"
proof -
  from driver_cases [OF assms(1,2)] obtain d where "l = lib_of d" by blast
  with assms(3,4) show ?thesis
    using org_guarded.one_success [of s is_uuid d i v cs rs s'] by simp
qed

theorem one_success_per_version_witness:
  "length (filter (\<lambda>r. r = Inr ()) (fst (outcomes (run_guarded (\<lambda>_. True) plain_lib) ''y'' 3
      [EditC \<lparr>e_code = ''lab'', e_name = ''Lab''\<rparr>, DeleteC] demo_db))) \<le> 1"
proof (rule one_success_per_version [OF plain_lib_ok _ demo_ok])
  show "\<forall>v. v < bump plain_lib v" by (simp add: plain_lib_def)
qed (rule prod.collapse [symmetric])

section \<open>When a transfer goes through\<close>

text \<open>The destinations a transfer of the node accepts: the root, or a standing
  organization whose way to the root does not meet the node.\<close>
definition destination_ok :: "org_row list \<Rightarrow> string \<Rightarrow> string option \<Rightarrow> bool" where
  "destination_ok os i dest =
     (case dest of None \<Rightarrow> True | Some p \<Rightarrow> \<exists>rs. chain os p rs \<and> i \<notin> r_id ` set rs)"

lemma destination_walk:
  assumes "orgs_ok os" "destination_ok os i dest" "dest = Some p"
  shows "in_subtree os i p = Some 0 \<and> find_row os p \<noteq> None \<and> p \<noteq> i"
proof -
  from assms(2,3) obtain rs where rs: "chain os p rs" "i \<notin> r_id ` set rs" by (auto simp: destination_ok_def)
  with in_subtree_zero [OF rs(1), of i] chain_hd [OF rs(1)] find_row_Some [of os p] show ?thesis
    by (cases rs) auto
qed

lemma transfer_violation:
  assumes ok: "orgs_ok os" and row: "find_row os i = Some r"
  shows "row_violation l (other_rows i os) (r\<lparr>r_parent := dest, r_version := v\<rparr>) = None \<longleftrightarrow>
    dest \<noteq> Some i \<and> (\<forall>x\<in>set os. r_id x \<noteq> i \<longrightarrow> r_parent x = dest \<longrightarrow> r_code x \<noteq> r_code r)
    \<and> (\<forall>p. dest = Some p \<longrightarrow> find_row os p \<noteq> None)"
  using find_row_Some [OF row] ok
  by (auto simp: row_violation_None other_rows_def find_row_other [unfolded other_rows_def] orgs_ok_def)

text \<open>The body of a transfer that goes through.\<close>
lemma transfer_body_goes:
  assumes l: "calm l" and ok: "orgs_ok (orgs s)" and r: "find_row (orgs s) i = Some r" "r_version r = v"
    "destination_ok (orgs s) i (t_parent t)"
    "\<forall>x\<in>set (orgs s). r_id x \<noteq> i \<longrightarrow> r_parent x = t_parent t \<longrightarrow> r_code x \<noteq> r_code r"
  shows "\<exists>q s1. run_script l (transfer_body l i v t) s = (Inr (\<lparr>i_id = i, i_version = bump l v\<rparr>, q), s1)"
proof -
  let ?r = "r\<lparr>r_parent := t_parent t, r_version := bump l v\<rparr>"
  have id: "r_id r = i" using find_row_Some [OF r(1)] by simp
  have dest: "in_subtree (orgs s) i p = Some 0 \<and> find_row (orgs s) p \<noteq> None \<and> p \<noteq> i" if "t_parent t = Some p" for p
    by (rule destination_walk [OF ok r(3) that])
  have fits: "row_violation l (other_rows i (orgs s)) ?r = None"
    using transfer_violation [OF ok r(1), where l = l and dest = "t_parent t" and v = "bump l v"] r(4) dest by auto
  have cycle: "cycle_check i t s = Inr ()" using dest by (auto simp: cycle_check_def split: option.splits)
  have "find_row (put_row ?r (orgs s)) i = Some ?r" using r(1) id by (simp add: find_row_put)
  then have stored: "raiseStored l OrganizationTransferred i (s\<lparr>orgs := put_row ?r (orgs s)\<rparr>)
      = Inr [Event OrganizationTransferred i (OrganizationP (stored_data ?r))]"
    by (simp add: raiseStored_Inr)
  have "run_script l (transfer_body l i v t) s = (Inr (\<lparr>i_id = i, i_version = bump l v\<rparr>,
      [Event OrganizationTransferred i (OrganizationP (stored_data ?r))]), s\<lparr>orgs := put_row ?r (orgs s)\<rparr>)"
    using l r(1,2) id fits cycle stored
    by (simp add: transfer_body_def transfer_write_def andthen_def Lock_def calm_def reading_def transfer_row_def guarded_def
        update_row_def give_def)
  then show ?thesis by blast
qed

text \<open>C18. Exactly when a transfer goes through, on a database that answers: the body
  is valid, the organization stands at the given version, the destination is the
  root or an organization outside its own subtree, and no organization beside it
  already has its code there.\<close>
theorem transfer_iff:
  assumes "lib_ok l" "calm l" "orgs_ok (orgs s)"
  shows "(\<exists>ident s'. Transfer is_uuid l i v t s = (Inr ident, s')) \<longleftrightarrow>
    transfer_Validate is_uuid t = None \<and>
    (\<exists>r. find_row (orgs s) i = Some r \<and> r_version r = v \<and> destination_ok (orgs s) i (t_parent t) \<and>
       (\<forall>x\<in>set (orgs s). r_id x \<noteq> i \<longrightarrow> r_parent x = t_parent t \<longrightarrow> r_code x \<noteq> r_code r))"
  (is "?goes \<longleftrightarrow> ?may")
proof
  assume ?goes
  then obtain ident s' where valid: "transfer_Validate is_uuid t = None"
    and run: "store_transfer l i v t s = (Inr ident, s')" by (auto simp: service_Inr)
  from run have "\<exists>r. find_row (orgs s) i = Some r \<and> r_version r = v \<and>
      row_violation l (other_rows i (orgs s)) (r\<lparr>r_parent := t_parent t, r_version := bump l v\<rparr>) = None \<and>
      (\<forall>p. t_parent t = Some p \<longrightarrow> in_subtree (orgs s) i p = Some 0)"
    by (rule store_transfer_Inr [OF assms(1)]) blast
  then obtain r where r: "find_row (orgs s) i = Some r" "r_version r = v"
      "row_violation l (other_rows i (orgs s)) (r\<lparr>r_parent := t_parent t, r_version := bump l v\<rparr>) = None"
      "\<forall>p. t_parent t = Some p \<longrightarrow> in_subtree (orgs s) i p = Some 0" by blast
  note fits = transfer_violation [OF assms(3) r(1), THEN iffD1, OF r(3)]
  with r(4) no_cycle [OF assms(3)] have "destination_ok (orgs s) i (t_parent t)"
    by (auto simp: destination_ok_def split: option.splits)
  with valid r(1,2) fits show ?may by blast
next
  assume ?may
  then obtain r where valid: "transfer_Validate is_uuid t = None" and r: "find_row (orgs s) i = Some r" "r_version r = v"
      "destination_ok (orgs s) i (t_parent t)"
      "\<forall>x\<in>set (orgs s). r_id x \<noteq> i \<longrightarrow> r_parent x = t_parent t \<longrightarrow> r_code x \<noteq> r_code r" by blast
  obtain q s1 where "run_script l (transfer_body l i v t) s = (Inr (\<lparr>i_id = i, i_version = bump l v\<rparr>, q), s1)"
    using transfer_body_goes [OF assms(2,3) r] by blast
  from calm_command [OF assms(2), of "run_script l (transfer_body l i v t)", OF this] valid show ?goes
    by (auto simp: Transfer_def store_transfer_def)
qed

theorem transfer_iff_witness:
  "(\<exists>ident s'. Transfer (\<lambda>_. True) plain_lib ''y'' 3 \<lparr>t_parent = None, t_present = True\<rparr> demo_db = (Inr ident, s'))"
  using transfer_iff [OF plain_lib_ok plain_lib_calm demo_ok, of "\<lambda>_. True" "''y''" 3 "\<lparr>t_parent = None, t_present = True\<rparr>"]
  by (auto simp: demo_db_def find_row_def destination_ok_def transfer_Validate_def validParent_def)

end
