(* ===== verification/OrgLocking.thy ===== *)
theory OrgLocking
  imports OrgEffects
begin

text \<open>
  Transfers that interleave with each other and with the layer's other commands.
  What a transfer does is its own script, transfer_body of OrgStore: the relation
  runs one statement of it at a time, each on the committed tables as they then
  stand, so any order of any transactions' statements is a path of it. A lock
  statement waits while another transaction holds the name, and a commit or a
  rollback releases what its transaction took. The script is a parameter of the
  relation, so the same steps run a transfer without its lock.
\<close>

section \<open>Interleaved transfers\<close>

type_synonym 'f transfer_script = "('f, identity \<times> event list) script"

text \<open>A session between transactions, or in a transfer with what is left of it.\<close>
datatype 'f phase =
    Idle
  | Running string int transfer_organization "'f transfer_script"

record 'f conc =
  cdb :: "'f db"
  holder :: "string \<Rightarrow> nat option"       \<comment> \<open>by the lock's name\<close>
  phases :: "nat \<Rightarrow> 'f phase"

fun named_by :: "'f phase \<Rightarrow> string set" where
  "named_by Idle = {}"
| "named_by (Running i v t k) = insert i (set_option (t_parent t))"

definition release :: "nat \<Rightarrow> (string \<Rightarrow> nat option) \<Rightarrow> string \<Rightarrow> nat option" where
  "release k h n = (if h n = Some k then None else h n)"

text \<open>The commands that take no lock: one transaction each, run whole.\<close>
fun lock_free :: "org_command \<Rightarrow> bool" where
  "lock_free (GuardedO (TransferC t) i v) = False"
| "lock_free _ = True"

text \<open>One statement of one session. A transfer begins as its script; a lock statement
  goes on once no other session holds the name; a check goes on when it passes; the
  last statement, with what follows it, commits; any error of the transaction, and
  any loss of its session, rolls it back. A row another command inserts has an id no
  transfer under way names, as the engine's ids never repeat.\<close>
inductive tree_step ::
    "(string \<Rightarrow> int \<Rightarrow> transfer_organization \<Rightarrow> 'f transfer_script) \<Rightarrow> (string \<Rightarrow> bool) \<Rightarrow> 'f lib \<Rightarrow> 'f conc \<Rightarrow> 'f conc \<Rightarrow> bool"
  for body is_uuid l where
  start: "phases c k = Idle \<Longrightarrow>
    tree_step body is_uuid l c (c\<lparr>phases := (phases c)(k := Running i v t (body i v t))\<rparr>)"
| lock: "phases c k = Running i v t (Locking n p) \<Longrightarrow> holder c n \<in> {None, Some k} \<Longrightarrow>
    Lock l n (cdb c) = (Inr (), cdb c) \<Longrightarrow>
    tree_step body is_uuid l c (c\<lparr>holder := (holder c)(n := Some k), phases := (phases c)(k := Running i v t p)\<rparr>)"
| check: "phases c k = Running i v t (Checking q p) \<Longrightarrow> q (cdb c) = Inr () \<Longrightarrow>
    tree_step body is_uuid l c (c\<lparr>phases := (phases c)(k := Running i v t p)\<rparr>)"
| commit: "phases c k = Running i v t (Writing m) \<Longrightarrow> transact l (emit l m) (cdb c) = (Inr x, s) \<Longrightarrow>
    tree_step body is_uuid l c (c\<lparr>cdb := s, holder := release k (holder c), phases := (phases c)(k := Idle)\<rparr>)"
| rollback: "phases c k \<noteq> Idle \<Longrightarrow>
    tree_step body is_uuid l c (c\<lparr>holder := release k (holder c), phases := (phases c)(k := Idle)\<rparr>)"
| other: "lock_free cmd \<Longrightarrow> run_org is_uuid l cmd (cdb c) = (r, s) \<Longrightarrow>
    (\<forall>k. \<forall>i\<in>named_by (phases c k). i \<in> r_id ` set (orgs s) \<longrightarrow> i \<in> r_id ` set (orgs (cdb c))) \<Longrightarrow>
    tree_step body is_uuid l c (c\<lparr>cdb := s\<rparr>)"

inductive tree_reach ::
    "(string \<Rightarrow> int \<Rightarrow> transfer_organization \<Rightarrow> 'f transfer_script) \<Rightarrow> (string \<Rightarrow> bool) \<Rightarrow> 'f lib \<Rightarrow> 'f conc \<Rightarrow> 'f conc \<Rightarrow> bool"
  for body is_uuid l c0 where
  here: "tree_reach body is_uuid l c0 c0"
| more: "tree_reach body is_uuid l c0 c \<Longrightarrow> tree_step body is_uuid l c c' \<Longrightarrow>
    tree_reach body is_uuid l c0 c'"

section \<open>The destination stays safe until the update\<close>

definition dest_safe :: "org_row list \<Rightarrow> string \<Rightarrow> string option \<Rightarrow> bool" where
  "dest_safe os i dest =
     (case dest of
        None \<Rightarrow> True
      | Some p \<Rightarrow> find_row os p = None \<or> (\<exists>rs. chain os p rs \<and> i \<notin> r_id ` set rs))"

lemma chain_put_edit:
  assumes "chain os i rs" "find_row os (r_id r) = Some r0" "r_parent r = r_parent r0"
  shows "chain (put_row r os) i (map (\<lambda>x. if r_id x = r_id r then r else x) rs)"
  using assms
proof (induction rule: chain.induct)
  case (root i r1)
  then show ?case using find_row_Some [of os i r1]
    by (cases "i = r_id r") (auto intro!: chain.root simp: find_row_put)
next
  case (step i r1 p rs)
  then show ?case using find_row_Some [of os i r1]
    by (cases "i = r_id r") (auto intro!: chain.step simp: find_row_put)
qed

lemma dest_safe_edit:
  assumes "dest_safe os i dest" "find_row os (r_id r) = Some r0" "r_parent r = r_parent r0"
  shows "dest_safe (put_row r os) i dest"
proof (cases dest)
  case (Some p)
  show ?thesis
  proof (cases "find_row os p")
    case None
    with assms(2) have "find_row (put_row r os) p = None" by (auto simp: find_row_put)
    then show ?thesis by (simp add: dest_safe_def Some)
  next
    case (Some q)
    with assms(1) \<open>dest = Some p\<close> obtain rs where rs: "chain os p rs" "i \<notin> r_id ` set rs"
      by (auto simp: dest_safe_def)
    have "i \<notin> r_id ` set (map (\<lambda>x. if r_id x = r_id r then r else x) rs)"
      using rs(2) by auto (metis image_eqI)
    with chain_put_edit [OF rs(1) assms(2,3)] show ?thesis
      unfolding dest_safe_def \<open>dest = Some p\<close> option.case by blast
  qed
qed (simp add: dest_safe_def)

lemma dest_safe_append:
  assumes "dest_safe os i dest" "dest \<noteq> Some (r_id n)"
  shows "dest_safe (os @ [n]) i dest"
  using assms chain_append [of os _ _ "[n]"]
  by (fastforce simp: dest_safe_def find_row_def find_append split: option.splits)

lemma dest_safe_remove:
  assumes safe: "dest_safe os i dest" and leaf: "\<forall>r\<in>set os. r_parent r \<noteq> Some d"
  shows "dest_safe (other_rows d os) i dest"
proof (cases dest)
  case (Some p)
  show ?thesis
  proof (cases "p = d \<or> find_row os p = None")
    case True
    then have "find_row (other_rows d os) p = None" by (auto simp: find_row_other)
    then show ?thesis by (simp add: dest_safe_def Some)
  next
    case False
    with safe Some obtain rs where rs: "chain os p rs" "i \<notin> r_id ` set rs" by (auto simp: dest_safe_def)
    have "chain (other_rows d os) p rs"
      by (rule chain_put_same [OF rs(1) chain_no_child [OF rs(1) _ leaf]]) (use False in \<open>auto simp: find_row_other\<close>)
    with rs(2) show ?thesis unfolding dest_safe_def Some option.case by blast
  qed
qed (simp add: dest_safe_def)

text \<open>A command that takes no lock keeps every checked destination safe.\<close>
lemma dest_safe_other:
  assumes l: "lib_ok l" and free: "lock_free cmd" and run: "run_org is_uuid l cmd s = (r, s')"
    and new: "\<forall>p. dest = Some p \<longrightarrow> p \<in> r_id ` set (orgs s') \<longrightarrow> p \<in> r_id ` set (orgs s)"
    and safe: "dest_safe (orgs s) i dest"
  shows "dest_safe (orgs s') i dest"
proof (cases r)
  case (Inl e)
  with run_org_Inl [OF l] run safe show ?thesis by blast
next
  case (Inr u)
  show ?thesis
  proof (cases cmd)
    case (CreateO x)
    with run Inr obtain ident where "store_create l x s = (Inr ident, s')" by (auto simp: forget_Inr service_Inr)
    then show ?thesis
    proof (rule store_create_Inr [OF l])
      fix r0
      assume "r0 = \<lparr>r_id = mint l s, r_parent = c_parent x, r_code = c_code x, r_name = c_name x, r_version = 1\<rparr>"
        and s': "s' = emitting (s\<lparr>orgs := orgs s @ [r0]\<rparr>) [Event OrganizationCreated (r_id r0) (OrganizationP (stored_data r0))]"
      then have "r_id r0 \<notin> r_id ` set (orgs s)" using lib_okD(1) [OF l, of s] by simp
      with new s' have "dest \<noteq> Some (r_id r0)" by auto
      from dest_safe_append [OF safe this] s' show ?thesis by simp
    qed
  next
    case (GuardedO g j v)
    show ?thesis
    proof (cases g)
      case (EditC e)
      with run Inr GuardedO obtain ident where "store_edit l j v e s = (Inr ident, s')"
        by (auto simp: forget_Inr service_Inr)
      then show ?thesis
      proof (rule store_edit_Inr [OF l])
        fix r0 r1
        assume r: "find_row (orgs s) j = Some r0"
            "r1 = r0\<lparr>r_code := e_code e, r_name := e_name e, r_version := bump l v\<rparr>"
          and s': "s' = emitting (s\<lparr>orgs := put_row r1 (orgs s)\<rparr>) [Event OrganizationEdited j (OrganizationP (stored_data r1))]"
        from r find_row_Some [OF r(1)] have "find_row (orgs s) (r_id r1) = Some r0" "r_parent r1 = r_parent r0" by simp_all
        from dest_safe_edit [OF safe this] s' show ?thesis by simp
      qed
    next
      case DeleteC
      with run Inr GuardedO have "store_delete l j v s = (Inr (), s')" by (auto simp: forget_Inr service_Inr)
      then show ?thesis
        by (rule store_delete_Inr [OF l]) (simp add: dest_safe_remove [OF safe])
    qed (use free GuardedO in simp)
  qed
qed

section \<open>The lock keeps the forest\<close>

text \<open>What a session in a transfer has left, and what it has made sure of: from the
  check on it holds the tree lock, and after it its destination is safe.\<close>
definition session_ok :: "'f lib \<Rightarrow> 'f conc \<Rightarrow> nat \<Rightarrow> bool" where
  "session_ok l c k =
     (case phases c k of
        Idle \<Rightarrow> True
      | Running i v t p \<Rightarrow>
          p = transfer_body l i v t \<or>
          holder c LockOrganizationTree = Some k \<and>
            (p = Checking (cycle_check i t) (Writing (transfer_write l i v t)) \<or>
             p = Writing (transfer_write l i v t) \<and> dest_safe (orgs (cdb c)) i (t_parent t)))"

definition conc_ok :: "'f lib \<Rightarrow> 'f conc \<Rightarrow> bool" where
  "conc_ok l c \<longleftrightarrow> orgs_ok (orgs (cdb c)) \<and> (\<forall>k. session_ok l c k)"

text \<open>A session that does not hold the tree lock is before its check.\<close>
lemma session_outside:
  "session_ok l c k \<Longrightarrow> holder c LockOrganizationTree \<noteq> Some k \<Longrightarrow>
   (\<forall>i v t p. phases c k = Running i v t p \<longrightarrow> p = transfer_body l i v t)"
  by (auto simp: session_ok_def)

lemma session_at_body:
  "(\<forall>i v t p. phases c k = Running i v t p \<longrightarrow> p = transfer_body l i v t) \<Longrightarrow> session_ok l c k"
  by (auto simp: session_ok_def split: phase.splits)

lemma cycle_check_safe:
  assumes "orgs_ok (orgs s)" "cycle_check i t s = Inr ()"
  shows "dest_safe (orgs s) i (t_parent t)"
proof (cases "t_parent t")
  case (Some p)
  with assms(2) have "in_subtree (orgs s) i p = Some 0" by (simp add: cycle_check_Inr)
  with no_cycle [OF assms(1), of p i] show ?thesis
    by (cases "find_row (orgs s) p") (auto simp: dest_safe_def Some)
qed (simp add: dest_safe_def)

lemma transfer_row_forest:
  assumes ok: "orgs_ok (orgs s)" and safe: "dest_safe (orgs s) i (t_parent t)"
    and run: "transfer_row l i v t s = (Inr x, s')"
  shows "orgs_ok (orgs s')"
proof -
  from run obtain r0 where r0: "find_row (orgs s) i = Some r0"
      "row_violation l (other_rows (r_id r0) (orgs s)) (r0\<lparr>r_parent := t_parent t, r_version := bump l (r_version r0)\<rparr>) = None"
      "s' = s\<lparr>orgs := put_row (r0\<lparr>r_parent := t_parent t, r_version := bump l (r_version r0)\<rparr>) (orgs s)\<rparr>"
    by (auto simp: transfer_row_def guarded_Inr update_row_Inr)
  let ?r = "r0\<lparr>r_parent := t_parent t, r_version := bump l (r_version r0)\<rparr>"
  have id: "r_id ?r = i" using find_row_Some [OF r0(1)] by simp
  have "\<exists>rs. chain (orgs s) p rs \<and> r_id ?r \<notin> r_id ` set rs" if "r_parent ?r = Some p" for p
  proof -
    from that r0(2) have "find_row (other_rows i (orgs s)) p \<noteq> None" using id by (simp add: row_violation_None)
    then have "find_row (orgs s) p \<noteq> None" by (simp add: find_row_other split: if_splits)
    with safe that id show ?thesis by (auto simp: dest_safe_def)
  qed
  with chain_put_move [of "orgs s" ?r] r0(1) id have "\<exists>rs. chain (put_row ?r (orgs s)) i rs" by simp
  with put_forest [OF ok r0(1) id] r0(2,3) id show ?thesis by simp
qed

lemma transfer_write_forest:
  assumes l: "lib_ok l" and ok: "orgs_ok (orgs s)" and safe: "dest_safe (orgs s) i (t_parent t)"
    and run: "transact l (emit l (transfer_write l i v t)) s = (Inr x, s')"
  shows "orgs_ok (orgs s')"
proof -
  obtain q s1 where q: "transfer_write l i v t s = (Inr (x, q), s1)" "s' = emitting s1 q"
    by (rule command_Inr [OF l run]) blast
  then obtain v' where "transfer_row l i v t s = (Inr v', s1)"
    by (auto simp: transfer_write_def step_iffs)
  from transfer_row_forest [OF ok safe this] q(2) show ?thesis by simp
qed

text \<open>A commit by the lock's holder leaves every other session before its check.\<close>
lemma others_outside:
  assumes inv: "conc_ok l c" and held: "holder c LockOrganizationTree = Some k" and j: "j \<noteq> k"
  shows "\<forall>i v t p. phases c j = Running i v t p \<longrightarrow> p = transfer_body l i v t"
  using session_outside [of l c j] inv held j by (simp add: conc_ok_def)

text \<open>A session whose phase and whose hold on the tree lock are as they were stays in
  order while its destination does.\<close>
lemma session_kept:
  assumes "session_ok l c j" "phases c' j = phases c j"
    "holder c LockOrganizationTree = Some j \<Longrightarrow> holder c' LockOrganizationTree = Some j"
    "\<And>i v t p. phases c j = Running i v t p \<Longrightarrow> dest_safe (orgs (cdb c)) i (t_parent t) \<Longrightarrow>
       dest_safe (orgs (cdb c')) i (t_parent t)"
  shows "session_ok l c' j"
  using assms by (auto simp: session_ok_def split: phase.splits)

lemma tree_step_ok:
  assumes l: "lib_ok l" and inv: "conc_ok l c" and step: "tree_step (transfer_body l) is_uuid l c c'"
  shows "conc_ok l c'"
proof -
  have ok: "orgs_ok (orgs (cdb c))" and sess: "\<And>k. session_ok l c k" using inv by (simp_all add: conc_ok_def)
  from step show ?thesis
  proof (cases rule: tree_step.cases)
    case (start k i v t)
    have "session_ok l c' j" for j
    proof (cases "j = k")
      case True
      then show ?thesis by (simp add: start(1) session_ok_def)
    next
      case False
      show ?thesis by (rule session_kept [OF sess]) (use False in \<open>auto simp: start(1)\<close>)
    qed
    with ok show ?thesis by (simp add: conc_ok_def start(1))
  next
    case (lock k i v t n p)
    have p: "n = LockOrganizationTree \<and> p = Checking (cycle_check i t) (Writing (transfer_write l i v t))"
      using sess [of k] lock(2) by (simp add: session_ok_def transfer_body_def)
    have "session_ok l c' j" for j
    proof (cases "j = k")
      case True
      then show ?thesis using p by (simp add: lock(1) session_ok_def)
    next
      case False
      show ?thesis by (rule session_kept [OF sess]) (use False lock(3) p in \<open>auto simp: lock(1)\<close>)
    qed
    with ok show ?thesis by (simp add: conc_ok_def lock(1))
  next
    case (check k i v t q p)
    have p: "holder c LockOrganizationTree = Some k" "q = cycle_check i t" "p = Writing (transfer_write l i v t)"
      using sess [of k] check(2) by (auto simp: session_ok_def transfer_body_def)
    have "session_ok l c' j" for j
    proof (cases "j = k")
      case True
      then show ?thesis using p cycle_check_safe [OF ok] check(3) by (simp add: check(1) session_ok_def)
    next
      case False
      show ?thesis by (rule session_kept [OF sess]) (use False in \<open>auto simp: check(1)\<close>)
    qed
    with ok show ?thesis by (simp add: conc_ok_def check(1))
  next
    case (commit k i v t m x s)
    have p: "holder c LockOrganizationTree = Some k" "m = transfer_write l i v t" "dest_safe (orgs (cdb c)) i (t_parent t)"
      using sess [of k] commit(2) by (auto simp: session_ok_def transfer_body_def)
    have "session_ok l c' j" for j
    proof (cases "j = k")
      case True
      then show ?thesis by (simp add: commit(1) session_ok_def)
    next
      case False
      then show ?thesis using others_outside [OF inv p(1) False] by (intro session_at_body) (simp add: commit(1))
    qed
    with transfer_write_forest [OF l ok p(3)] commit(3) p(2) show ?thesis by (simp add: conc_ok_def commit(1))
  next
    case (rollback k)
    have "session_ok l c' j" for j
    proof (cases "j = k")
      case True
      then show ?thesis by (simp add: rollback(1) session_ok_def)
    next
      case False
      show ?thesis by (rule session_kept [OF sess]) (use False in \<open>auto simp: rollback(1) release_def\<close>)
    qed
    with ok show ?thesis by (simp add: conc_ok_def rollback(1))
  next
    case (other cmd r s)
    have safe: "dest_safe (orgs s) i (t_parent t)"
      if ph: "phases c j = Running i v t p" and d: "dest_safe (orgs (cdb c)) i (t_parent t)" for j i v t p
    proof (rule dest_safe_other [OF l other(2,3) _ d])
      show "\<forall>p. t_parent t = Some p \<longrightarrow> p \<in> r_id ` set (orgs s) \<longrightarrow> p \<in> r_id ` set (orgs (cdb c))"
        using other(4) ph by (metis insertI2 named_by.simps(2) option.set_intros)
    qed
    have "session_ok l c' j" for j
      by (rule session_kept [OF sess]) (simp_all add: other(1) safe)
    moreover have "orgs_ok (orgs s)" by (rule run_org_forest [OF l ok other(3)])
    ultimately show ?thesis by (simp add: conc_ok_def other(1))
  qed
qed

text \<open>C6. The tree lock keeps the forest. Every transfer runs the script the code has,
  transfer_body, a statement at a time on the tables as they then stand: from a table
  in order and no transfer under way, however the statements of any number of
  transfers interleave with each other and with creates, edits and deletes, no update
  closes a cycle, because each transfer takes the one lock before its check and keeps
  it to its commit.\<close>
theorem locked_transfers_safe:
  assumes "lib_ok l" "orgs_ok (orgs (cdb c0))" "\<forall>k. phases c0 k = Idle"
    "tree_reach (transfer_body l) is_uuid l c0 c"
  shows "orgs_ok (orgs (cdb c))"
proof -
  from assms(4) have "conc_ok l c"
  proof (induction rule: tree_reach.induct)
    case here
    with assms(2,3) show ?case by (simp add: conc_ok_def session_ok_def)
  next
    case (more c c')
    then show ?case using tree_step_ok [OF assms(1)] by blast
  qed
  then show ?thesis by (simp add: conc_ok_def)
qed

text \<open>A transfer no other session interrupts is the store's transfer.\<close>
lemma transfer_alone:
  assumes l: "lib_ok l" and idle: "phases c k = Idle" and free: "holder c LockOrganizationTree = None" "\<forall>n. holder c n \<noteq> Some k"
    and run: "store_transfer l i v t (cdb c) = (Inr x, s)"
  shows "tree_reach (transfer_body l) is_uuid l c (c\<lparr>cdb := s\<rparr>)"
proof -
  obtain q s1 where "run_script l (transfer_body l i v t) (cdb c) = (Inr (x, q), s1)"
    by (rule command_Inr [OF l run [unfolded store_transfer_def]]) blast
  then have go: "Lock l LockOrganizationTree (cdb c) = (Inr (), cdb c)" "cycle_check i t (cdb c) = Inr ()"
    by (auto simp: transfer_body_def step_iffs Lock_iff)
  then have "run_script l (transfer_body l i v t) (cdb c) = transfer_write l i v t (cdb c)"
    by (simp add: transfer_body_def andthen_def reading_def)
  then have same: "emit l (run_script l (transfer_body l i v t)) (cdb c) = emit l (transfer_write l i v t) (cdb c)"
    by (simp add: emit_def)
  from run have wr: "transact l (emit l (transfer_write l i v t)) (cdb c) = (Inr x, s)"
    unfolding store_transfer_def transact_def same .
  let ?at = "\<lambda>p. c\<lparr>holder := (holder c)(LockOrganizationTree := Some k), phases := (phases c)(k := Running i v t p)\<rparr>"
  let ?check = "Checking (cycle_check i t) (Writing (transfer_write l i v t))"
  have "tree_reach (transfer_body l) is_uuid l c (c\<lparr>phases := (phases c)(k := Running i v t (transfer_body l i v t))\<rparr>)"
    by (rule tree_reach.more [OF tree_reach.here tree_step.start [where k = k]]) (rule idle)
  moreover have "tree_step (transfer_body l) is_uuid l (c\<lparr>phases := (phases c)(k := Running i v t (transfer_body l i v t))\<rparr>) (?at ?check)"
    using tree_step.lock [where c = "c\<lparr>phases := (phases c)(k := Running i v t (transfer_body l i v t))\<rparr>" and k = k] go(1) free(1)
    by (simp add: transfer_body_def)
  moreover have "tree_step (transfer_body l) is_uuid l (?at ?check) (?at (Writing (transfer_write l i v t)))"
    using tree_step.check [where c = "?at ?check" and k = k] go(2) by simp
  moreover have "tree_step (transfer_body l) is_uuid l (?at (Writing (transfer_write l i v t))) (c\<lparr>cdb := s\<rparr>)"
  proof -
    have "release k ((holder c)(LockOrganizationTree := Some k)) = holder c" "(phases c)(k := Idle) = phases c"
      using free idle by (auto simp: release_def fun_eq_iff)
    with tree_step.commit [where c = "?at (Writing (transfer_write l i v t))" and k = k] wr show ?thesis by simp
  qed
  ultimately show ?thesis by (blast intro: tree_reach.more)
qed

definition demo_conc :: "unit conc" where
  "demo_conc = \<lparr>cdb = demo_db, holder = (\<lambda>_. None), phases = (\<lambda>_. Idle)\<rparr>"

definition demo_move :: transfer_organization where
  "demo_move = \<lparr>t_parent = None, t_present = True\<rparr>"

theorem locked_transfers_safe_witness:
  "\<exists>ident s. store_transfer plain_lib ''y'' 3 demo_move demo_db = (Inr ident, s) \<and> orgs_ok (orgs s)"
proof -
  have "\<exists>q s1. run_script plain_lib (transfer_body plain_lib ''y'' 3 demo_move) demo_db
      = (Inr (\<lparr>i_id = ''y'', i_version = bump (plain_lib :: unit lib) 3\<rparr>, q), s1)"
    using transfer_body_goes [OF plain_lib_calm demo_ok, of "''y''" labs_row 3 demo_move]
    by (auto simp: demo_move_def demo_db_def find_row_def destination_ok_def labs_row_def acme_row_def)
  then obtain q s1 where "run_script plain_lib (transfer_body plain_lib ''y'' 3 demo_move) demo_db
      = (Inr (\<lparr>i_id = ''y'', i_version = bump (plain_lib :: unit lib) 3\<rparr>, q), s1)" by blast
  from calm_command [OF plain_lib_calm, of "run_script plain_lib (transfer_body plain_lib ''y'' 3 demo_move)", OF this]
  obtain ident s where run: "store_transfer plain_lib ''y'' 3 demo_move (cdb demo_conc) = (Inr ident, s)"
    by (auto simp: store_transfer_def demo_conc_def)
  have "tree_reach (transfer_body plain_lib) (\<lambda>_. True) plain_lib demo_conc (demo_conc\<lparr>cdb := s\<rparr>)"
    by (rule transfer_alone [OF plain_lib_ok _ _ _ run, where k = 0]) (simp_all add: demo_conc_def)
  from locked_transfers_safe [OF plain_lib_ok _ _ this] demo_ok run show ?thesis
    by (auto simp: demo_conc_def)
qed

section \<open>Without the lock\<close>

definition root_a :: org_row where
  "root_a = \<lparr>r_id = ''a'', r_parent = None, r_code = ''a'', r_name = ''A'', r_version = 1\<rparr>"
definition root_b :: org_row where
  "root_b = \<lparr>r_id = ''b'', r_parent = None, r_code = ''b'', r_name = ''B'', r_version = 1\<rparr>"

definition two_roots :: "unit db" where
  "two_roots = \<lparr>orgs = [root_a, root_b], images = [], owners = [], outbox = [], blobs = ()\<rparr>"

definition under :: "string \<Rightarrow> transfer_organization" where
  "under p = \<lparr>t_parent = Some p, t_present = True\<rparr>"

text \<open>The script without its lock.\<close>
fun without_lock :: "('f, 'a) script \<Rightarrow> ('f, 'a) script" where
  "without_lock (Locking n p) = p"
| "without_lock p = p"

definition unlocked :: "string \<Rightarrow> int \<Rightarrow> transfer_organization \<Rightarrow> unit transfer_script" where
  "unlocked i v t = without_lock (transfer_body plain_lib i v t)"

definition conc_at :: "unit db \<Rightarrow> unit phase \<Rightarrow> unit phase \<Rightarrow> unit conc" where
  "conc_at s p0 p1 = \<lparr>cdb = s, holder = (\<lambda>_. None), phases = (\<lambda>_. Idle)(0 := p0, 2 := p1)\<rparr>"

definition crossed_rows :: "org_row list" where
  "crossed_rows = [root_a\<lparr>r_parent := Some ''b'', r_version := 2\<rparr>, root_b\<lparr>r_parent := Some ''a'', r_version := 2\<rparr>]"

lemma crossed_no_root: "\<not> chain crossed_rows i rs"
proof
  assume "chain crossed_rows i rs"
  then show False
    by (induction rule: chain.induct)
      (auto simp: crossed_rows_def find_row_def root_a_def root_b_def split: if_splits)
qed

lemma two_roots_checks:
  "cycle_check ''a'' (under ''b'') two_roots = Inr ()"
  "cycle_check ''b'' (under ''a'') two_roots = Inr ()"
  by (simp_all add: cycle_check_def under_def in_subtree_def two_roots_def root_a_def root_b_def
      ancestors.simps find_row_def)

lemma two_roots_writes:
  "transfer_row plain_lib ''a'' 1 (under ''b'') two_roots =
     (Inr 2, two_roots\<lparr>orgs := [root_a\<lparr>r_parent := Some ''b'', r_version := 2\<rparr>, root_b]\<rparr>)"
  "orgs s = [root_a\<lparr>r_parent := Some ''b'', r_version := 2\<rparr>, root_b] \<Longrightarrow>
     transfer_row plain_lib ''b'' 1 (under ''a'') s = (Inr 2, s\<lparr>orgs := crossed_rows\<rparr>)"
  by (simp_all add: transfer_row_def guarded_def update_row_def two_roots_def root_a_def root_b_def under_def
      find_row_def row_violation_def other_rows_def put_row_def plain_lib_def crossed_rows_def lower_alnum_def)

text \<open>A write whose row goes in and is read back commits, with its event.\<close>
lemma write_commits:
  assumes "transfer_row plain_lib i v t s = (Inr v', s1)" "find_row (orgs s1) i \<noteq> None"
  shows "\<exists>x s2. transact plain_lib (emit plain_lib (transfer_write plain_lib i v t)) s = (Inr x, s2) \<and> orgs s2 = orgs s1"
proof -
  obtain r where r: "find_row (orgs s1) i = Some r" using assms(2) by blast
  have "transfer_write plain_lib i v t s
      = (Inr (\<lparr>i_id = i, i_version = v'\<rparr>, [Event OrganizationTransferred i (OrganizationP (stored_data r))]), s1)"
    using assms(1) raiseStored_Inr [of plain_lib OrganizationTransferred i s1, THEN iffD2, OF exI, OF conjI, OF r refl]
    by (simp add: transfer_write_def andthen_def reading_def give_def)
  from calm_command [OF plain_lib_calm, of "transfer_write plain_lib i v t", OF this] show ?thesis by auto
qed

text \<open>The lock is what keeps it: with the same statements and no lock, two transfers
  that move two roots under each other both pass their cycle checks, both commit,
  and leave rows no root reaches.\<close>
theorem unlocked_transfers_cycle:
  "\<exists>c. tree_reach unlocked (\<lambda>_. True) plain_lib (conc_at two_roots Idle Idle) c
     \<and> \<not> orgs_ok (orgs (cdb c)) \<and> organization_view (orgs (cdb c)) = []"
proof -
  let ?w0 = "Writing (transfer_write plain_lib ''a'' 1 (under ''b''))"
    and ?w1 = "Writing (transfer_write plain_lib ''b'' 1 (under ''a''))"
  let ?p = "Running ''a'' 1 (under ''b'')" and ?q = "Running ''b'' 1 (under ''a'')"
  let ?reach = "tree_reach unlocked (\<lambda>_. True) plain_lib (conc_at two_roots Idle Idle)"
  let ?step = "tree_step unlocked (\<lambda>_. True) plain_lib"
  have upd: "(conc_at s p0 p1)\<lparr>phases := (phases (conc_at s p0 p1))(0 := x)\<rparr> = conc_at s x p1"
    "(conc_at s p0 p1)\<lparr>phases := (phases (conc_at s p0 p1))(2 := x)\<rparr> = conc_at s p0 x"
    "(conc_at s p0 p1)\<lparr>cdb := s', holder := release k (holder (conc_at s p0 p1)), phases := (phases (conc_at s p0 p1))(0 := x)\<rparr> = conc_at s' x p1"
    "(conc_at s p0 p1)\<lparr>cdb := s', holder := release k (holder (conc_at s p0 p1)), phases := (phases (conc_at s p0 p1))(2 := x)\<rparr> = conc_at s' p0 x"
    for s s' p0 p1 x k
    by (auto simp: conc_at_def fun_eq_iff release_def)
  have look: "phases (conc_at s p0 p1) 0 = p0" "phases (conc_at s p0 p1) 2 = p1" "cdb (conc_at s p0 p1) = s"
    for s p0 p1 by (simp_all add: conc_at_def)
  have body: "unlocked i v t = Checking (cycle_check i t) (Writing (transfer_write plain_lib i v t))" for i v t
    by (simp add: unlocked_def transfer_body_def)
  obtain x s1 where s1: "transact plain_lib (emit plain_lib (transfer_write plain_lib ''a'' 1 (under ''b''))) two_roots = (Inr x, s1)"
      "orgs s1 = [root_a\<lparr>r_parent := Some ''b'', r_version := 2\<rparr>, root_b]"
    using write_commits [OF two_roots_writes(1)] by (auto simp: find_row_def root_a_def)
  obtain y s2 where s2: "transact plain_lib (emit plain_lib (transfer_write plain_lib ''b'' 1 (under ''a''))) s1 = (Inr y, s2)"
      "orgs s2 = crossed_rows"
    using write_commits [OF two_roots_writes(2) [OF s1(2)]] by (auto simp: find_row_def crossed_rows_def root_a_def root_b_def)
  have "?reach (conc_at two_roots (?p (unlocked ''a'' 1 (under ''b''))) Idle)"
    using tree_step.start [where c = "conc_at two_roots Idle Idle" and k = 0 and body = unlocked]
    by (intro tree_reach.more [OF tree_reach.here]) (simp add: upd look)
  then have "?reach (conc_at two_roots (?p (unlocked ''a'' 1 (under ''b''))) (?q (unlocked ''b'' 1 (under ''a''))))"
    using tree_step.start [where c = "conc_at two_roots (?p (unlocked ''a'' 1 (under ''b''))) Idle" and k = 2 and body = unlocked]
    by (elim tree_reach.more) (simp add: upd look)
  then have "?reach (conc_at two_roots (?p ?w0) (?q (unlocked ''b'' 1 (under ''a''))))"
    using tree_step.check [where c = "conc_at two_roots (?p (unlocked ''a'' 1 (under ''b''))) (?q (unlocked ''b'' 1 (under ''a'')))" and k = 0 and body = unlocked]
    by (elim tree_reach.more) (simp add: upd look body two_roots_checks)
  then have "?reach (conc_at two_roots (?p ?w0) (?q ?w1))"
    using tree_step.check [where c = "conc_at two_roots (?p ?w0) (?q (unlocked ''b'' 1 (under ''a'')))" and k = 2 and body = unlocked]
    by (elim tree_reach.more) (simp add: upd look body two_roots_checks)
  then have "?reach (conc_at s1 Idle (?q ?w1))"
    using tree_step.commit [where c = "conc_at two_roots (?p ?w0) (?q ?w1)" and k = 0 and body = unlocked, unfolded look, OF refl s1(1)]
    by (elim tree_reach.more) (simp add: upd)
  then have reach: "?reach (conc_at s2 Idle Idle)"
    using tree_step.commit [where c = "conc_at s1 Idle (?q ?w1)" and k = 2 and body = unlocked, unfolded look, OF refl s2(1)]
    by (elim tree_reach.more) (simp add: upd)
  have "\<not> orgs_ok crossed_rows"
    using crossed_no_root by (auto simp: orgs_ok_def) (simp add: crossed_rows_def)
  moreover have "organization_view crossed_rows = []"
    by (simp add: organization_view_def crossed_rows_def lineage_roots_def)
  ultimately show ?thesis using reach by (intro exI conjI) (assumption, simp_all add: look s2(2))
qed

end
