(* ===== verification/SeedProperties.thy ===== *)
theory SeedProperties
  imports OrgProperties
begin

text \<open>
  The properties of the registry, of the seeder's stages and of the organization's
  seed contribution.
\<close>

section \<open>The registry\<close>

definition wiring_name :: "('st, 'v) wiring \<Rightarrow> string list" where
  "wiring_name w = (case w of Registers n _ _ \<Rightarrow> [n] | Records _ \<Rightarrow> [])"

definition wiring_verifier :: "('st, 'v) wiring \<Rightarrow> 'v" where
  "wiring_verifier w = (case w of Registers _ _ v \<Rightarrow> v | Records v \<Rightarrow> v)"

lemma map_of_None_iff: "map_of xs k = None \<longleftrightarrow> k \<notin> fst ` set xs"
  by (induction xs) auto

lemma map_of_key: "map_of xs k = Some x \<Longrightarrow> k \<in> fst ` set xs"
  by (metis map_of_None_iff option.distinct(1))

lemma wire_Some:
  "wire ws d = Some d' \<Longrightarrow>
   map fst (registry d') = map fst (registry d) @ concat (map wiring_name ws) \<and>
   verifiers d' = verifiers d @ map wiring_verifier ws"
proof (induction ws d rule: wire.induct)
  case (2 name stmts v ws d)
  then show ?case
    by (auto simp: Register_def wiring_name_def wiring_verifier_def split: option.splits if_splits)
next
  case (3 v ws d)
  then show ?case by (simp add: Record_def wiring_name_def wiring_verifier_def)
qed simp

lemma wire_distinct:
  "distinct (map fst (registry d)) \<Longrightarrow> wire ws d = Some d' \<Longrightarrow> distinct (map fst (registry d'))"
proof (induction ws d rule: wire.induct)
  case (2 name stmts v ws d)
  then show ?case
    by (auto simp: Register_def map_of_None_iff split: option.splits if_splits)
qed (auto simp: Record_def)

lemma wire_panics:
  "distinct (map fst (registry d)) \<Longrightarrow>
   wire ws d = None \<longleftrightarrow> \<not> distinct (map fst (registry d) @ concat (map wiring_name ws))"
proof (induction ws d rule: wire.induct)
  case (2 name stmts v ws d)
  show ?case
  proof (cases "map_of (registry d) name")
    case None
    then have "name \<notin> fst ` set (registry d)" by (simp add: map_of_None_iff)
    with None 2 show ?thesis by (simp add: Register_def wiring_name_def)
  next
    case (Some x)
    then have "name \<in> fst ` set (registry d)" by (rule map_of_key)
    with Some show ?thesis by (auto simp: Register_def wiring_name_def)
  qed
qed (auto simp: Record_def wiring_name_def)

text \<open>Wiring the stores: it panics exactly when a name is registered twice, the
  data package's own included; otherwise the registry lists every registered name
  once, in name order, and the verifiers are every store's in wiring order, those
  recorded without a registry entry among them.\<close>
theorem registry_complete:
  "case Option.bind (New stmts v) (wire ws) of
     None \<Rightarrow> \<not> distinct (''data'' # concat (map wiring_name ws))
   | Some d \<Rightarrow> distinct (''data'' # concat (map wiring_name ws))
       \<and> sorted (map fst (Registry d)) \<and> distinct (map fst (Registry d))
       \<and> set (map fst (Registry d)) = set (''data'' # concat (map wiring_name ws))
       \<and> recorded d = v # map wiring_verifier ws"
proof -
  let ?d0 = "\<lparr>registry = [(''data'', stmts)], verifiers = [v]\<rparr>"
  have new: "New stmts v = Some ?d0" by (simp add: New_def Register_def)
  show ?thesis
  proof (cases "wire ws ?d0")
    case None
    with wire_panics [of ?d0 ws] show ?thesis by (simp add: new)
  next
    case (Some d)
    have d: "distinct (map fst (registry d))" using wire_distinct [OF _ Some] by simp
    have "distinct (map fst (Registry d))"
      using d by (simp add: Registry_def distinct_map)
    moreover have "sorted (map fst (Registry d))" by (simp add: Registry_def)
    moreover from wire_Some [OF Some]
    have names: "map fst (registry d) = ''data'' # concat (map wiring_name ws)" "recorded d = v # map wiring_verifier ws"
      by (simp_all add: recorded_def)
    moreover have "set (map fst (Registry d)) = set (map fst (registry d))"
      by (simp add: Registry_def)
    moreover have "distinct (''data'' # concat (map wiring_name ws))"
      using d unfolding names(1) .
    ultimately show ?thesis by (simp only: new Some option.case bind.simps)
  qed
qed

section \<open>The seeder's stages\<close>

lemma run_rows_counts:
  "run_rows st cs n s = (Inr n', s') \<Longrightarrow> k \<notin> fst ` set st \<Longrightarrow> n' k = n k"
  by (induction st cs n s rule: run_rows.induct)
    (auto split: option.splits prod.splits dest: map_of_key)

lemma run_files_counts:
  "run_files st cs n s = ((n', e), s') \<Longrightarrow> k \<notin> fst ` set st \<Longrightarrow> n' k = n k"
  by (induction st cs n s rule: run_files.induct)
    (auto split: option.splits prod.splits dest: map_of_key)

lemma zero_counts_Some: "c \<in> set cs \<Longrightarrow> zero_counts cs (ckey c) = Some 0"
  by (induction cs) (auto simp: zero_counts_def)

text \<open>C22. A seed is all its rows and then its files: when it reports no counts it
  failed and left the state untouched, with no file written; otherwise every row
  contribution of the state ran in the one transaction without an error, the files
  ran from the committed state, a contribution the state does not carry counts
  zero, and the state names no key that no contribution reads.\<close>
theorem seed_rows_then_files:
  assumes "lib_ok l" "Seed l readSeed cs name s = ((n, e), s')"
  shows "case n of
      None \<Rightarrow> e \<noteq> None \<and> s' = s
    | Some c \<Rightarrow> \<exists>st n1 s1. readSeed name = Inr st \<and> fst ` set st \<subseteq> set (map ckey cs)
        \<and> run_rows st cs (zero_counts cs) s = (Inr n1, s1) \<and> run_files st cs n1 s1 = ((c, e), s')
        \<and> (\<forall>x\<in>set cs. ckey x \<notin> fst ` set st \<longrightarrow> c (ckey x) = Some 0)"
proof (cases n)
  case None
  with Seed_stages [OF assms] show ?thesis by auto
next
  case (Some c)
  with Seed_stages [OF assms] obtain st n1 s1 where st: "readSeed name = Inr st"
    "fst ` set st \<subseteq> set (map ckey cs)" "run_rows st cs (zero_counts cs) s = (Inr n1, s1)"
    "run_files st cs n1 s1 = ((c, e), s')" by auto
  have "c (ckey x) = Some 0" if "x \<in> set cs" "ckey x \<notin> fst ` set st" for x
    using run_files_counts [OF st(4) that(2)] run_rows_counts [OF st(3) that(2)] zero_counts_Some [OF that(1)]
    by simp
  with st Some show ?thesis by auto
qed

definition demo_seeds :: "(seed_row list result, unit db) contribution list" where
  "demo_seeds = [RowSeed ''organizations'' (org_Apply plain_lib)]"

definition demo_rows :: "seed_row list" where
  "demo_rows = [\<lparr>s_parent = [], s_code = ''acme'', s_name = ''Acme''\<rparr>,
     \<lparr>s_parent = ''acme'', s_code = ''labs'', s_name = ''Labs''\<rparr>]"

theorem seed_rows_then_files_witness:
  "snd (Seed plain_lib (\<lambda>_. Inr [(''tenants'', Inr demo_rows)]) demo_seeds ''demo'' (empty_db ())) = empty_db ()"
proof -
  have counts: "fst (fst (Seed plain_lib (\<lambda>_. Inr [(''tenants'', Inr demo_rows)]) demo_seeds ''demo'' (empty_db ()))) = None"
    by (simp add: Seed_def unread_keys_def demo_seeds_def)
  let ?run = "Seed plain_lib (\<lambda>_. Inr [(''tenants'', Inr demo_rows)]) demo_seeds ''demo'' (empty_db ())"
  obtain n e s' where run: "?run = ((n, e), s')" by (metis prod.exhaust)
  from seed_rows_then_files [OF plain_lib_ok run] counts run show ?thesis by simp
qed

section \<open>The organization's contribution\<close>

text \<open>C23. Seeding the organizations is idempotent: a run that reports no error
  appended exactly as many organizations as it counts, each with its one
  OrganizationCreated, keeps the table a forest, and running the same rows again
  inserts nothing, emits nothing and changes nothing.\<close>
theorem organization_seed_idempotent:
  assumes "lib_ok l" "\<forall>v. v < bump l v" "orgs_ok (orgs s)" "org_Apply l raw s = ((n, None), s1)"
  shows "(\<exists>rs. orgs s1 = orgs s @ rs \<and> outbox s1 = outbox s @ map created_event rs \<and> length rs = n)
    \<and> orgs_ok (orgs s1) \<and> org_Apply l raw s1 = ((0, None), s1)"
proof -
  from driver_cases [OF assms(1,2)] obtain d where d: "l = lib_of d" by blast
  from org_Apply_run [OF assms(1,3,4)] obtain rs
    where "s1 = emitting (s\<lparr>orgs := orgs s @ rs\<rparr>) (map created_event rs)" "n = length rs" by blast
  moreover from assms(3,4) have "orgs_ok (orgs s1)" "org_Apply l raw s1 = ((0, None), s1)"
    unfolding d by (rule org_seed.keeps, rule org_seed.rerun)
  ultimately show ?thesis by auto
qed

lemma demo_seed_run: "\<exists>s1. org_Apply plain_lib (Inr demo_rows) (empty_db ()) = ((2, None), s1)"
  by (simp add: org_Apply_def demo_rows_def empty_db_def seedOne_def emit_def seedOne_body_def seed_row_insert_def
      find_seeded_def row_violation_def lower_alnum_def plain_lib_def fresh_id_def raiseStored_def stored_row_def
      find_row_def Let_def)

theorem organization_seed_idempotent_witness:
  "\<exists>s1. org_Apply plain_lib (Inr demo_rows) (empty_db ()) = ((2, None), s1)
     \<and> org_Apply plain_lib (Inr demo_rows) s1 = ((0, None), s1)"
proof -
  from demo_seed_run obtain s1 where s1: "org_Apply plain_lib (Inr demo_rows) (empty_db ()) = ((2, None), s1)" by blast
  have "\<forall>v. v < bump plain_lib v" by (simp add: plain_lib_def)
  moreover have "orgs_ok (orgs (empty_db ()))" by (simp add: empty_db_def orgs_ok_def)
  ultimately show ?thesis
    using organization_seed_idempotent [OF plain_lib_ok _ _ s1] s1 by blast
qed

end
