(* ===== verification/Blobfs.thy ===== *)
theory Blobfs
  imports Database Objects Reads
begin

text \<open>
  blobfs as the domains call it: its directory and file steps and its file
  protocols over the database, a parameter of the model. A protocol takes the
  callback it runs in its first transaction and the hook it runs in the
  transaction that completes or begins its change. The contracts the layers rely
  on are the predicates at the end.
\<close>

datatype write_outcome = WroteNew | FoundAvailable | FoundPending

text \<open>The steps and the protocols:
  \<^item> root_id, new_id: blobfs.RootID and the id blobfs.NewID mints in a state;
  \<^item> name_rule: ValidateName after NormalizeName;
  \<^item> dir_: the Directories steps; dir_ensure and dir_create take an id to create under;
  \<^item> file_row: the row of blobfs_file a statement of the service joins;
  \<^item> file_: the Files steps;
  \<^item> write_file, ensure_file, remove_file, remove_file_id, purge_file: the protocols,
    each a whole operation of its own transactions.\<close>
record 'f blobfs =
  root_id :: string
  new_id :: "'f db \<Rightarrow> string"
  name_rule :: "string \<Rightarrow> err option"
  dir_find :: "string \<Rightarrow> 'f db \<Rightarrow> bdir result"
  dir_abs_path :: "string \<Rightarrow> 'f db \<Rightarrow> string result"
  dir_is_within :: "string \<Rightarrow> string \<Rightarrow> 'f db \<Rightarrow> bool result"
  dir_ensure :: "string \<Rightarrow> string \<Rightarrow> string option \<Rightarrow> ('f db, bdir \<times> bool) step"
  dir_create :: "string \<Rightarrow> string \<Rightarrow> ('f db, bdir) step"
  dir_move :: "string \<Rightarrow> string \<Rightarrow> string \<Rightarrow> int \<Rightarrow> ('f db, bdir) step"
  dir_delete :: "string \<Rightarrow> int \<Rightarrow> ('f db, unit) step"
  lock_tree :: "('f db, unit) step"
  mark_deleting :: "string \<Rightarrow> int \<Rightarrow> ('f db, nat) step"
  dir_listing :: "(bdir, 'f db) listing"
  file_listing :: "(bfile, 'f db) listing"
  file_row :: "string \<Rightarrow> 'f db \<Rightarrow> bfile option"
  file_find :: "string \<Rightarrow> 'f db \<Rightarrow> bfile result"
  file_create :: "string \<Rightarrow> string \<Rightarrow> string \<Rightarrow> string option \<Rightarrow> ('f db, bfile) step"
  file_ensure :: "string \<Rightarrow> string \<Rightarrow> string \<Rightarrow> string \<Rightarrow> ('f db, bfile \<times> write_outcome) step"
  file_hold :: "string \<Rightarrow> ('f db, unit) step"
  file_move :: "string \<Rightarrow> string \<Rightarrow> string \<Rightarrow> int \<Rightarrow> ('f db, bfile) step"
  file_delete :: "string \<Rightarrow> ('f db, bfile) step"
  write_file :: "body_read list \<Rightarrow> int \<Rightarrow> ('f db, bfile) step \<Rightarrow> (bfile \<Rightarrow> ('f db, unit) step) \<Rightarrow> ('f db, bfile) step"
  ensure_file :: "string \<Rightarrow> string \<Rightarrow> int \<Rightarrow> ('f db, bfile \<times> write_outcome) step
      \<Rightarrow> (bfile \<Rightarrow> ('f db, unit) step) \<Rightarrow> ('f db, bfile \<times> bool) step"
  remove_file :: "('f db, string) step \<Rightarrow> int \<Rightarrow> (bfile \<Rightarrow> ('f db, unit) step) \<Rightarrow> ('f db, unit) step"
  remove_file_id :: "string \<Rightarrow> int option \<Rightarrow> ('f db, unit) step"
  purge_file :: "bfile \<Rightarrow> ('f db, unit) step"

text \<open>A hook that does nothing.\<close>
definition no_hook :: "bfile \<Rightarrow> ('f db, unit) step" where
  "no_hook f s = (Inr (), s)"

section \<open>Contracts\<close>

text \<open>Owner rows a cascade leaves: some are gone, the others are in place.\<close>
definition cascaded :: "'r list \<Rightarrow> 'r list \<Rightarrow> bool" where
  "cascaded xs ys \<longleftrightarrow> (\<exists>P. ys = filter P xs)"

lemma cascaded_refl [simp]: "cascaded xs xs"
  unfolding cascaded_def by (rule exI [of _ "\<lambda>_. True"]) simp

lemma cascaded_trans: "cascaded xs ys \<Longrightarrow> cascaded ys zs \<Longrightarrow> cascaded xs zs"
  by (auto simp: cascaded_def)

lemma cascaded_distinct: "cascaded xs ys \<Longrightarrow> distinct (map f xs) \<Longrightarrow> distinct (map f ys)"
  by (auto simp: cascaded_def distinct_map_filter)

lemma cascaded_set: "cascaded xs ys \<Longrightarrow> set ys \<subseteq> set xs"
  by (auto simp: cascaded_def)

text \<open>A step that writes blobfs's own tables only: the outbox, the organization
  table and its images stay, and an owner row goes only through its cascade.\<close>
definition blob_frame :: "'f db \<Rightarrow> 'f db \<Rightarrow> bool" where
  "blob_frame s s' \<longleftrightarrow> outbox s' = outbox s \<and> orgs s' = orgs s \<and> images s' = images s
     \<and> cascaded (owners s) (owners s')"

definition step_framed :: "('f db, 'a) step \<Rightarrow> bool" where
  "step_framed m \<longleftrightarrow> (\<forall>s. blob_frame s (snd (m s)))"

text \<open>The plain steps write no table but blobfs's.\<close>
definition steps_framed :: "'f blobfs \<Rightarrow> bool" where
  "steps_framed b \<longleftrightarrow>
     (\<forall>p n i. step_framed (dir_ensure b p n i)) \<and> (\<forall>p n. step_framed (dir_create b p n)) \<and>
     (\<forall>i p n v. step_framed (dir_move b i p n v)) \<and> (\<forall>i v. step_framed (dir_delete b i v)) \<and>
     step_framed (lock_tree b) \<and> (\<forall>i v. step_framed (mark_deleting b i v)) \<and>
     (\<forall>d n t i. step_framed (file_create b d n t i)) \<and> (\<forall>d n t i. step_framed (file_ensure b d n t i)) \<and>
     (\<forall>i. step_framed (file_hold b i)) \<and> (\<forall>i d n v. step_framed (file_move b i d n v)) \<and>
     (\<forall>i. step_framed (file_delete b i)) \<and> (\<forall>i v. step_framed (remove_file_id b i v)) \<and>
     (\<forall>f. step_framed (purge_file b f))"

lemma blob_frame_refl [simp]: "blob_frame s s"
  by (simp add: blob_frame_def)

lemma blob_frame_trans: "blob_frame s s' \<Longrightarrow> blob_frame s' s'' \<Longrightarrow> blob_frame s s''"
  by (auto simp: blob_frame_def intro: cascaded_trans)

lemma step_framedD: "step_framed m \<Longrightarrow> m s = (r, s') \<Longrightarrow> blob_frame s s'"
  by (metis snd_conv step_framed_def)

lemma steps_framedD:
  assumes "steps_framed b"
  shows "step_framed (dir_ensure b p n i)" "step_framed (dir_create b p n)"
    "step_framed (dir_move b i' p n v)" "step_framed (dir_delete b i' v)"
    "step_framed (lock_tree b)" "step_framed (mark_deleting b i' v)"
    "step_framed (file_create b p n t i)" "step_framed (file_ensure b p n t i')"
    "step_framed (file_hold b i')" "step_framed (file_move b i' p n v)"
    "step_framed (file_delete b i')" "step_framed (remove_file_id b i' ov)"
    "step_framed (purge_file b f)"
  using assms unfolding steps_framed_def by simp_all

text \<open>The write protocol: on success its callback's row was committed, its completed
  file, available with its size and entity tag, went through the hook, whose writes
  stand; on failure no hook's write stands.\<close>
definition write_contract :: "'f blobfs \<Rightarrow> bool" where
  "write_contract b \<longleftrightarrow>
     (\<forall>body len cb hook s.
        case write_file b body len cb hook s of
          (Inr f, s') \<Rightarrow>
            \<exists>f0 s1 s2 s3. cb s = (Inr f0, s1) \<and> blob_frame s1 s2 \<and> hook f s2 = (Inr (), s3) \<and> blob_frame s3 s'
              \<and> bf_id f = bf_id f0 \<and> bf_dir f = bf_dir f0 \<and> bf_name f = bf_name f0
              \<and> bf_status f = BAvailable \<and> bf_size f \<noteq> None \<and> bf_etag f \<noteq> None
        | (Inl e, s') \<Rightarrow>
            (\<exists>s1. cb s = (Inl e, s1)) \<and> s' = s \<or>
            (\<exists>f0 s1. cb s = (Inr f0, s1) \<and> blob_frame s1 s'))"

text \<open>The delete protocol: the callback names the file, the hook runs in the
  transaction that begins the delete, once, and not on a retry of a file deleting
  already.\<close>
definition remove_contract :: "'f blobfs \<Rightarrow> bool" where
  "remove_contract b \<longleftrightarrow>
     (\<forall>cb v hook s.
        case remove_file b cb v hook s of
          (Inr u, s') \<Rightarrow>
            \<exists>i s1 s2. cb s = (Inr i, s1) \<and> blob_frame s1 s2 \<and>
              ((\<exists>f s3. bf_id f = i \<and> bf_status f = BDeleting \<and> hook f s2 = (Inr (), s3) \<and> blob_frame s3 s')
               \<or> blob_frame s2 s')
        | (Inl e, s') \<Rightarrow>
            (\<exists>s1. cb s = (Inl e, s1)) \<and> s' = s \<or>
            (\<exists>i s1. cb s = (Inr i, s1) \<and>
               (blob_frame s1 s' \<or> (\<exists>f s2 s3. blob_frame s1 s2 \<and> hook f s2 = (Inr (), s3) \<and> blob_frame s3 s'))))"

text \<open>The delete protocol in the detail the service documents: a file is found under its
  own id; the hook runs in the transaction that begins the delete, with the file
  deleting at the version after the guard's, and not on a retry of a file deleting
  already; a delete that fails after it began keeps what its hook wrote.\<close>
definition begins_once :: "'f blobfs \<Rightarrow> bool" where
  "begins_once b \<longleftrightarrow>
     (\<forall>i s f. file_find b i s = Inr f \<longrightarrow> bf_id f = i) \<and>
     (\<forall>cb v hook s.
        case remove_file b cb v hook s of
          (Inr u, s') \<Rightarrow>
            \<exists>i s1 f0. cb s = (Inr i, s1) \<and> file_find b i s1 = Inr f0 \<and>
              (if bf_status f0 = BDeleting then blob_frame s1 s'
               else \<exists>f s2 s3. blob_frame s1 s2 \<and> bf_id f = i \<and> bf_version f = v + 1 \<and>
                      hook f s2 = (Inr (), s3) \<and> blob_frame s3 s')
        | (Inl e, s') \<Rightarrow>
            (\<exists>s1. cb s = (Inl e, s1)) \<and> s' = s \<or>
            (\<exists>i s1. cb s = (Inr i, s1) \<and>
               (blob_frame s1 s' \<or>
                (\<exists>f0 f s2 s3. file_find b i s1 = Inr f0 \<and> bf_status f0 \<noteq> BDeleting \<and> blob_frame s1 s2 \<and>
                   bf_id f = i \<and> bf_version f = v + 1 \<and> hook f s2 = (Inr (), s3) \<and> blob_frame s3 s'))))"

text \<open>A row is found under its own id.\<close>
definition rows_keyed :: "'f blobfs \<Rightarrow> bool" where
  "rows_keyed b \<longleftrightarrow> (\<forall>i s f. file_row b i s = Some f \<longrightarrow> bf_id f = i)"

text \<open>The retry-safe write: as the write protocol's, and a call that stores nothing
  runs no hook.\<close>
definition ensure_contract :: "'f blobfs \<Rightarrow> bool" where
  "ensure_contract b \<longleftrightarrow>
     (\<forall>i content len cb hook s.
        case ensure_file b i content len cb hook s of
          (Inr (f, stored), s') \<Rightarrow>
            \<exists>x s1 s2. cb s = (Inr x, s1) \<and> blob_frame s1 s2 \<and>
              (if stored then \<exists>s3. hook f s2 = (Inr (), s3) \<and> blob_frame s3 s' \<and> bf_status f = BAvailable
                 \<and> bf_size f \<noteq> None \<and> bf_etag f \<noteq> None
               else blob_frame s2 s')
        | (Inl e, s') \<Rightarrow>
            (\<exists>s1. cb s = (Inl e, s1)) \<and> s' = s \<or>
            (\<exists>x s1. cb s = (Inr x, s1) \<and> blob_frame s1 s'))"

section \<open>Frames of composed steps\<close>

lemma framed_andthen [intro]:
  "step_framed m \<Longrightarrow> (\<And>a. step_framed (k a)) \<Longrightarrow> step_framed (andthen m k)"
  unfolding step_framed_def
  by (auto simp: andthen_def split: prod.splits sum.splits intro: blob_frame_trans)

lemma framed_reading [intro]: "step_framed (reading f)"
  by (simp add: step_framed_def reading_def)

lemma framed_give [intro]: "step_framed (give a)"
  by (simp add: step_framed_def give_def)

lemma framed_no_hook [intro]: "step_framed (no_hook f)"
  by (simp add: step_framed_def no_hook_def)

lemma framed_write:
  assumes w: "write_contract b" and cb: "step_framed cb" and hook: "\<And>f. step_framed (hook f)"
  shows "step_framed (write_file b body len cb hook)"
  unfolding step_framed_def
proof
  fix s
  obtain r s' where run: "write_file b body len cb hook s = (r, s')" by fastforce
  note c = w [unfolded write_contract_def, THEN spec [of _ body], THEN spec [of _ len], THEN spec [of _ cb],
    THEN spec [of _ hook], THEN spec [of _ s], unfolded run]
  show "blob_frame s (snd (write_file b body len cb hook s))"
  proof (cases r)
    case (Inl e)
    with c have "s' = s \<or> (\<exists>x s1. cb s = (x, s1) \<and> blob_frame s1 s')" by auto
    then show ?thesis unfolding run snd_conv
      by (auto dest: step_framedD [OF cb] intro: blob_frame_trans)
  next
    case (Inr f)
    with c obtain f0 s1 s2 s3 where "cb s = (Inr f0, s1)" "blob_frame s1 s2" "hook f s2 = (Inr (), s3)"
      "blob_frame s3 s'" by auto
    then show ?thesis unfolding run snd_conv
      by (meson blob_frame_trans step_framedD cb hook)
  qed
qed

lemma framed_ensure:
  assumes w: "ensure_contract b" and cb: "step_framed cb" and hook: "\<And>f. step_framed (hook f)"
  shows "step_framed (ensure_file b i content len cb hook)"
  unfolding step_framed_def
proof
  fix s
  obtain r s' where run: "ensure_file b i content len cb hook s = (r, s')" by fastforce
  note c = w [unfolded ensure_contract_def, THEN spec [of _ i], THEN spec [of _ content], THEN spec [of _ len],
    THEN spec [of _ cb], THEN spec [of _ hook], THEN spec [of _ s], unfolded run]
  show "blob_frame s (snd (ensure_file b i content len cb hook s))"
  proof (cases r)
    case (Inl e)
    with c have "s' = s \<or> (\<exists>x s1. cb s = (x, s1) \<and> blob_frame s1 s')" by auto
    then show ?thesis unfolding run snd_conv
      by (auto dest: step_framedD [OF cb] intro: blob_frame_trans)
  next
    case (Inr fs)
    obtain f stored where "fs = (f, stored)" by fastforce
    with Inr c obtain x s1 s2 where "cb s = (Inr x, s1)" "blob_frame s1 s2"
      "(\<exists>s3. hook f s2 = (Inr (), s3) \<and> blob_frame s3 s') \<or> blob_frame s2 s'"
      by (auto split: if_splits)
    then show ?thesis unfolding run snd_conv
      by (meson blob_frame_trans step_framedD cb hook)
  qed
qed

end
