(* ===== verification/OrgLogo.thy ===== *)
theory OrgLogo
  imports OrgStore Blobfs
begin

text \<open>
  domain/organization/storage.go: an organization's logo. The image statements
  run on the organization_image table with its constraints; the file's protocols
  are blobfs's. A logged purge failure is the flag beside a command's result.
\<close>

section \<open>The image statements\<close>

definition constraintImageFile :: string where
  "constraintImageFile = ''uq_organization_image_file''"
definition constraintImageActive :: string where
  "constraintImageActive = ''ux_organization_image_active''"

definition LogoUploaded :: string where
  "LogoUploaded = ''web-service.organization.logo.uploaded''"
definition LogoDeleted :: string where
  "LogoDeleted = ''web-service.organization.logo.deleted''"

definition imagesDirectory :: string where
  "imagesDirectory = ''organization-images''"

definition maxLogoBody :: nat where
  "maxLogoBody = 2 ^ 20"

definition active_image :: "image_row list \<Rightarrow> string \<Rightarrow> image_row option" where
  "active_image ims org = List.find (\<lambda>m. im_org m = org \<and> im_active m) ims"

text \<open>active_logo.sql: the file the active image binds.\<close>
definition activeLogo :: "'f lib \<Rightarrow> 'f blobfs \<Rightarrow> string \<Rightarrow> 'f db \<Rightarrow> bfile result" where
  "activeLogo l b org s =
     (case active_image (images s) org of
        None \<Rightarrow> Inl (no_rows l)
      | Some m \<Rightarrow> (case file_row b (im_file m) s of None \<Rightarrow> Inl (no_rows l) | Some f \<Rightarrow> Inr f))"

text \<open>attach_image.sql under migration 0002's constraints.\<close>
definition attach :: "'f lib \<Rightarrow> 'f blobfs \<Rightarrow> string \<Rightarrow> string \<Rightarrow> ('f db, unit) step" where
  "attach l b org file s =
     (if list_ex (\<lambda>m. im_file m = file) (images s)
        then (Inl (violation l UniqueViolation constraintImageFile), s)
      else if active_image (images s) org \<noteq> None
        then (Inl (violation l UniqueViolation constraintImageActive), s)
      else if find_row (orgs s) org = None
        then (Inl (violation l ForeignKeyViolation ''fk_organization_image_organization''), s)
      else if file_row b file s = None
        then (Inl (violation l ForeignKeyViolation ''fk_organization_image_file''), s)
      else (Inr (), s\<lparr>images := images s @ [\<lparr>im_org = org, im_file = file, im_active = True\<rparr>]\<rparr>))"

text \<open>detach_image.sql.\<close>
definition detach :: "string \<Rightarrow> ('f db, unit) step" where
  "detach file s = (Inr (), s\<lparr>images := filter (\<lambda>m. im_file m \<noteq> file) (images s)\<rparr>)"

section \<open>The commands\<close>

text \<open>raiseUploaded.\<close>
definition raiseUploaded :: "string \<Rightarrow> bfile \<Rightarrow> event list result" where
  "raiseUploaded org f =
     (case (bf_size f, bf_etag f) of
        (Some sz, Some etag) \<Rightarrow>
          Inr [Event LogoUploaded (bf_id f) (LogoUploadedP
            \<lparr>lu_file = bf_id f, lu_org = org, lu_content_type = bf_content_type f, lu_size = sz,
             lu_etag = etag, lu_version = bf_version f\<rparr>)]
      | _ \<Rightarrow> Inl (plain (''file '' @ bf_id f @ '' completed without its size or entity tag'')))"

text \<open>release: the image goes and the file's delete begins.\<close>
definition release :: "'f blobfs \<Rightarrow> string \<Rightarrow> ('f db, bfile) step" where
  "release b file = andthen (detach file) (\<lambda>_. file_delete b file)"

definition abandoned :: "err option \<Rightarrow> err option \<Rightarrow> err option" where
  "abandoned e removeErr =
     (if (case removeErr of None \<Rightarrow> False | Some r \<Rightarrow> errors_is BlobNotFound r) then e
      else errors_join [e, removeErr])"

text \<open>The activation's transaction: hold the file, release the active logo if there
  is one, bind the new one, raise the event. Its value is the replaced file.\<close>
definition activate_body ::
    "'f lib \<Rightarrow> 'f blobfs \<Rightarrow> string \<Rightarrow> bfile \<Rightarrow> ('f db, bfile option \<times> event list) step" where
  "activate_body l b org file =
     andthen (file_hold b (bf_id file)) (\<lambda>_.
     andthen (\<lambda>s. case activeLogo l b org s of
                    Inr cur \<Rightarrow> andthen (release b (bf_id cur)) (\<lambda>f. give (Some f)) s
                  | Inl e \<Rightarrow> if errors_is NoRows e then (Inr None, s) else (Inl e, s)) (\<lambda>replaced.
     andthen (attach l b org (bf_id file)) (\<lambda>_.
     andthen (reading (\<lambda>_. raiseUploaded org file)) (\<lambda>q.
     give (replaced, q)))))"

text \<open>purge: a failure is logged, not returned; the flag says whether it was.\<close>
definition purge :: "'f blobfs \<Rightarrow> bfile \<Rightarrow> 'f db \<Rightarrow> bool \<times> 'f db" where
  "purge b f s = (case purge_file b f s of (Inl e, s1) \<Rightarrow> (True, s1) | (Inr _, s1) \<Rightarrow> (False, s1))"

definition putLogo :: "'f lib \<Rightarrow> 'f blobfs \<Rightarrow> string \<Rightarrow> upload \<Rightarrow> string \<Rightarrow> ('f db, string \<times> bool) step" where
  "putLogo l b org u ext s =
     (case dir_ensure b (root_id b) imagesDirectory None s of
        (Inl e, s1) \<Rightarrow> (Inl e, s1)
      | (Inr (dir, _), s1) \<Rightarrow>
          (let i = new_id b s1 in
           case write_file b (up_body u) (up_size u)
                  (andthen (reading (org_exists l org)) (\<lambda>_.
                     file_create b (bd_id dir) (i @ ext) (up_content_type u) (Some i)))
                  no_hook s1 of
             (Inl e, s2) \<Rightarrow> (Inl e, s2)
           | (Inr file, s2) \<Rightarrow>
               (case transact l (emit l (activate_body l b org file)) s2 of
                  (Inl e, s3) \<Rightarrow>
                    (case remove_file_id b (bf_id file) None s3 of
                       (r, s4) \<Rightarrow> (Inl (the (abandoned (Some e) (failure r))), s4))
                | (Inr replaced, s3) \<Rightarrow>
                    (case replaced of
                       None \<Rightarrow> (Inr (bf_id file, False), s3)
                     | Some f \<Rightarrow> (case purge b f s3 of (logged, s4) \<Rightarrow> (Inr (bf_id file, logged), s4))))))"

definition logo :: "'f lib \<Rightarrow> 'f blobfs \<Rightarrow> string \<Rightarrow> 'f db \<Rightarrow> download result" where
  "logo l b org s =
     (case activeLogo l b org s of
        Inl e \<Rightarrow> Inl e
      | Inr f \<Rightarrow> (case Serve f of Inl e \<Rightarrow> Inl (wrapf (''logo of '' @ org) e) | Inr d \<Rightarrow> Inr d))"

definition delete_logo_body :: "'f lib \<Rightarrow> 'f blobfs \<Rightarrow> string \<Rightarrow> ('f db, bfile \<times> event list) step" where
  "delete_logo_body l b org =
     andthen (reading (activeLogo l b org)) (\<lambda>cur.
     andthen (release b (bf_id cur)) (\<lambda>del.
     give (del, [Event LogoDeleted (bf_id del) (LogoDeletedP
       \<lparr>ld_file = bf_id del, ld_org = org, ld_version = bf_version del\<rparr>)])))"

definition deleteLogo :: "'f lib \<Rightarrow> 'f blobfs \<Rightarrow> string \<Rightarrow> ('f db, bool) step" where
  "deleteLogo l b org s =
     (case transact l (emit l (delete_logo_body l b org)) s of
        (Inl e, s1) \<Rightarrow> (Inl e, s1)
      | (Inr del, s1) \<Rightarrow> (case purge b del s1 of (logged, s2) \<Rightarrow> (Inr logged, s2)))"

text \<open>The service's PutLogo: the media type is refused before any I/O.\<close>
definition PutLogo :: "'f lib \<Rightarrow> 'f blobfs \<Rightarrow> string \<Rightarrow> upload \<Rightarrow> ('f db, string \<times> bool) step" where
  "PutLogo l b org u =
     (case logoExtension (up_media_type u) of
        Inl e \<Rightarrow> refuse e
      | Inr ext \<Rightarrow> putLogo l b org u ext)"

definition Logo :: "'f lib \<Rightarrow> 'f blobfs \<Rightarrow> string \<Rightarrow> 'f db \<Rightarrow> download result" where
  "Logo l b org = logo l b org"

definition DeleteLogo :: "'f lib \<Rightarrow> 'f blobfs \<Rightarrow> string \<Rightarrow> ('f db, bool) step" where
  "DeleteLogo l b org = deleteLogo l b org"

end
