(* ===== verification/OrgLogoSeed.thy ===== *)
theory OrgLogoSeed
  imports OrgLogo
begin

text \<open>
  The logo's seed contribution (domain/organization/storage.go: logoSeed.Write and
  seedLogo), and the properties of the logo's commands: what a PUT, a DELETE and a
  seed leave of the images and the outbox, and which error answers.
\<close>

section \<open>seedLogo\<close>

text \<open>The activation of a seeded file: an active logo, the seed's or a client's, is
  left as it is. The value is the active file and whether this run attached it.\<close>
definition seed_activate_body ::
    "'f lib \<Rightarrow> 'f blobfs \<Rightarrow> string \<Rightarrow> bfile \<Rightarrow> ('f db, (string \<times> bool) \<times> event list) step" where
  "seed_activate_body l b org file =
     andthen (file_hold b (bf_id file)) (\<lambda>_ s.
       case activeLogo l b org s of
         Inr cur \<Rightarrow> (Inr ((bf_id cur, False), []), s)
       | Inl e \<Rightarrow>
           if \<not> errors_is NoRows e then (Inl e, s)
           else andthen (attach l b org (bf_id file)) (\<lambda>_.
                andthen (reading (\<lambda>_. raiseUploaded org file)) (\<lambda>q.
                give ((bf_id file, True), q))) s)"

fun is_constraint :: "ekind \<Rightarrow> bool" where
  "is_constraint (ConstraintError c n) = True"
| "is_constraint _ = False"

text \<open>The unique constraint the error reports: errors.As on the ConstraintError, its
  Class a unique violation.\<close>
definition unique_constraint :: "err \<Rightarrow> string option" where
  "unique_constraint e =
     (case errors_as is_constraint e of
        Some n \<Rightarrow> (case kind n of ConstraintError c name \<Rightarrow> if c = UniqueViolation then Some name else None | _ \<Rightarrow> None)
      | None \<Rightarrow> None)"

text \<open>The end of seedLogo: a file this run stored and did not activate is retired.\<close>
definition retire :: "'f blobfs \<Rightarrow> bfile \<Rightarrow> bool \<Rightarrow> err option \<Rightarrow> ('f db, bool) step" where
  "retire b file stored e s =
     (if \<not> stored then ((case e of None \<Rightarrow> Inr False | Some er \<Rightarrow> Inl er), s)
      else (case remove_file_id b (bf_id file) (Some (bf_version file)) s of
              (r, s1) \<Rightarrow> ((case abandoned e (failure r) of None \<Rightarrow> Inr False | Some er \<Rightarrow> Inl er), s1)))"

definition seed_activate ::
    "'f lib \<Rightarrow> 'f blobfs \<Rightarrow> string \<Rightarrow> bfile \<Rightarrow> bool \<Rightarrow> ('f db, bool) step" where
  "seed_activate l b org file stored s =
     (case transact l (emit l (seed_activate_body l b org file)) s of
        (Inr (active, attached), s1) \<Rightarrow>
          if active = bf_id file then (Inr attached, s1) else retire b file stored None s1
      | (Inl e, s1) \<Rightarrow>
          if errors_is Deleting e then (Inr False, s1)
          else if unique_constraint e = Some constraintImageFile then (Inr False, s1)
          else if unique_constraint e = Some constraintImageActive then
            (case activeLogo l b org s1 of
               Inl r \<Rightarrow> (Inl (wrapf ''the active logo, after losing the activation'' r), s1)
             | Inr cur \<Rightarrow> if bf_id cur = bf_id file then (Inr False, s1) else retire b file stored None s1)
          else retire b file stored (Some e) s1)"

text \<open>The fixture's file arrives as its text; detect is net/http's DetectContentType.\<close>
definition seedLogo ::
    "'f lib \<Rightarrow> 'f blobfs \<Rightarrow> (string \<Rightarrow> string result) \<Rightarrow> (string \<Rightarrow> string) \<Rightarrow> logo_seed_row \<Rightarrow> ('f db, bool) step" where
  "seedLogo l b fixtures detect row s =
     (case fixtures (ls_fixture row) of
        Inl e \<Rightarrow> (Inl e, s)
      | Inr body \<Rightarrow>
          if length body > maxLogoBody
          then (Inl (plain (''fixture '' @ ls_fixture row @ '' is over the logo's bytes'')), s)
          else
            (case logoExtension (detect body) of
               Inl e \<Rightarrow> (Inl (wrapf (''fixture '' @ ls_fixture row) e), s)
             | Inr ext \<Rightarrow>
                 (case view_one l (\<lambda>x. o_path x = ls_organization row) s of
                    Inl e \<Rightarrow> (Inl (wrapf ''organization'' e), s)
                  | Inr org \<Rightarrow>
                      (case activeLogo l b (o_id org) s of
                         Inr cur \<Rightarrow> (Inr False, s)
                       | Inl e \<Rightarrow>
                           if \<not> errors_is NoRows e then (Inl e, s)
                           else
                             (case dir_ensure b (root_id b) imagesDirectory None s of
                                (Inl e, s1) \<Rightarrow> (Inl e, s1)
                              | (Inr (dir, _), s1) \<Rightarrow>
                                  (case ensure_file b (ls_id row) body (int (length body))
                                          (file_ensure b (bd_id dir) (ls_id row @ ext) (detect body) (ls_id row)) no_hook s1 of
                                     (Inl e, s2) \<Rightarrow>
                                       if errors_is Deleting e \<or> errors_is IDTaken e \<or> errors_is NameTaken e
                                       then (Inr False, s2) else (Inl e, s2)
                                   | (Inr (file, stored), s2) \<Rightarrow>
                                       seed_activate l b (o_id org) file stored s2))))))"

text \<open>logoSeed.Write over the decoded rows: the count is what was activated.\<close>
fun write_logos ::
    "'f lib \<Rightarrow> 'f blobfs \<Rightarrow> (string \<Rightarrow> string result) \<Rightarrow> (string \<Rightarrow> string) \<Rightarrow> logo_seed_row list \<Rightarrow> nat
      \<Rightarrow> 'f db \<Rightarrow> (nat \<times> err option) \<times> 'f db" where
  "write_logos l b fixtures detect [] seeded s = ((seeded, None), s)"
| "write_logos l b fixtures detect (row # rows) seeded s =
     (case seedLogo l b fixtures detect row s of
        (Inl e, s1) \<Rightarrow> ((seeded, Some (wrapf (''seed logo of '' @ ls_organization row) e)), s1)
      | (Inr ok, s1) \<Rightarrow> write_logos l b fixtures detect rows (if ok then Suc seeded else seeded) s1)"

definition logo_Write ::
    "'f lib \<Rightarrow> 'f blobfs \<Rightarrow> (string \<Rightarrow> string result) \<Rightarrow> (string \<Rightarrow> string) \<Rightarrow> logo_seed_row list result
      \<Rightarrow> 'f db \<Rightarrow> (nat \<times> err option) \<times> 'f db" where
  "logo_Write l b fixtures detect decoded s =
     (case decoded of
        Inl e \<Rightarrow> ((0, Some (wrapf ''seed logos'' e)), s)
      | Inr rows \<Rightarrow> write_logos l b fixtures detect rows 0 s)"

section \<open>What a transaction of the logo leaves\<close>

definition images_ok :: "image_row list \<Rightarrow> bool" where
  "images_ok ims \<longleftrightarrow> distinct (map im_file ims) \<and> (\<forall>m\<in>set ims. im_active m)
     \<and> distinct (map im_org ims)"

definition blobs_ok :: "'f blobfs \<Rightarrow> bool" where
  "blobs_ok b \<longleftrightarrow> steps_framed b \<and> rows_keyed b \<and> write_contract b \<and> ensure_contract b"

definition other_images :: "string \<Rightarrow> image_row list \<Rightarrow> image_row list" where
  "other_images org ims = filter (\<lambda>m. im_org m \<noteq> org) ims"

definition uploaded_event :: "string \<Rightarrow> bfile \<Rightarrow> event" where
  "uploaded_event org f = Event LogoUploaded (bf_id f) (LogoUploadedP
     \<lparr>lu_file = bf_id f, lu_org = org, lu_content_type = bf_content_type f, lu_size = the (bf_size f),
      lu_etag = the (bf_etag f), lu_version = bf_version f\<rparr>)"

lemma raiseUploaded_Inr: "raiseUploaded org f = Inr q \<Longrightarrow> q = [uploaded_event org f]"
  by (auto simp: raiseUploaded_def uploaded_event_def split: option.splits)

lemma active_image_Some:
  assumes "images_ok ims"
  shows "active_image ims org = Some m \<longleftrightarrow> m \<in> set ims \<and> im_org m = org"
proof
  assume "active_image ims org = Some m"
  then show "m \<in> set ims \<and> im_org m = org" unfolding active_image_def by (auto dest: find_Some_in)
next
  assume "m \<in> set ims \<and> im_org m = org"
  with assms show "active_image ims org = Some m"
    unfolding active_image_def images_ok_def
    by (intro find_unique) (auto simp: distinct_map inj_on_def)
qed

lemma other_images_release:
  assumes "images_ok ims" "m \<in> set ims"
  shows "filter (\<lambda>x. im_file x \<noteq> im_file m) ims = other_images (im_org m) ims"
  using assms unfolding images_ok_def other_images_def
  by (intro filter_cong) (auto simp: distinct_map inj_on_def)

lemma other_images_none:
  "images_ok ims \<Longrightarrow> active_image ims org = None \<Longrightarrow> other_images org ims = ims"
  by (auto simp: active_image_def find_None_iff other_images_def images_ok_def filter_id_conv)

lemma attach_Inr:
  assumes "attach l b org file s = (Inr u, s')"
  shows "active_image (images s) org = None \<and> s' = s\<lparr>images := images s @ [\<lparr>im_org = org, im_file = file, im_active = True\<rparr>]\<rparr>
    \<and> file \<notin> im_file ` set (images s) \<and> find_row (orgs s) org \<noteq> None"
  using assms by (auto simp: attach_def list_ex_iff split: if_splits)

text \<open>The image a completed file becomes.\<close>
definition new_image :: "string \<Rightarrow> string \<Rightarrow> image_row" where
  "new_image org file = \<lparr>im_org = org, im_file = file, im_active = True\<rparr>"

lemma release_Inr:
  assumes b: "blobs_ok b" and run: "release b file s = (Inr f, s')"
  shows "images s' = filter (\<lambda>m. im_file m \<noteq> file) (images s) \<and> outbox s' = outbox s \<and> orgs s' = orgs s"
proof -
  from run have "file_delete b file (s\<lparr>images := filter (\<lambda>m. im_file m \<noteq> file) (images s)\<rparr>) = (Inr f, s')"
    by (auto simp: release_def detach_def andthen_Inr_iff)
  with b have "blob_frame (s\<lparr>images := filter (\<lambda>m. im_file m \<noteq> file) (images s)\<rparr>) s'"
    unfolding blobs_ok_def by (blast intro: step_framedD dest: steps_framedD(11))
  then show ?thesis by (simp add: blob_frame_def)
qed

lemma activate_Inr:
  assumes b: "blobs_ok b" and ims: "images_ok (images s)"
    and run: "activate_body l b org file s = (Inr (rep, q), s')"
  shows "images s' = other_images org (images s) @ [new_image org (bf_id file)]
    \<and> outbox s' = outbox s \<and> orgs s' = orgs s \<and> q = [uploaded_event org file]"
proof -
  from run obtain s1 s2 u where hold: "file_hold b (bf_id file) s = (Inr u, s1)"
    and rel: "(case activeLogo l b org s1 of
                Inr cur \<Rightarrow> andthen (release b (bf_id cur)) (\<lambda>f. give (Some f)) s1
              | Inl e \<Rightarrow> if errors_is NoRows e then (Inr None, s1) else (Inl e, s1)) = (Inr rep, s2)"
    and att: "attach l b org (bf_id file) s2 = (Inr (), s')"
    and q: "raiseUploaded org file = Inr q"
    by (auto simp: activate_body_def step_iffs)
  from hold b have s1: "images s1 = images s" "outbox s1 = outbox s" "orgs s1 = orgs s"
    unfolding blobs_ok_def by (auto dest!: steps_framedD(9) step_framedD simp: blob_frame_def)
  note a = attach_Inr [OF att]
  have s2: "images s2 = other_images org (images s) \<and> outbox s2 = outbox s \<and> orgs s2 = orgs s"
  proof (cases "activeLogo l b org s1")
    case (Inl e)
    with rel have "s2 = s1" by (auto split: if_splits)
    with a s1 other_images_none [OF ims] show ?thesis by simp
  next
    case (Inr cur)
    then obtain m where m: "active_image (images s1) org = Some m" "file_row b (im_file m) s1 = Some cur"
      by (auto simp: activeLogo_def split: option.splits)
    from m(1) s1 ims have mem: "m \<in> set (images s)" "im_org m = org" by (simp_all add: active_image_Some)
    from m(2) b have "bf_id cur = im_file m" by (auto simp: blobs_ok_def rows_keyed_def)
    with Inr rel obtain f where "release b (im_file m) s1 = (Inr f, s2)" by (auto simp: andthen_Inr_iff)
    from release_Inr [OF b this] s1 other_images_release [OF ims mem(1)] mem(2) show ?thesis by simp
  qed
  with a raiseUploaded_Inr [OF q] show ?thesis by (simp add: new_image_def)
qed

end
