(* ===== verification/RefBlobfs.thy ===== *)
theory RefBlobfs
  imports Blobfs
begin

text \<open>
  A small in-memory blobfs that keeps the contracts of Blobfs, on which the
  properties that take blobfs as a parameter are evaluated. It is an instance for
  the witnesses and claims nothing about the library.
\<close>

record ref_fs =
  rdirs :: "bdir list"
  rfiles :: "bfile list"

definition ref_err :: "ekind \<Rightarrow> err" where
  "ref_err k = Err k ''blobfs: refused'' []"

definition ref_dir :: "string \<Rightarrow> ref_fs db \<Rightarrow> bdir option" where
  "ref_dir i s = List.find (\<lambda>d. bd_id d = i) (rdirs (blobs s))"

definition ref_file :: "string \<Rightarrow> ref_fs db \<Rightarrow> bfile option" where
  "ref_file i s = List.find (\<lambda>f. bf_id f = i) (rfiles (blobs s))"

definition set_dirs :: "(bdir list \<Rightarrow> bdir list) \<Rightarrow> ref_fs db \<Rightarrow> ref_fs db" where
  "set_dirs g s = s\<lparr>blobs := (blobs s)\<lparr>rdirs := g (rdirs (blobs s))\<rparr>\<rparr>"

definition set_files :: "(bfile list \<Rightarrow> bfile list) \<Rightarrow> ref_fs db \<Rightarrow> ref_fs db" where
  "set_files g s = s\<lparr>blobs := (blobs s)\<lparr>rfiles := g (rfiles (blobs s))\<rparr>\<rparr>"

definition ref_new_id :: "ref_fs db \<Rightarrow> string" where
  "ref_new_id s = replicate (Suc (length (rdirs (blobs s)) + length (rfiles (blobs s)))) (CHR ''n'')"

definition ref_child :: "string \<Rightarrow> string \<Rightarrow> ref_fs db \<Rightarrow> bdir option" where
  "ref_child p n s = List.find (\<lambda>d. bd_parent d = Some p \<and> bd_name d = n) (rdirs (blobs s))"

definition ref_ensure :: "string \<Rightarrow> string \<Rightarrow> string option \<Rightarrow> (ref_fs db, bdir \<times> bool) step" where
  "ref_ensure p n oi s =
     (case ref_child p n s of
        Some d \<Rightarrow> (Inr (d, False), s)
      | None \<Rightarrow>
          (let d = \<lparr>bd_id = (case oi of None \<Rightarrow> ref_new_id s | Some i \<Rightarrow> i), bd_parent = Some p, bd_name = n,
                    bd_status = BDirActive, bd_version = 1\<rparr>
           in (Inr (d, True), set_dirs (\<lambda>ds. ds @ [d]) s)))"

definition ref_create :: "string \<Rightarrow> string \<Rightarrow> (ref_fs db, bdir) step" where
  "ref_create p n s =
     (case ref_ensure p n None s of
        (Inr (d, True), s1) \<Rightarrow> (Inr d, s1)
      | _ \<Rightarrow> (Inl (ref_err NameTaken), s))"

fun ref_within :: "nat \<Rightarrow> string \<Rightarrow> string \<Rightarrow> ref_fs db \<Rightarrow> bool" where
  "ref_within 0 i root s = False"
| "ref_within (Suc n) i root s =
     (i = root \<or> (case ref_dir i s of
                    None \<Rightarrow> False
                  | Some d \<Rightarrow> (case bd_parent d of None \<Rightarrow> False | Some p \<Rightarrow> ref_within n p root s)))"

fun ref_path :: "nat \<Rightarrow> string \<Rightarrow> ref_fs db \<Rightarrow> string" where
  "ref_path 0 i s = []"
| "ref_path (Suc n) i s =
     (case ref_dir i s of
        None \<Rightarrow> []
      | Some d \<Rightarrow> (case bd_parent d of None \<Rightarrow> [] | Some p \<Rightarrow> ref_path n p s @ ''/'' @ bd_name d))"

definition depth_of :: "ref_fs db \<Rightarrow> nat" where
  "depth_of s = Suc (length (rdirs (blobs s)))"

definition ref_update_dir :: "string \<Rightarrow> int \<Rightarrow> (bdir \<Rightarrow> bdir) \<Rightarrow> (ref_fs db, bdir) step" where
  "ref_update_dir i v g s =
     (case ref_dir i s of
        None \<Rightarrow> (Inl (ref_err BlobNotFound), s)
      | Some d \<Rightarrow>
          if bd_version d \<noteq> v then (Inl (ref_err VersionMismatch), s)
          else (let d' = (g d)\<lparr>bd_version := v + 1\<rparr>
                in (Inr d', set_dirs (map (\<lambda>x. if bd_id x = i then d' else x)) s)))"

definition ref_update_file :: "string \<Rightarrow> (bfile \<Rightarrow> bfile) \<Rightarrow> (ref_fs db, bfile) step" where
  "ref_update_file i g s =
     (case ref_file i s of
        None \<Rightarrow> (Inl (ref_err BlobNotFound), s)
      | Some f \<Rightarrow>
          (let f' = (g f)\<lparr>bf_id := bf_id f, bf_version := bf_version f + 1\<rparr>
           in (Inr f', set_files (map (\<lambda>x. if bf_id x = i then f' else x)) s)))"

definition ref_file_create :: "string \<Rightarrow> string \<Rightarrow> string \<Rightarrow> string option \<Rightarrow> (ref_fs db, bfile) step" where
  "ref_file_create d n t oi s =
     (if list_ex (\<lambda>f. bf_dir f = d \<and> bf_name f = n) (rfiles (blobs s)) then (Inl (ref_err NameTaken), s)
      else (let i = (case oi of None \<Rightarrow> ref_new_id s | Some i \<Rightarrow> i);
                f = \<lparr>bf_id = i, bf_dir = d, bf_name = n, bf_key = i, bf_status = BPending, bf_size = None,
                     bf_etag = None, bf_content_type = t, bf_version = 1\<rparr>
            in (Inr f, set_files (\<lambda>fs. fs @ [f]) s)))"

text \<open>The completion of a pending file: available, with its size and entity tag.\<close>
definition complete :: "int \<Rightarrow> bfile \<Rightarrow> bfile" where
  "complete len f = f\<lparr>bf_status := BAvailable, bf_size := Some len, bf_etag := Some ''etag''\<rparr>"

definition ref_write :: "body_read list \<Rightarrow> int \<Rightarrow> (ref_fs db, bfile) step \<Rightarrow> (bfile \<Rightarrow> (ref_fs db, unit) step) \<Rightarrow> (ref_fs db, bfile) step" where
  "ref_write body len cb hook s =
     (case cb s of
        (Inl e, s1) \<Rightarrow> (Inl e, s)
      | (Inr f0, s1) \<Rightarrow>
          (let f = complete len f0;
               s2 = set_files (map (\<lambda>x. if bf_id x = bf_id f0 then f else x)) s1
           in case hook f s2 of (Inl e, s3) \<Rightarrow> (Inl e, s1) | (Inr _, s3) \<Rightarrow> (Inr f, s3)))"

definition ref_ensure_file ::
    "string \<Rightarrow> string \<Rightarrow> int \<Rightarrow> (ref_fs db, bfile \<times> write_outcome) step \<Rightarrow> (bfile \<Rightarrow> (ref_fs db, unit) step)
      \<Rightarrow> (ref_fs db, bfile \<times> bool) step" where
  "ref_ensure_file i content len cb hook s =
     (case cb s of
        (Inl e, s1) \<Rightarrow> (Inl e, s)
      | (Inr (f0, FoundAvailable), s1) \<Rightarrow> (Inr (f0, False), s1)
      | (Inr (f0, _), s1) \<Rightarrow>
          (let f = complete len f0;
               s2 = set_files (map (\<lambda>x. if bf_id x = bf_id f0 then f else x)) s1
           in case hook f s2 of (Inl e, s3) \<Rightarrow> (Inl e, s1) | (Inr _, s3) \<Rightarrow> (Inr (f, True), s3)))"

definition ref_file_ensure :: "string \<Rightarrow> string \<Rightarrow> string \<Rightarrow> string \<Rightarrow> (ref_fs db, bfile \<times> write_outcome) step" where
  "ref_file_ensure d n t i s =
     (case ref_file i s of
        Some f \<Rightarrow> (Inr (f, if bf_status f = BAvailable then FoundAvailable else FoundPending), s)
      | None \<Rightarrow> (case ref_file_create d n t (Some i) s of
                   (Inl e, s1) \<Rightarrow> (Inl e, s) | (Inr f, s1) \<Rightarrow> (Inr (f, WroteNew), s1)))"

definition ref_remove_file :: "(ref_fs db, string) step \<Rightarrow> int \<Rightarrow> (bfile \<Rightarrow> (ref_fs db, unit) step) \<Rightarrow> (ref_fs db, unit) step" where
  "ref_remove_file cb v hook s =
     (case cb s of
        (Inl e, s1) \<Rightarrow> (Inl e, s)
      | (Inr i, s1) \<Rightarrow>
          (case ref_file i s1 of
             None \<Rightarrow> (Inl (ref_err BlobNotFound), s1)
           | Some f0 \<Rightarrow>
               if bf_status f0 = BDeleting then (Inr (), set_files (filter (\<lambda>x. bf_id x \<noteq> i)) s1)
               else if bf_version f0 \<noteq> v then (Inl (ref_err VersionMismatch), s1)
               else (case hook (f0\<lparr>bf_id := i, bf_status := BDeleting, bf_version := v + 1\<rparr>) s1 of
                       (Inl e, s2) \<Rightarrow> (Inl e, s1)
                     | (Inr _, s2) \<Rightarrow> (Inr (), set_files (filter (\<lambda>x. bf_id x \<noteq> i)) s2))))"

definition ref_listing :: "(ref_fs db \<Rightarrow> string \<Rightarrow> 'r list) \<Rightarrow> ('r, ref_fs db) listing" where
  "ref_listing rows =
     \<lparr>continue_under = (\<lambda>s i d c n. Inr \<lparr>c_items = rows s i, c_total = None, c_more = False, c_next = []\<rparr>),
      list_under = (\<lambda>s i d pg.
        if (case ref_dir i s of None \<Rightarrow> False | Some x \<Rightarrow> bd_status x = BDirDeleting) then Inl (ref_err Deleting)
        else Inr \<lparr>c_items = rows s i, c_total = Some (int (length (rows s i))), c_more = False, c_next = []\<rparr>)\<rparr>"

definition ref_blobfs :: "ref_fs blobfs" where
  "ref_blobfs = \<lparr>root_id = ''fs'', new_id = ref_new_id,
     name_rule = (\<lambda>n. if n = [] then Some (Err NameError ''blobfs: name is empty'' [ref_err InvalidName]) else None),
     dir_find = (\<lambda>i s. case ref_dir i s of None \<Rightarrow> Inl (ref_err BlobNotFound) | Some d \<Rightarrow> Inr d),
     dir_abs_path = (\<lambda>i s. Inr (ref_path (depth_of s) i s)),
     dir_is_within = (\<lambda>i root s. Inr (ref_within (depth_of s) i root s)),
     dir_ensure = ref_ensure, dir_create = ref_create,
     dir_move = (\<lambda>i p n v. ref_update_dir i v (\<lambda>d. d\<lparr>bd_parent := Some p, bd_name := n\<rparr>)),
     dir_delete = (\<lambda>i v s. case ref_update_dir i v (\<lambda>d. d) s of
        (Inl e, s1) \<Rightarrow> (Inl e, s) | (Inr d, s1) \<Rightarrow> (Inr (), set_dirs (filter (\<lambda>x. bd_id x \<noteq> i)) s)),
     lock_tree = (\<lambda>s. (Inr (), s)),
     mark_deleting = (\<lambda>i v s. case ref_update_dir i v (\<lambda>d. d\<lparr>bd_status := BDirDeleting\<rparr>) s of
        (Inl e, s1) \<Rightarrow> (Inl e, s) | (Inr d, s1) \<Rightarrow> (Inr 1, s1)),
     dir_listing = ref_listing (\<lambda>s i. filter (\<lambda>d. bd_parent d = Some i) (rdirs (blobs s))),
     file_listing = ref_listing (\<lambda>s i. filter (\<lambda>f. bf_dir f = i) (rfiles (blobs s))),
     file_row = ref_file,
     file_find = (\<lambda>i s. case ref_file i s of None \<Rightarrow> Inl (ref_err BlobNotFound) | Some f \<Rightarrow> Inr f),
     file_create = ref_file_create, file_ensure = ref_file_ensure,
     file_hold = (\<lambda>i s. (Inr (), s)),
     file_move = (\<lambda>i d n v. ref_update_file i (\<lambda>f. f\<lparr>bf_dir := d, bf_name := n\<rparr>)),
     file_delete = (\<lambda>i. ref_update_file i (\<lambda>f. f\<lparr>bf_status := BDeleting\<rparr>)),
     write_file = ref_write, ensure_file = ref_ensure_file, remove_file = ref_remove_file,
     remove_file_id = (\<lambda>i v s. (Inr (), set_files (filter (\<lambda>x. bf_id x \<noteq> i)) s)),
     purge_file = (\<lambda>f s. (Inr (), set_files (filter (\<lambda>x. bf_id x \<noteq> bf_id f)) s))\<rparr>"

section \<open>It keeps the contracts\<close>

lemma frame_set_dirs [simp]: "blob_frame s (set_dirs g s)"
  by (simp add: blob_frame_def set_dirs_def)

lemma frame_set_files [simp]: "blob_frame s (set_files h s)"
  by (simp add: blob_frame_def set_files_def)

lemma ref_frames:
  "step_framed (ref_ensure p n i)" "step_framed (ref_create p n)" "step_framed (ref_update_dir j v g)"
  "step_framed (ref_update_file j h)" "step_framed (ref_file_create p n t i)" "step_framed (ref_file_ensure p n t j)"
proof -
  show ens: "step_framed (ref_ensure p n i)" for i
    by (auto simp: step_framed_def ref_ensure_def Let_def split: option.splits)
  show "step_framed (ref_create p n)"
    using ens [of None]
    by (auto simp: step_framed_def ref_create_def split: prod.splits sum.splits bool.splits) (metis snd_conv)
  show "step_framed (ref_update_dir j v g)"
    by (auto simp: step_framed_def ref_update_dir_def Let_def split: option.splits)
  show "step_framed (ref_update_file j h)"
    by (auto simp: step_framed_def ref_update_file_def Let_def split: option.splits)
  show "step_framed (ref_file_create p n t i)" for i
    by (auto simp: step_framed_def ref_file_create_def Let_def)
  then show "step_framed (ref_file_ensure p n t j)"
    by (auto simp: step_framed_def ref_file_ensure_def split: option.splits prod.splits sum.splits) (metis snd_conv)
qed

lemma ref_steps_framed: "steps_framed ref_blobfs"
proof -
  have del: "step_framed (dir_delete ref_blobfs i v)" "step_framed (mark_deleting ref_blobfs i v)" for i v
    using ref_frames(3)
    by (auto simp: ref_blobfs_def step_framed_def split: prod.splits sum.splits) (metis snd_conv)
  have "step_framed (lock_tree ref_blobfs)" "step_framed (file_hold ref_blobfs i)"
    "step_framed (remove_file_id ref_blobfs i ov)" "step_framed (purge_file ref_blobfs f)" for i ov f
    by (simp_all add: ref_blobfs_def step_framed_def)
  with del show ?thesis
    by (simp add: steps_framed_def) (simp add: ref_blobfs_def ref_frames)
qed

lemma ref_rows_keyed: "rows_keyed ref_blobfs"
  by (auto simp: rows_keyed_def ref_blobfs_def ref_file_def dest: find_Some_in)

lemma complete_fields [simp]:
  "bf_id (complete len f) = bf_id f" "bf_dir (complete len f) = bf_dir f" "bf_name (complete len f) = bf_name f"
  "bf_status (complete len f) = BAvailable" "bf_size (complete len f) = Some len" "bf_etag (complete len f) = Some ''etag''"
  by (simp_all add: complete_def)

lemma ref_write_contract: "write_contract ref_blobfs"
  unfolding write_contract_def
proof (intro allI)
  fix body len cb hook s
  have run: "write_file ref_blobfs body len cb hook s = ref_write body len cb hook s"
    by (simp add: ref_blobfs_def)
  obtain r s1 where cb: "cb s = (r, s1)" by fastforce
  show "case write_file ref_blobfs body len cb hook s of
      (Inl e, s') \<Rightarrow> (\<exists>s1. cb s = (Inl e, s1)) \<and> s' = s \<or> (\<exists>f0 s1. cb s = (Inr f0, s1) \<and> blob_frame s1 s')
    | (Inr f, s') \<Rightarrow> \<exists>f0 s1 s2 s3. cb s = (Inr f0, s1) \<and> blob_frame s1 s2 \<and> hook f s2 = (Inr (), s3)
        \<and> blob_frame s3 s' \<and> bf_id f = bf_id f0 \<and> bf_dir f = bf_dir f0 \<and> bf_name f = bf_name f0
        \<and> bf_status f = BAvailable \<and> bf_size f \<noteq> None \<and> bf_etag f \<noteq> None"
  proof (cases r)
    case (Inl e)
    then show ?thesis by (simp add: run ref_write_def cb)
  next
    case (Inr f0)
    let ?s2 = "set_files (map (\<lambda>x. if bf_id x = bf_id f0 then complete len f0 else x)) s1"
    obtain h s3 where hook: "hook (complete len f0) ?s2 = (h, s3)" by fastforce
    have "\<exists>t t3. blob_frame s1 t \<and> hook (complete len f0) t = (h, t3) \<and> blob_frame t3 s3"
      using hook by (intro exI [of _ ?s2] exI [of _ s3]) simp
    with hook show ?thesis
      by (cases h) (simp_all add: run ref_write_def cb Inr Let_def)
  qed
qed

lemma ref_ensure_contract: "ensure_contract ref_blobfs"
  unfolding ensure_contract_def
proof (intro allI)
  fix i content len cb hook s
  have run: "ensure_file ref_blobfs i content len cb hook s = ref_ensure_file i content len cb hook s"
    by (simp add: ref_blobfs_def)
  obtain r s1 where cb: "cb s = (r, s1)" by fastforce
  show "case ensure_file ref_blobfs i content len cb hook s of
      (Inl e, s') \<Rightarrow> (\<exists>s1. cb s = (Inl e, s1)) \<and> s' = s \<or> (\<exists>x s1. cb s = (Inr x, s1) \<and> blob_frame s1 s')
    | (Inr (f, stored), s') \<Rightarrow> \<exists>x s1 s2. cb s = (Inr x, s1) \<and> blob_frame s1 s2 \<and>
        (if stored then \<exists>s3. hook f s2 = (Inr (), s3) \<and> blob_frame s3 s' \<and> bf_status f = BAvailable
           \<and> bf_size f \<noteq> None \<and> bf_etag f \<noteq> None
         else blob_frame s2 s')"
  proof (cases r)
    case (Inl e)
    then show ?thesis by (simp add: run ref_ensure_file_def cb)
  next
    case (Inr x)
    obtain f0 w where x: "x = (f0, w)" by fastforce
    let ?s2 = "set_files (map (\<lambda>x. if bf_id x = bf_id f0 then complete len f0 else x)) s1"
    obtain h s3 where hook: "hook (complete len f0) ?s2 = (h, s3)" by fastforce
    have "\<exists>t. blob_frame s1 t \<and> (\<exists>t3. hook (complete len f0) t = (h, t3) \<and> blob_frame t3 s3)"
      using hook by (intro exI [of _ ?s2] conjI exI [of _ s3]) simp_all
    moreover have "\<exists>t. blob_frame s1 t \<and> blob_frame t s1"
      by (rule exI [of _ s1]) simp
    ultimately show ?thesis using hook
      by (cases h; cases w) (simp_all add: run ref_ensure_file_def cb Inr x Let_def)
  qed
qed

lemma ref_blobs_frames:
  "remove_file ref_blobfs cb v hook s = ref_remove_file cb v hook s"
  by (simp add: ref_blobfs_def)

lemma ref_remove_contract: "remove_contract ref_blobfs"
  unfolding remove_contract_def
proof (intro allI)
  fix cb :: "(ref_fs db, string) step" and v hook s
  obtain r s1 where cb: "cb s = (r, s1)" by fastforce
  show "case remove_file ref_blobfs cb v hook s of
      (Inl e, s') \<Rightarrow> (\<exists>s1. cb s = (Inl e, s1)) \<and> s' = s \<or>
        (\<exists>i s1. cb s = (Inr i, s1) \<and>
           (blob_frame s1 s' \<or> (\<exists>f s2 s3. blob_frame s1 s2 \<and> hook f s2 = (Inr (), s3) \<and> blob_frame s3 s')))
    | (Inr u, s') \<Rightarrow> \<exists>i s1 s2. cb s = (Inr i, s1) \<and> blob_frame s1 s2 \<and>
        ((\<exists>f s3. bf_id f = i \<and> bf_status f = BDeleting \<and> hook f s2 = (Inr (), s3) \<and> blob_frame s3 s')
         \<or> blob_frame s2 s')"
  proof (cases r)
    case (Inl e)
    then show ?thesis by (simp add: ref_blobs_frames ref_remove_file_def cb)
  next
    case (Inr i)
    show ?thesis
    proof (cases "ref_file i s1")
      case None
      then show ?thesis by (simp add: ref_blobs_frames ref_remove_file_def cb Inr)
    next
      case (Some f0)
      let ?f = "f0\<lparr>bf_id := i, bf_status := BDeleting, bf_version := v + 1\<rparr>"
      obtain h s2 where hook: "hook ?f s1 = (h, s2)" by fastforce
      let ?out = "set_files (filter (\<lambda>x. bf_id x \<noteq> i))"
      have ran: "\<exists>t. blob_frame s1 t \<and> (\<exists>f s3. bf_id f = i \<and> bf_status f = BDeleting \<and> hook f t = (h, s3) \<and> blob_frame s3 (?out s2))"
        using hook by (intro exI [of _ s1] conjI exI [of _ ?f] exI [of _ s2]) simp_all
      have again: "\<exists>t. blob_frame s1 t \<and> blob_frame t (?out s1)"
        by (rule exI [of _ s1]) simp
      show ?thesis
      proof (cases "bf_status f0 = BDeleting \<or> bf_version f0 \<noteq> v")
        case True
        with again show ?thesis by (auto simp: ref_blobs_frames ref_remove_file_def cb Inr Some)
      next
        case False
        with hook ran show ?thesis
          by (cases h) (auto simp: ref_blobs_frames ref_remove_file_def cb Inr Some)
      qed
    qed
  qed
qed

lemma ref_begins_once: "begins_once ref_blobfs"
  unfolding begins_once_def
proof (intro conjI allI impI)
  show "bf_id f = i" if "file_find ref_blobfs i s = Inr f" for i s f
    using that by (auto simp: ref_blobfs_def ref_file_def split: option.splits dest: find_Some_in)
next
  fix cb :: "(ref_fs db, string) step" and v hook s
  obtain r s1 where cb: "cb s = (r, s1)" by fastforce
  have found: "file_find ref_blobfs i s1 = Inr f0" if "ref_file i s1 = Some f0" for i f0
    using that by (simp add: ref_blobfs_def)
  show "case remove_file ref_blobfs cb v hook s of
      (Inr u, s') \<Rightarrow> \<exists>i s1 f0. cb s = (Inr i, s1) \<and> file_find ref_blobfs i s1 = Inr f0 \<and>
        (if bf_status f0 = BDeleting then blob_frame s1 s'
         else \<exists>f s2 s3. blob_frame s1 s2 \<and> bf_id f = i \<and> bf_version f = v + 1 \<and>
                hook f s2 = (Inr (), s3) \<and> blob_frame s3 s')
    | (Inl e, s') \<Rightarrow> (\<exists>s1. cb s = (Inl e, s1)) \<and> s' = s \<or>
        (\<exists>i s1. cb s = (Inr i, s1) \<and>
           (blob_frame s1 s' \<or>
            (\<exists>f0 f s2 s3. file_find ref_blobfs i s1 = Inr f0 \<and> bf_status f0 \<noteq> BDeleting \<and> blob_frame s1 s2 \<and>
               bf_id f = i \<and> bf_version f = v + 1 \<and> hook f s2 = (Inr (), s3) \<and> blob_frame s3 s')))"
  proof (cases r)
    case (Inl e)
    then show ?thesis by (simp add: ref_blobs_frames ref_remove_file_def cb)
  next
    case (Inr i)
    show ?thesis
    proof (cases "ref_file i s1")
      case None
      then show ?thesis by (simp add: ref_blobs_frames ref_remove_file_def cb Inr)
    next
      case (Some f0)
      let ?f = "f0\<lparr>bf_id := i, bf_status := BDeleting, bf_version := v + 1\<rparr>"
      obtain h s2 where hook: "hook ?f s1 = (h, s2)" by fastforce
      have ran: "\<exists>f t s3. blob_frame s1 t \<and> bf_id f = i \<and> bf_version f = v + 1 \<and> hook f t = (h, s3)
          \<and> blob_frame s3 (set_files (filter (\<lambda>x. bf_id x \<noteq> i)) s2)"
        using hook by (intro exI [of _ ?f] exI [of _ s1] exI [of _ s2]) simp
      show ?thesis
      proof (cases "bf_status f0 = BDeleting \<or> bf_version f0 \<noteq> v")
        case True
        then show ?thesis by (auto simp: ref_blobs_frames ref_remove_file_def cb Inr Some found [OF Some])
      next
        case False
        with hook ran show ?thesis
          by (cases h) (simp_all add: ref_blobs_frames ref_remove_file_def cb Inr Some found [OF Some])
      qed
    qed
  qed
qed

end
