(* ===== verification/OrgLogoProperties.thy ===== *)
theory OrgLogoProperties
  imports OrgLogoSeed RefBlobfs OrgProperties
begin

text \<open>
  The properties of the logo: what a PUT, a DELETE and a seed leave of the images
  and the outbox, and that a failed write answers with its own refusal.
\<close>

section \<open>A logo PUT\<close>

lemma framed_put_callback:
  "blobs_ok b \<Longrightarrow> step_framed (andthen (reading (org_exists l org)) (\<lambda>_. file_create b d n t i))"
  unfolding blobs_ok_def by (blast dest: steps_framedD(7))

lemma purge_frame: "blobs_ok b \<Longrightarrow> purge b f s = (x, s') \<Longrightarrow> blob_frame s s'"
  unfolding blobs_ok_def purge_def
  by (auto split: prod.splits sum.splits dest: steps_framedD(13) step_framedD)

lemma put_stored:
  assumes b: "blobs_ok b" and dir: "dir_ensure b p n i s = (x, s1)"
    and w: "write_file b body len (andthen (reading (org_exists l org)) (\<lambda>_. file_create b d nm t j)) no_hook s1 = (r, s2)"
  shows "blob_frame s s2"
proof -
  from b have "blob_frame s s1" using dir unfolding blobs_ok_def
    by (blast dest: steps_framedD(1) step_framedD)
  moreover have "blob_frame s1 s2"
  proof (rule step_framedD [OF framed_write w])
    show "write_contract b" using b by (simp add: blobs_ok_def)
  qed (rule framed_put_callback [OF b], rule framed_no_hook)
  ultimately show ?thesis by (rule blob_frame_trans)
qed

lemma put_activation:
  assumes l: "lib_ok l" and b: "blobs_ok b" and frame: "blob_frame s s2"
    and act: "transact l (emit l (activate_body l b org fl)) s2 = (t, s3)"
    and run: "(r, s') = (case (t, s3) of
        (Inl e, s3) \<Rightarrow> (case remove_file_id b (bf_id fl) None s3 of
           (q, s4) \<Rightarrow> (Inl (the (abandoned (Some e) (failure q))), s4))
      | (Inr replaced, s3) \<Rightarrow> (case replaced of
           None \<Rightarrow> (Inr (bf_id fl, False), s3)
         | Some f \<Rightarrow> (case purge b f s3 of (logged, s4) \<Rightarrow> (Inr (bf_id fl, logged), s4))))"
  shows "case r of
      Inl e \<Rightarrow> blob_frame s s'
    | Inr (file, logged) \<Rightarrow> \<exists>f rep s2 s3. bf_id f = file \<and> blob_frame s s2 \<and>
        transact l (emit l (activate_body l b org f)) s2 = (Inr rep, s3) \<and> blob_frame s3 s'"
proof (cases t)
  case (Inl e)
  with act transact_Inl [OF l] have "s3 = s2" by blast
  obtain q s4 where rm: "remove_file_id b (bf_id fl) None s2 = (q, s4)" by fastforce
  with run Inl \<open>s3 = s2\<close> have "r = Inl (the (abandoned (Some e) (failure q)))" "s' = s4" by simp_all
  moreover have "blob_frame s2 s4" using rm b unfolding blobs_ok_def
    by (blast dest: steps_framedD(12) step_framedD)
  ultimately show ?thesis using blob_frame_trans [OF frame] by simp
next
  case t: (Inr replaced)
  obtain logged where "r = Inr (bf_id fl, logged)" "blob_frame s3 s'"
  proof (cases replaced)
    case None
    with run t that [of False] show ?thesis by simp
  next
    case (Some f)
    obtain logged s4 where p: "purge b f s3 = (logged, s4)" by fastforce
    with run t Some that [of logged] purge_frame [OF b p] show ?thesis by simp
  qed
  with act t frame show ?thesis by auto
qed

text \<open>A PUT's run: a failure leaves only the library's writes, and a success is an
  activation with nothing but those before and after it.\<close>
lemma put_run:
  assumes l: "lib_ok l" and b: "blobs_ok b" and run: "putLogo l b org u ext s = (r, s')"
  shows "case r of
      Inl e \<Rightarrow> blob_frame s s'
    | Inr (file, logged) \<Rightarrow> \<exists>f rep s2 s3. bf_id f = file \<and> blob_frame s s2 \<and>
        transact l (emit l (activate_body l b org f)) s2 = (Inr rep, s3) \<and> blob_frame s3 s'"
proof -
  obtain x s1 where dir: "dir_ensure b (root_id b) imagesDirectory None s = (x, s1)" by fastforce
  show ?thesis
  proof (cases x)
    case (Inl e)
    with run dir have "r = Inl e" "s' = s1" by (simp_all add: putLogo_def)
    moreover have "blob_frame s s1" using dir b unfolding blobs_ok_def
      by (blast dest: steps_framedD(1) step_framedD)
    ultimately show ?thesis by simp
  next
    case (Inr dc)
    obtain d c where dc: "dc = (d, c)" by fastforce
    obtain w s2 where wrote: "write_file b (up_body u) (up_size u)
        (andthen (reading (org_exists l org)) (\<lambda>_. file_create b (bd_id d) (new_id b s1 @ ext) (up_content_type u)
          (Some (new_id b s1)))) no_hook s1 = (w, s2)" by fastforce
    have frame: "blob_frame s s2" by (rule put_stored [OF b dir wrote])
    show ?thesis
    proof (cases w)
      case (Inl e)
      with run dir Inr dc wrote have "r = Inl e" "s' = s2" by (simp_all add: putLogo_def Let_def)
      with frame show ?thesis by simp
    next
      case w: (Inr fl)
      obtain t s3 where act: "transact l (emit l (activate_body l b org fl)) s2 = (t, s3)" by fastforce
      show ?thesis
        by (rule put_activation [OF l b frame act])
          (use run dir Inr dc wrote w act in \<open>simp add: putLogo_def Let_def\<close>)
    qed
  qed
qed

text \<open>C17. A logo PUT is all or nothing for its readers: when it succeeds, the new file
  is the organization's one image, every other organization's images are as they
  were, and one LogoUploaded for it is the only event, whether or not the purge of
  the replaced file failed; when it fails, at any step, no image and no event has
  changed.\<close>
theorem put_logo_outcome:
  assumes "lib_ok l" "blobs_ok b" "images_ok (images s)" "putLogo l b org u ext s = (r, s')"
  shows "case r of
      Inl e \<Rightarrow> images s' = images s \<and> outbox s' = outbox s
    | Inr (file, logged) \<Rightarrow>
        images s' = other_images org (images s) @ [new_image org file]
        \<and> (\<exists>f. bf_id f = file \<and> outbox s' = outbox s @ [uploaded_event org f])"
proof (cases r)
  case (Inl e)
  with put_run [OF assms(1,2,4)] show ?thesis by (simp add: blob_frame_def)
next
  case (Inr fl)
  obtain i logged where fl: "fl = (i, logged)" by fastforce
  with put_run [OF assms(1,2,4)] Inr obtain f rep s2 s3 where f: "bf_id f = i" "blob_frame s s2"
      "transact l (emit l (activate_body l b org f)) s2 = (Inr rep, s3)" "blob_frame s3 s'" by auto
  obtain q s5 where body: "activate_body l b org f s2 = (Inr (rep, q), s5)" "s3 = emitting s5 q"
    by (rule command_Inr [OF assms(1) f(3)]) blast
  have "images_ok (images s2)" using assms(3) f(2) by (simp add: blob_frame_def)
  note done3 = activate_Inr [OF assms(2) this body(1)]
  with Inr fl body(2) f(1,2,4) show ?thesis by (auto simp: blob_frame_def)
qed

lemma ref_blobs_ok: "blobs_ok ref_blobfs"
  by (simp add: blobs_ok_def ref_steps_framed ref_rows_keyed ref_write_contract ref_ensure_contract)

definition logo_db :: "ref_fs db" where
  "logo_db = \<lparr>orgs = [acme_row], images = [], owners = [], outbox = [], blobs = \<lparr>rdirs = [], rfiles = []\<rparr>\<rparr>"

definition png :: upload where
  "png = \<lparr>up_body = [], up_size = 3, up_content_type = ''image/png'', up_media_type = ''image/png''\<rparr>"

lemma png_put: "\<exists>f. fst (putLogo plain_lib ref_blobfs ''x'' png ''.png'' logo_db) = Inr (f, False)"
  by (simp add: putLogo_def ref_blobfs_def ref_ensure_def ref_child_def logo_db_def Let_def ref_write_def
      andthen_def reading_def org_exists_def version_row_def find_row_def ref_file_create_def set_dirs_def
      set_files_def ref_new_id_def no_hook_def transact_def emit_def activate_body_def activeLogo_def
      active_image_def attach_def ref_file_def raiseUploaded_def complete_def give_def plain_lib_def png_def)

theorem put_logo_outcome_witness:
  "\<exists>f. images (snd (putLogo plain_lib ref_blobfs ''x'' png ''.png'' logo_db)) = [new_image ''x'' f]"
proof -
  have ims: "images_ok (images logo_db)" by (simp add: logo_db_def images_ok_def)
  from png_put obtain f where "fst (putLogo plain_lib ref_blobfs ''x'' png ''.png'' logo_db) = Inr (f, False)" by blast
  with put_logo_outcome [OF plain_lib_ok ref_blobs_ok ims prod.collapse [symmetric],
      of "''x''" png "''.png''"]
  show ?thesis by (auto simp: logo_db_def other_images_def)
qed

section \<open>A failed write answers with its refusal\<close>

text \<open>The refusal answers, not the cleanup: when the activation of a stored file
  is refused and its removal fails because the file is already gone, or does not
  fail, the error answers the refusal's own problem; a removal's not-found never
  turns the refusal's conflict into a 404.\<close>
theorem abandoned_answers_refusal:
  assumes "case removeErr of None \<Rightarrow> True | Some r \<Rightarrow> errors_is BlobNotFound r"
  shows "\<exists>e'. abandoned (Some e) removeErr = Some e' \<and> Status e' = Status e"
proof (cases removeErr)
  case None
  have "Status (Err Wrapped (error_text e) [e]) = Status e"
  proof -
    have "wrapf [] e = Err Wrapped ('': '' @ error_text e) [e]" by (simp add: wrapf_def)
    have "first_kind ks (Err Wrapped tx [e]) = first_kind ks (wrapf [] e)" if "Wrapped \<notin> set ks" for ks tx
      using that by (induction ks) (auto simp: errors_as_Err wrapf_def split: option.splits)
    then have "requestDetail (Err Wrapped (error_text e) [e]) = requestDetail (wrapf [] e)"
      unfolding requestDetail_def using Wrapped_not_refusal by metis
    then have "requestDetail (Err Wrapped (error_text e) [e]) = requestDetail e"
      by (simp add: requestDetail_wrapf)
    moreover have "file_deleting (Err Wrapped (error_text e) [e]) = file_deleting e"
      by (simp add: file_deleting_def errors_as_def)
    ultimately show ?thesis by (simp add: Status_def)
  qed
  with None show ?thesis by (simp add: abandoned_def errors_join_def)
next
  case (Some r)
  with assms show ?thesis by (simp add: abandoned_def)
qed

theorem abandoned_answers_refusal_witness:
  "\<exists>e'. abandoned (Some (violation plain_lib UniqueViolation constraintImageActive))
      (Some (Err BlobNotFound ''blobfs: not found'' [])) = Some e'
    \<and> Status e' = Some (Conflict DetailConflict)"
  using abandoned_answers_refusal [of "Some (Err BlobNotFound ''blobfs: not found'' [])"
      "violation plain_lib UniqueViolation constraintImageActive"]
  by (simp add: Status_def plain_lib_def file_deleting_def errors_as_def)

end
