(* ===== verification/DocStore.thy ===== *)
theory DocStore
  imports OrgTable Blobfs
begin

text \<open>
  domain/document/database.go, storage.go and messaging.go: the document layer's
  scope checks, reads and commands over an organization's document root, with
  blobfs a parameter. The owner-row statements run on the organization_directory
  table with its constraints; every command is its transaction with its event.
\<close>

section \<open>The owner row\<close>

text \<open>document_root.sql.\<close>
definition documentRoot :: "'f lib \<Rightarrow> string \<Rightarrow> 'f db \<Rightarrow> string result" where
  "documentRoot l org s =
     (case List.find (\<lambda>w. ow_org w = org) (owners s) of
        None \<Rightarrow> Inl (no_rows l)
      | Some w \<Rightarrow> Inr (ow_dir w))"

text \<open>organization_exists.sql.\<close>
definition organizationExists :: "'f lib \<Rightarrow> string \<Rightarrow> 'f db \<Rightarrow> unit result" where
  "organizationExists l org s = (case find_row (orgs s) org of None \<Rightarrow> Inl (no_rows l) | Some r \<Rightarrow> Inr ())"

text \<open>bind_root.sql under migration 0003's constraints; the directory is the one the
  same transaction ensured.\<close>
definition bind_root :: "'f lib \<Rightarrow> string \<Rightarrow> string \<Rightarrow> ('f db, unit) step" where
  "bind_root l org dir s =
     (if list_ex (\<lambda>w. ow_dir w = dir) (owners s)
        then (Inl (violation l UniqueViolation ''organization_directory_pkey''), s)
      else if list_ex (\<lambda>w. ow_org w = org) (owners s)
        then (Inl (violation l UniqueViolation ''uq_organization_directory_organization''), s)
      else if find_row (orgs s) org = None
        then (Inl (violation l ForeignKeyViolation ''fk_organization_directory_organization''), s)
      else (Inr (), s\<lparr>owners := owners s @ [\<lparr>ow_dir = dir, ow_org = org\<rparr>]\<rparr>))"

text \<open>seedOrganization: seed_organization.sql a segment at a time from the root.\<close>
fun walk_codes :: "'f lib \<Rightarrow> string \<Rightarrow> org_row list \<Rightarrow> string option \<Rightarrow> string list \<Rightarrow> string option result" where
  "walk_codes l path os parent [] = Inr parent"
| "walk_codes l path os parent (code # codes) =
     (case find_seeded parent code os of
        None \<Rightarrow> Inl (wrapf (''organization '' @ path) (no_rows l))
      | Some r \<Rightarrow> walk_codes l path os (Some (r_id r)) codes)"

definition seedOrganization :: "'f lib \<Rightarrow> string \<Rightarrow> 'f db \<Rightarrow> string result" where
  "seedOrganization l path s =
     (case walk_codes l path (orgs s) None (split_at (CHR ''/'') (trim_prefix ''/'' path)) of
        Inl e \<Rightarrow> Inl e
      | Inr i \<Rightarrow> Inr (the i))"

section \<open>Events\<close>

definition DirectoryCreated :: string where
  "DirectoryCreated = ''web-service.document.directory.created''"
definition DirectoryMoved :: string where
  "DirectoryMoved = ''web-service.document.directory.moved''"
definition DirectoryDeleted :: string where
  "DirectoryDeleted = ''web-service.document.directory.deleted''"
definition FileUploaded :: string where
  "FileUploaded = ''web-service.document.file.uploaded''"
definition FileMoved :: string where
  "FileMoved = ''web-service.document.file.moved''"
definition FileDeleted :: string where
  "FileDeleted = ''web-service.document.file.deleted''"

definition raiseDirectory :: "string \<Rightarrow> string \<Rightarrow> string \<Rightarrow> bdir \<Rightarrow> event" where
  "raiseDirectory ty org root d =
     Event ty (bd_id d) (DirectoryP
       \<lparr>dd_directory = bd_id d, dd_org = org,
        dd_parent = (if bd_id d = root then None else bd_parent d),
        dd_name = (if bd_id d = root then ''/'' else bd_name d), dd_version = bd_version d\<rparr>)"

definition deleted_event :: "string \<Rightarrow> string \<Rightarrow> int \<Rightarrow> event" where
  "deleted_event org i v = Event DirectoryDeleted i (DirectoryDeletedP \<lparr>ddd_directory = i, ddd_org = org, ddd_version = v\<rparr>)"

definition raiseMarked :: "'f blobfs \<Rightarrow> string \<Rightarrow> string \<Rightarrow> 'f db \<Rightarrow> event list result" where
  "raiseMarked b org i s =
     (case dir_find b i s of
        Inl e \<Rightarrow> Inl (wrapf (''the directory '' @ i @ '' after its mark'') e)
      | Inr d \<Rightarrow> Inr [deleted_event org i (bd_version d)])"

definition fileData :: "string \<Rightarrow> bfile \<Rightarrow> file_uploaded_data" where
  "fileData org f = \<lparr>fu_file = bf_id f, fu_org = org, fu_directory = bf_dir f, fu_name = bf_name f,
     fu_content_type = bf_content_type f, fu_size = bf_size f, fu_etag = bf_etag f, fu_version = bf_version f\<rparr>"

text \<open>store.emit: a hook's events, recorded in the protocol's transaction.\<close>
definition hook_emit :: "'f lib \<Rightarrow> event list \<Rightarrow> ('f db, unit) step" where
  "hook_emit l q = emit l (give ((), q))"

definition emitUploaded :: "'f lib \<Rightarrow> string \<Rightarrow> bfile \<Rightarrow> ('f db, unit) step" where
  "emitUploaded l org f =
     (if bf_size f = None \<or> bf_etag f = None
      then refuse (plain (''file '' @ bf_id f @ '' completed without its size or entity tag''))
      else hook_emit l [Event FileUploaded (bf_id f) (FileP (fileData org f))])"

definition emitDeleted :: "'f lib \<Rightarrow> string \<Rightarrow> bfile \<Rightarrow> ('f db, unit) step" where
  "emitDeleted l org f =
     hook_emit l [Event FileDeleted (bf_id f) (FileDeletedP
       \<lparr>fd_file = bf_id f, fd_org = org, fd_version = bf_version f\<rparr>)]"

section \<open>Scope\<close>

text \<open>within: the alias and the root's id are the root; any other id must lie in it.\<close>
definition within :: "'f blobfs \<Rightarrow> string \<Rightarrow> string \<Rightarrow> 'f db \<Rightarrow> string result" where
  "within b root i s =
     (if i = RootAlias \<or> i = root then Inr root
      else (case dir_is_within b i root s of
              Inl e \<Rightarrow> Inl e
            | Inr inside \<Rightarrow> if \<not> inside then Inl (wrapf (''directory '' @ i) BlobErrNotFound) else Inr i))"

definition scope :: "'f lib \<Rightarrow> 'f blobfs \<Rightarrow> string \<Rightarrow> string \<Rightarrow> 'f db \<Rightarrow> (string \<times> string) result" where
  "scope l b org i s =
     (case documentRoot l org s of
        Inl e \<Rightarrow> Inl (wrapf (''document root of organization '' @ org) e)
      | Inr root \<Rightarrow> (case within b root i s of Inl e \<Rightarrow> Inl e | Inr dir \<Rightarrow> Inr (root, dir)))"

text \<open>fileScope: every failure of the containment check answers as a missing file.\<close>
definition fileScope :: "'f lib \<Rightarrow> 'f blobfs \<Rightarrow> string \<Rightarrow> string \<Rightarrow> 'f db \<Rightarrow> (string \<times> bfile) result" where
  "fileScope l b org i s =
     (case documentRoot l org s of
        Inl e \<Rightarrow> Inl (wrapf (''document root of organization '' @ org) e)
      | Inr root \<Rightarrow>
          (case file_find b i s of
             Inl e \<Rightarrow> Inl e
           | Inr f \<Rightarrow>
               (case within b root (bf_dir f) s of
                  Inl e \<Rightarrow> Inl (wrapf (''file '' @ i) BlobErrNotFound)
                | Inr _ \<Rightarrow> Inr (root, f))))"

text \<open>ensureRoot: the organization's root, created with its owner row and its event on
  the first write.\<close>
definition ensure_root_body ::
    "'f lib \<Rightarrow> 'f blobfs \<Rightarrow> string \<Rightarrow> string option \<Rightarrow> ('f db, string \<times> event list) step" where
  "ensure_root_body l b org opt =
     andthen (reading (\<lambda>s. case organizationExists l org s of
         Inl e \<Rightarrow> Inl (wrapf (''organization '' @ org) e) | Inr u \<Rightarrow> Inr u)) (\<lambda>_.
     andthen (dir_ensure b (root_id b) org opt) (\<lambda>(d, created).
     andthen (bind_root l org (bd_id d)) (\<lambda>_.
     give (bd_id d, if created then [raiseDirectory DirectoryCreated org (bd_id d) d] else []))))"

text \<open>The transaction after a first read that found no root; a concurrent first write
  that bound the root meanwhile fails it, and that root is read.\<close>
definition ensure_try :: "'f lib \<Rightarrow> 'f blobfs \<Rightarrow> string \<Rightarrow> string option \<Rightarrow> ('f db, string) step" where
  "ensure_try l b org opt s =
     (case transact l (emit l (ensure_root_body l b org opt)) s of
        (Inl e, s1) \<Rightarrow>
          if errors_is NameTaken e \<or> errors_is UniqueViolation e
          then (documentRoot l org s1, s1) else (Inl e, s1)
      | (Inr root, s1) \<Rightarrow> (Inr root, s1))"

definition ensureRoot :: "'f lib \<Rightarrow> 'f blobfs \<Rightarrow> string \<Rightarrow> string option \<Rightarrow> ('f db, string) step" where
  "ensureRoot l b org opt s =
     (case documentRoot l org s of
        Inr root \<Rightarrow> (Inr root, s)
      | Inl e \<Rightarrow> if \<not> errors_is NoRows e then (Inl e, s) else ensure_try l b org opt s)"

definition writable :: "'f lib \<Rightarrow> 'f blobfs \<Rightarrow> string \<Rightarrow> string \<Rightarrow> ('f db, string) step" where
  "writable l b org i = (if i \<noteq> RootAlias then give i else ensureRoot l b org None)"

end
