(* ===== verification/DocCommands.thy ===== *)
theory DocCommands
  imports DocStore
begin

text \<open>
  domain/document/storage.go and service.go: the reads and the commands of the
  document layer, each with its scope check and its event in the transaction of
  its change, and the service in front of them.
\<close>

section \<open>Listings\<close>

text \<open>listing: one page; a directory being deleted is reported missing.\<close>
definition listing_of ::
    "op_names \<Rightarrow> ('a, 'f db) listing \<Rightarrow> string \<Rightarrow> 'f db \<Rightarrow> web_query \<Rightarrow> ('a list \<times> paging) result" where
  "listing_of ops li i s q =
     (case ReadListing ops li i s q of
        Inl e \<Rightarrow> if errors_is Deleting e
                 then Inl (wrapf (''directory '' @ i @ '' is being deleted'') BlobErrNotFound) else Inl e
      | Inr c \<Rightarrow> Inr (c_items c, Paging c))"

text \<open>listScope: scope, and for an organization without a root an id no row holds.\<close>
definition listScope :: "'f lib \<Rightarrow> 'f blobfs \<Rightarrow> string \<Rightarrow> string \<Rightarrow> 'f db \<Rightarrow> (string \<times> string) result" where
  "listScope l b org i s =
     (case scope l b org i s of
        Inr rd \<Rightarrow> Inr rd
      | Inl e \<Rightarrow>
          if i \<noteq> RootAlias \<or> \<not> errors_is NoRows e then Inl e
          else (case organizationExists l org s of
                  Inl e' \<Rightarrow> Inl (wrapf (''organization '' @ org) e')
                | Inr _ \<Rightarrow> Inr (new_id b s, new_id b s)))"

definition listDirectories ::
    "'f lib \<Rightarrow> 'f blobfs \<Rightarrow> op_names \<Rightarrow> string \<Rightarrow> string \<Rightarrow> web_query \<Rightarrow> 'f db \<Rightarrow> (directory list \<times> paging) result" where
  "listDirectories l b ops org i q s =
     (case listScope l b org i s of
        Inl e \<Rightarrow> Inl e
      | Inr (root, dir) \<Rightarrow>
          (case listing_of ops (dir_listing b) dir s q of
             Inl e \<Rightarrow> Inl e
           | Inr (items, pg) \<Rightarrow>
               (case present_rows (\<lambda>d. directoryOf d root) items of Inl e \<Rightarrow> Inl e | Inr out \<Rightarrow> Inr (out, pg))))"

definition listFiles ::
    "'f lib \<Rightarrow> 'f blobfs \<Rightarrow> op_names \<Rightarrow> string \<Rightarrow> string \<Rightarrow> web_query \<Rightarrow> 'f db \<Rightarrow> (doc_file list \<times> paging) result" where
  "listFiles l b ops org i q s =
     (case listScope l b org i s of
        Inl e \<Rightarrow> Inl e
      | Inr (_, dir) \<Rightarrow>
          (case listing_of ops (file_listing b) dir s q of
             Inl e \<Rightarrow> Inl e
           | Inr (items, pg) \<Rightarrow>
               (case present_rows fileOf items of Inl e \<Rightarrow> Inl e | Inr out \<Rightarrow> Inr (out, pg))))"

section \<open>Reads of one\<close>

text \<open>The path under the document root: blobfs's, without its first segment.\<close>
definition below_root :: "string \<Rightarrow> string" where
  "below_root path = (case cut_at (CHR ''/'') (trim_prefix ''/'' path) of (_, below, _) \<Rightarrow> ''/'' @ below)"

definition read_directory :: "'f lib \<Rightarrow> 'f blobfs \<Rightarrow> string \<Rightarrow> string \<Rightarrow> 'f db \<Rightarrow> directory result" where
  "read_directory l b org i s =
     (case scope l b org i s of
        Inl e \<Rightarrow> Inl e
      | Inr (root, i') \<Rightarrow>
          (case dir_find b i' s of
             Inl e \<Rightarrow> Inl e
           | Inr d \<Rightarrow>
               (case dir_abs_path b i' s of
                  Inl e \<Rightarrow> Inl e
                | Inr path \<Rightarrow>
                    (case directoryOf d root of
                       Inl e \<Rightarrow> Inl e
                     | Inr out \<Rightarrow> Inr (out\<lparr>dir_path := below_root path\<rparr>)))))"

definition store_directory :: "'f lib \<Rightarrow> 'f blobfs \<Rightarrow> string \<Rightarrow> string \<Rightarrow> ('f db, directory) step" where
  "store_directory l b org i = transact l (reading (read_directory l b org i))"

definition store_file :: "'f lib \<Rightarrow> 'f blobfs \<Rightarrow> string \<Rightarrow> string \<Rightarrow> 'f db \<Rightarrow> doc_file result" where
  "store_file l b org i s =
     (case fileScope l b org i s of Inl e \<Rightarrow> Inl e | Inr (_, f) \<Rightarrow> fileOf f)"

record file_content =
  ct_name :: string
  ct_download :: download

definition store_content :: "'f lib \<Rightarrow> 'f blobfs \<Rightarrow> string \<Rightarrow> string \<Rightarrow> 'f db \<Rightarrow> file_content result" where
  "store_content l b org i s =
     (case fileScope l b org i s of
        Inl e \<Rightarrow> Inl e
      | Inr (_, f) \<Rightarrow>
          (case Serve f of
             Inl e \<Rightarrow> Inl (wrapf ''content'' e)
           | Inr d \<Rightarrow> Inr \<lparr>ct_name = bf_name f, ct_download = d\<rparr>))"

section \<open>Commands on directories\<close>

definition dir_identity :: "bdir \<Rightarrow> doc_identity" where
  "dir_identity d = \<lparr>di_id = bd_id d, di_version = bd_version d\<rparr>"

definition file_identity :: "bfile \<Rightarrow> doc_identity" where
  "file_identity f = \<lparr>di_id = bf_id f, di_version = bf_version f\<rparr>"

text \<open>A command's answer, its identity, from the row its step returned.\<close>
definition answer :: "('a \<Rightarrow> 'b) \<Rightarrow> ('s, 'a) step \<Rightarrow> ('s, 'b) step" where
  "answer g m s = (case m s of (Inl e, s1) \<Rightarrow> (Inl e, s1) | (Inr a, s1) \<Rightarrow> (Inr (g a), s1))"

definition create_directory_body ::
    "'f lib \<Rightarrow> 'f blobfs \<Rightarrow> string \<Rightarrow> string \<Rightarrow> string \<Rightarrow> ('f db, bdir \<times> event list) step" where
  "create_directory_body l b org parent name =
     andthen (reading (scope l b org parent)) (\<lambda>(root, p).
     andthen (dir_create b p name) (\<lambda>d.
     give (d, [raiseDirectory DirectoryCreated org root d])))"

definition createDirectory :: "'f lib \<Rightarrow> 'f blobfs \<Rightarrow> string \<Rightarrow> create_directory \<Rightarrow> ('f db, doc_identity) step" where
  "createDirectory l b org c =
     andthen (writable l b org (cd_parent c)) (\<lambda>parent.
       answer dir_identity (transact l (emit l (create_directory_body l b org parent (cd_name c)))))"

definition delete_directory_body ::
    "'f lib \<Rightarrow> 'f blobfs \<Rightarrow> string \<Rightarrow> string \<Rightarrow> int \<Rightarrow> ('f db, unit \<times> event list) step" where
  "delete_directory_body l b org i v =
     andthen (reading (scope l b org i)) (\<lambda>(root, i').
     andthen (dir_delete b i' v) (\<lambda>_.
     give ((), [deleted_event org i' v])))"

definition deleteDirectory :: "'f lib \<Rightarrow> 'f blobfs \<Rightarrow> string \<Rightarrow> string \<Rightarrow> int \<Rightarrow> ('f db, unit) step" where
  "deleteDirectory l b org i v = transact l (emit l (delete_directory_body l b org i v))"

text \<open>markBranch: the tree lock, the status before the mark, the mark, and the event
  only when the directory was active and the mark counted.\<close>
definition mark_branch_body ::
    "'f lib \<Rightarrow> 'f blobfs \<Rightarrow> string \<Rightarrow> string \<Rightarrow> int \<Rightarrow> ('f db, string \<times> event list) step" where
  "mark_branch_body l b org i v =
     andthen (reading (scope l b org i)) (\<lambda>(root, i').
     andthen (lock_tree b) (\<lambda>_.
     andthen (reading (dir_find b i')) (\<lambda>anchor.
     andthen (mark_deleting b i' v) (\<lambda>marked.
       if bd_status anchor \<noteq> BDirActive \<or> marked = 0 then give (i', [])
       else andthen (reading (raiseMarked b org i')) (\<lambda>q. give (i', q))))))"

definition markBranch :: "'f lib \<Rightarrow> 'f blobfs \<Rightarrow> string \<Rightarrow> string \<Rightarrow> int \<Rightarrow> ('f db, string) step" where
  "markBranch l b org i v = transact l (emit l (mark_branch_body l b org i v))"

definition move_directory_body ::
    "'f lib \<Rightarrow> 'f blobfs \<Rightarrow> string \<Rightarrow> string \<Rightarrow> int \<Rightarrow> move_directory \<Rightarrow> ('f db, bdir \<times> event list) step" where
  "move_directory_body l b org i v m =
     andthen (reading (scope l b org i)) (\<lambda>(root, i').
       if i' = root then refuse errRootMove
       else andthen (reading (within b root (md_parent m))) (\<lambda>parent.
            andthen (dir_move b i' parent (md_name m) v) (\<lambda>d.
            give (d, [raiseDirectory DirectoryMoved org root d]))))"

definition moveDirectory ::
    "'f lib \<Rightarrow> 'f blobfs \<Rightarrow> string \<Rightarrow> string \<Rightarrow> int \<Rightarrow> move_directory \<Rightarrow> ('f db, doc_identity) step" where
  "moveDirectory l b org i v m = answer dir_identity (transact l (emit l (move_directory_body l b org i v m)))"

section \<open>Commands on files\<close>

text \<open>The transaction in front of the two-phase write: the scope check and the
  pending row.\<close>
definition upload_callback ::
    "'f lib \<Rightarrow> 'f blobfs \<Rightarrow> string \<Rightarrow> string \<Rightarrow> string \<Rightarrow> string \<Rightarrow> ('f db, bfile) step" where
  "upload_callback l b org dir name ct =
     andthen (reading (scope l b org dir)) (\<lambda>(root, d). file_create b d name ct None)"

definition uploadFile :: "'f lib \<Rightarrow> 'f blobfs \<Rightarrow> string \<Rightarrow> string \<Rightarrow> string \<Rightarrow> upload \<Rightarrow> ('f db, doc_identity) step" where
  "uploadFile l b org dir name u =
     andthen (writable l b org dir) (\<lambda>d.
       answer file_identity
         (write_file b (up_body u) (up_size u) (upload_callback l b org d name (up_content_type u))
           (emitUploaded l org)))"

definition delete_callback :: "'f lib \<Rightarrow> 'f blobfs \<Rightarrow> string \<Rightarrow> string \<Rightarrow> ('f db, string) step" where
  "delete_callback l b org i =
     andthen (reading (fileScope l b org i)) (\<lambda>(root, f). give (bf_id f))"

definition deleteFile :: "'f lib \<Rightarrow> 'f blobfs \<Rightarrow> string \<Rightarrow> string \<Rightarrow> int \<Rightarrow> ('f db, unit) step" where
  "deleteFile l b org i v = remove_file b (delete_callback l b org i) v (emitDeleted l org)"

definition move_file_body ::
    "'f lib \<Rightarrow> 'f blobfs \<Rightarrow> string \<Rightarrow> string \<Rightarrow> int \<Rightarrow> move_file \<Rightarrow> ('f db, bfile \<times> event list) step" where
  "move_file_body l b org i v m =
     andthen (reading (fileScope l b org i)) (\<lambda>(root, _).
     andthen (reading (within b root (mf_directory m))) (\<lambda>dir.
     andthen (file_move b i dir (mf_name m) v) (\<lambda>f.
     give (f, [Event FileMoved (bf_id f) (FileP (fileData org f))]))))"

definition moveFile ::
    "'f lib \<Rightarrow> 'f blobfs \<Rightarrow> string \<Rightarrow> string \<Rightarrow> int \<Rightarrow> move_file \<Rightarrow> ('f db, doc_identity) step" where
  "moveFile l b org i v m = answer file_identity (transact l (emit l (move_file_body l b org i v m)))"

section \<open>The service\<close>

text \<open>What the service holds: the libraries, uuid.Parse and the operators' names.\<close>
record 'f documents =
  doc_lib :: "'f lib"
  doc_blobs :: "'f blobfs"
  doc_uuid :: "string \<Rightarrow> bool"
  doc_ops :: op_names

text \<open>A command behind its validation, which runs before any I/O.\<close>
definition validated :: "err option \<Rightarrow> ('s, 'a) step \<Rightarrow> ('s, 'a) step" where
  "validated v m = (case v of Some e \<Rightarrow> refuse e | None \<Rightarrow> m)"

definition CreateDirectory :: "'f documents \<Rightarrow> string \<Rightarrow> create_directory \<Rightarrow> ('f db, doc_identity) step" where
  "CreateDirectory c org cmd =
     validated (create_directory_Validate (doc_uuid c) (name_rule (doc_blobs c)) cmd)
       (createDirectory (doc_lib c) (doc_blobs c) org cmd)"

definition Directory :: "'f documents \<Rightarrow> string \<Rightarrow> string \<Rightarrow> ('f db, directory) step" where
  "Directory c = store_directory (doc_lib c) (doc_blobs c)"

definition ListDirectories :: "'f documents \<Rightarrow> string \<Rightarrow> string \<Rightarrow> web_query \<Rightarrow> 'f db \<Rightarrow> (directory list \<times> paging) result" where
  "ListDirectories c = listDirectories (doc_lib c) (doc_blobs c) (doc_ops c)"

definition ListFiles :: "'f documents \<Rightarrow> string \<Rightarrow> string \<Rightarrow> web_query \<Rightarrow> 'f db \<Rightarrow> (doc_file list \<times> paging) result" where
  "ListFiles c = listFiles (doc_lib c) (doc_blobs c) (doc_ops c)"

definition DeleteDirectory :: "'f documents \<Rightarrow> string \<Rightarrow> string \<Rightarrow> int \<Rightarrow> ('f db, unit) step" where
  "DeleteDirectory c = deleteDirectory (doc_lib c) (doc_blobs c)"

text \<open>DeleteBranch: the flag says whether the sweep was nudged.\<close>
definition DeleteBranch :: "'f documents \<Rightarrow> string \<Rightarrow> string \<Rightarrow> int \<Rightarrow> 'f db \<Rightarrow> string result \<times> bool \<times> 'f db" where
  "DeleteBranch c org i v s =
     (case markBranch (doc_lib c) (doc_blobs c) org i v s of
        (Inl e, s1) \<Rightarrow> (Inl e, False, s1)
      | (Inr i', s1) \<Rightarrow> (Inr i', True, s1))"

definition MoveDirectory :: "'f documents \<Rightarrow> string \<Rightarrow> string \<Rightarrow> int \<Rightarrow> move_directory \<Rightarrow> ('f db, doc_identity) step" where
  "MoveDirectory c org i v m =
     (if i = RootAlias then refuse errRootMove
      else validated (move_directory_Validate (doc_uuid c) (name_rule (doc_blobs c)) m)
             (moveDirectory (doc_lib c) (doc_blobs c) org i v m))"

definition UploadFile :: "'f documents \<Rightarrow> string \<Rightarrow> string \<Rightarrow> string \<Rightarrow> upload \<Rightarrow> ('f db, doc_identity) step" where
  "UploadFile c org dir name u =
     validated (doc_validName (name_rule (doc_blobs c)) name)
       (uploadFile (doc_lib c) (doc_blobs c) org dir name u)"

definition File :: "'f documents \<Rightarrow> string \<Rightarrow> string \<Rightarrow> 'f db \<Rightarrow> doc_file result" where
  "File c = store_file (doc_lib c) (doc_blobs c)"

definition Content :: "'f documents \<Rightarrow> string \<Rightarrow> string \<Rightarrow> 'f db \<Rightarrow> file_content result" where
  "Content c = store_content (doc_lib c) (doc_blobs c)"

definition DeleteFile :: "'f documents \<Rightarrow> string \<Rightarrow> string \<Rightarrow> int \<Rightarrow> ('f db, unit) step" where
  "DeleteFile c = deleteFile (doc_lib c) (doc_blobs c)"

definition MoveFile :: "'f documents \<Rightarrow> string \<Rightarrow> string \<Rightarrow> int \<Rightarrow> move_file \<Rightarrow> ('f db, doc_identity) step" where
  "MoveFile c org i v m =
     validated (move_file_Validate (doc_uuid c) (name_rule (doc_blobs c)) m)
       (moveFile (doc_lib c) (doc_blobs c) org i v m)"

end
