(* ===== verification/DocSeed.thy ===== *)
theory DocSeed
  imports DocCommands
begin

text \<open>
  domain/document/storage.go: the document layer's seed contribution, the
  hierarchies a named state carries, each entry ensured under its own id.
  Its count is tied to the events it commits.
\<close>

section \<open>The contribution\<close>

definition seed_directory_body ::
    "'f blobfs \<Rightarrow> string \<Rightarrow> string \<Rightarrow> string \<Rightarrow> string \<Rightarrow> string \<Rightarrow> ('f db, (bdir \<times> bool) \<times> event list) step" where
  "seed_directory_body b org root parent i name =
     andthen (dir_ensure b parent name (Some i)) (\<lambda>(d, created).
     give ((d, created), if created then [raiseDirectory DirectoryCreated org root d] else []))"

text \<open>seedDirectory: a name or an id taken meanwhile reruns the transaction once.\<close>
definition seedDirectory ::
    "'f lib \<Rightarrow> 'f blobfs \<Rightarrow> string \<Rightarrow> string \<Rightarrow> string \<Rightarrow> string \<Rightarrow> string \<Rightarrow> ('f db, bdir \<times> bool) step" where
  "seedDirectory l b org root parent i name s =
     (let ensure = emit l (seed_directory_body b org root parent i name)
      in case transact l ensure s of
           (Inl e, s1) \<Rightarrow>
             if errors_is NameTaken e \<or> errors_is IDTaken e then transact l ensure s1 else (Inl e, s1)
         | (Inr r, s1) \<Rightarrow> (Inr r, s1))"

text \<open>A seed's count, its error if it stopped, and the state it leaves.\<close>
type_synonym 's seeded = "(nat \<times> err option) \<times> 's"

definition seedFile ::
    "'f lib \<Rightarrow> 'f blobfs \<Rightarrow> string \<Rightarrow> string \<Rightarrow> string \<Rightarrow> string \<Rightarrow> string \<Rightarrow> string \<Rightarrow> 'f db \<Rightarrow> 'f db seeded" where
  "seedFile l b org parent i name ct content s =
     (case ensure_file b i content (int (length content)) (file_ensure b parent name ct i)
             (emitUploaded l org) s of
        (Inl e, s1) \<Rightarrow>
          if errors_is IDTaken e \<or> errors_is NameTaken e \<or> errors_is Deleting e
          then ((0, None), s1) else ((0, Some e), s1)
      | (Inr (f, stored), s1) \<Rightarrow> ((if stored then 1 else 0, None), s1))"

fun seedEntries ::
    "'f lib \<Rightarrow> 'f blobfs \<Rightarrow> string \<Rightarrow> string \<Rightarrow> string \<Rightarrow> seed_entry list \<Rightarrow> 'f db \<Rightarrow> 'f db seeded"
  and seedEntry ::
    "'f lib \<Rightarrow> 'f blobfs \<Rightarrow> string \<Rightarrow> string \<Rightarrow> string \<Rightarrow> seed_entry \<Rightarrow> 'f db \<Rightarrow> 'f db seeded" where
  "seedEntries l b org root parent [] s = ((0, None), s)"
| "seedEntries l b org root parent (e # es) s =
     (case seedEntry l b org root parent e s of
        ((n, Some er), s1) \<Rightarrow> ((n, Some (wrapf (se_name e) er)), s1)
      | ((n, None), s1) \<Rightarrow>
          (case seedEntries l b org root parent es s1 of ((m, er), s2) \<Rightarrow> ((n + m, er), s2)))"
| "seedEntry l b org root parent (SeedEntry i name entries ct content) s =
     (case entry_directory (SeedEntry i name entries ct content) of
        Inl e \<Rightarrow> ((0, Some e), s)
      | Inr isDir \<Rightarrow>
          if \<not> isDir then seedFile l b org parent i name ct content s
          else (case seedDirectory l b org root parent i name s of
                  (Inl e, s1) \<Rightarrow>
                    if errors_is IDTaken e \<or> errors_is Deleting e then ((0, None), s1) else ((0, Some e), s1)
                | (Inr (d, created), s1) \<Rightarrow>
                    (case entries of
                       None \<Rightarrow> ((if created then 1 else 0, None), s1)
                     | Some es \<Rightarrow>
                         (case seedEntries l b org root (bd_id d) es s1 of
                            ((n, er), s2) \<Rightarrow> ((if created then Suc n else n, er), s2)))))"

definition seedTree :: "'f lib \<Rightarrow> 'f blobfs \<Rightarrow> seed_tree \<Rightarrow> 'f db \<Rightarrow> 'f db seeded" where
  "seedTree l b t s =
     (case seedOrganization l (st_organization t) s of
        Inl e \<Rightarrow> ((0, Some e), s)
      | Inr org \<Rightarrow>
          (case ensureRoot l b org (Some (st_root t)) s of
             (Inl e, s1) \<Rightarrow> ((0, Some e), s1)
           | (Inr root, s1) \<Rightarrow> seedEntries l b org root root (st_entries t) s1))"

fun seed_trees :: "'f lib \<Rightarrow> 'f blobfs \<Rightarrow> seed_tree list \<Rightarrow> nat \<Rightarrow> 'f db \<Rightarrow> 'f db seeded" where
  "seed_trees l b [] created s = ((created, None), s)"
| "seed_trees l b (t # ts) created s =
     (case seedTree l b t s of
        ((n, Some e), s1) \<Rightarrow> ((created + n, Some (wrapf (''seed documents of '' @ st_organization t) e)), s1)
      | ((n, None), s1) \<Rightarrow> seed_trees l b ts (created + n) s1)"

text \<open>seed.Write over data.SeedRows's decoding.\<close>
definition doc_Write :: "'f lib \<Rightarrow> 'f blobfs \<Rightarrow> seed_tree list result \<Rightarrow> 'f db \<Rightarrow> 'f db seeded" where
  "doc_Write l b decoded s =
     (case decoded of
        Inl e \<Rightarrow> ((0, Some (wrapf ''seed documents'' e)), s)
      | Inr ts \<Rightarrow> seed_trees l b ts 0 s)"

end
