(* ===== verification/DocEffects.thy ===== *)
theory DocEffects
  imports DocSeed
begin

text \<open>
  What the document layer's commands leave: the events in the outbox, the owner
  rows, and nothing else outside blobfs's own tables.
\<close>

section \<open>Steps beside the outbox and the owner rows\<close>

text \<open>A change of a document command: blobfs's own tables, and events appended.\<close>
definition doc_frame :: "event list \<Rightarrow> 'f db \<Rightarrow> 'f db \<Rightarrow> bool" where
  "doc_frame q s s' \<longleftrightarrow> outbox s' = outbox s @ q \<and> orgs s' = orgs s \<and> images s' = images s
     \<and> cascaded (owners s) (owners s')"

lemma doc_frame_refl [simp]: "doc_frame [] s s"
  by (simp add: doc_frame_def)

lemma doc_frame_trans: "doc_frame q s s' \<Longrightarrow> doc_frame q' s' s'' \<Longrightarrow> doc_frame (q @ q') s s''"
  by (auto simp: doc_frame_def intro: cascaded_trans)

lemma blob_doc_frame: "blob_frame s s' \<Longrightarrow> doc_frame [] s s'"
  by (simp add: blob_frame_def doc_frame_def)

lemma doc_frame_blob:
  "doc_frame q s s' \<Longrightarrow> blob_frame s' s'' \<Longrightarrow> doc_frame q s s''"
  "blob_frame s s' \<Longrightarrow> doc_frame q s' s'' \<Longrightarrow> doc_frame q s s''"
  using doc_frame_trans [of q s s' "[]" s''] doc_frame_trans [of "[]" s s' q s'']
  by (auto dest: blob_doc_frame)

text \<open>A body that writes blobfs's tables only, in a command: the events it queued are
  appended when it commits.\<close>
lemma framed_command:
  assumes l: "lib_ok l" and body: "step_framed body" and run: "transact l (emit l body) s = (r, s')"
  shows "case r of
      Inl e \<Rightarrow> s' = s
    | Inr a \<Rightarrow> (\<exists>q s1. body s = (Inr (a, q), s1) \<and> doc_frame q s s')"
proof (cases r)
  case (Inl e)
  with run command_Inl [OF l] show ?thesis by simp
next
  case (Inr a)
  obtain q s1 where q: "body s = (Inr (a, q), s1)" "s' = s1\<lparr>outbox := outbox s1 @ q\<rparr>"
    by (rule command_Inr [OF l run [unfolded Inr]]) blast
  with step_framedD [OF body q(1)] have "doc_frame q s s'"
    by (simp add: blob_frame_def doc_frame_def)
  with Inr q show ?thesis by auto
qed

lemma hook_emit_Inr:
  assumes "lib_ok l" "hook_emit l q s = (Inr u, s')"
  shows "doc_frame q s s'"
proof -
  from assms(2) obtain q' s1 where "give ((), q) s = (Inr (u, q'), s1)" "s' = s1\<lparr>outbox := outbox s1 @ q'\<rparr>"
    unfolding hook_emit_def by (rule emit_Inr [OF assms(1)]) blast
  then show ?thesis by (simp add: doc_frame_def)
qed

lemma emitUploaded_Inr:
  "lib_ok l \<Longrightarrow> emitUploaded l org f s = (Inr u, s') \<Longrightarrow>
   doc_frame [Event FileUploaded (bf_id f) (FileP (fileData org f))] s s'"
  by (auto simp: emitUploaded_def split: if_splits dest: hook_emit_Inr)

lemma emitDeleted_Inr:
  "lib_ok l \<Longrightarrow> emitDeleted l org f s = (Inr u, s') \<Longrightarrow>
   doc_frame [Event FileDeleted (bf_id f) (FileDeletedP \<lparr>fd_file = bf_id f, fd_org = org, fd_version = bf_version f\<rparr>)] s s'"
  unfolding emitDeleted_def by (rule hook_emit_Inr)

text \<open>The bodies of the commands write blobfs's tables only.\<close>
lemma framed_case_prod [intro]: "(\<And>x y. step_framed (k x y)) \<Longrightarrow> step_framed (case p of (x, y) \<Rightarrow> k x y)"
  by (cases p) simp

lemma framed_if [intro]: "step_framed m \<Longrightarrow> step_framed k \<Longrightarrow> step_framed (if c then m else k)"
  by simp

lemma framed_refuse [intro]: "step_framed (refuse e)"
  by (simp add: step_framed_def refuse_def)

lemma framed_bodies:
  assumes "steps_framed b"
  shows "step_framed (create_directory_body l b org p n)" "step_framed (delete_directory_body l b org i v)"
    "step_framed (mark_branch_body l b org i v)" "step_framed (move_directory_body l b org i v m)"
    "step_framed (move_file_body l b org i v mf)" "step_framed (upload_callback l b org d n ct)"
    "step_framed (delete_callback l b org i)" "step_framed (seed_directory_body b org root p i n)"
  unfolding create_directory_body_def delete_directory_body_def mark_branch_body_def move_directory_body_def
    move_file_body_def upload_callback_def delete_callback_def seed_directory_body_def
  by (intro framed_andthen framed_reading framed_case_prod framed_give framed_if framed_refuse steps_framedD [OF assms])+

section \<open>The document root\<close>

text \<open>At most one root for an organization, and no directory the root of two.\<close>
definition owners_ok :: "'f db \<Rightarrow> bool" where
  "owners_ok s \<longleftrightarrow> distinct (map ow_org (owners s)) \<and> distinct (map ow_dir (owners s))
     \<and> ow_org ` set (owners s) \<subseteq> r_id ` set (orgs s)"

lemma owners_ok_frame: "doc_frame q s s' \<Longrightarrow> owners_ok s \<Longrightarrow> owners_ok s'"
  using cascaded_set [of "owners s" "owners s'"]
  by (auto simp: doc_frame_def owners_ok_def cascaded_distinct)

lemma documentRoot_Inr: "documentRoot l org s = Inr root \<longleftrightarrow>
    (\<exists>w. List.find (\<lambda>w. ow_org w = org) (owners s) = Some w \<and> ow_dir w = root)"
  by (auto simp: documentRoot_def split: option.splits)

lemma bind_root_Inr:
  assumes "bind_root l org dir s = (Inr u, s')"
  shows "s' = s\<lparr>owners := owners s @ [\<lparr>ow_dir = dir, ow_org = org\<rparr>]\<rparr>" "documentRoot l org s' = Inr dir"
    "owners_ok s \<Longrightarrow> owners_ok s'" "find_row (orgs s) org \<noteq> None"
proof -
  from assms show s': "s' = s\<lparr>owners := owners s @ [\<lparr>ow_dir = dir, ow_org = org\<rparr>]\<rparr>"
    by (auto simp: bind_root_def split: if_splits)
  from assms have new: "\<forall>w\<in>set (owners s). ow_dir w \<noteq> dir \<and> ow_org w \<noteq> org"
    by (auto simp: bind_root_def list_ex_iff split: if_splits)
  from assms show row: "find_row (orgs s) org \<noteq> None"
    by (auto simp: bind_root_def split: if_splits)
  have "List.find (\<lambda>w. ow_org w = org) (owners s) = None"
    using new by (simp add: find_None_iff)
  then show "documentRoot l org s' = Inr dir"
    by (simp add: documentRoot_Inr s' find_append)
  show "owners_ok s'" if "owners_ok s"
    using that new row by (auto simp: owners_ok_def s' find_row_def find_None_iff)
qed

lemma bind_root_Inl: "bind_root l org dir s = (Inl e, s') \<Longrightarrow> s' = s"
  by (auto simp: bind_root_def split: if_splits)

text \<open>The organization's root as a write under the alias leaves it: one that stood is
  returned and nothing changes; otherwise the directory ensured under blobfs's root
  is bound to the organization, and the outbox gains the root's DirectoryCreated,
  named as the API names the root, when that call created the directory, and nothing
  when it found it.\<close>
definition root_opened :: "'f lib \<Rightarrow> 'f blobfs \<Rightarrow> string \<Rightarrow> string option \<Rightarrow> 'f db \<Rightarrow> string \<Rightarrow> 'f db \<Rightarrow> bool" where
  "root_opened l b org oi s root s' \<longleftrightarrow>
     (case documentRoot l org s of
        Inr r \<Rightarrow> root = r \<and> s' = s
      | Inl _ \<Rightarrow> \<exists>d created s1. dir_ensure b (root_id b) org oi s = (Inr (d, created), s1) \<and> root = bd_id d
          \<and> owners s' = owners s1 @ [\<lparr>ow_dir = root, ow_org = org\<rparr>] \<and> blobs s' = blobs s1
          \<and> orgs s' = orgs s \<and> images s' = images s
          \<and> outbox s' = outbox s @
              (if created then [Event DirectoryCreated root (DirectoryP
                 \<lparr>dd_directory = root, dd_org = org, dd_parent = None, dd_name = ''/'', dd_version = bd_version d\<rparr>)]
               else []))"

lemma root_opened_events:
  assumes "root_opened l b org oi s root s'"
  shows "\<exists>q. outbox s' = outbox s @ q \<and> length q \<le> 1 \<and> orgs s' = orgs s \<and> images s' = images s
    \<and> ((\<exists>root. documentRoot l org s = Inr root) \<longrightarrow> q = [])"
  using assms by (cases "documentRoot l org s") (auto simp: root_opened_def)

lemma ensure_root_body_Inr:
  assumes f: "steps_framed b" and run: "ensure_root_body l b org oi s = (Inr (root, q), s')"
  obtains d c s1 where "dir_ensure b (root_id b) org oi s = (Inr (d, c), s1)" "root = bd_id d"
    "q = (if c then [raiseDirectory DirectoryCreated org (bd_id d) d] else [])"
    "bind_root l org root s1 = (Inr (), s')" "blob_frame s s1"
proof -
  from run obtain d c s1 u s2 where *: "dir_ensure b (root_id b) org oi s = (Inr (d, c), s1)"
    "bind_root l org (bd_id d) s1 = (Inr u, s2)" "root = bd_id d" "q = (if c then [raiseDirectory DirectoryCreated org (bd_id d) d] else [])" "s' = s2"
    unfolding ensure_root_body_def
    by (auto simp: step_iffs split: prod.splits)
  moreover have "blob_frame s s1" by (rule step_framedD [OF steps_framedD(1) [OF f] *(1)])
  ultimately show thesis using that by auto
qed

text \<open>What ensuring a root leaves: the root opened, and the one the owner row names; a
  failure changes nothing.\<close>
lemma ensureRoot_cases:
  assumes l: "lib_ok l" and f: "steps_framed b" and run: "ensureRoot l b org oi s = (r, s')"
  shows "case r of
      Inl e \<Rightarrow> s' = s
    | Inr root \<Rightarrow> root_opened l b org oi s root s' \<and> documentRoot l org s' = Inr root
        \<and> (owners_ok s \<longrightarrow> owners_ok s')"
proof (cases "documentRoot l org s")
  case (Inr root)
  with run have "r = Inr root" "s' = s" by (simp_all add: ensureRoot_def)
  with Inr show ?thesis by (simp add: root_opened_def)
next
  case (Inl e0)
  then have e0: "e0 = no_rows l" by (auto simp: documentRoot_def split: option.splits)
  have nr: "errors_is NoRows e0" using lib_ok_errors(2) [OF l] e0 by simp
  obtain t s1 where t: "transact l (emit l (ensure_root_body l b org oi)) s = (t, s1)" by fastforce
  show ?thesis
  proof (cases t)
    case (Inl e)
    then have "s1 = s" using t command_Inl [OF l] by blast
    moreover from run Inl t nr \<open>documentRoot l org s = Inl e0\<close> \<open>s1 = s\<close>
    have "s' = s1 \<and> r \<in> {Inl e, Inl e0}"
      by (simp add: ensureRoot_def ensure_try_def split: if_splits)
    ultimately show ?thesis by auto
  next
    case (Inr root)
    then have res: "r = Inr root" "s' = s1" using run t nr \<open>documentRoot l org s = Inl e0\<close>
      by (auto simp: ensureRoot_def ensure_try_def)
    obtain q s2 where q: "ensure_root_body l b org oi s = (Inr (root, q), s2)" "s1 = s2\<lparr>outbox := outbox s2 @ q\<rparr>"
      by (rule command_Inr [OF l t [unfolded Inr]]) blast
    obtain d c s3 where d: "dir_ensure b (root_id b) org oi s = (Inr (d, c), s3)" "root = bd_id d"
      "q = (if c then [raiseDirectory DirectoryCreated org (bd_id d) d] else [])" "bind_root l org root s3 = (Inr (), s2)" "blob_frame s s3"
      by (rule ensure_root_body_Inr [OF f q(1)]) blast
    note bound = bind_root_Inr [OF d(4)]
    have "owners_ok s1" if "owners_ok s"
      using bound(3) owners_ok_frame [OF blob_doc_frame [OF d(5)] that] by (simp add: q(2) owners_ok_def)
    moreover have "documentRoot l org s1 = Inr root" using bound(2) by (simp add: q(2) documentRoot_def)
    moreover have "root_opened l b org oi s root s1"
      unfolding root_opened_def Inl sum.case
      by (rule exI [of _ d], rule exI [of _ c], rule exI [of _ s3])
        (use d(1,2,3,5) bound(1) in \<open>simp add: q(2) blob_frame_def raiseDirectory_def\<close>)
    ultimately show ?thesis using res by simp
  qed
qed

section \<open>Every command, one event\<close>

lemma answer_cases: "answer g m s = (r, s') \<longleftrightarrow>
    (\<exists>t. m s = (t, s') \<and> r = (case t of Inl e \<Rightarrow> Inl e | Inr a \<Rightarrow> Inr (g a)))"
  by (auto simp: answer_def split: prod.splits sum.splits)

lemma scope_Inr: "scope l b org i s = Inr (root, dir) \<longleftrightarrow>
    documentRoot l org s = Inr root \<and> within b root i s = Inr dir"
  by (auto simp: scope_def split: sum.splits)

lemma within_Inr: "within b root i s = Inr dir \<longleftrightarrow>
    (if i = RootAlias \<or> i = root then dir = root else dir = i \<and> dir_is_within b i root s = Inr True)"
  by (auto simp: within_def split: sum.splits)

lemma fileScope_Inr: "fileScope l b org i s = Inr (root, f) \<longleftrightarrow>
    documentRoot l org s = Inr root \<and> file_find b i s = Inr f \<and> (\<exists>d. within b root (bf_dir f) s = Inr d)"
  by (auto simp: fileScope_def split: sum.splits)

text \<open>The commands behind the service's validation, and what each answers: the identity
  of the directory or file, or nothing.\<close>
datatype doc_command =
    CreateIn string string                   \<comment> \<open>parent id, name\<close>
  | RemoveDir string int
  | MarkBranch string int
  | MoveDir string int move_directory
  | UploadIn string string upload            \<comment> \<open>directory id, name, upload\<close>
  | RemoveFile string int
  | MoveFileTo string int move_file

fun run_doc :: "'f lib \<Rightarrow> 'f blobfs \<Rightarrow> string \<Rightarrow> doc_command \<Rightarrow> ('f db, doc_identity option) step" where
  "run_doc l b org (CreateIn p n) = answer Some (createDirectory l b org \<lparr>cd_parent = p, cd_name = n\<rparr>)"
| "run_doc l b org (RemoveDir i v) = answer (\<lambda>_. None) (deleteDirectory l b org i v)"
| "run_doc l b org (MarkBranch i v) = answer (\<lambda>_. None) (markBranch l b org i v)"
| "run_doc l b org (MoveDir i v m) = answer Some (moveDirectory l b org i v m)"
| "run_doc l b org (UploadIn d n u) = answer Some (uploadFile l b org d n u)"
| "run_doc l b org (RemoveFile i v) = answer (\<lambda>_. None) (deleteFile l b org i v)"
| "run_doc l b org (MoveFileTo i v m) = answer Some (moveFile l b org i v m)"

text \<open>The commands that name the root by its alias and so may be its first write.\<close>
fun aliased :: "doc_command \<Rightarrow> bool" where
  "aliased (CreateIn p n) = (p = RootAlias)"
| "aliased (UploadIn d n u) = (d = RootAlias)"
| "aliased c = False"

text \<open>What blobfs is relied on for here.\<close>
definition doc_blobs_ok :: "'f blobfs \<Rightarrow> bool" where
  "doc_blobs_ok b \<longleftrightarrow> steps_framed b \<and> write_contract b \<and> remove_contract b \<and> ensure_contract b"

lemma doc_blobs_okD:
  assumes "doc_blobs_ok b"
  shows "steps_framed b" "write_contract b" "remove_contract b" "ensure_contract b"
  using assms by (simp_all add: doc_blobs_ok_def)

section \<open>What a command's outcome tells\<close>

text \<open>An id under the root: the alias is the root.\<close>
definition at_root :: "string \<Rightarrow> string \<Rightarrow> string" where
  "at_root root i = (if i = RootAlias then root else i)"

text \<open>The events as the API's consumers read them: a directory's row, the root's own
  parent and name hidden, a directory or file that is gone, and a file's row.\<close>
definition directory_told :: "string \<Rightarrow> string \<Rightarrow> string \<Rightarrow> bdir \<Rightarrow> event" where
  "directory_told ty org root d = Event ty (bd_id d) (DirectoryP
     (if bd_id d = root
      then \<lparr>dd_directory = root, dd_org = org, dd_parent = None, dd_name = ''/'', dd_version = bd_version d\<rparr>
      else \<lparr>dd_directory = bd_id d, dd_org = org, dd_parent = bd_parent d, dd_name = bd_name d, dd_version = bd_version d\<rparr>))"

definition directory_gone :: "string \<Rightarrow> string \<Rightarrow> int \<Rightarrow> event" where
  "directory_gone org i v = Event DirectoryDeleted i (DirectoryDeletedP \<lparr>ddd_directory = i, ddd_org = org, ddd_version = v\<rparr>)"

definition file_told :: "string \<Rightarrow> string \<Rightarrow> bfile \<Rightarrow> event" where
  "file_told ty org f = Event ty (bf_id f) (FileP
     \<lparr>fu_file = bf_id f, fu_org = org, fu_directory = bf_dir f, fu_name = bf_name f,
      fu_content_type = bf_content_type f, fu_size = bf_size f, fu_etag = bf_etag f, fu_version = bf_version f\<rparr>)"

definition file_gone :: "string \<Rightarrow> string \<Rightarrow> int \<Rightarrow> event" where
  "file_gone org i v = Event FileDeleted i (FileDeletedP \<lparr>fd_file = i, fd_org = org, fd_version = v\<rparr>)"

text \<open>A command that succeeded, from the state s it began its own work in, in an
  organization with the root given: its answer, the events it committed, q, and the
  state it left, s'. Each is
  blobfs's one step on the directory or file the command named, and q is that step's
  event, from the row the step returned, whose identity is the answer. A branch's
  mark is told when the directory was active and the mark counted; a file's delete
  unless the file was deleting already.\<close>
fun doc_told :: "'f lib \<Rightarrow> 'f blobfs \<Rightarrow> string \<Rightarrow> string \<Rightarrow> doc_command \<Rightarrow> 'f db \<Rightarrow> doc_identity option \<Rightarrow> event list \<Rightarrow> 'f db \<Rightarrow> bool" where
  "doc_told l b org root (CreateIn p n) s ans q s' \<longleftrightarrow>
     (\<exists>d s1. dir_create b (at_root root p) n s = (Inr d, s1) \<and> blobs s' = blobs s1
        \<and> ans = Some \<lparr>di_id = bd_id d, di_version = bd_version d\<rparr> \<and> q = [directory_told DirectoryCreated org root d])"
| "doc_told l b org root (RemoveDir i v) s ans q s' \<longleftrightarrow>
     (\<exists>s1. dir_delete b (at_root root i) v s = (Inr (), s1) \<and> blobs s' = blobs s1
        \<and> ans = None \<and> q = [directory_gone org (at_root root i) v])"
| "doc_told l b org root (MarkBranch i v) s ans q s' \<longleftrightarrow>
     (\<exists>d n s1 s2. lock_tree b s = (Inr (), s1) \<and> dir_find b (at_root root i) s1 = Inr d
        \<and> mark_deleting b (at_root root i) v s1 = (Inr n, s2) \<and> blobs s' = blobs s2 \<and> ans = None
        \<and> (if bd_status d = BDirActive \<and> n \<noteq> 0
           then \<exists>d'. dir_find b (at_root root i) s2 = Inr d' \<and> q = [directory_gone org (at_root root i) (bd_version d')]
           else q = []))"
| "doc_told l b org root (MoveDir i v m) s ans q s' \<longleftrightarrow> at_root root i \<noteq> root \<and>
     (\<exists>d s1. dir_move b (at_root root i) (at_root root (md_parent m)) (md_name m) v s = (Inr d, s1) \<and> blobs s' = blobs s1
        \<and> ans = Some \<lparr>di_id = bd_id d, di_version = bd_version d\<rparr> \<and> q = [directory_told DirectoryMoved org root d])"
| "doc_told l b org root (UploadIn i n u) s ans q s' \<longleftrightarrow>
     (\<exists>f0 f s1. file_create b (at_root root i) n (up_content_type u) None s = (Inr f0, s1)
        \<and> write_file b (up_body u) (up_size u) (upload_callback l b org (at_root root i) n (up_content_type u))
            (emitUploaded l org) s = (Inr f, s')
        \<and> bf_id f = bf_id f0 \<and> bf_dir f = bf_dir f0 \<and> bf_name f = bf_name f0
        \<and> bf_status f = BAvailable \<and> bf_size f \<noteq> None \<and> bf_etag f \<noteq> None
        \<and> ans = Some \<lparr>di_id = bf_id f, di_version = bf_version f\<rparr> \<and> q = [file_told FileUploaded org f])"
| "doc_told l b org root (RemoveFile i v) s ans q s' \<longleftrightarrow>
     (\<exists>f0. file_find b i s = Inr f0 \<and> ans = None
        \<and> q = (if bf_status f0 = BDeleting then [] else [file_gone org i (v + 1)]))"
| "doc_told l b org root (MoveFileTo i v m) s ans q s' \<longleftrightarrow>
     (\<exists>f s1. file_move b i (at_root root (mf_directory m)) (mf_name m) v s = (Inr f, s1) \<and> blobs s' = blobs s1
        \<and> ans = Some \<lparr>di_id = bf_id f, di_version = bf_version f\<rparr> \<and> q = [file_told FileMoved org f])"

text \<open>A command that failed: its transaction left nothing. An upload's pending row may
  stay for the sweep, without an event; a file's delete that began before it failed
  keeps its one event, its commit being before the failure.\<close>
fun doc_failed :: "'f blobfs \<Rightarrow> string \<Rightarrow> doc_command \<Rightarrow> 'f db \<Rightarrow> event list \<Rightarrow> 'f db \<Rightarrow> bool" where
  "doc_failed b org (UploadIn i n u) s q s' \<longleftrightarrow> q = []"
| "doc_failed b org (RemoveFile i v) s q s' \<longleftrightarrow> q = [] \<or>
     (\<exists>f0. file_find b i s = Inr f0 \<and> bf_status f0 \<noteq> BDeleting \<and> q = [file_gone org i (v + 1)])"
| "doc_failed b org c s q s' \<longleftrightarrow> q = [] \<and> s' = s"

definition doc_outcome ::
    "'f lib \<Rightarrow> 'f blobfs \<Rightarrow> string \<Rightarrow> doc_command \<Rightarrow> 'f db \<Rightarrow> doc_identity option result \<Rightarrow> event list \<Rightarrow> 'f db \<Rightarrow> bool" where
  "doc_outcome l b org c s r q s' \<longleftrightarrow> doc_frame q s s' \<and>
     (case r of
        Inr ans \<Rightarrow> \<exists>root. documentRoot l org s = Inr root \<and> doc_told l b org root c s ans q s'
      | Inl e \<Rightarrow> doc_failed b org c s q s')"

lemma scope_at_root: "scope l b org i s = Inr (root, dir) \<Longrightarrow> documentRoot l org s = Inr root \<and> dir = at_root root i"
  by (auto simp: scope_Inr within_Inr at_root_def split: if_splits)

lemma within_at_root: "within b root i s = Inr dir \<Longrightarrow> dir = at_root root i"
  by (auto simp: within_Inr at_root_def split: if_splits)

lemma fileScope_found: "fileScope l b org i s = Inr (root, f) \<Longrightarrow> documentRoot l org s = Inr root \<and> file_find b i s = Inr f"
  by (simp add: fileScope_Inr)

lemma raiseDirectory_told: "raiseDirectory ty org root d = directory_told ty org root d"
  by (simp add: raiseDirectory_def directory_told_def)

lemma deleted_event_gone: "deleted_event org i v = directory_gone org i v"
  by (simp add: deleted_event_def directory_gone_def)

lemma fileData_told: "Event ty (bf_id f) (FileP (fileData org f)) = file_told ty org f"
  by (simp add: fileData_def file_told_def)

lemma answer_Inr: "answer g m s = (Inr ans, s') \<longleftrightarrow> (\<exists>a. m s = (Inr a, s') \<and> ans = g a)"
  by (auto simp: answer_def split: prod.splits sum.splits)

lemma answer_Inl: "answer g m s = (Inl e, s') \<longleftrightarrow> m s = (Inl e, s')"
  by (auto simp: answer_def split: prod.splits sum.splits)

text \<open>A command that is one transaction, told by its body.\<close>
lemma command_outcome:
  assumes l: "lib_ok l" and body: "step_framed body"
    and run: "answer g (transact l (emit l body)) s = (r, s')"
    and plain: "\<And>q t. doc_failed b org c s q t \<longleftrightarrow> q = [] \<and> t = s"
    and q: "\<And>a q s1. body s = (Inr (a, q), s1) \<Longrightarrow>
      \<exists>root. documentRoot l org s = Inr root \<and> doc_told l b org root c s (g a) q (s1\<lparr>outbox := outbox s1 @ q\<rparr>)"
  shows "\<exists>q. doc_outcome l b org c s r q s'"
proof (cases r)
  case (Inl e)
  with run have "transact l (emit l body) s = (Inl e, s')" by (simp add: answer_Inl)
  then have "s' = s" by (rule command_Inl [OF l])
  with Inl plain [of "[]" s] show ?thesis by (intro exI [of _ "[]"]) (simp add: doc_outcome_def)
next
  case (Inr ans)
  with run obtain a where a: "transact l (emit l body) s = (Inr a, s')" "ans = g a" by (auto simp: answer_Inr)
  obtain q' s1 where b: "body s = (Inr (a, q'), s1)" "s' = s1\<lparr>outbox := outbox s1 @ q'\<rparr>"
    by (rule command_Inr [OF l a(1)]) blast
  have "doc_frame q' s s'" using step_framedD [OF body b(1)] by (simp add: b(2) blob_frame_def doc_frame_def)
  with q [OF b(1)] show ?thesis unfolding doc_outcome_def Inr a(2) b(2) by auto
qed

lemma answer_answer: "answer g (answer h m) = answer (\<lambda>x. g (h x)) m"
  by (rule ext) (auto simp: answer_def split: prod.splits sum.splits)

text \<open>The bodies, told.\<close>
lemma create_body_told:
  "create_directory_body l b org w n s = (Inr (d, q), s1) \<Longrightarrow>
   \<exists>root. documentRoot l org s = Inr root \<and> dir_create b (at_root root w) n s = (Inr d, s1)
     \<and> q = [directory_told DirectoryCreated org root d]"
  by (auto simp: create_directory_body_def step_iffs raiseDirectory_told split: prod.splits dest!: scope_at_root)

lemma delete_body_told:
  "delete_directory_body l b org i v s = (Inr (a, q), s1) \<Longrightarrow>
   \<exists>root. documentRoot l org s = Inr root \<and> dir_delete b (at_root root i) v s = (Inr (), s1)
     \<and> q = [directory_gone org (at_root root i) v]"
  by (auto simp: delete_directory_body_def step_iffs deleted_event_gone split: prod.splits dest!: scope_at_root)

lemma mark_body_told:
  assumes "mark_branch_body l b org i v s = (Inr (j, q), s')"
  shows "\<exists>root d n s1. documentRoot l org s = Inr root \<and> j = at_root root i \<and> lock_tree b s = (Inr (), s1)
    \<and> dir_find b j s1 = Inr d \<and> mark_deleting b j v s1 = (Inr n, s')
    \<and> (if bd_status d = BDirActive \<and> n \<noteq> 0
       then \<exists>d'. dir_find b j s' = Inr d' \<and> q = [directory_gone org j (bd_version d')] else q = [])"
proof -
  from assms obtain root dir s1 d n s2 where *: "scope l b org i s = Inr (root, dir)" "lock_tree b s = (Inr (), s1)"
    "dir_find b dir s1 = Inr d" "mark_deleting b dir v s1 = (Inr n, s2)"
    "(if bd_status d \<noteq> BDirActive \<or> n = 0 then give (dir, []) else andthen (reading (raiseMarked b org dir)) (\<lambda>q. give (dir, q))) s2
      = (Inr (j, q), s')"
    unfolding mark_branch_body_def by (auto simp: andthen_Inr_iff split: prod.splits split del: if_split)
  from *(5) have out: "s' = s2" "j = dir" "if bd_status d = BDirActive \<and> n \<noteq> 0
      then \<exists>d'. dir_find b dir s2 = Inr d' \<and> q = [directory_gone org dir (bd_version d')] else q = []"
    by (auto simp: step_iffs raiseMarked_def deleted_event_gone split: if_splits sum.splits)
  with *(2-4) scope_at_root [OF *(1)] show ?thesis by blast
qed

lemma move_body_told:
  "move_directory_body l b org i v m s = (Inr (d, q), s1) \<Longrightarrow>
   \<exists>root. documentRoot l org s = Inr root \<and> at_root root i \<noteq> root
     \<and> dir_move b (at_root root i) (at_root root (md_parent m)) (md_name m) v s = (Inr d, s1)
     \<and> q = [directory_told DirectoryMoved org root d]"
  by (auto simp: move_directory_body_def step_iffs raiseDirectory_told split: prod.splits if_splits
      dest!: scope_at_root within_at_root)

lemma move_file_told:
  "move_file_body l b org i v m s = (Inr (f, q), s1) \<Longrightarrow>
   \<exists>root. documentRoot l org s = Inr root
     \<and> file_move b i (at_root root (mf_directory m)) (mf_name m) v s = (Inr f, s1) \<and> q = [file_told FileMoved org f]"
  by (auto simp: move_file_body_def step_iffs fileData_told split: prod.splits dest!: fileScope_found within_at_root)

text \<open>The directory a write names, w the one its transaction is given: the named one,
  or the root under the alias.\<close>
lemma create_outcome:
  assumes l: "lib_ok l" and f: "steps_framed b" and w: "w = p \<or> p = RootAlias \<and> documentRoot l org s = Inr w"
    and run: "answer Some (answer dir_identity (transact l (emit l (create_directory_body l b org w n)))) s = (r, s')"
  shows "\<exists>q. doc_outcome l b org (CreateIn p n) s r q s'"
proof (rule command_outcome [OF l framed_bodies(1) [OF f] run [unfolded answer_answer]])
  fix d q s1
  assume "create_directory_body l b org w n s = (Inr (d, q), s1)"
  from create_body_told [OF this] obtain root where r: "documentRoot l org s = Inr root"
    "dir_create b (at_root root w) n s = (Inr d, s1)" "q = [directory_told DirectoryCreated org root d]" by blast
  have "at_root root w = at_root root p" using w r(1) by (auto simp: at_root_def)
  with r show "\<exists>root. documentRoot l org s = Inr root \<and>
      doc_told l b org root (CreateIn p n) s (Some (dir_identity d)) q (s1\<lparr>outbox := outbox s1 @ q\<rparr>)"
    by (simp add: dir_identity_def)
qed simp

lemma upload_outcome:
  assumes l: "lib_ok l" and b: "doc_blobs_ok b" and w: "w = p \<or> p = RootAlias \<and> documentRoot l org s = Inr w"
    and alias_ok: "p = RootAlias \<Longrightarrow> documentRoot l org s = Inr w"
    and run: "answer Some (answer file_identity (write_file b (up_body u) (up_size u)
      (upload_callback l b org w n (up_content_type u)) (emitUploaded l org))) s = (r, s')"
  shows "\<exists>q. doc_outcome l b org (UploadIn p n u) s r q s'"
proof -
  let ?cb = "upload_callback l b org w n (up_content_type u)"
  have cb: "step_framed ?cb" by (rule framed_bodies(6) [OF doc_blobs_okD(1) [OF b]])
  obtain r0 where r0: "write_file b (up_body u) (up_size u) ?cb (emitUploaded l org) s = (r0, s')"
      "r = (case r0 of Inl e \<Rightarrow> Inl e | Inr f \<Rightarrow> Inr (Some (file_identity f)))"
    using run by (auto simp: answer_answer answer_cases)
  note c = doc_blobs_okD(2) [OF b, unfolded write_contract_def, THEN spec [of _ "up_body u"], THEN spec [of _ "up_size u"],
    THEN spec [of _ ?cb], THEN spec [of _ "emitUploaded l org"], THEN spec [of _ s], unfolded r0(1)]
  show ?thesis
  proof (cases r0)
    case (Inl e)
    with c have "s' = s \<or> (\<exists>x s1. ?cb s = (x, s1) \<and> blob_frame s1 s')" by auto
    then have "blob_frame s s'" by (auto dest: step_framedD [OF cb] intro: blob_frame_trans)
    with Inl r0(2) show ?thesis by (intro exI [of _ "[]"]) (simp add: doc_outcome_def blob_doc_frame)
  next
    case (Inr f)
    with c obtain f0 s1 s2 s3 where *: "?cb s = (Inr f0, s1)" "blob_frame s1 s2"
      "emitUploaded l org f s2 = (Inr (), s3)" "blob_frame s3 s'" "bf_id f = bf_id f0" "bf_dir f = bf_dir f0"
      "bf_name f = bf_name f0" "bf_status f = BAvailable" "bf_size f \<noteq> None" "bf_etag f \<noteq> None" by auto
    from *(1) obtain root where root: "documentRoot l org s = Inr root"
        "file_create b (at_root root w) n (up_content_type u) None s = (Inr f0, s1)"
      by (auto simp: upload_callback_def step_iffs split: prod.splits dest!: scope_at_root)
    have w': "w = at_root root p" "at_root root w = w"
      using w alias_ok root(1) by (auto simp: at_root_def split: if_splits)
    have "blob_frame s s2" using step_framedD [OF cb *(1)] *(2) by (rule blob_frame_trans)
    with emitUploaded_Inr [OF l *(3)] *(4) have "doc_frame [file_told FileUploaded org f] s s'"
      unfolding fileData_told by (blast intro: doc_frame_blob)
    moreover have "doc_told l b org root (UploadIn p n u) s (Some (file_identity f)) [file_told FileUploaded org f] s'"
      using root(2) r0(1) *(5-10) Inr w' by (auto simp: file_identity_def)
    ultimately show ?thesis using Inr r0(2) root(1) by (auto simp: doc_outcome_def)
  qed
qed

lemma remove_outcome:
  assumes l: "lib_ok l" and f: "steps_framed b" and once: "begins_once b"
    and run: "remove_file b (delete_callback l b org i) v (emitDeleted l org) s = (r, s')"
  shows "\<exists>q. doc_outcome l b org (RemoveFile i v) s (case r of Inl e \<Rightarrow> Inl e | Inr u \<Rightarrow> Inr None) q s'"
proof -
  let ?cb = "delete_callback l b org i"
  have found: "documentRoot l org s = Inr (fst x) \<and> file_find b i s = Inr (snd x) \<and> j = i \<and> s1 = s"
    if "?cb s = (Inr j, s1)" "fileScope l b org i s = Inr x" for j s1 x
    using that once fileScope_found [of l b org i s "fst x" "snd x"]
    by (auto simp: delete_callback_def step_iffs begins_once_def split: prod.splits)
  have cb: "\<exists>root f0. documentRoot l org s = Inr root \<and> file_find b i s = Inr f0 \<and> j = i \<and> s1 = s" if "?cb s = (Inr j, s1)" for j s1
  proof -
    from that obtain x where "fileScope l b org i s = Inr x" by (auto simp: delete_callback_def step_iffs)
    with found [OF that] show ?thesis by blast
  qed
  have gone: "doc_frame [file_gone org i (v + 1)] s s'"
    if "blob_frame s s2" "bf_id f = i" "bf_version f = v + 1" "emitDeleted l org f s2 = (Inr (), s3)" "blob_frame s3 s'" for f s2 s3
    using emitDeleted_Inr [OF l that(4)] that by (auto simp: file_gone_def intro: doc_frame_blob)
  note c = once [unfolded begins_once_def, THEN conjunct2, THEN spec [of _ ?cb], THEN spec [of _ v],
    THEN spec [of _ "emitDeleted l org"], THEN spec [of _ s], unfolded run]
  show ?thesis
  proof (cases r)
    case (Inl e)
    with c consider "s' = s" | j s1 where "?cb s = (Inr j, s1)" "blob_frame s1 s'"
      | j s1 f0 f s2 s3 where "?cb s = (Inr j, s1)" "file_find b j s1 = Inr f0" "bf_status f0 \<noteq> BDeleting" "blob_frame s1 s2"
          "bf_id f = j" "bf_version f = v + 1" "emitDeleted l org f s2 = (Inr (), s3)" "blob_frame s3 s'"
      by auto
    then show ?thesis
    proof cases
      case 1
      with Inl show ?thesis by (intro exI [of _ "[]"]) (simp add: doc_outcome_def)
    next
      case 2
      with cb [OF 2(1)] Inl show ?thesis by (intro exI [of _ "[]"]) (auto simp: doc_outcome_def blob_doc_frame)
    next
      case 3
      with cb [OF 3(1)] gone [of s2 f s3] Inl show ?thesis
        by (intro exI [of _ "[file_gone org i (v + 1)]"]) (auto simp: doc_outcome_def)
    qed
  next
    case (Inr u)
    with c obtain j s1 f0 where *: "?cb s = (Inr j, s1)" "file_find b j s1 = Inr f0"
      "if bf_status f0 = BDeleting then blob_frame s1 s'
       else \<exists>f s2 s3. blob_frame s1 s2 \<and> bf_id f = j \<and> bf_version f = v + 1 \<and> emitDeleted l org f s2 = (Inr (), s3) \<and> blob_frame s3 s'"
      by auto
    from cb [OF *(1)] obtain root where root: "documentRoot l org s = Inr root" "j = i" "s1 = s" by blast
    show ?thesis
    proof (cases "bf_status f0 = BDeleting")
      case True
      with * root Inr show ?thesis by (intro exI [of _ "[]"]) (auto simp: doc_outcome_def blob_doc_frame)
    next
      case False
      with * root gone Inr show ?thesis
        by (intro exI [of _ "[file_gone org i (v + 1)]"]) (auto simp: doc_outcome_def)
    qed
  qed
qed

text \<open>The state a command begins its own work in: under the alias, with the root opened.\<close>
definition opened :: "'f lib \<Rightarrow> 'f blobfs \<Rightarrow> string \<Rightarrow> doc_command \<Rightarrow> 'f db \<Rightarrow> 'f db \<Rightarrow> bool" where
  "opened l b org c s s1 \<longleftrightarrow> (if aliased c then \<exists>root. root_opened l b org None s root s1 else s1 = s)"

lemma writable_outcome:
  assumes l: "lib_ok l" and f: "steps_framed b" and c: "aliased c \<longleftrightarrow> p = RootAlias"
    and run: "answer Some (andthen (writable l b org p) k) s = (r, s')"
    and out: "\<And>w s1. w = p \<or> p = RootAlias \<and> documentRoot l org s1 = Inr w \<Longrightarrow>
      (p = RootAlias \<Longrightarrow> documentRoot l org s1 = Inr w) \<Longrightarrow>
      answer Some (k w) s1 = (r, s') \<Longrightarrow> \<exists>q. doc_outcome l b org c s1 r q s'"
  shows "(\<exists>e. aliased c \<and> r = Inl e \<and> s' = s) \<or> (\<exists>s1 q. opened l b org c s s1 \<and> doc_outcome l b org c s1 r q s')"
proof (cases "p = RootAlias")
  case False
  with run have "answer Some (k p) s = (r, s')" by (simp add: writable_def andthen_def give_def answer_def)
  with out [of p s] False c show ?thesis by (auto simp: opened_def)
next
  case True
  obtain t s1 where t: "ensureRoot l b org None s = (t, s1)" by fastforce
  note cases = ensureRoot_cases [OF l f t]
  show ?thesis
  proof (cases t)
    case (Inl e)
    with run t True have "r = Inl e \<and> s' = s1" by (simp add: writable_def andthen_def answer_def)
    with cases Inl True c show ?thesis by simp
  next
    case (Inr w)
    with run t True have "answer Some (k w) s1 = (r, s')" by (simp add: writable_def andthen_def answer_def)
    with out [of w s1] cases Inr True c show ?thesis by (auto simp: opened_def)
  qed
qed

lemma run_doc_outcome:
  assumes l: "lib_ok l" and b: "doc_blobs_ok b" and once: "begins_once b" and run: "run_doc l b org c s = (r, s')"
  shows "(\<exists>e. aliased c \<and> r = Inl e \<and> s' = s) \<or> (\<exists>s1 q. opened l b org c s s1 \<and> doc_outcome l b org c s1 r q s')"
proof -
  note f = doc_blobs_okD(1) [OF b]
  note bodies = framed_bodies [OF f]
  have stays: ?thesis if "\<not> aliased c" "\<exists>q. doc_outcome l b org c s r q s'"
    using that by (auto simp: opened_def)
  show ?thesis
  proof (cases c)
    case (CreateIn p n)
    show ?thesis
    proof (rule writable_outcome [OF l f, where p = p
        and k = "\<lambda>parent. answer dir_identity (transact l (emit l (create_directory_body l b org parent n)))"])
      show "aliased c \<longleftrightarrow> p = RootAlias" by (simp add: CreateIn)
      show "answer Some (andthen (writable l b org p)
          (\<lambda>parent. answer dir_identity (transact l (emit l (create_directory_body l b org parent n))))) s = (r, s')"
        using run by (simp add: CreateIn createDirectory_def)
    qed (unfold CreateIn, rule create_outcome [OF l f])
  next
    case (RemoveDir i v)
    with run have t: "answer (\<lambda>_. None) (transact l (emit l (delete_directory_body l b org i v))) s = (r, s')"
      by (simp add: deleteDirectory_def)
    show ?thesis
      by (rule stays, simp add: RemoveDir, unfold RemoveDir, rule command_outcome [OF l bodies(2) t])
        (auto dest!: delete_body_told)
  next
    case (MarkBranch i v)
    with run have t: "answer (\<lambda>_. None) (transact l (emit l (mark_branch_body l b org i v))) s = (r, s')"
      by (simp add: markBranch_def)
    have out: "\<exists>root. documentRoot l org s = Inr root \<and>
        doc_told l b org root (MarkBranch i v) s None q (s1\<lparr>outbox := outbox s1 @ q\<rparr>)"
      if body: "mark_branch_body l b org i v s = (Inr (a, q), s1)" for a q s1
    proof -
      from mark_body_told [OF body] obtain root d n s0 where m: "documentRoot l org s = Inr root" "lock_tree b s = (Inr (), s0)"
        "dir_find b (at_root root i) s0 = Inr d" "mark_deleting b (at_root root i) v s0 = (Inr n, s1)"
        "if bd_status d = BDirActive \<and> n \<noteq> 0
         then \<exists>d'. dir_find b (at_root root i) s1 = Inr d' \<and> q = [directory_gone org (at_root root i) (bd_version d')] else q = []"
        by blast
      show ?thesis unfolding doc_told.simps
        by (rule exI [of _ root], rule conjI [OF m(1)], rule exI [of _ d], rule exI [of _ n], rule exI [of _ s0],
            rule exI [of _ s1]) (use m(2-5) in simp)
    qed
    show ?thesis
      by (rule stays, simp add: MarkBranch, unfold MarkBranch, rule command_outcome [OF l bodies(3) t])
        (use out in simp_all)
  next
    case (MoveDir i v m)
    with run have t: "answer (\<lambda>d. Some (dir_identity d)) (transact l (emit l (move_directory_body l b org i v m))) s = (r, s')"
      by (simp add: moveDirectory_def answer_answer)
    show ?thesis
      by (rule stays, simp add: MoveDir, unfold MoveDir, rule command_outcome [OF l bodies(4) t])
        (auto simp: dir_identity_def dest!: move_body_told)
  next
    case (UploadIn p n u)
    show ?thesis
    proof (rule writable_outcome [OF l f, where p = p and k = "\<lambda>d. answer file_identity (write_file b (up_body u) (up_size u)
        (upload_callback l b org d n (up_content_type u)) (emitUploaded l org))"])
      show "aliased c \<longleftrightarrow> p = RootAlias" by (simp add: UploadIn)
      show "answer Some (andthen (writable l b org p) (\<lambda>d. answer file_identity (write_file b (up_body u) (up_size u)
          (upload_callback l b org d n (up_content_type u)) (emitUploaded l org)))) s = (r, s')"
        using run by (simp add: UploadIn uploadFile_def)
    qed (unfold UploadIn, rule upload_outcome [OF l b])
  next
    case (RemoveFile i v)
    with run obtain t where t: "remove_file b (delete_callback l b org i) v (emitDeleted l org) s = (t, s')"
        "r = (case t of Inl e \<Rightarrow> Inl e | Inr u \<Rightarrow> Inr None)"
      by (auto simp: deleteFile_def answer_cases)
    show ?thesis
      by (rule stays) (use remove_outcome [OF l f once t(1)] in \<open>simp_all add: RemoveFile t(2)\<close>)
  next
    case (MoveFileTo i v m)
    with run have t: "answer (\<lambda>x. Some (file_identity x)) (transact l (emit l (move_file_body l b org i v m))) s = (r, s')"
      by (simp add: moveFile_def answer_answer)
    show ?thesis
      by (rule stays, simp add: MoveFileTo, unfold MoveFileTo, rule command_outcome [OF l bodies(5) t])
        (auto simp: file_identity_def dest!: move_file_told)
  qed
qed

end
