(* ===== verification/DocProperties.thy ===== *)
theory DocProperties
  imports DocEffects RefBlobfs OrgProperties
begin

text \<open>
  The properties of the document layer: one event per command, one root per
  organization however its first writes race, nothing outside the root is seen or
  changed, a branch's delete is announced once, and what a seed counts.
\<close>

section \<open>The instance the witnesses run on\<close>

lemma ref_doc_blobs_ok: "doc_blobs_ok ref_blobfs"
  by (simp add: doc_blobs_ok_def ref_steps_framed ref_write_contract ref_remove_contract ref_ensure_contract)

definition a_dir :: "string \<Rightarrow> string \<Rightarrow> string \<Rightarrow> bdir" where
  "a_dir i p n = \<lparr>bd_id = i, bd_parent = Some p, bd_name = n, bd_status = BDirActive, bd_version = 1\<rparr>"

text \<open>One organization with its root r, a directory d in it, and a directory of
  another hierarchy.\<close>
definition doc_db :: "ref_fs db" where
  "doc_db = \<lparr>orgs = [acme_row], images = [], owners = [\<lparr>ow_dir = ''r'', ow_org = ''x''\<rparr>], outbox = [],
     blobs = \<lparr>rdirs = [a_dir ''r'' ''fs'' ''x'', a_dir ''d'' ''r'' ''docs'', a_dir ''other'' ''fs'' ''y''], rfiles = []\<rparr>\<rparr>"

lemmas ref_run_simps = ref_blobfs_def ref_update_dir_def ref_dir_def doc_db_def a_dir_def set_dirs_def Let_def
  documentRoot_def plain_lib_def transact_def emit_def andthen_def reading_def give_def scope_def within_def
  RootAlias_def depth_of_def ref_within.simps numeral_2_eq_2 numeral_3_eq_3

section \<open>Events\<close>



section \<open>One root\<close>

text \<open>C7. An organization has one document root, however it is first written: a write
  that resolves the root's alias, from a state where no organization has two roots,
  leaves such a state. When it succeeds it returns the root the owner row names. A
  root that stood is returned with nothing changed. Otherwise the root is the
  directory blobfs ensured for the organization, its owner row is added, and the
  outbox gains that directory's DirectoryCreated alone, named as the root, when blobfs
  created it, and nothing when blobfs found it. A failure changes nothing.\<close>
theorem one_root:
  assumes "lib_ok l" "steps_framed b" "owners_ok s" "ensureRoot l b org oi s = (r, s')"
  shows "owners_ok s' \<and> (case r of
      Inl e \<Rightarrow> s' = s
    | Inr root \<Rightarrow> documentRoot l org s' = Inr root \<and> orgs s' = orgs s \<and> images s' = images s
        \<and> (case documentRoot l org s of
             Inr _ \<Rightarrow> s' = s
           | Inl _ \<Rightarrow> \<exists>d created s1. dir_ensure b (root_id b) org oi s = (Inr (d, created), s1) \<and> root = bd_id d
               \<and> owners s' = owners s1 @ [\<lparr>ow_dir = root, ow_org = org\<rparr>] \<and> blobs s' = blobs s1
               \<and> outbox s' = outbox s @
                   (if created then [Event DirectoryCreated root (DirectoryP
                      \<lparr>dd_directory = root, dd_org = org, dd_parent = None, dd_name = ''/'', dd_version = bd_version d\<rparr>)]
                    else [])))"
  using ensureRoot_cases [OF assms(1,2,4)] assms(3)
  by (auto simp: root_opened_def split: sum.splits split del: if_split)

definition new_org_db :: "ref_fs db" where
  "new_org_db = doc_db\<lparr>owners := [], blobs := \<lparr>rdirs = [], rfiles = []\<rparr>\<rparr>"

lemmas new_root_simps = new_org_db_def ensureRoot_def ensure_try_def ensure_root_body_def organizationExists_def bind_root_def
  find_row_def acme_row_def ref_ensure_def ref_child_def ref_new_id_def ref_run_simps

theorem one_root_witness:
  "documentRoot plain_lib ''x'' (snd (ensureRoot plain_lib ref_blobfs ''x'' (Some ''r'') new_org_db)) = Inr ''r''"
proof -
  have ok: "owners_ok new_org_db" by (simp add: owners_ok_def new_org_db_def)
  have run: "ensureRoot plain_lib ref_blobfs ''x'' (Some ''r'') new_org_db
      = (Inr ''r'', snd (ensureRoot plain_lib ref_blobfs ''x'' (Some ''r'') new_org_db))"
    by (simp add: new_root_simps)
  show ?thesis using one_root [OF plain_lib_ok ref_steps_framed ok run] by simp
qed

text \<open>C25. A lost race for the root is no error: when another write bound the root
  between this one's read and its transaction, the transaction rolls back, its event
  with it, and the root the other write bound is the answer.\<close>
theorem root_race:
  assumes l: "lib_ok l" and b: "steps_framed b" and quiet: "begin_tx l s = None"
    and bound: "documentRoot l org s = Inr root" and ex: "organizationExists l org s = Inr ()"
    and ens: "dir_ensure b (root_id b) org oi s = (d, s1)" and own: "owners s1 = owners s"
    and d: "case d of Inl e \<Rightarrow> errors_is NameTaken e | Inr _ \<Rightarrow> True"
  shows "ensure_try l b org oi s = (Inr root, s)"
proof -
  have "\<exists>e s2. ensure_root_body l b org oi s = (Inl e, s2) \<and> (errors_is NameTaken e \<or> errors_is UniqueViolation e)"
  proof (cases d)
    case (Inl e)
    with d ens ex show ?thesis by (simp add: ensure_root_body_def andthen_def reading_def)
  next
    case (Inr dc)
    obtain d' c where dc: "dc = (d', c)" by fastforce
    from bound have "list_ex (\<lambda>w. ow_org w = org) (owners s1)"
      by (auto simp: documentRoot_Inr own list_ex_iff dest: find_Some_in)
    then have "\<exists>n. bind_root l org (bd_id d') s1 = (Inl (violation l UniqueViolation n), s1)"
      by (cases "list_ex (\<lambda>w. ow_dir w = bd_id d') (owners s1)") (auto simp: bind_root_def)
    then obtain n where "bind_root l org (bd_id d') s1 = (Inl (violation l UniqueViolation n), s1)" by blast
    with Inr ens ex dc lib_okD(2) [OF l, of UniqueViolation n] show ?thesis
      by (simp add: ensure_root_body_def andthen_def reading_def)
  qed
  then obtain e s2 where body: "ensure_root_body l b org oi s = (Inl e, s2)"
    and e: "errors_is NameTaken e \<or> errors_is UniqueViolation e" by blast
  from command_body_Inl [where body = "ensure_root_body l b org oi" and s = s, OF l body quiet] e bound show ?thesis
    by (simp add: ensure_try_def)
qed

theorem root_race_witness:
  "ensure_try plain_lib ref_blobfs ''x'' None doc_db = (Inr ''r'', doc_db)"
proof (rule root_race [OF plain_lib_ok ref_steps_framed])
  show "dir_ensure ref_blobfs (root_id ref_blobfs) ''x'' None doc_db = (Inr (a_dir ''r'' ''fs'' ''x'', False), doc_db)"
    by (simp add: ref_blobfs_def ref_ensure_def ref_child_def doc_db_def a_dir_def)
qed (simp_all add: ref_run_simps organizationExists_def find_row_def acme_row_def)

section \<open>Nothing outside the root\<close>

text \<open>An answer that tells nothing: not found, with the state as it was.\<close>
definition absent_answer :: "'s \<Rightarrow> 'a result \<times> 's \<Rightarrow> bool" where
  "absent_answer s out \<longleftrightarrow> (\<exists>e. out = (Inl e, s) \<and> errors_is BlobNotFound e \<and> Status e = Some (no_detail 404))"

lemma absent_wrapf: "errors_is BlobNotFound (wrapf t BlobErrNotFound) \<and>
    Status (wrapf t BlobErrNotFound) = Some (no_detail 404)"
  by (simp add: Status_def BlobErrNotFound_def wrapf_def)

text \<open>A directory id outside the root.\<close>
definition outside :: "'f lib \<Rightarrow> 'f blobfs \<Rightarrow> string \<Rightarrow> string \<Rightarrow> 'f db \<Rightarrow> bool" where
  "outside l b org i s \<longleftrightarrow> (\<exists>root. documentRoot l org s = Inr root \<and> i \<noteq> RootAlias \<and> i \<noteq> root
     \<and> dir_is_within b i root s = Inr False)"

text \<open>A file whose directory is outside the root.\<close>
definition file_outside :: "'f lib \<Rightarrow> 'f blobfs \<Rightarrow> string \<Rightarrow> string \<Rightarrow> 'f db \<Rightarrow> bool" where
  "file_outside l b org i s \<longleftrightarrow> (\<exists>f. file_find b i s = Inr f \<and> outside l b org (bf_dir f) s)"

lemma scope_outside: "outside l b org i s \<Longrightarrow> scope l b org i s = Inl (wrapf (''directory '' @ i) BlobErrNotFound)"
  by (auto simp: outside_def scope_def within_def)

lemma fileScope_outside: "file_outside l b org i s \<Longrightarrow> fileScope l b org i s = Inl (wrapf (''file '' @ i) BlobErrNotFound)"
  by (auto simp: file_outside_def outside_def fileScope_def within_def)

lemma absent_command:
  assumes l: "lib_ok l" and quiet: "begin_tx l s = None" and body: "body s = (Inl (wrapf t BlobErrNotFound), s1)"
  shows "absent_answer s (transact l (emit l body) s)"
  using command_body_Inl [where body = body and s = s, OF l body quiet] absent_wrapf by (auto simp: absent_answer_def)

lemma absent_answer_map: "absent_answer s (answer g m s) = absent_answer s (m s)"
  by (auto simp: absent_answer_def answer_def split: prod.splits sum.splits)

lemma outside_answers:
  assumes l: "lib_ok l" and b: "doc_blobs_ok b" and quiet: "begin_tx l s = None"
    and dir: "outside l b org i s" and fl: "file_outside l b org j s"
  shows "absent_answer s (store_directory l b org i s)"
    and "absent_answer s (listDirectories l b ops org i q s, s)"
    and "absent_answer s (listFiles l b ops org i q s, s)"
    and "absent_answer s (createDirectory l b org \<lparr>cd_parent = i, cd_name = n\<rparr> s)"
    and "absent_answer s (deleteDirectory l b org i v s)"
    and "absent_answer s (markBranch l b org i v s)"
    and "absent_answer s (moveDirectory l b org i v m s)"
    and "scope l b org k s = Inr (root, k') \<Longrightarrow> k' \<noteq> root \<Longrightarrow>
           absent_answer s (moveDirectory l b org k v \<lparr>md_parent = i, md_name = n\<rparr> s)"
    and "absent_answer s (uploadFile l b org i n u s)"
    and "absent_answer s (store_file l b org j s, s)"
    and "absent_answer s (store_content l b org j s, s)"
    and "absent_answer s (deleteFile l b org j v s)"
    and "absent_answer s (moveFile l b org j v mf s)"
    and "fileScope l b org k s = Inr (root, f) \<Longrightarrow>
           absent_answer s (moveFile l b org k v \<lparr>mf_directory = i, mf_name = n\<rparr> s)"
proof -
  note sc = scope_outside [OF dir] and fsc = fileScope_outside [OF fl]
  have noalias: "i \<noteq> RootAlias" using dir by (auto simp: outside_def)
  have nrows: "\<not> errors_is NoRows (wrapf t BlobErrNotFound)" for t by (simp add: BlobErrNotFound_def)
  show "absent_answer s (listDirectories l b ops org i q s, s)" "absent_answer s (listFiles l b ops org i q s, s)"
    using absent_wrapf noalias by (simp_all add: absent_answer_def listDirectories_def listFiles_def listScope_def sc)
  show "absent_answer s (store_file l b org j s, s)" "absent_answer s (store_content l b org j s, s)"
    using absent_wrapf by (simp_all add: absent_answer_def store_file_def store_content_def fsc)
  show "absent_answer s (store_directory l b org i s)"
    using absent_wrapf quiet lib_okD(3) [OF l, of s s]
    by (simp add: absent_answer_def store_directory_def transact_def reading_def read_directory_def sc)
  show "absent_answer s (createDirectory l b org \<lparr>cd_parent = i, cd_name = n\<rparr> s)"
    using noalias absent_command [OF l quiet, of "create_directory_body l b org i n"]
    by (simp add: createDirectory_def writable_def andthen_def give_def absent_answer_map create_directory_body_def reading_def sc)
  show "absent_answer s (deleteDirectory l b org i v s)"
    unfolding deleteDirectory_def by (rule absent_command [OF l quiet]) (simp add: delete_directory_body_def andthen_def reading_def sc)
  show "absent_answer s (markBranch l b org i v s)"
    unfolding markBranch_def by (rule absent_command [OF l quiet]) (simp add: mark_branch_body_def andthen_def reading_def sc)
  show "absent_answer s (moveDirectory l b org i v m s)"
    unfolding moveDirectory_def absent_answer_map
    by (rule absent_command [OF l quiet]) (simp add: move_directory_body_def andthen_def reading_def sc)
  show "absent_answer s (moveFile l b org j v mf s)"
    unfolding moveFile_def absent_answer_map
    by (rule absent_command [OF l quiet]) (simp add: move_file_body_def andthen_def reading_def fsc)
  have win: "documentRoot l org s = Inr root \<Longrightarrow> within b root i s = Inl (wrapf (''directory '' @ i) BlobErrNotFound)"
    for root using dir by (auto simp: outside_def within_def)
  show "absent_answer s (moveDirectory l b org k v \<lparr>md_parent = i, md_name = n\<rparr> s)"
    if "scope l b org k s = Inr (root, k')" "k' \<noteq> root"
    using that win [of root] that(1) [unfolded scope_Inr] unfolding moveDirectory_def absent_answer_map
    by (intro absent_command [OF l quiet, where t = "''directory '' @ i"])
      (simp add: move_directory_body_def andthen_def reading_def)
  show "absent_answer s (moveFile l b org k v \<lparr>mf_directory = i, mf_name = n\<rparr> s)"
    if "fileScope l b org k s = Inr (root, f)"
    using that win [of root] that [unfolded fileScope_Inr] unfolding moveFile_def absent_answer_map
    by (intro absent_command [OF l quiet, where t = "''directory '' @ i"])
      (simp add: move_file_body_def andthen_def reading_def)
  have "upload_callback l b org i n (up_content_type u) s = (Inl (wrapf (''directory '' @ i) BlobErrNotFound), s)"
    by (simp add: upload_callback_def andthen_def reading_def sc)
  then have "write_file b (up_body u) (up_size u) (upload_callback l b org i n (up_content_type u)) (emitUploaded l org) s
      = (Inl (wrapf (''directory '' @ i) BlobErrNotFound), s)"
    using doc_blobs_okD(2) [OF b, unfolded write_contract_def, THEN spec [of _ "up_body u"], THEN spec [of _ "up_size u"],
      THEN spec [of _ "upload_callback l b org i n (up_content_type u)"], THEN spec [of _ "emitUploaded l org"], THEN spec [of _ s]]
    by (auto split: prod.splits sum.splits)
  then show "absent_answer s (uploadFile l b org i n u s)"
    using noalias absent_wrapf
    by (simp add: uploadFile_def writable_def andthen_def give_def absent_answer_map) (simp add: absent_answer_def)
  have "delete_callback l b org j s = (Inl (wrapf (''file '' @ j) BlobErrNotFound), s)"
    by (simp add: delete_callback_def andthen_def reading_def fsc)
  then have "remove_file b (delete_callback l b org j) v (emitDeleted l org) s = (Inl (wrapf (''file '' @ j) BlobErrNotFound), s)"
    using doc_blobs_okD(3) [OF b, unfolded remove_contract_def, THEN spec [of _ "delete_callback l b org j"], THEN spec [of _ v],
      THEN spec [of _ "emitDeleted l org"], THEN spec [of _ s]]
    by (auto split: prod.splits sum.splits)
  then show "absent_answer s (deleteFile l b org j v s)"
    using absent_wrapf by (simp add: deleteFile_def absent_answer_def)
qed

text \<open>C5. An id outside the organization's root is an absent id: every read and every
  command that is given a directory or a file of another hierarchy, as its subject or
  as its destination, answers a bare 404 and changes nothing.\<close>
theorem outside_is_absent:
  assumes "lib_ok l" "doc_blobs_ok b" "begin_tx l s = None" "outside l b org i s" "file_outside l b org j s"
  shows "absent_answer s (store_directory l b org i s)
    \<and> absent_answer s (listDirectories l b ops org i q s, s) \<and> absent_answer s (listFiles l b ops org i q s, s)
    \<and> absent_answer s (createDirectory l b org \<lparr>cd_parent = i, cd_name = n\<rparr> s)
    \<and> absent_answer s (deleteDirectory l b org i v s) \<and> absent_answer s (markBranch l b org i v s)
    \<and> absent_answer s (moveDirectory l b org i v m s)
    \<and> (\<forall>k root k'. scope l b org k s = Inr (root, k') \<and> k' \<noteq> root \<longrightarrow>
         absent_answer s (moveDirectory l b org k v \<lparr>md_parent = i, md_name = n\<rparr> s))
    \<and> absent_answer s (uploadFile l b org i n u s)
    \<and> absent_answer s (store_file l b org j s, s) \<and> absent_answer s (store_content l b org j s, s)
    \<and> absent_answer s (deleteFile l b org j v s) \<and> absent_answer s (moveFile l b org j v mf s)
    \<and> (\<forall>k root f. fileScope l b org k s = Inr (root, f) \<longrightarrow>
         absent_answer s (moveFile l b org k v \<lparr>mf_directory = i, mf_name = n\<rparr> s))"
  by (intro conjI allI impI; (elim conjE)?; rule outside_answers [OF assms]; assumption?)

text \<open>The document database with a file of the other hierarchy.\<close>
definition two_hierarchies :: "ref_fs db" where
  "two_hierarchies = doc_db\<lparr>blobs := (blobs doc_db)\<lparr>rfiles := [\<lparr>bf_id = ''f'', bf_dir = ''other'', bf_name = ''n'',
     bf_key = ''k'', bf_status = BAvailable, bf_size = Some 1, bf_etag = Some ''t'', bf_content_type = [], bf_version = 1\<rparr>]\<rparr>\<rparr>"

theorem outside_is_absent_witness:
  "absent_answer two_hierarchies (deleteFile plain_lib ref_blobfs ''x'' ''f'' 1 two_hierarchies)"
proof -
  have "outside plain_lib ref_blobfs ''x'' ''other'' two_hierarchies"
    "file_outside plain_lib ref_blobfs ''x'' ''f'' two_hierarchies" "begin_tx plain_lib two_hierarchies = None"
    by (simp_all add: outside_def file_outside_def two_hierarchies_def ref_file_def ref_run_simps)
  with outside_is_absent [OF plain_lib_ok ref_doc_blobs_ok] show ?thesis by blast
qed

section \<open>A failed containment check\<close>

text \<open>C26. A file whose containment check fails is answered as missing, whatever the
  failure was: the error of the check, a lost connection among them, which every other
  read answers as an outage, is dropped, and the file's read, download, delete and move
  all answer a bare 404.\<close>
theorem failed_check_reads_missing:
  assumes "lib_ok l" "begin_tx l s = None" "documentRoot l org s = Inr root" "file_find b i s = Inr f"
    "bf_dir f \<noteq> RootAlias" "bf_dir f \<noteq> root" "dir_is_within b (bf_dir f) root s = Inl e"
  shows "absent_answer s (store_file l b org i s, s) \<and> absent_answer s (store_content l b org i s, s)
    \<and> absent_answer s (moveFile l b org i v mf s) \<and> scope l b org (bf_dir f) s = Inl e"
proof -
  have fsc: "fileScope l b org i s = Inl (wrapf (''file '' @ i) BlobErrNotFound)"
    using assms by (simp add: fileScope_def within_def)
  have "absent_answer s (moveFile l b org i v mf s)"
    unfolding moveFile_def absent_answer_map
    by (rule absent_command [OF assms(1,2)]) (simp add: move_file_body_def andthen_def reading_def fsc)
  with fsc absent_wrapf assms show ?thesis
    by (simp add: absent_answer_def store_file_def store_content_def scope_def within_def)
qed

text \<open>The same in-memory blobfs whose containment check loses its connection.\<close>
definition broken_blobfs :: "ref_fs blobfs" where
  "broken_blobfs = ref_blobfs\<lparr>dir_is_within := (\<lambda>i root s. Inl (Err ConnectionFailed ''connection refused'' []))\<rparr>"

theorem failed_check_reads_missing_witness:
  "absent_answer two_hierarchies (store_file plain_lib broken_blobfs ''x'' ''f'' two_hierarchies, two_hierarchies)
   \<and> map_option p_status (Status (Err ConnectionFailed ''connection refused'' [])) = Some 503"
proof -
  let ?f = "\<lparr>bf_id = ''f'', bf_dir = ''other'', bf_name = ''n'', bf_key = ''k'', bf_status = BAvailable,
    bf_size = Some 1, bf_etag = Some ''t'', bf_content_type = [], bf_version = 1\<rparr> :: bfile"
  have "begin_tx plain_lib two_hierarchies = None" "documentRoot plain_lib ''x'' two_hierarchies = Inr ''r''"
    "file_find broken_blobfs ''f'' two_hierarchies = Inr ?f" "bf_dir ?f \<noteq> RootAlias" "bf_dir ?f \<noteq> ''r''"
    "dir_is_within broken_blobfs (bf_dir ?f) ''r'' two_hierarchies = Inl (Err ConnectionFailed ''connection refused'' [])"
    by (simp_all add: broken_blobfs_def two_hierarchies_def ref_file_def ref_run_simps)
  from failed_check_reads_missing [OF plain_lib_ok this]
  show ?thesis by (simp add: Status_def no_detail_def file_deleting_def errors_as_def)
qed

end
