(* ===== verification/DocSeedProperties.thy ===== *)
theory DocSeedProperties
  imports DocProperties
begin

text \<open>
  What a document seed counts and commits, what a branch's delete announces, and
  what the reads present: paths under the root, deleting directories, hierarchies
  not written yet, and the files a download serves.
\<close>

section \<open>A seed's count\<close>

text \<open>The events of a seed's entries: the creation's own.\<close>
definition seed_event :: "string \<Rightarrow> event \<Rightarrow> bool" where
  "seed_event org e \<longleftrightarrow> (\<exists>root d. e = raiseDirectory DirectoryCreated org root d)
     \<or> (\<exists>f. e = Event FileUploaded (bf_id f) (FileP (fileData org f)))"

definition counted :: "string \<Rightarrow> nat \<Rightarrow> 'f db \<Rightarrow> 'f db \<Rightarrow> bool" where
  "counted org n s s' \<longleftrightarrow> (\<exists>q. doc_frame q s s' \<and> length q = n \<and> list_all (seed_event org) q)"

lemma counted_0 [simp]: "counted org 0 s s"
  unfolding counted_def by (rule exI [of _ "[]"]) simp

lemma counted_trans: "counted org n s s1 \<Longrightarrow> counted org m s1 s2 \<Longrightarrow> counted org (n + m) s s2"
  unfolding counted_def by (elim exE conjE, rule exI [of _ "_ @ _"]) (auto intro: doc_frame_trans)

lemma seedDirectory_cases:
  assumes l: "lib_ok l" and b: "doc_blobs_ok b" and run: "seedDirectory l b org root p i n s = (r, s')"
  shows "case r of Inl e \<Rightarrow> s' = s | Inr (d, created) \<Rightarrow> counted org (if created then 1 else 0) s s'"
proof -
  have once: "case r of Inl e \<Rightarrow> s' = s | Inr (d, created) \<Rightarrow> counted org (if created then 1 else 0) s s'"
    if t: "transact l (emit l (seed_directory_body b org root p i n)) s = (r, s')" for r s'
  proof (cases r)
    case (Inr dc)
    with framed_command [OF l framed_bodies(8) [OF doc_blobs_okD(1) [OF b]] t] obtain q s1
      where "seed_directory_body b org root p i n s = (Inr (dc, q), s1)" "doc_frame q s s'" by auto
    moreover from this(1) have "q = (if snd dc then [raiseDirectory DirectoryCreated org root (fst dc)] else [])"
      by (auto simp: seed_directory_body_def step_iffs split: prod.splits)
    ultimately have "counted org (if snd dc then 1 else 0) s s'"
      unfolding counted_def by (intro exI [of _ q]) (auto simp: seed_event_def)
    with Inr show ?thesis by (cases dc) simp
  qed (use command_Inl [OF l] t in auto)
  obtain r1 s1 where first: "transact l (emit l (seed_directory_body b org root p i n)) s = (r1, s1)" by fastforce
  show ?thesis
  proof (cases r1)
    case (Inl e)
    with once [OF first] have "s1 = s" by simp
    with run first Inl once show ?thesis by (auto simp: seedDirectory_def split: if_splits)
  next
    case (Inr dc)
    with run first have eq: "r = r1" "s' = s1" by (simp_all add: seedDirectory_def)
    show ?thesis unfolding eq by (rule once [OF first])
  qed
qed

lemma seedFile_counted:
  assumes l: "lib_ok l" and b: "doc_blobs_ok b" and run: "seedFile l b org p i n ct content s = ((k, er), s')"
  shows "counted org k s s'"
proof -
  obtain r s1 where w: "ensure_file b i content (int (length content)) (file_ensure b p n ct i) (emitUploaded l org) s = (r, s1)"
    by fastforce
  note c = doc_blobs_okD(4) [OF b, unfolded ensure_contract_def, THEN spec [of _ i], THEN spec [of _ content],
    THEN spec [of _ "int (length content)"], THEN spec [of _ "file_ensure b p n ct i"],
    THEN spec [of _ "emitUploaded l org"], THEN spec [of _ s], unfolded w]
  have cb: "step_framed (file_ensure b p n ct i)" by (rule steps_framedD(8) [OF doc_blobs_okD(1) [OF b]])
  have still: "counted org 0 s s1" if "blob_frame s s1"
    unfolding counted_def by (rule exI [of _ "[]"]) (simp add: blob_doc_frame that)
  show ?thesis
  proof (cases r)
    case (Inl e)
    with c have "s1 = s \<or> (\<exists>x t. file_ensure b p n ct i s = (x, t) \<and> blob_frame t s1)" by auto
    then have "blob_frame s s1" by (metis blob_frame_refl blob_frame_trans step_framedD [OF cb])
    with run w Inl still show ?thesis by (auto simp: seedFile_def split: if_splits)
  next
    case (Inr fs)
    obtain f stored where fs: "fs = (f, stored)" by fastforce
    with c Inr obtain x t1 t2 where *: "file_ensure b p n ct i s = (Inr x, t1)" "blob_frame t1 t2"
      "stored \<Longrightarrow> \<exists>t3. emitUploaded l org f t2 = (Inr (), t3) \<and> blob_frame t3 s1" "\<not> stored \<Longrightarrow> blob_frame t2 s1"
      by (auto split: if_splits)
    have t2: "blob_frame s t2" by (rule blob_frame_trans [OF step_framedD [OF cb *(1)] *(2)])
    show ?thesis
    proof (cases stored)
      case True
      with *(3) emitUploaded_Inr [OF l] t2
      have "doc_frame [Event FileUploaded (bf_id f) (FileP (fileData org f))] s s1" by (blast intro: doc_frame_blob)
      then have "counted org 1 s s1" unfolding counted_def seed_event_def
        by (intro exI [of _ "[Event FileUploaded (bf_id f) (FileP (fileData org f))]"]) auto
      with run w Inr fs True show ?thesis by (auto simp: seedFile_def)
    next
      case False
      with run w Inr fs still blob_frame_trans [OF t2 *(4)] show ?thesis by (auto simp: seedFile_def)
    qed
  qed
qed

lemma seedEntries_counted:
  assumes "lib_ok l" "doc_blobs_ok b"
  shows "seedEntries l b org root p es s = ((n, er), s') \<Longrightarrow> counted org n s s'"
    and "seedEntry l b org root p e s = ((n, er), s') \<Longrightarrow> counted org n s s'"
  using assms
proof (induction l b org root p es s and l b org root p e s arbitrary: n er s' and n er s'
    rule: seedEntries_seedEntry.induct)
  case (2 l b org root parent e es s)
  obtain k er1 s1 where e: "seedEntry l b org root parent e s = ((k, er1), s1)" by (metis surj_pair)
  have one: "counted org k s s1" by (rule "2.IH"(1) [OF e "2.prems"(2,3)])
  show ?case
  proof (cases er1)
    case None
    obtain m er2 s2 where es: "seedEntries l b org root parent es s1 = ((m, er2), s2)" by (metis surj_pair)
    have "counted org m s1 s2"
      by (rule "2.IH"(2) [OF e [symmetric] refl None es "2.prems"(2,3)])
    with one have "counted org (k + m) s s2" by (rule counted_trans)
    with "2.prems"(1) e None es show ?thesis by simp
  next
    case (Some x)
    with "2.prems"(1) e one show ?thesis by simp
  qed
next
  case (3 l b org root parent i name entries ct content s)
  show ?case
  proof (cases "entry_directory (SeedEntry i name entries ct content)")
    case (Inl e)
    with "3.prems"(1) show ?thesis by (simp add: seedEntry.simps del: entry_directory.simps)
  next
    case (Inr isDir)
    show ?thesis
    proof (cases isDir)
      case False
      with "3.prems" Inr show ?thesis
        by (intro seedFile_counted [of l b org parent i name ct content s n er s'])
          (simp_all add: seedEntry.simps del: entry_directory.simps)
    next
      case True
      obtain r s1 where d: "seedDirectory l b org root parent i name s = (r, s1)" by fastforce
      note dir = seedDirectory_cases [OF "3.prems"(2,3) d]
      show ?thesis
      proof (cases r)
        case (Inl e)
        with "3.prems"(1) \<open>entry_directory _ = Inr isDir\<close> True d dir show ?thesis
          by (simp add: seedEntry.simps del: entry_directory.simps split: if_splits)
      next
        case r: (Inr dc)
        obtain d' created where dc: "dc = (d', created)" by fastforce
        show ?thesis
        proof (cases entries)
          case None
          with "3.prems"(1) \<open>entry_directory _ = Inr isDir\<close> True d dir r dc show ?thesis
            by (auto simp: seedEntry.simps simp del: entry_directory.simps split: if_splits)
        next
          case (Some es)
          obtain m er2 s2 where es: "seedEntries l b org root (bd_id d') es s1 = ((m, er2), s2)" by (metis surj_pair)
          have "counted org m s1 s2"
            by (rule "3.IH" [OF \<open>entry_directory _ = Inr isDir\<close> _ d [symmetric] r dc [symmetric] Some es "3.prems"(2,3)])
              (simp add: True)
          with dir r dc have "counted org ((if created then 1 else 0) + m) s s2"
            using counted_trans [of org 1 s s1 m s2] counted_trans [of org 0 s s1 m s2] by (cases created) simp_all
          with "3.prems"(1) \<open>entry_directory _ = Inr isDir\<close> True d r dc Some es show ?thesis
            by (auto simp: seedEntry.simps simp del: entry_directory.simps split: if_splits)
        qed
      qed
    qed
  qed
qed simp

text \<open>A document seed counts what it commits: after seeding one organization's
  hierarchy, whether it finished or stopped at an entry, the number it returns is the
  number of entry events committed, each the creation's own; before them comes the
  root's event at most, and none when the root stood. The organizations and the logos
  are as they were.\<close>
theorem seed_counts_events:
  assumes l: "lib_ok l" and b: "doc_blobs_ok b" and run: "seedTree l b t s = ((n, er), s')"
  shows "\<exists>rootq q org. outbox s' = outbox s @ rootq @ q \<and> length q = n \<and> list_all (seed_event org) q
      \<and> length rootq \<le> 1 \<and> ((\<exists>root. documentRoot l org s = Inr root) \<longrightarrow> rootq = [])
      \<and> orgs s' = orgs s \<and> images s' = images s"
proof (cases "seedOrganization l (st_organization t) s")
  case (Inl e)
  with run have "n = 0" "s' = s" by (auto simp: seedTree_def)
  then show ?thesis by (intro exI [of _ "[]"]) simp
next
  case (Inr org)
  obtain r s1 where root: "ensureRoot l b org (Some (st_root t)) s = (r, s1)" by fastforce
  note ens = ensureRoot_cases [OF l doc_blobs_okD(1) [OF b] root]
  show ?thesis
  proof (cases r)
    case (Inl e)
    with ens run root Inr have "n = 0" "s' = s" by (auto simp: seedTree_def)
    then show ?thesis by (intro exI [of _ "[]"]) simp
  next
    case r: (Inr rt)
    with run root Inr have es: "seedEntries l b org rt rt (st_entries t) s1 = ((n, er), s')" by (simp add: seedTree_def)
    obtain q where q: "doc_frame q s1 s'" "length q = n" "list_all (seed_event org) q"
      using seedEntries_counted(1) [OF l b es] by (auto simp: counted_def)
    obtain rootq where "outbox s1 = outbox s @ rootq" "length rootq \<le> 1" "orgs s1 = orgs s" "images s1 = images s"
        "(\<exists>root. documentRoot l org s = Inr root) \<longrightarrow> rootq = []"
      using ens r root_opened_events [of l b org "Some (st_root t)" s rt s1] by auto
    with q show ?thesis
      by (intro exI [of _ rootq] exI [of _ q] exI [of _ org]) (simp add: doc_frame_def)
  qed
qed

definition demo_tree :: seed_tree where
  "demo_tree = \<lparr>st_organization = ''/acme'', st_root = ''r'', st_entries =
     [SeedEntry ''e1'' ''docs'' (Some [SeedEntry ''e2'' ''a.txt'' None ''text/plain'' ''hello'']) [] []]\<rparr>"

lemmas seed_run_simps = seedTree_def demo_tree_def seedOrganization_def find_seeded_def ref_file_ensure_def ref_file_create_def
  seedDirectory_def seed_directory_body_def seedFile_def ref_ensure_file_def complete_def emitUploaded_def hook_emit_def
  fileData_def set_files_def ref_file_def new_root_simps

lemma demo_seed: "fst (seedTree plain_lib ref_blobfs demo_tree new_org_db) = (2, None)"
  by (simp add: seed_run_simps trim_prefix_def has_prefix_def)

theorem seed_counts_events_witness:
  "\<exists>rootq q. outbox (snd (seedTree plain_lib ref_blobfs demo_tree new_org_db)) = rootq @ q \<and> length q = 2 \<and> length rootq \<le> 1"
proof -
  have "seedTree plain_lib ref_blobfs demo_tree new_org_db
      = ((2, None), snd (seedTree plain_lib ref_blobfs demo_tree new_org_db))"
    using demo_seed by (simp add: prod_eq_iff)
  from seed_counts_events [OF plain_lib_ok ref_doc_blobs_ok this]
  show ?thesis by (auto simp: new_org_db_def doc_db_def)
qed

section \<open>A branch's delete\<close>

text \<open>The mark as blobfs documents it: a marked directory is found deleting, whether
  the mark is its first or a retry, and the mark of one that was active counts it; a
  read does not depend on the outbox and the lock changes no row.\<close>
definition mark_contract :: "'f blobfs \<Rightarrow> bool" where
  "mark_contract b \<longleftrightarrow>
     (\<forall>i v s n s'. mark_deleting b i v s = (Inr n, s') \<longrightarrow> (\<exists>d. dir_find b i s' = Inr d \<and> bd_status d \<noteq> BDirActive)) \<and>
     (\<forall>i v s n s' d. mark_deleting b i v s = (Inr n, s') \<longrightarrow> dir_find b i s = Inr d \<longrightarrow> bd_status d = BDirActive \<longrightarrow> n \<noteq> 0) \<and>
     (\<forall>i s q. dir_find b i (s\<lparr>outbox := q\<rparr>) = dir_find b i s) \<and>
     (\<forall>i s u s'. lock_tree b s = (Inr u, s') \<longrightarrow> dir_find b i s' = dir_find b i s)"

lemma mark_contractD:
  assumes "mark_contract b"
  shows "mark_deleting b i v s = (Inr n, s') \<Longrightarrow> \<exists>d. dir_find b i s' = Inr d \<and> bd_status d \<noteq> BDirActive"
    and "mark_deleting b i v s = (Inr n, s') \<Longrightarrow> dir_find b i s = Inr d \<Longrightarrow> bd_status d = BDirActive \<Longrightarrow> n \<noteq> 0"
    and "dir_find b i (s\<lparr>outbox := q\<rparr>) = dir_find b i s"
    and "lock_tree b s = (Inr u, s') \<Longrightarrow> dir_find b i s' = dir_find b i s"
  using assms unfolding mark_contract_def by blast+

text \<open>What a branch's mark queues: its directory's event exactly when it was active.\<close>
lemma mark_branch_body_Inr:
  assumes m: "mark_contract b" and i: "i \<noteq> RootAlias" and run: "mark_branch_body l b org i v s = (Inr (j, q), s')"
  obtains d d' where "j = i" "dir_find b i s = Inr d" "dir_find b i s' = Inr d'" "bd_status d' \<noteq> BDirActive"
    "q = (if bd_status d = BDirActive then [directory_gone org i (bd_version d')] else [])"
proof -
  from mark_body_told [OF run] i obtain d n s1 where *: "j = i" "lock_tree b s = (Inr (), s1)"
    "dir_find b i s1 = Inr d" "mark_deleting b i v s1 = (Inr n, s')"
    "if bd_status d = BDirActive \<and> n \<noteq> 0
     then \<exists>d'. dir_find b i s' = Inr d' \<and> q = [directory_gone org i (bd_version d')] else q = []"
    by (auto simp: at_root_def)
  obtain d' where d': "dir_find b i s' = Inr d'" "bd_status d' \<noteq> BDirActive" using mark_contractD(1) [OF m *(4)] by blast
  have "bd_status d = BDirActive \<longrightarrow> n \<noteq> 0" using mark_contractD(2) [OF m *(4,3)] by blast
  with *(5) d' have "q = (if bd_status d = BDirActive then [directory_gone org i (bd_version d')] else [])"
    by (auto split: if_splits)
  moreover have "dir_find b i s = Inr d" using *(3) mark_contractD(4) [OF m *(2)] by simp
  ultimately show thesis using that *(1) d' by blast
qed

text \<open>C11. A branch's delete is announced once. A first request that succeeds nudges the
  sweep and leaves the directory deleting; when it found the directory active it has
  committed exactly one event, DirectoryDeleted about that directory at the version
  the mark left it, and when it found it deleting already none. A second request for
  the same directory, at any version, may succeed or fail and commits no event.\<close>
theorem branch_deleted_once:
  assumes l: "lib_ok (doc_lib c)" and b: "steps_framed (doc_blobs c)" and m: "mark_contract (doc_blobs c)" and i: "i \<noteq> RootAlias"
    and first: "DeleteBranch c org i v s = (Inr j, nudged, s')"
    and again: "DeleteBranch c org i v' s' = (r, nudged', s'')"
  shows "nudged \<and> j = i
    \<and> (\<exists>d d'. dir_find (doc_blobs c) i s = Inr d \<and> dir_find (doc_blobs c) i s' = Inr d' \<and> bd_status d' \<noteq> BDirActive
         \<and> outbox s' = outbox s @
             (if bd_status d = BDirActive
              then [Event DirectoryDeleted i (DirectoryDeletedP \<lparr>ddd_directory = i, ddd_org = org, ddd_version = bd_version d'\<rparr>)]
              else []))
    \<and> outbox s'' = outbox s' \<and> nudged' = (case r of Inl _ \<Rightarrow> False | Inr _ \<Rightarrow> True)"
proof -
  let ?l = "doc_lib c" and ?b = "doc_blobs c"
  have run: "\<exists>d d'. j = i \<and> dir_find ?b i s = Inr d \<and> dir_find ?b i s' = Inr d' \<and> bd_status d' \<noteq> BDirActive
      \<and> outbox s' = outbox s @ (if bd_status d = BDirActive then [directory_gone org i (bd_version d')] else [])"
    if t: "markBranch ?l ?b org i v s = (Inr j, s')" for v s j s'
  proof -
    obtain q s1 where q: "mark_branch_body ?l ?b org i v s = (Inr (j, q), s1)" "s' = s1\<lparr>outbox := outbox s1 @ q\<rparr>"
      by (rule command_Inr [OF l t [unfolded markBranch_def]]) blast
    have same: "outbox s1 = outbox s"
      using step_framedD [OF framed_bodies(3) [OF b] q(1)] by (simp add: blob_frame_def)
    show ?thesis
      unfolding q(2) by (rule mark_branch_body_Inr [OF m i q(1)])
        (auto simp: same mark_contractD(3) [OF m] split del: if_split)
  qed
  obtain t where t: "markBranch ?l ?b org i v s = (Inr j, s')" "nudged"
    using first by (auto simp: DeleteBranch_def split: prod.splits sum.splits)
  obtain t2 where t2: "markBranch ?l ?b org i v' s' = (t2, s'')" "r = t2" "nudged' = (case t2 of Inl _ \<Rightarrow> False | Inr _ \<Rightarrow> True)"
    using again by (auto simp: DeleteBranch_def split: prod.splits sum.splits)
  have "outbox s'' = outbox s'"
  proof (cases t2)
    case (Inl e)
    have "s'' = s'" by (rule command_Inl [OF l t2(1) [unfolded markBranch_def Inl]])
    then show ?thesis by simp
  next
    case (Inr j2)
    with run [OF t(1)] run [OF t2(1) [unfolded Inr]] show ?thesis by auto
  qed
  with run [OF t(1)] t(2) t2 show ?thesis unfolding directory_gone_def by blast
qed

lemma ref_mark_contract: "mark_contract ref_blobfs"
  unfolding mark_contract_def
proof (intro conjI allI impI)
  fix i v n and s s' :: "ref_fs db"
  assume run: "mark_deleting ref_blobfs i v s = (Inr n, s')"
  let ?set = "\<lambda>d :: bdir. d\<lparr>bd_status := BDirDeleting, bd_version := v + 1\<rparr>"
  from run obtain d where d: "ref_dir i s = Some d"
    and s': "s' = set_dirs (map (\<lambda>x. if bd_id x = i then ?set d else x)) s"
    by (auto simp: ref_blobfs_def ref_update_dir_def Let_def split: option.splits if_splits)
  have "List.find (\<lambda>x. bd_id x = i) (map (\<lambda>x. if bd_id x = i then ?set d else x) ds) = Some (?set d)"
    if "List.find (\<lambda>x. bd_id x = i) ds = Some d" for ds
    using that by (induction ds) (auto split: if_splits)
  with d have "ref_dir i s' = Some (?set d)" by (simp add: ref_dir_def s' set_dirs_def)
  then show "\<exists>d. dir_find ref_blobfs i s' = Inr d \<and> bd_status d \<noteq> BDirActive"
    by (simp add: ref_blobfs_def)
next
  show "n \<noteq> 0" if "mark_deleting ref_blobfs i v s = (Inr n, s')" for i v n and s s' :: "ref_fs db"
    using that by (auto simp: ref_blobfs_def split: prod.splits sum.splits)
qed (simp_all add: ref_blobfs_def ref_dir_def)

definition demo_documents :: "ref_fs documents" where
  "demo_documents = \<lparr>doc_lib = plain_lib, doc_blobs = ref_blobfs, doc_uuid = (\<lambda>_. True), doc_ops = sample_ops\<rparr>"

theorem branch_deleted_once_witness:
  "let (r, nudged, s1) = DeleteBranch demo_documents ''x'' ''d'' 1 doc_db
   in nudged \<and> outbox (snd (snd (DeleteBranch demo_documents ''x'' ''d'' 9 s1))) = outbox s1"
proof -
  have "fst (markBranch plain_lib ref_blobfs ''x'' ''d'' 1 doc_db) = Inr ''d''"
    by (simp add: markBranch_def mark_branch_body_def raiseMarked_def ref_run_simps)
  then obtain s1 where first: "DeleteBranch demo_documents ''x'' ''d'' 1 doc_db = (Inr ''d'', True, s1)"
    by (cases "markBranch plain_lib ref_blobfs ''x'' ''d'' 1 doc_db") (auto simp: DeleteBranch_def demo_documents_def)
  obtain r nu s2 where again: "DeleteBranch demo_documents ''x'' ''d'' 9 s1 = (r, nu, s2)"
    by (metis surj_pair)
  have alias_no: "''d'' \<noteq> RootAlias" by (simp add: RootAlias_def)
  have "lib_ok (doc_lib demo_documents)" "steps_framed (doc_blobs demo_documents)" "mark_contract (doc_blobs demo_documents)"
    by (simp_all add: demo_documents_def plain_lib_ok ref_steps_framed ref_mark_contract)
  from branch_deleted_once [OF this alias_no first again] have "outbox s2 = outbox s1" by simp
  with first again show ?thesis by simp
qed

end
