(* ===== verification/DocReads.thy ===== *)
theory DocReads
  imports DocProperties
begin

text \<open>
  What the document layer's reads present: the path under the root, a hierarchy not
  written yet, a directory being deleted, and the files a download serves.
\<close>

section \<open>Downloads\<close>

text \<open>C27. A download serves exactly the available files of the organization: it
  succeeds just when the file is found, its directory lies in the organization's root
  and it is available with a recorded size and entity tag, and then it carries the
  file's own name, type, size and tag and opens the file's own object.\<close>
theorem content_serves_available:
  "store_content l b org i s = Inr ct \<longleftrightarrow>
     (\<exists>root f len etag. documentRoot l org s = Inr root \<and> file_find b i s = Inr f
        \<and> (bf_dir f = RootAlias \<or> bf_dir f = root \<or> dir_is_within b (bf_dir f) root s = Inr True)
        \<and> bf_status f = BAvailable \<and> bf_size f = Some len \<and> bf_etag f = Some etag
        \<and> ct = \<lparr>ct_name = bf_name f, ct_download = \<lparr>dl_object = \<lparr>wo_content_type = bf_content_type f,
                 wo_size = len, wo_etag = etag\<rparr>, dl_key = bf_key f\<rparr>\<rparr>)"
proof -
  have "store_content l b org i s = Inr ct \<longleftrightarrow>
      (\<exists>root f d. fileScope l b org i s = Inr (root, f) \<and> Serve f = Inr d \<and> ct = \<lparr>ct_name = bf_name f, ct_download = d\<rparr>)"
    by (auto simp: store_content_def split: sum.splits)
  moreover have "(\<exists>d. within b root k s = Inr d) \<longleftrightarrow> k = RootAlias \<or> k = root \<or> dir_is_within b k root s = Inr True"
    for root k by (auto simp: within_Inr)
  ultimately show ?thesis
    unfolding fileScope_Inr Serve_Inr by (simp only:) blast
qed

section \<open>Paths\<close>

lemma below_root_join:
  assumes "CHR ''/'' \<notin> set r" "below \<noteq> []"
  shows "below_root (''/'' @ join_with ''/'' (r # below)) = ''/'' @ join_with ''/'' below"
proof -
  have "join_with ''/'' (r # below) = r @ CHR ''/'' # join_with ''/'' below"
    using assms(2) by (simp add: join_with_Cons)
  with cut_at_found [OF assms(1)] show ?thesis
    by (simp add: below_root_def trim_prefix_def has_prefix_def)
qed

lemma below_root_itself: "CHR ''/'' \<notin> set r \<Longrightarrow> below_root (''/'' @ r) = ''/''"
  using cut_at_absent [of "CHR ''/''" r] by (simp add: below_root_def trim_prefix_def has_prefix_def)

text \<open>A directory is presented from its organization's root: the path shown is
  blobfs's without the root's own segment, whatever the root's name, so the root is at
  a single slash, named by it and without a parent, and a directory beneath it is at
  its segments.\<close>
theorem directory_presented:
  assumes "scope l b org i s = Inr (root, dir)" "dir_find b dir s = Inr d" "bd_id d = dir"
    "directoryStatus (bd_status d) = Inr st" "CHR ''/'' \<notin> set r"
    "dir_abs_path b dir s = Inr (''/'' @ join_with ''/'' (r # below))" "below = [] \<longleftrightarrow> dir = root"
  shows "read_directory l b org i s = Inr \<lparr>dir_id = dir,
      dir_parent = (if dir = root then None else bd_parent d),
      dir_name = (if dir = root then ''/'' else bd_name d),
      dir_path = ''/'' @ join_with ''/'' below, dir_status = st, dir_version = bd_version d\<rparr>"
  using assms below_root_join [OF assms(5), of below] below_root_itself [OF assms(5)]
  by (cases "below = []") (simp_all add: read_directory_def directoryOf_def)

theorem directory_presented_witness:
  "read_directory plain_lib ref_blobfs ''x'' ''d'' doc_db = Inr \<lparr>dir_id = ''d'', dir_parent = Some ''r'',
     dir_name = ''docs'', dir_path = ''/docs'', dir_status = DirectoryActive, dir_version = 1\<rparr>"
proof -
  have sc: "scope plain_lib ref_blobfs ''x'' ''d'' doc_db = Inr (''r'', ''d'')"
    and fd: "dir_find ref_blobfs ''d'' doc_db = Inr (a_dir ''d'' ''r'' ''docs'')"
    and path: "dir_abs_path ref_blobfs ''d'' doc_db = Inr (''/'' @ join_with ''/'' (''x'' # [''docs'']))"
    by (simp_all add: ref_run_simps)
  show ?thesis
    using directory_presented [OF sc fd _ _ _ path, of DirectoryActive] by (simp add: a_dir_def)
qed

section \<open>Listings\<close>

text \<open>A hierarchy not written yet reads as empty, not as missing: for an
  organization without a root, a listing under the alias is the listing of an id no
  row holds, with the read's own refusals and paging; a directory's own id is absent,
  and so is every listing of an organization that does not exist. A directory being
  deleted lists as a missing one, never as a conflict.\<close>
theorem unwritten_hierarchy_lists_empty:
  assumes l: "lib_ok l" and none: "documentRoot l org s = Inl (no_rows l)"
  shows "(case organizationExists l org s of
       Inr _ \<Rightarrow> listFiles l b ops org RootAlias q s =
         (case listing_of ops (file_listing b) (new_id b s) s q of
            Inl e \<Rightarrow> Inl e
          | Inr (items, pg) \<Rightarrow> (case present_rows fileOf items of Inl e \<Rightarrow> Inl e | Inr out \<Rightarrow> Inr (out, pg)))
     | Inl _ \<Rightarrow> \<exists>e. listFiles l b ops org RootAlias q s = Inl e \<and> errors_is NoRows e)
   \<and> (i \<noteq> RootAlias \<longrightarrow> (\<exists>e. listFiles l b ops org i q s = Inl e \<and> errors_is NoRows e))
   \<and> (\<forall>li dir e. ReadListing ops li dir s q = Inl e \<and> errors_is Deleting e \<longrightarrow>
        (\<exists>e'. listing_of ops li dir s q = Inl e' \<and> Status e' = Some (no_detail 404)))"
proof -
  have nr: "errors_is NoRows (no_rows l)" by (rule lib_ok_errors(2) [OF l])
  have sc: "scope l b org k s = Inl (wrapf (''document root of organization '' @ org) (no_rows l))" for k
    by (simp add: scope_def none)
  have ex: "organizationExists l org s = Inl e \<Longrightarrow> e = no_rows l" for e
    by (auto simp: organizationExists_def split: option.splits)
  have "Status (wrapf t BlobErrNotFound) = Some (no_detail 404)" for t
    using absent_wrapf by blast
  then show ?thesis
    using ex nr by (auto simp: listFiles_def listScope_def sc listing_of_def split: sum.splits)
qed

theorem unwritten_hierarchy_lists_empty_witness:
  "listFiles plain_lib ref_blobfs sample_ops ''x'' RootAlias (sample_query\<lparr>q_filters := []\<rparr>) new_org_db
     = Inr ([], \<lparr>pg_total = Some 0, pg_more = False, pg_next = []\<rparr>)"
proof -
  let ?q = "sample_query\<lparr>q_filters := []\<rparr>"
  have "documentRoot plain_lib ''x'' new_org_db = Inl (no_rows (plain_lib :: ref_fs lib))"
    by (simp add: new_org_db_def documentRoot_def)
  note empty = unwritten_hierarchy_lists_empty [OF plain_lib_ok this, of ref_blobfs sample_ops ?q "''d''", THEN conjunct1]
  have "organizationExists (plain_lib :: ref_fs lib) ''x'' new_org_db = Inr ()"
    by (simp add: organizationExists_def new_org_db_def doc_db_def acme_row_def find_row_def)
  with empty have "listFiles plain_lib ref_blobfs sample_ops ''x'' RootAlias ?q new_org_db =
         (case listing_of sample_ops (file_listing ref_blobfs) (new_id ref_blobfs new_org_db) new_org_db ?q of
            Inl e \<Rightarrow> Inl e
          | Inr (items, pg) \<Rightarrow> (case present_rows fileOf items of Inl e \<Rightarrow> Inl e | Inr out \<Rightarrow> Inr (out, pg)))"
    by simp
  then show ?thesis
    by (simp add: listing_of_def ReadListing_def sample_query_def ref_blobfs_def ref_listing_def ref_dir_def
        new_org_db_def Paging_def)
qed

end
