(* ===== verification/Web.thy ===== *)
theory Web
  imports Database Objects Reads
begin

text \<open>
  What the route groups use of the web SDK, and sdk/web.go: the request reads, the
  responses, the guarded command's inputs in their order, and the pieces of the
  standard library a handler calls. The SDK's reads are a library record.
\<close>

section \<open>The SDK\<close>

text \<open>web.Limits: a listing's default and largest page size.\<close>
type_synonym limits = "int \<times> int"

text \<open>The reads of a request 'q:
  \<^item> url_path is r.URL.Path, query_get is r.URL.Query().Get, path_value is r.PathValue;
  \<^item> PathUUID, IfMatch, ParseQuery, ReadUpload are the SDK's reads;
  \<^item> WidenUpload, WidenDownload are a transfer's, the error of widening a deadline;
  \<^item> object_status is the status WriteObject answers, a revalidation's among them;
  \<^item> Attachment is the disposition of a file's name.\<close>
record 'q web =
  url_path :: "'q \<Rightarrow> string"
  query_get :: "'q \<Rightarrow> string \<Rightarrow> string"
  path_value :: "'q \<Rightarrow> string \<Rightarrow> string"
  PathUUID :: "'q \<Rightarrow> string \<Rightarrow> string result"
  IfMatch :: "'q \<Rightarrow> int result"
  ParseQuery :: "limits \<Rightarrow> 'q \<Rightarrow> web_query result"
  ReadUpload :: "int \<Rightarrow> 'q \<Rightarrow> upload result"
  WidenUpload :: "int \<Rightarrow> 'q \<Rightarrow> err option"
  WidenDownload :: "int \<Rightarrow> int \<Rightarrow> err option"
  object_status :: "'q \<Rightarrow> web_object \<Rightarrow> nat"
  Attachment :: "string \<Rightarrow> string"

text \<open>A response: its status, the headers the handler set, and the value its body
  encodes, if it has one.\<close>
record 'w response =
  rs_status :: nat
  rs_headers :: "(string \<times> string) list"
  rs_body :: "'w option"

type_synonym ('q, 's, 'w) handler = "'q \<Rightarrow> ('s, 'w response) step"

definition WriteJSON :: "nat \<Rightarrow> (string \<times> string) list \<Rightarrow> 'w \<Rightarrow> 'w response" where
  "WriteJSON code hs w = \<lparr>rs_status = code, rs_headers = hs, rs_body = Some w\<rparr>"

definition WriteHeader :: "nat \<Rightarrow> (string \<times> string) list \<Rightarrow> 'w response" where
  "WriteHeader code hs = \<lparr>rs_status = code, rs_headers = hs, rs_body = None\<rparr>"

text \<open>An input read in a handler: its error is returned before any I/O.\<close>
definition input :: "'a result \<Rightarrow> ('a \<Rightarrow> ('s, 'b) step) \<Rightarrow> ('s, 'b) step" where
  "input r k = (case r of Inl e \<Rightarrow> refuse e | Inr a \<Rightarrow> k a)"

text \<open>A service call, whose value the response shows.\<close>
definition reply :: "('s, 'a) step \<Rightarrow> ('a \<Rightarrow> 'w response) \<Rightarrow> ('s, 'w response) step" where
  "reply m g = andthen m (\<lambda>a. give (g a))"

lemma input_simps [handler_simps]:
  "input (Inl e) k = refuse e" "input (Inr a) k = k a"
  by (simp_all add: input_def)

lemma input_cases:
  "input r k s = (x, s') \<longleftrightarrow> (case r of Inl e \<Rightarrow> x = Inl e \<and> s' = s | Inr a \<Rightarrow> k a s = (x, s'))"
  by (auto simp: input_def split: sum.splits)

lemma reply_cases:
  "reply m g s = (x, s') \<longleftrightarrow> (\<exists>r. m s = (r, s') \<and> x = (case r of Inl e \<Rightarrow> Inl e | Inr a \<Rightarrow> Inr (g a)))"
  by (auto simp: reply_def andthen_def give_def split: prod.splits sum.splits)

section \<open>A guarded command's inputs\<close>

text \<open>sdk.Command: the id, the version, then the body, which decode reads within the
  limit.\<close>
definition Command ::
    "'q web \<Rightarrow> (int \<Rightarrow> 'q \<Rightarrow> 'b result) \<Rightarrow> int \<Rightarrow> 'q \<Rightarrow> (string \<times> int \<times> 'b) result" where
  "Command w decode limit r =
     (case PathUUID w r ''id'' of
        Inl e \<Rightarrow> Inl e
      | Inr i \<Rightarrow>
          (case IfMatch w r of
             Inl e \<Rightarrow> Inl e
           | Inr v \<Rightarrow> (case decode limit r of Inl e \<Rightarrow> Inl e | Inr body \<Rightarrow> Inr (i, v, body))))"

lemma Command_Inr:
  "Command w decode limit r = Inr (i, v, body) \<longleftrightarrow>
     PathUUID w r ''id'' = Inr i \<and> IfMatch w r = Inr v \<and> decode limit r = Inr body"
  by (auto simp: Command_def split: sum.splits)

text \<open>A guarded command refuses its inputs in a fixed order: the error is the path
  id's when that is refused, else the version's, else the body's, and the inputs are
  all three only when none is.\<close>
theorem Command_order:
  "Command w decode limit r =
     (case present [failure (PathUUID w r ''id''), failure (IfMatch w r), failure (decode limit r)] of
        e # _ \<Rightarrow> Inl e
      | [] \<Rightarrow> Inr (projr (PathUUID w r ''id''), projr (IfMatch w r), projr (decode limit r)))"
  by (cases "PathUUID w r ''id''"; cases "IfMatch w r"; cases "decode limit r") (simp_all add: Command_def)

section \<open>The standard library\<close>

text \<open>strings.Cut at a separator of several characters.\<close>
fun cut_sub :: "string \<Rightarrow> string \<Rightarrow> string \<times> string \<times> bool" where
  "cut_sub sep [] = (if sep = [] then ([], [], True) else ([], [], False))"
| "cut_sub sep (c # cs) =
     (if has_prefix sep (c # cs) then ([], drop (length sep) (c # cs), True)
      else (case cut_sub sep cs of (a, b, found) \<Rightarrow> (if found then (c # a, b, True) else (c # cs, [], False))))"

text \<open>strconv.ParseBool.\<close>
definition ParseBool :: "string \<Rightarrow> bool option" where
  "ParseBool s =
     (if s \<in> {''1'', ''t'', ''T'', ''true'', ''TRUE'', ''True''} then Some True
      else if s \<in> {''0'', ''f'', ''F'', ''false'', ''FALSE'', ''False''} then Some False
      else None)"

text \<open>The cut is at the first occurrence.\<close>
lemma cut_sub_first:
  assumes "sep \<noteq> []" "\<not> sublist sep (p @ butlast sep)"
  shows "cut_sub sep (p @ sep @ t) = (p, t, True)"
  using assms(2)
proof (induction p)
  case Nil
  from assms(1) obtain c cs where sep: "sep = c # cs" by (cases sep) auto
  have "has_prefix sep (c # cs @ t)" by (simp add: has_prefix_iff sep)
  then show ?case by (simp add: sep)
next
  case (Cons c p)
  have "\<not> has_prefix sep (c # p @ sep @ t)"
  proof
    assume "has_prefix sep (c # p @ sep @ t)"
    then have "sep = take (length sep) (c # p @ sep @ t)" by (simp add: has_prefix_def)
    also have "sep @ t = butlast sep @ last sep # t" using assms(1) by simp
    also have "take (length sep) (c # p @ butlast sep @ last sep # t) = take (length sep) (c # p @ butlast sep)"
      using assms(1) by (cases sep) simp_all
    finally have "sublist sep (c # p @ butlast sep)" by (metis sublist_take)
    with Cons.prems show False by simp
  qed
  moreover have "\<not> sublist sep (p @ butlast sep)"
    using Cons.prems by (metis append_Cons sublist_Cons_right)
  ultimately show ?case using Cons.IH by simp
qed

end
