(* ===== verification/OrgHandler.thy ===== *)
theory OrgHandler
  imports Web OrgLogo
begin

text \<open>
  domain/organization/handler.go: the layer's routes, each handler's inputs in their
  order, the service call and the response, and the layer's own error vocabulary,
  composed before the shared one.
\<close>

section \<open>The handlers\<close>

definition maxCommandBody :: int where
  "maxCommandBody = 2 ^ 16"

text \<open>What the bodies of the layer's responses encode.\<close>
datatype org_wire =
    OrgPage "organization list" web_query paging
  | OrgOne organization
  | OrgIdentity identity
  | LogoIdentity string
  | OrgObject web_object string

text \<open>The handler: the SDK, the service's libraries, the projection the list reads, the
  paging policy, and the decoders of the three bodies.\<close>
record ('q, 'f) org_handler =
  oh_web :: "'q web"
  oh_lib :: "'f lib"
  oh_blobs :: "'f blobfs"
  oh_uuid :: "string \<Rightarrow> bool"
  oh_ops :: op_names
  oh_view :: "(organization, 'f db) projection"
  oh_limits :: limits
  oh_create :: "int \<Rightarrow> 'q \<Rightarrow> create_organization result"
  oh_edit :: "int \<Rightarrow> 'q \<Rightarrow> edit_organization result"
  oh_transfer :: "int \<Rightarrow> 'q \<Rightarrow> transfer_organization result"

type_synonym ('q, 'f) org_route = "('q, 'f) org_handler \<Rightarrow> ('q, 'f db, org_wire) handler"

definition org_list :: "('q, 'f) org_route" where
  "org_list h r =
     input (ParseQuery (oh_web h) (oh_limits h) r) (\<lambda>q.
     reply (reading (ListOrganizations (oh_ops h) (oh_view h) q)) (\<lambda>(items, pg).
     WriteJSON 200 [] (OrgPage items q pg)))"

definition org_find :: "('q, 'f) org_route" where
  "org_find h r =
     input (PathUUID (oh_web h) r ''id'') (\<lambda>i.
     reply (reading (Find (oh_lib h) i)) (\<lambda>x. WriteJSON 200 [] (OrgOne x)))"

definition org_lookup :: "('q, 'f) org_route" where
  "org_lookup h r =
     (let path = query_get (oh_web h) r ''path''
      in if path = []
         then refuse (wrap_reason OrgErrValidation ''lookup requires a path query parameter, like ?path=/acme/engineering'')
         else reply (reading (FindByPath (oh_lib h) (''/'' @ trim_prefix ''/'' path))) (\<lambda>x. WriteJSON 200 [] (OrgOne x)))"

definition org_create :: "('q, 'f) org_route" where
  "org_create h r =
     input (oh_create h maxCommandBody r) (\<lambda>body.
     reply (Create (oh_uuid h) (oh_lib h) body) (\<lambda>ident.
     WriteJSON 201 [(''Location'', url_path (oh_web h) r @ ''/'' @ i_id ident)] (OrgIdentity ident)))"

definition org_edit :: "('q, 'f) org_route" where
  "org_edit h r =
     input (Command (oh_web h) (oh_edit h) maxCommandBody r) (\<lambda>(i, v, body).
     reply (Edit (oh_lib h) i v body) (\<lambda>ident. WriteJSON 200 [] (OrgIdentity ident)))"

definition org_transfer :: "('q, 'f) org_route" where
  "org_transfer h r =
     input (Command (oh_web h) (oh_transfer h) maxCommandBody r) (\<lambda>(i, v, body).
     reply (Transfer (oh_uuid h) (oh_lib h) i v body) (\<lambda>ident. WriteJSON 200 [] (OrgIdentity ident)))"

definition org_delete :: "('q, 'f) org_route" where
  "org_delete h r =
     input (PathUUID (oh_web h) r ''id'') (\<lambda>i.
     input (IfMatch (oh_web h) r) (\<lambda>v.
     reply (Delete (oh_lib h) i v) (\<lambda>_. WriteHeader 204 [])))"

definition org_putLogo :: "('q, 'f) org_route" where
  "org_putLogo h r =
     input (PathUUID (oh_web h) r ''id'') (\<lambda>i.
     input (ReadUpload (oh_web h) (int maxLogoBody) r) (\<lambda>u.
     case WidenUpload (oh_web h) (int maxLogoBody) r of
       Some e \<Rightarrow> refuse e
     | None \<Rightarrow>
         reply (PutLogo (oh_lib h) (oh_blobs h) i u) (\<lambda>(fl, _).
         WriteJSON 201 [(''Location'', url_path (oh_web h) r)] (LogoIdentity fl))))"

definition org_logo :: "('q, 'f) org_route" where
  "org_logo h r =
     input (PathUUID (oh_web h) r ''id'') (\<lambda>i.
     andthen (reading (Logo (oh_lib h) (oh_blobs h) i)) (\<lambda>d.
     case WidenDownload (oh_web h) (int maxLogoBody) (wo_size (dl_object d)) of
       Some e \<Rightarrow> refuse e
     | None \<Rightarrow> give \<lparr>rs_status = object_status (oh_web h) r (dl_object d),
                     rs_headers = [(''Cache-Control'', ''no-cache'')],
                     rs_body = Some (OrgObject (dl_object d) (dl_key d))\<rparr>))"

definition org_deleteLogo :: "('q, 'f) org_route" where
  "org_deleteLogo h r =
     input (PathUUID (oh_web h) r ''id'') (\<lambda>i.
     reply (DeleteLogo (oh_lib h) (oh_blobs h) i) (\<lambda>_. WriteHeader 204 []))"

text \<open>Routes: method, pattern under /organizations, handler.\<close>
definition org_routes :: "(string \<times> string \<times> ('q, 'f) org_route) list" where
  "org_routes =
     [(''GET'', [], org_list), (''GET'', ''/{id}'', org_find), (''GET'', ''/lookup'', org_lookup),
      (''POST'', [], org_create), (''PUT'', ''/{id}'', org_edit), (''POST'', ''/{id}/transfer'', org_transfer),
      (''DELETE'', ''/{id}'', org_delete), (''PUT'', ''/{id}/logo'', org_putLogo),
      (''GET'', ''/{id}/logo'', org_logo), (''DELETE'', ''/{id}/logo'', org_deleteLogo)]"

section \<open>The layer's error vocabulary\<close>

definition org_status :: "err \<Rightarrow> problem option" where
  "org_status e =
     (if errors_is OrgValidation e then Some (no_detail 400)
      else if errors_is OrgCycle e then Some (Conflict DetailConflict)
      else None)"

text \<open>The group's writer asks the layer's matcher, then the shared one.\<close>
definition org_answer :: "err \<Rightarrow> problem option" where
  "org_answer = first_match [org_status, Status]"

interpretation org_group: composed_matchers org_status Status
  by unfold_locales (auto simp: org_status_def Status_problem_simps split: if_splits)

end
