(* ===== verification/OrgHandlerProperties.thy ===== *)
theory OrgHandlerProperties
  imports OrgHandler OrgEffects OrgLogoProperties
begin

text \<open>
  The organization routes end to end: what a transfer request answers, what a lookup
  finds, and that a read changes nothing.
\<close>

section \<open>The driver's errors, exactly\<close>

definition kinds :: "err \<Rightarrow> ekind set" where
  "kinds e = kind ` set (nodes e)"

lemma errors_is_kinds: "errors_is k e \<longleftrightarrow> k \<in> kinds e"
  by (auto simp: errors_is_def list_ex_iff kinds_def)

text \<open>A driver whose errors are of their class and no other.\<close>
definition exact_errors :: "'f lib \<Rightarrow> bool" where
  "exact_errors l \<longleftrightarrow> kinds (no_rows l) = {NoRows} \<and> kinds (mismatch l) = {VersionMismatch} \<and>
     (\<forall>c n. kinds (violation l c n) = {c, ConstraintError c n})"

lemma plain_lib_exact: "exact_errors plain_lib"
  by (auto simp: exact_errors_def plain_lib_def kinds_def)

lemma not_deleting: "(\<forall>d. DeletingError d \<notin> kinds e) \<Longrightarrow> \<not> file_deleting e"
  by (auto simp: file_deleting_def kinds_def image_iff dest!: errors_as_kind split: option.splits) metis

lemma org_answer_exact:
  assumes "exact_errors l"
  shows "org_answer (no_rows l) = Some (no_detail 404)" "org_answer (mismatch l) = Some (no_detail 412)"
    "org_answer (violation l UniqueViolation n) = Some (Conflict DetailConflict)"
    "org_answer (violation l ForeignKeyViolation n) = Some (Conflict DetailConflict)"
  using assms by (simp_all add: exact_errors_def org_answer_def org_status_def Status_def errors_is_kinds not_deleting)

section \<open>A transfer request\<close>

text \<open>What a transfer request should answer: 409 when the destination lies in the
  organization's own subtree, 404 when the organization is missing, 412 at another
  version, 409 when the destination is missing or holds the code already, and else
  the organization's next identity.\<close>
definition in_own_subtree :: "org_row list \<Rightarrow> string \<Rightarrow> string option \<Rightarrow> bool" where
  "in_own_subtree os i dest \<longleftrightarrow> (\<exists>p rs. dest = Some p \<and> chain os p rs \<and> i \<in> r_id ` set rs)"

definition transfer_answer :: "org_row list \<Rightarrow> string \<Rightarrow> int \<Rightarrow> string option \<Rightarrow> nat" where
  "transfer_answer os i v dest =
     (if in_own_subtree os i dest then 409
      else case find_row os i of
             None \<Rightarrow> 404
           | Some r \<Rightarrow>
               if r_version r \<noteq> v then 412
               else if (\<exists>p. dest = Some p \<and> find_row os p = None)
                  \<or> (\<exists>x\<in>set os. r_id x \<noteq> i \<and> r_parent x = dest \<and> r_code x = r_code r) then 409
               else 200)"

lemma violation_moved:
  assumes ok: "orgs_ok os" and row: "find_row os i = Some r" and self: "dest \<noteq> Some i"
    and bad: "row_violation l (other_rows i os) (r\<lparr>r_parent := dest, r_version := v\<rparr>) = Some e"
  shows "\<exists>n. e = violation l UniqueViolation n \<or> e = violation l ForeignKeyViolation n"
proof -
  have "match_code False (r_code r)" "r_name r \<noteq> []" "r_id r = i"
    using find_row_Some [OF row] ok by (auto simp: orgs_ok_def)
  moreover have "\<not> list_ex (\<lambda>x. r_id x = i) (other_rows i os)" by (simp add: other_rows_def list_ex_iff)
  ultimately have "e \<in> {violation l UniqueViolation ''uq_organization_parent_code'',
      violation l ForeignKeyViolation ''organization_parent_id_fkey''}"
    using bad self by (simp add: row_violation_def split: if_split_asm option.split_asm)
  then show ?thesis by blast
qed

lemma own_subtree_walk:
  assumes "orgs_ok os" "find_row os p \<noteq> None"
  shows "in_own_subtree os i (Some p) \<longleftrightarrow> (\<exists>n. in_subtree os i p = Some n \<and> n > 0)"
proof -
  obtain rs where rs: "chain os p rs" using orgs_ok_chain [OF assms(1)] assms(2) by blast
  obtain n where n: "in_subtree os i p = Some n" using in_subtree_returns [OF assms(1)] by blast
  have "in_own_subtree os i (Some p) \<longleftrightarrow> i \<in> r_id ` set rs"
    unfolding in_own_subtree_def using rs chain_deterministic [OF rs] by blast
  with in_subtree_zero [OF rs, of i] n show ?thesis by simp blast
qed

lemma org_answer_cycle: "org_answer (wrap_reason ErrCycle t) = Some (Conflict DetailConflict)"
  by (simp add: org_answer_def org_status_def ErrCycle_def)

lemma self_in_subtree:
  assumes "orgs_ok os" "find_row os i = Some r"
  shows "in_own_subtree os i (Some i)"
  using orgs_ok_chain [OF assms(1)] assms(2) chain_hd find_row_Some
  unfolding in_own_subtree_def by (metis image_eqI list.set_sel(1) option.distinct(1) option.inject)

text \<open>The error a refused transfer's body ends in.\<close>
lemma transfer_body_refused:
  assumes l: "calm l" and ok: "orgs_ok (orgs s)" and no: "transfer_answer (orgs s) i v (t_parent t) \<noteq> 200"
    and ex: "exact_errors l"
  shows "\<exists>e. run_script l (transfer_body l i v t) s = (Inl e, s) \<and>
    map_option p_status (org_answer e) = Some (transfer_answer (orgs s) i v (t_parent t))"
proof -
  have lock: "Lock l LockOrganizationTree s = (Inr (), s)" using l by (simp add: calm_def Lock_def)
  have body: "run_script l (transfer_body l i v t) s = (Inl e, s)"
    if "cycle_check i t s = Inr ()" "transfer_row l i v t s = (Inl e, s)" for e
    using lock that by (simp add: transfer_body_def transfer_write_def andthen_def reading_def)
  show ?thesis
  proof (cases "in_own_subtree (orgs s) i (t_parent t)")
    case True
    then obtain p where p: "t_parent t = Some p" "find_row (orgs s) p \<noteq> None"
      using chain_hd by (fastforce simp: in_own_subtree_def)
    with True own_subtree_walk [OF ok p(2)] obtain n where "in_subtree (orgs s) i p = Some n" "n > 0" by auto
    then have "run_script l (transfer_body l i v t) s = (Inl (wrap_reason ErrCycle (p @ '' is in the subtree of '' @ i)), s)"
      using lock p by (simp add: transfer_body_def andthen_def reading_def cycle_check_def)
    with True show ?thesis by (simp add: org_answer_cycle transfer_answer_def Conflict_def)
  next
    case out: False
    have cyc: "cycle_check i t s = Inr ()"
    proof -
      have "in_subtree (orgs s) i p = Some 0" if p: "t_parent t = Some p" for p
      proof (cases "find_row (orgs s) p")
        case None
        then show ?thesis by (simp add: in_subtree_def ancestors_missing)
      next
        case (Some x)
        with out p own_subtree_walk [OF ok, of p i] in_subtree_returns [OF ok, of i p] show ?thesis by auto
      qed
      then show ?thesis by (simp add: cycle_check_Inr)
    qed
    show ?thesis
    proof (cases "find_row (orgs s) i")
      case None
      then have "transfer_row l i v t s = (Inl (no_rows l), s)" by (simp add: transfer_row_def guarded_def)
      from body [OF cyc this] None out show ?thesis
        by (simp add: transfer_answer_def org_answer_exact [OF ex] no_detail_def)
    next
      case (Some r)
      show ?thesis
      proof (cases "r_version r = v")
        case False
        with Some have "transfer_row l i v t s = (Inl (mismatch l), s)" by (simp add: transfer_row_def guarded_def)
        from body [OF cyc this] Some False out show ?thesis
          by (simp add: transfer_answer_def org_answer_exact [OF ex] no_detail_def)
      next
        case True
        let ?r = "r\<lparr>r_parent := t_parent t, r_version := bump l v\<rparr>"
        have id: "r_id r = i" using find_row_Some [OF Some] by simp
        have self: "t_parent t \<noteq> Some i" using self_in_subtree [OF ok Some] out by auto
        have no409: "transfer_answer (orgs s) i v (t_parent t) = 409"
          using no Some True out by (auto simp: transfer_answer_def split: if_splits)
        have "row_violation l (other_rows i (orgs s)) ?r \<noteq> None"
        proof
          assume "row_violation l (other_rows i (orgs s)) ?r = None"
          with transfer_violation [OF ok Some, where l = l and dest = "t_parent t" and v = "bump l v"] no Some True out show False
            by (auto simp: transfer_answer_def split: if_splits)
        qed
        then obtain e where e: "row_violation l (other_rows i (orgs s)) ?r = Some e" by auto
        then have "transfer_row l i v t s = (Inl e, s)"
          using Some True id by (simp add: transfer_row_def guarded_def update_row_def)
        from body [OF cyc this] violation_moved [OF ok Some self e] no409 show ?thesis
          by (auto simp: org_answer_exact [OF ex] Conflict_def)
      qed
    qed
  qed
qed

text \<open>C8. The transfer route, end to end, on a database that answers: with its inputs
  read and its body valid, the request answers just what the tree calls for, 409 for a
  destination in the organization's own subtree, 404 for a missing organization, 412
  for another version, 409 for a missing destination or a code taken there, and 200
  with the organization's next version otherwise; a refusal changes nothing.\<close>
theorem transfer_route:
  assumes l: "lib_ok (oh_lib h)" "calm (oh_lib h)" "exact_errors (oh_lib h)" and ok: "orgs_ok (orgs s)"
    and inputs: "Command (oh_web h) (oh_transfer h) maxCommandBody r = Inr (i, v, t)"
    and valid: "transfer_Validate (oh_uuid h) t = None"
  shows "let code = transfer_answer (orgs s) i v (t_parent t) in
    if code = 200
    then \<exists>s'. org_transfer h r s = (Inr (WriteJSON 200 [] (OrgIdentity \<lparr>i_id = i, i_version = bump (oh_lib h) v\<rparr>)), s')
    else \<exists>e. org_transfer h r s = (Inl e, s) \<and> map_option p_status (org_answer e) = Some code"
proof -
  let ?l = "oh_lib h"
  have run: "org_transfer h r s = reply (store_transfer ?l i v t) (\<lambda>ident. WriteJSON 200 [] (OrgIdentity ident)) s"
    by (simp add: org_transfer_def inputs handler_simps Transfer_def valid)
  have quiet: "begin_tx ?l s = None" using l(2) by (simp add: calm_def)
  show ?thesis
  proof (cases "transfer_answer (orgs s) i v (t_parent t) = 200")
    case True
    then obtain row where row: "find_row (orgs s) i = Some row" "r_version row = v" "\<not> in_own_subtree (orgs s) i (t_parent t)"
        "\<forall>p. t_parent t = Some p \<longrightarrow> find_row (orgs s) p \<noteq> None"
        "\<forall>x\<in>set (orgs s). r_id x \<noteq> i \<longrightarrow> r_parent x = t_parent t \<longrightarrow> r_code x \<noteq> r_code row"
      by (auto simp: transfer_answer_def split: if_splits option.splits)
    have "destination_ok (orgs s) i (t_parent t)"
      using row(3,4) orgs_ok_chain [OF ok] by (fastforce simp: destination_ok_def in_own_subtree_def split: option.splits)
    with transfer_body_goes [OF l(2) ok row(1,2)] row(5) obtain q s1
      where "run_script ?l (transfer_body ?l i v t) s = (Inr (\<lparr>i_id = i, i_version = bump ?l v\<rparr>, q), s1)" by blast
    from calm_command [OF l(2), of "run_script ?l (transfer_body ?l i v t)", OF this] True show ?thesis
      by (auto simp: run reply_cases store_transfer_def Let_def)
  next
    case False
    from transfer_body_refused [OF l(2) ok False l(3)] obtain e where e: "run_script ?l (transfer_body ?l i v t) s = (Inl e, s)"
      "map_option p_status (org_answer e) = Some (transfer_answer (orgs s) i v (t_parent t))" by blast
    have "store_transfer ?l i v t s = (Inl e, s)"
      unfolding store_transfer_def using e(1) l(1) quiet by (intro command_body_Inl)
    with e(2) False show ?thesis by (auto simp: run reply_cases Let_def)
  qed
qed

text \<open>A request as the tests send it: its path, id, query values and version.\<close>
record demo_request =
  dq_path :: string
  dq_id :: string
  dq_query :: "string \<Rightarrow> string"
  dq_version :: int

definition demo_web :: "demo_request web" where
  "demo_web = \<lparr>url_path = dq_path, query_get = dq_query, path_value = (\<lambda>r _. dq_id r), PathUUID = (\<lambda>r _. Inr (dq_id r)),
     IfMatch = (\<lambda>r. Inr (dq_version r)), ParseQuery = (\<lambda>_ _. Inr sample_query), ReadUpload = (\<lambda>_ _. Inr png),
     WidenUpload = (\<lambda>_ _. None), WidenDownload = (\<lambda>_ _. None), object_status = (\<lambda>_ _. 200), Attachment = (\<lambda>n. n)\<rparr>"

definition demo_org_handler :: "(demo_request, unit) org_handler" where
  "demo_org_handler = \<lparr>oh_web = demo_web, oh_lib = plain_lib, oh_blobs = undefined, oh_uuid = (\<lambda>_. True), oh_ops = sample_ops,
     oh_view = undefined, oh_limits = (20, 100), oh_create = (\<lambda>_ _. Inr acme),
     oh_edit = (\<lambda>_ _. Inr \<lparr>e_code = ''acme'', e_name = ''Acme''\<rparr>),
     oh_transfer = (\<lambda>_ _. Inr \<lparr>t_parent = Some ''y'', t_present = True\<rparr>)\<rparr>"

definition get_request :: "string \<Rightarrow> demo_request" where
  "get_request i = \<lparr>dq_path = ''/organizations'', dq_id = i, dq_query = (\<lambda>_. ''acme/labs''), dq_version = 1\<rparr>"

theorem transfer_route_witness:
  "\<exists>e. org_transfer demo_org_handler (get_request ''x'') demo_db = (Inl e, demo_db)
     \<and> map_option p_status (org_answer e) = Some 409"
proof -
  have "Command (oh_web demo_org_handler) (oh_transfer demo_org_handler) maxCommandBody (get_request ''x'')
      = Inr (''x'', 1, \<lparr>t_parent = Some ''y'', t_present = True\<rparr>)"
    by (simp add: Command_def demo_org_handler_def demo_web_def get_request_def)
  moreover have "lib_ok (oh_lib demo_org_handler)" "calm (oh_lib demo_org_handler)" "exact_errors (oh_lib demo_org_handler)"
    "transfer_Validate (oh_uuid demo_org_handler) \<lparr>t_parent = Some ''y'', t_present = True\<rparr> = None"
    by (simp_all add: demo_org_handler_def plain_lib_ok plain_lib_calm plain_lib_exact transfer_Validate_def validParent_def)
  moreover have "chain (orgs demo_db) ''y'' [labs_row, acme_row]"
    by (auto simp: demo_db_def find_row_def acme_row_def labs_row_def intro!: chain.intros)
  then have "transfer_answer (orgs demo_db) ''x'' 1 (Some ''y'') = 409"
    by (auto simp: transfer_answer_def in_own_subtree_def acme_row_def)
  ultimately show ?thesis
    using transfer_route [where h = demo_org_handler and s = demo_db and r = "get_request ''x''" and i = "''x''" and v = 1
        and t = "\<lparr>t_parent = Some ''y'', t_present = True\<rparr>"] demo_ok by simp
qed

section \<open>Lookups\<close>

lemma chain_path_slash:
  assumes "orgs_ok os" "chain os i rs"
  obtains p where "chain_path rs = ''/'' @ p" "p \<noteq> []" "\<not> has_prefix ''/'' p"
proof -
  obtain y ys where ys: "rev rs = y # ys" using chain_hd [OF assms(2)] by (cases "rev rs") auto
  then have y: "y \<in> set rs" by (metis list.set_intros(1) set_rev)
  then have "match_code False (r_code y)" "CHR ''/'' \<notin> set (r_code y)"
    using assms chain_codes [OF assms] by (auto simp: orgs_ok_def dest!: chain_members find_row_Some)
  then obtain c cs where c: "r_code y = c # cs" "c \<noteq> CHR ''/''" by (cases "r_code y") auto
  have "chain_path rs = ''/'' @ r_code y @ concat (map (\<lambda>r. ''/'' @ r_code r) ys)" by (simp add: chain_path_def ys)
  with c that show thesis by (simp add: has_prefix_def)
qed

text \<open>C28. A lookup inverts the path: for every organization the read model shows, a
  lookup request with its composed path, with or without the leading slash, answers 200
  with that organization; a request without a path is a 400; and no lookup changes
  anything.\<close>
theorem lookup_inverts_path:
  assumes ok: "orgs_ok (orgs s)" and x: "x \<in> set (organization_view (orgs s))"
    and path: "query_get (oh_web h) r ''path'' \<in> {o_path x, trim_prefix ''/'' (o_path x)}"
    and none: "query_get (oh_web h) r' ''path'' = []"
  shows "org_lookup h r s = (Inr (WriteJSON 200 [] (OrgOne x)), s)
    \<and> (\<exists>e. org_lookup h r' s = (Inl e, s) \<and> map_option p_status (org_answer e) = Some 400)"
proof -
  obtain r0 rs where r0: "x = organization_of (r0, chain_path rs)" "r0 \<in> set (orgs s)" "chain (orgs s) (r_id r0) rs"
    using organization_view_members [OF ok] x by blast
  obtain p where p: "o_path x = ''/'' @ p" "p \<noteq> []" "\<not> has_prefix ''/'' p"
    using chain_path_slash [OF ok r0(3)] r0(1) by (auto simp: organization_of_def)
  then have "''/'' @ trim_prefix ''/'' (query_get (oh_web h) r ''path'') = o_path x" "query_get (oh_web h) r ''path'' \<noteq> []"
    using path trim_prefix_append [of "''/''" p] trim_prefix_other [of "''/''" p] by auto
  moreover have "FindByPath (oh_lib h) (o_path x) s = Inr x" using view_lookups [OF ok] x by blast
  ultimately show ?thesis using none
    by (simp add: org_lookup_def Let_def reply_def andthen_def reading_def give_def refuse_def
        org_answer_def org_status_def OrgErrValidation_def no_detail_def)
qed

theorem lookup_inverts_path_witness:
  "org_lookup demo_org_handler (get_request ''x'') demo_db = (Inr (WriteJSON 200 [] (OrgOne
     \<lparr>o_id = ''y'', o_parent = Some ''x'', o_code = ''labs'', o_name = ''Labs'', o_version = 3, o_path = ''/acme/labs''\<rparr>)), demo_db)"
  using lookup_inverts_path [OF demo_ok, of "\<lparr>o_id = ''y'', o_parent = Some ''x'', o_code = ''labs'', o_name = ''Labs'',
      o_version = 3, o_path = ''/acme/labs''\<rparr>" demo_org_handler "get_request ''x''" "(get_request ''x'')\<lparr>dq_query := (\<lambda>_. [])\<rparr>"]
  by (simp add: demo_view demo_org_handler_def demo_web_def get_request_def trim_prefix_def has_prefix_def)

end
