(* ===== verification/DocHandler.thy ===== *)
theory DocHandler
  imports Web DocCommands OrgHandler
begin

text \<open>
  domain/document/handler.go: the layer's routes, each handler's inputs in their
  order, the service call and the response, and the layer's own error vocabulary.
\<close>

section \<open>The handlers\<close>

definition maxFileBody :: int where
  "maxFileBody = 10 * 2 ^ 20"

text \<open>What the bodies of the layer's responses encode.\<close>
datatype doc_wire =
    DirectoryPage "directory list" web_query paging
  | FilePage "doc_file list" web_query paging
  | DirectoryOne directory
  | FileOne doc_file
  | DocIdentity doc_identity
  | DocObject web_object string

record ('q, 'f) doc_handler =
  dh_web :: "'q web"
  dh_service :: "'f documents"
  dh_limits :: limits
  dh_create :: "int \<Rightarrow> 'q \<Rightarrow> create_directory result"
  dh_move :: "int \<Rightarrow> 'q \<Rightarrow> move_directory result"
  dh_move_file :: "int \<Rightarrow> 'q \<Rightarrow> move_file result"

type_synonym ('q, 'f) doc_route = "('q, 'f) doc_handler \<Rightarrow> ('q, 'f db, doc_wire) handler"

text \<open>directoryPath: the directory is the root's alias or a UUID.\<close>
definition directoryPath :: "'q web \<Rightarrow> 'q \<Rightarrow> (string \<times> string) result" where
  "directoryPath w r =
     (case PathUUID w r ''org'' of
        Inl e \<Rightarrow> Inl e
      | Inr org \<Rightarrow>
          if path_value w r ''id'' = RootAlias then Inr (org, RootAlias)
          else (case PathUUID w r ''id'' of Inl e \<Rightarrow> Inl e | Inr i \<Rightarrow> Inr (org, i)))"

definition filePath :: "'q web \<Rightarrow> 'q \<Rightarrow> (string \<times> string) result" where
  "filePath w r =
     (case PathUUID w r ''org'' of
        Inl e \<Rightarrow> Inl e
      | Inr org \<Rightarrow> (case PathUUID w r ''id'' of Inl e \<Rightarrow> Inl e | Inr i \<Rightarrow> Inr (org, i)))"

definition doc_createDirectory :: "('q, 'f) doc_route" where
  "doc_createDirectory h r =
     input (PathUUID (dh_web h) r ''org'') (\<lambda>org.
     input (dh_create h maxCommandBody r) (\<lambda>body.
     reply (CreateDirectory (dh_service h) org body) (\<lambda>ident.
     WriteJSON 201 [(''Location'', url_path (dh_web h) r @ ''/'' @ di_id ident)] (DocIdentity ident))))"

definition doc_directory :: "('q, 'f) doc_route" where
  "doc_directory h r =
     input (directoryPath (dh_web h) r) (\<lambda>(org, i).
     reply (Directory (dh_service h) org i) (\<lambda>d. WriteJSON 200 [] (DirectoryOne d)))"

definition doc_listDirectories :: "('q, 'f) doc_route" where
  "doc_listDirectories h r =
     input (directoryPath (dh_web h) r) (\<lambda>(org, i).
     input (ParseQuery (dh_web h) (dh_limits h) r) (\<lambda>q.
     reply (reading (ListDirectories (dh_service h) org i q)) (\<lambda>(items, pg).
     WriteJSON 200 [] (DirectoryPage items q pg))))"

definition doc_listFiles :: "('q, 'f) doc_route" where
  "doc_listFiles h r =
     input (directoryPath (dh_web h) r) (\<lambda>(org, i).
     input (ParseQuery (dh_web h) (dh_limits h) r) (\<lambda>q.
     reply (reading (ListFiles (dh_service h) org i q)) (\<lambda>(items, pg).
     WriteJSON 200 [] (FilePage items q pg))))"

text \<open>?recursive: absent is false, and a text that is no boolean is refused.\<close>
definition recursive_of :: "string \<Rightarrow> bool result" where
  "recursive_of raw =
     (if raw = [] then Inr False
      else (case ParseBool raw of
              Some v \<Rightarrow> Inr v
            | None \<Rightarrow> Inl (wrap_reason DocErrValidation (''recursive must be true or false, not '' @ quoted raw))))"

text \<open>The request's path up to its directories segment.\<close>
definition hierarchy_prefix :: "string \<Rightarrow> string" where
  "hierarchy_prefix path = fst (cut_sub ''/directories/'' path)"

text \<open>DeleteBranch as a step; the nudge is the sweeper's.\<close>
definition nudging :: "('s \<Rightarrow> 'a result \<times> bool \<times> 's) \<Rightarrow> ('s, 'a) step" where
  "nudging m s = (case m s of (r, _, s') \<Rightarrow> (r, s'))"

definition doc_deleteDirectory :: "('q, 'f) doc_route" where
  "doc_deleteDirectory h r =
     input (directoryPath (dh_web h) r) (\<lambda>(org, i).
     input (IfMatch (dh_web h) r) (\<lambda>v.
     input (recursive_of (query_get (dh_web h) r ''recursive'')) (\<lambda>recursive.
       if \<not> recursive then reply (DeleteDirectory (dh_service h) org i v) (\<lambda>_. WriteHeader 204 [])
       else reply (nudging (DeleteBranch (dh_service h) org i v)) (\<lambda>marked.
            WriteHeader 202 [(''Location'', hierarchy_prefix (url_path (dh_web h) r) @ ''/directories/'' @ marked)]))))"

definition doc_moveDirectory :: "('q, 'f) doc_route" where
  "doc_moveDirectory h r =
     input (directoryPath (dh_web h) r) (\<lambda>(org, i).
     input (IfMatch (dh_web h) r) (\<lambda>v.
     input (dh_move h maxCommandBody r) (\<lambda>body.
     reply (MoveDirectory (dh_service h) org i v body) (\<lambda>ident. WriteJSON 200 [] (DocIdentity ident)))))"

definition doc_uploadFile :: "('q, 'f) doc_route" where
  "doc_uploadFile h r =
     input (directoryPath (dh_web h) r) (\<lambda>(org, i).
       let name = query_get (dh_web h) r ''name''
       in if name = [] then refuse (wrap_reason DocErrValidation ''the name query parameter is required'')
          else input (ReadUpload (dh_web h) maxFileBody r) (\<lambda>u.
            case WidenUpload (dh_web h) maxFileBody r of
              Some e \<Rightarrow> refuse e
            | None \<Rightarrow>
                reply (UploadFile (dh_service h) org i name u) (\<lambda>ident.
                WriteJSON 201 [(''Location'', hierarchy_prefix (url_path (dh_web h) r) @ ''/files/'' @ di_id ident)]
                  (DocIdentity ident))))"

definition doc_file_read :: "('q, 'f) doc_route" where
  "doc_file_read h r =
     input (filePath (dh_web h) r) (\<lambda>(org, i).
     reply (reading (File (dh_service h) org i)) (\<lambda>f. WriteJSON 200 [] (FileOne f)))"

definition doc_content :: "('q, 'f) doc_route" where
  "doc_content h r =
     input (filePath (dh_web h) r) (\<lambda>(org, i).
     andthen (reading (Content (dh_service h) org i)) (\<lambda>c.
       let obj = dl_object (ct_download c)
       in case WidenDownload (dh_web h) maxFileBody (wo_size obj) of
            Some e \<Rightarrow> refuse e
          | None \<Rightarrow> give \<lparr>rs_status = object_status (dh_web h) r obj,
                          rs_headers = [(''Content-Disposition'', Attachment (dh_web h) (ct_name c)),
                                        (''Cache-Control'', ''private, no-cache'')],
                          rs_body = Some (DocObject obj (dl_key (ct_download c)))\<rparr>))"

definition doc_deleteFile :: "('q, 'f) doc_route" where
  "doc_deleteFile h r =
     input (filePath (dh_web h) r) (\<lambda>(org, i).
     input (IfMatch (dh_web h) r) (\<lambda>v.
     reply (DeleteFile (dh_service h) org i v) (\<lambda>_. WriteHeader 204 [])))"

definition doc_moveFile :: "('q, 'f) doc_route" where
  "doc_moveFile h r =
     input (PathUUID (dh_web h) r ''org'') (\<lambda>org.
     input (Command (dh_web h) (dh_move_file h) maxCommandBody r) (\<lambda>(i, v, body).
     reply (MoveFile (dh_service h) org i v body) (\<lambda>ident. WriteJSON 200 [] (DocIdentity ident))))"

text \<open>Routes: method, pattern under /documents, handler.\<close>
definition doc_routes :: "(string \<times> string \<times> ('q, 'f) doc_route) list" where
  "doc_routes =
     [(''POST'', ''/{org}/directories'', doc_createDirectory), (''GET'', ''/{org}/directories/{id}'', doc_directory),
      (''GET'', ''/{org}/directories/{id}/directories'', doc_listDirectories),
      (''GET'', ''/{org}/directories/{id}/files'', doc_listFiles),
      (''DELETE'', ''/{org}/directories/{id}'', doc_deleteDirectory),
      (''POST'', ''/{org}/directories/{id}/move'', doc_moveDirectory),
      (''POST'', ''/{org}/directories/{id}/files'', doc_uploadFile), (''GET'', ''/{org}/files/{id}'', doc_file_read),
      (''GET'', ''/{org}/files/{id}/content'', doc_content), (''DELETE'', ''/{org}/files/{id}'', doc_deleteFile),
      (''POST'', ''/{org}/files/{id}/move'', doc_moveFile)]"

section \<open>The layer's error vocabulary\<close>

definition doc_status :: "err \<Rightarrow> problem option" where
  "doc_status e = (if errors_is DocValidation e then Some (no_detail 400) else None)"

definition doc_answer :: "err \<Rightarrow> problem option" where
  "doc_answer = first_match [doc_status, Status]"

interpretation doc_group: composed_matchers doc_status Status
  by unfold_locales (auto simp: doc_status_def Status_problem_simps split: if_splits)

end
