(* ===== verification/DocHandlerProperties.thy ===== *)
theory DocHandlerProperties
  imports DocHandler DocSeedProperties OrgHandlerProperties
begin

text \<open>
  The document routes end to end, and what holds of every read route of the two
  domains: a read changes nothing, a directory's delete answers by its recursive
  parameter, and a root is never moved.
\<close>

section \<open>Reads\<close>

definition safe :: "('s, 'a) step \<Rightarrow> bool" where
  "safe m \<longleftrightarrow> (\<forall>s. snd (m s) = s)"

lemma safe_simps [handler_simps]:
  "safe (refuse e)" "safe (give a)" "safe (reading f)"
  by (simp_all add: safe_def refuse_def give_def reading_def)

lemma safe_andthen [handler_simps]: "safe m \<Longrightarrow> (\<And>a. safe (k a)) \<Longrightarrow> safe (andthen m k)"
  unfolding safe_def by (auto simp: andthen_def split: prod.splits sum.splits) (metis snd_conv)+

lemma safe_input [handler_simps]: "(\<And>a. safe (k a)) \<Longrightarrow> safe (input r k)"
  by (simp add: input_def safe_simps split: sum.splits)

lemma safe_reply [handler_simps]: "safe m \<Longrightarrow> safe (reply m g)"
  unfolding reply_def by (rule safe_andthen) (simp_all add: safe_simps)

lemma safe_case_prod [handler_simps]: "(\<And>x y. safe (k x y)) \<Longrightarrow> safe (case p of (x, y) \<Rightarrow> k x y)"
  by (cases p) simp

lemma safe_transact:
  assumes "lib_ok l" "safe m"
  shows "safe (transact l m)"
  unfolding safe_def
proof
  fix s
  obtain r s' where run: "transact l m s = (r, s')" by fastforce
  show "snd (transact l m s) = s"
  proof (cases r)
    case (Inl e)
    with run transact_Inl [OF assms(1)] show ?thesis by simp
  next
    case (Inr a)
    with transact_Inr [OF assms(1), of m s a s'] run assms(2) show ?thesis
      by (auto simp: safe_def) (metis snd_conv)
  qed
qed

text \<open>A GET is safe: every GET route of the two domains, whatever its request and
  whatever it answers, leaves the database, the outbox and blobfs as they were.\<close>
theorem reads_change_nothing:
  assumes "lib_ok (doc_lib (dh_service hdoc))"
  shows "(\<forall>pat f. (''GET'', pat, f) \<in> set org_routes \<longrightarrow> (\<forall>s. snd (f ho ro s) = s))
    \<and> (\<forall>pat f. (''GET'', pat, f) \<in> set doc_routes \<longrightarrow> (\<forall>s. snd (f hdoc rd s) = s))"
proof -
  have "safe (org_list ho ro)" "safe (org_find ho ro)" "safe (org_lookup ho ro)" "safe (org_logo ho ro)"
    unfolding org_list_def org_find_def org_lookup_def org_logo_def Let_def
    by (auto intro!: handler_simps split: option.splits)
  moreover have "safe (Directory (dh_service hdoc) org i)" for org i
    unfolding Directory_def store_directory_def by (rule safe_transact [OF assms]) (rule safe_simps)
  then have "safe (doc_directory hdoc rd)" unfolding doc_directory_def by (auto intro!: handler_simps)
  moreover have "safe (doc_listDirectories hdoc rd)" "safe (doc_listFiles hdoc rd)" "safe (doc_file_read hdoc rd)"
    "safe (doc_content hdoc rd)"
    unfolding doc_listDirectories_def doc_listFiles_def doc_file_read_def doc_content_def Let_def
    by (auto intro!: handler_simps split: option.splits)
  ultimately show ?thesis
    unfolding safe_def by (auto simp: org_routes_def doc_routes_def)
qed

section \<open>A directory's delete\<close>

text \<open>A directory's DELETE answers by its recursive parameter: with the ids and the
  version read, a parameter that is no boolean is a 400 and changes nothing; without
  it, or false, the empty directory's delete answers 204; true marks the branch and
  answers 202, its Location the marked directory under the request's own hierarchy.\<close>
theorem delete_route:
  assumes ids: "directoryPath (dh_web h) r = Inr (org, i)" and v: "IfMatch (dh_web h) r = Inr v"
    and path: "url_path (dh_web h) r = pre @ ''/directories/'' @ rest"
      "\<not> sublist ''/directories/'' (pre @ ''/directories'')"
    and raw: "raw = query_get (dh_web h) r ''recursive''"
  shows "if raw \<noteq> [] \<and> ParseBool raw = None
     then \<exists>e. doc_deleteDirectory h r s = (Inl e, s) \<and> map_option p_status (doc_answer e) = Some 400
     else if ParseBool raw = Some True
     then (case DeleteBranch (dh_service h) org i v s of
             (Inl e, _, s') \<Rightarrow> doc_deleteDirectory h r s = (Inl e, s')
           | (Inr j, _, s') \<Rightarrow> doc_deleteDirectory h r s =
               (Inr (WriteHeader 202 [(''Location'', pre @ ''/directories/'' @ j)]), s'))
     else (case DeleteDirectory (dh_service h) org i v s of
             (Inl e, s') \<Rightarrow> doc_deleteDirectory h r s = (Inl e, s')
           | (Inr _, s') \<Rightarrow> doc_deleteDirectory h r s = (Inr (WriteHeader 204 []), s'))"
proof -
  have "hierarchy_prefix (url_path (dh_web h) r) = pre"
    using cut_sub_first [of "''/directories/''" pre rest] path by (simp add: hierarchy_prefix_def)
  moreover have "ParseBool [] = None" by (simp add: ParseBool_def)
  ultimately show ?thesis
    using ids v
    by (auto simp: doc_deleteDirectory_def input_def recursive_of_def raw [symmetric] reply_def nudging_def andthen_def
        give_def refuse_def doc_answer_def doc_status_def DocErrValidation_def no_detail_def
        split: option.splits prod.splits sum.splits)
qed

section \<open>The root stays\<close>

lemma move_invalid:
  "move_directory_Validate is_uuid rule m = Some e \<Longrightarrow> errors_is DocValidation e"
  unfolding move_directory_Validate_def
  by (cases "validDirectory is_uuid ''parent_id'' (md_parent m)"; cases "doc_validName rule (md_name m)")
    (auto simp: errors_is_join errors_join_one errors_join_two dest: doc_rule_errors)

text \<open>A document root is never moved: named by its alias or by its own id, at any
  version and to any destination, its move is a 400 and changes nothing.\<close>
theorem root_never_moved:
  assumes l: "lib_ok (doc_lib c)" "begin_tx (doc_lib c) s = None" and root: "documentRoot (doc_lib c) org s = Inr root"
    and i: "i \<in> {RootAlias, root}"
  shows "\<exists>e. MoveDirectory c org i v m s = (Inl e, s) \<and> map_option p_status (doc_answer e) = Some 400"
proof -
  have ans: "map_option p_status (doc_answer e) = Some 400" if "errors_is DocValidation e" for e
    using that by (simp add: doc_answer_def doc_status_def no_detail_def)
  have e0: "errors_is DocValidation errRootMove" by (simp add: errRootMove_def DocErrValidation_def)
  show ?thesis
  proof (cases "i = RootAlias")
    case True
    with ans [OF e0] show ?thesis by (simp add: MoveDirectory_def refuse_def)
  next
    case False
    with i have "i = root" by simp
    then have "move_directory_body (doc_lib c) (doc_blobs c) org i v m s = (Inl errRootMove, s)"
      using root by (simp add: move_directory_body_def andthen_def reading_def scope_def within_def refuse_def)
    from command_body_Inl [where body = "move_directory_body (doc_lib c) (doc_blobs c) org i v m" and s = s, OF l(1) this l(2)]
    have "moveDirectory (doc_lib c) (doc_blobs c) org i v m s = (Inl errRootMove, s)"
      by (simp add: moveDirectory_def answer_def)
    with False ans [OF e0] ans [OF move_invalid] show ?thesis
      by (auto simp: MoveDirectory_def validated_def refuse_def split: option.splits)
  qed
qed

section \<open>Witnesses\<close>

definition demo_doc_handler :: "(demo_request, ref_fs) doc_handler" where
  "demo_doc_handler = \<lparr>dh_web = demo_web, dh_service = demo_documents, dh_limits = (20, 100),
     dh_create = (\<lambda>_ _. Inr \<lparr>cd_parent = ''root'', cd_name = ''docs''\<rparr>),
     dh_move = (\<lambda>_ _. Inr \<lparr>md_parent = ''root'', md_name = ''docs''\<rparr>),
     dh_move_file = (\<lambda>_ _. Inr \<lparr>mf_directory = ''root'', mf_name = ''a''\<rparr>)\<rparr>"

definition delete_request :: demo_request where
  "delete_request = \<lparr>dq_path = ''/documents/x/directories/x'', dq_id = ''x'', dq_query = (\<lambda>_. ''maybe''), dq_version = 1\<rparr>"

theorem reads_change_nothing_witness:
  "snd (doc_listFiles demo_doc_handler delete_request doc_db) = doc_db"
  using reads_change_nothing [of demo_doc_handler demo_org_handler "get_request ''x''" delete_request]
  by (simp add: demo_doc_handler_def demo_documents_def plain_lib_ok doc_routes_def)

theorem delete_route_witness:
  "\<exists>e. doc_deleteDirectory demo_doc_handler delete_request doc_db = (Inl e, doc_db)
     \<and> map_option p_status (doc_answer e) = Some 400"
proof -
  have ids: "directoryPath (dh_web demo_doc_handler) delete_request = Inr (''x'', ''x'')"
    and v: "IfMatch (dh_web demo_doc_handler) delete_request = Inr 1"
    and path: "url_path (dh_web demo_doc_handler) delete_request = ''/documents/x'' @ ''/directories/'' @ ''x''"
    and raw: "''maybe'' = query_get (dh_web demo_doc_handler) delete_request ''recursive''"
    by (simp_all add: demo_doc_handler_def demo_web_def delete_request_def directoryPath_def RootAlias_def)
  have once: "\<not> sublist ''/directories/'' (''/documents/x'' @ ''/directories'')"
    by (simp add: sublist_code)
  have "ParseBool ''maybe'' = None" by (simp add: ParseBool_def)
  with delete_route [OF ids v path once raw, of doc_db] show ?thesis by (simp only: if_True simp_thms) simp
qed

theorem root_never_moved_witness:
  "\<exists>e. MoveDirectory demo_documents ''x'' ''r'' 1 \<lparr>md_parent = ''d'', md_name = ''n''\<rparr> doc_db = (Inl e, doc_db)"
proof -
  have "lib_ok (doc_lib demo_documents)" "begin_tx (doc_lib demo_documents) doc_db = None"
    "documentRoot (doc_lib demo_documents) ''x'' doc_db = Inr ''r''" "''r'' \<in> {RootAlias, ''r''}"
    by (simp_all add: demo_documents_def plain_lib_ok) (simp_all add: plain_lib_def documentRoot_def doc_db_def)
  from root_never_moved [OF this] show ?thesis by blast
qed

end
