(* ===== verification/AdminDatabase.thy ===== *)
theory AdminDatabase
  imports Web
begin

text \<open>
  admin/database: the admin domain over go-database's admin service. The bodies, the
  group's handlers with the verbs that change the schema under the process's gate,
  the error vocabulary, and the event a state reset commits. The service and the
  gate are library records over the process's state.
\<close>

section \<open>The bodies\<close>

record steps_body =
  sb_set :: string
  sb_steps :: int

record force_body =
  fb_set :: string
  fb_version :: int

record state_body =
  tb_state :: string

record reset_body =
  rb_state :: string
  rb_confirm :: bool

section \<open>The service and the gate\<close>

text \<open>The operations of admin.Service the handlers call, whose answers are the wire
  values 'w.\<close>
record ('s, 'w) admin_service =
  sv_diagnose :: "('s, 'w) step"
  sv_status :: "('s, 'w) step"
  sv_catalog :: 'w
  sv_statements :: 'w
  sv_states :: 'w
  sv_verify :: "('s, unit) step"
  sv_up :: "('s, 'w) step"
  sv_down :: "string \<Rightarrow> int \<Rightarrow> ('s, 'w) step"
  sv_steps :: "string \<Rightarrow> int \<Rightarrow> ('s, 'w) step"
  sv_force :: "string \<Rightarrow> int \<Rightarrow> ('s, 'w) step"
  sv_seed :: "string \<Rightarrow> ('s, 'w) step"
  sv_reset :: "string \<Rightarrow> ('s, 'w) step"

text \<open>SchemaGate: Exclusive's error, or the gate held, and the release it returns.\<close>
record 's schema_gate =
  Exclusive :: "'s \<Rightarrow> err option \<times> 's"
  release :: "'s \<Rightarrow> 's"

text \<open>exclusive: op with the gate held, released once op returns; a gate that is not
  held runs nothing.\<close>
definition exclusive :: "'s schema_gate \<Rightarrow> ('s, 'a) step \<Rightarrow> ('s, 'a) step" where
  "exclusive gate op s =
     (case Exclusive gate s of
        (Some e, s1) \<Rightarrow> (Inl e, s1)
      | (None, s1) \<Rightarrow> (case op s1 of (r, s2) \<Rightarrow> (r, release gate s2)))"

section \<open>The handlers\<close>

definition maxBody :: int where
  "maxBody = 2 ^ 10"

definition ErrUnconfirmed :: err where
  "ErrUnconfirmed = Err Unconfirmed
     (''database: a reset reverts every migration set and its rows; it requires '' @ quoted ''confirm'' @ '': true'') []"

text \<open>The handler: the service, the gate, the decoders of the four bodies, and the
  request's declared length.\<close>
record ('q, 's, 'w) database_handler =
  dh_service :: "('s, 'w) admin_service"
  dh_gate :: "'s schema_gate"
  dh_steps :: "int \<Rightarrow> 'q \<Rightarrow> steps_body result"
  dh_force :: "int \<Rightarrow> 'q \<Rightarrow> force_body result"
  dh_state :: "int \<Rightarrow> 'q \<Rightarrow> state_body result"
  dh_reset :: "int \<Rightarrow> 'q \<Rightarrow> reset_body result"
  ContentLength :: "'q \<Rightarrow> int"

type_synonym ('q, 's, 'w) database_route = "('q, 's, 'w) database_handler \<Rightarrow> ('q, 's, 'w) handler"

definition respond :: "('s, 'w) step \<Rightarrow> ('s, 'w response) step" where
  "respond m = reply m (WriteJSON 200 [])"

definition db_diagnostics :: "('q, 's, 'w) database_route" where
  "db_diagnostics h r = reply (sv_diagnose (dh_service h)) (WriteJSON 200 [])"

definition db_status :: "('q, 's, 'w) database_route" where
  "db_status h r = respond (sv_status (dh_service h))"

definition db_patterns :: "('q, 's, 'w) database_route" where
  "db_patterns h r = give (WriteJSON 200 [] (sv_catalog (dh_service h)))"

definition db_statements :: "('q, 's, 'w) database_route" where
  "db_statements h r = give (WriteJSON 200 [] (sv_statements (dh_service h)))"

definition db_states :: "('q, 's, 'w) database_route" where
  "db_states h r = give (WriteJSON 200 [] (sv_states (dh_service h)))"

definition db_verify :: "('q, 's, 'w) database_route" where
  "db_verify h r = andthen (sv_verify (dh_service h)) (\<lambda>_. db_status h r)"

definition db_up :: "('q, 's, 'w) database_route" where
  "db_up h r = respond (exclusive (dh_gate h) (sv_up (dh_service h)))"

definition db_down :: "('q, 's, 'w) database_route" where
  "db_down h r =
     input (dh_steps h maxBody r) (\<lambda>body.
     let n = (if sb_steps body = 0 then 1 else sb_steps body)
     in respond (exclusive (dh_gate h) (sv_down (dh_service h) (sb_set body) n)))"

definition db_steps :: "('q, 's, 'w) database_route" where
  "db_steps h r =
     input (dh_steps h maxBody r) (\<lambda>body.
     respond (exclusive (dh_gate h) (sv_steps (dh_service h) (sb_set body) (sb_steps body))))"

definition db_force :: "('q, 's, 'w) database_route" where
  "db_force h r =
     input (dh_force h maxBody r) (\<lambda>body.
     respond (sv_force (dh_service h) (fb_set body) (fb_version body)))"

text \<open>A request with no body names no state.\<close>
definition db_seed :: "('q, 's, 'w) database_route" where
  "db_seed h r =
     input (if ContentLength h r \<noteq> 0 then dh_state h maxBody r else Inr \<lparr>tb_state = []\<rparr>) (\<lambda>body.
     reply (sv_seed (dh_service h) (tb_state body)) (WriteJSON 200 []))"

definition db_state :: "('q, 's, 'w) database_route" where
  "db_state h r =
     input (dh_reset h maxBody r) (\<lambda>body.
     if \<not> rb_confirm body
     then refuse (Err Wrapped (error_text ErrUnconfirmed @ '' (state '' @ quoted (rb_state body) @ '')'') [ErrUnconfirmed])
     else reply (exclusive (dh_gate h) (sv_reset (dh_service h) (rb_state body))) (WriteJSON 200 []))"

text \<open>Routes: method, pattern under /database, handler.\<close>
definition database_routes :: "(string \<times> string \<times> ('q, 's, 'w) database_route) list" where
  "database_routes =
     [(''GET'', ''/diagnostics'', db_diagnostics), (''GET'', ''/schema'', db_status),
      (''GET'', ''/patterns'', db_patterns), (''GET'', ''/statements'', db_statements),
      (''GET'', ''/states'', db_states), (''POST'', ''/schema/verify'', db_verify),
      (''POST'', ''/schema/up'', db_up), (''POST'', ''/schema/down'', db_down),
      (''POST'', ''/schema/steps'', db_steps), (''POST'', ''/schema/force'', db_force),
      (''POST'', ''/seed'', db_seed), (''POST'', ''/state'', db_state)]"

definition database_problem :: "err \<Rightarrow> problem option" where
  "database_problem e =
     (if errors_is AdminValidation e \<or> errors_is UnknownSet e \<or> errors_is UnknownState e \<or> errors_is Unconfirmed e
      then Some (no_detail 400)
      else if errors_is SeedDisabled e then Some (no_detail 403)
      else if errors_is AdminConflict e then Some (no_detail 409)
      else None)"

text \<open>The codes whose problem carries the error's own text.\<close>
definition database_detail :: "nat list" where
  "database_detail = [403, 409]"

interpretation database_admin: problem_matcher database_problem
  by unfold_locales (auto simp: database_problem_def Status_problem_simps split: if_splits)

section \<open>The event of a reset\<close>

definition StateReset :: string where
  "StateReset = ''web-service.database.reset''"

text \<open>OnReset's hook: the event alone, in a transaction of its own.\<close>
definition OnReset :: "'f lib \<Rightarrow> string \<Rightarrow> ('f db, unit) step" where
  "OnReset l st = transact l (emit l (give ((), [Event StateReset st (StateP st)])))"

lemma OnReset_Inr: "lib_ok l \<Longrightarrow> OnReset l st s = (Inr u, s') \<Longrightarrow>
    s' = s\<lparr>outbox := outbox s @ [Event StateReset st (StateP st)]\<rparr>"
  unfolding OnReset_def by (erule (1) command_Inr) simp

lemma OnReset_Inl: "lib_ok l \<Longrightarrow> OnReset l st s = (Inl e, s') \<Longrightarrow> s' = s"
  unfolding OnReset_def by (rule command_Inl)

end
