(* ===== verification/AdminStorage.thy ===== *)
theory AdminStorage
  imports Web
begin

text \<open>
  admin/storage: the object store's diagnostics and its container, over the store
  itself, a library record over the process's state.
\<close>

text \<open>Store: Ready runs a live probe, Container and the longest key are settings, and
  EnsureContainer creates the container.\<close>
record 's admin_store =
  Ready :: "'s \<Rightarrow> bool \<times> 's"
  Container :: string
  MaxKeyLength :: int
  EnsureContainer :: "'s \<Rightarrow> err option \<times> 's"

record diagnostics =
  dg_ready :: bool
  dg_container :: string
  dg_max_key_length :: int

definition storage_diagnostics :: "'s admin_store \<Rightarrow> ('q, 's, diagnostics) handler" where
  "storage_diagnostics store r s =
     (case Ready store s of (ready, s1) \<Rightarrow>
        (Inr (WriteJSON 200 [] \<lparr>dg_ready = ready, dg_container = Container store, dg_max_key_length = MaxKeyLength store\<rparr>), s1))"

definition storage_container :: "'s admin_store \<Rightarrow> ('q, 's, diagnostics) handler" where
  "storage_container store r s =
     (case EnsureContainer store s of
        (Some e, s1) \<Rightarrow> (Inl e, s1)
      | (None, s1) \<Rightarrow> storage_diagnostics store r s1)"

definition storage_routes :: "(string \<times> string \<times> ('s admin_store \<Rightarrow> ('q, 's, diagnostics) handler)) list" where
  "storage_routes =
     [(''GET'', ''/diagnostics'', storage_diagnostics), (''POST'', ''/container'', storage_container)]"

definition storage_problem :: "err \<Rightarrow> problem option" where
  "storage_problem e =
     (if errors_is StoreUnavailable e \<or> errors_is StoreNotReady e then Some (no_detail 503) else None)"

definition storage_detail :: "nat list" where
  "storage_detail = [503]"

interpretation storage_admin: problem_matcher storage_problem
  by unfold_locales (auto simp: storage_problem_def Status_problem_simps split: if_splits)

end
