(* ===== verification/AdminProperties.thy ===== *)
theory AdminProperties
  imports AdminDatabase AdminStorage OrgStore
begin

text \<open>
  The administrative contracts: every verb that changes the schema runs with the
  process's gate held and leaves it free, and a reset commits its event between the
  apply and the seed, or stops there.
\<close>

section \<open>The verbs under the gate\<close>

text \<open>What reactor.Gate documents: once held it is held until the release, and an
  Exclusive that fails holds nothing.\<close>
definition gate_ok :: "('s \<Rightarrow> bool) \<Rightarrow> 's schema_gate \<Rightarrow> bool" where
  "gate_ok held gate \<longleftrightarrow>
     (\<forall>s e s1. Exclusive gate s = (Some e, s1) \<longrightarrow> s1 = s) \<and>
     (\<forall>s s1. Exclusive gate s = (None, s1) \<longrightarrow> held s1) \<and> (\<forall>s. \<not> held (release gate s))"

text \<open>An operation that fails unless the gate is held.\<close>
definition under :: "('s \<Rightarrow> bool) \<Rightarrow> ('s, 'a) step \<Rightarrow> ('s, 'a) step" where
  "under held m s = (if held s then m s else (Inl (plain ''schema change outside the gate''), s))"

text \<open>The service whose schema changes fail unless the gate is held.\<close>
definition strict_service :: "('s \<Rightarrow> bool) \<Rightarrow> ('s, 'w) admin_service \<Rightarrow> ('s, 'w) admin_service" where
  "strict_service held sv =
     sv\<lparr>sv_up := under held (sv_up sv), sv_down := (\<lambda>n k. under held (sv_down sv n k)),
        sv_steps := (\<lambda>n k. under held (sv_steps sv n k)), sv_reset := (\<lambda>t. under held (sv_reset sv t))\<rparr>"

definition strict :: "('s \<Rightarrow> bool) \<Rightarrow> ('q, 's, 'w) database_handler \<Rightarrow> ('q, 's, 'w) database_handler" where
  "strict held h = h\<lparr>dh_service := strict_service held (dh_service h)\<rparr>"

lemma exclusive_under: "gate_ok held gate \<Longrightarrow> exclusive gate (under held m) = exclusive gate m"
  by (auto simp: gate_ok_def exclusive_def under_def fun_eq_iff split: prod.splits option.splits)

lemma exclusive_frees:
  "gate_ok held gate \<Longrightarrow> \<not> held s \<Longrightarrow> exclusive gate m s = (x, s') \<Longrightarrow> \<not> held s'"
  by (auto simp: gate_ok_def exclusive_def split: prod.splits option.splits)

lemma verb_frees:
  "gate_ok held gate \<Longrightarrow> \<not> held s \<Longrightarrow> reply (exclusive gate m) g s = (x, s') \<Longrightarrow> \<not> held s'"
  by (auto simp: reply_cases dest: exclusive_frees)

lemma strict_simps [simp]:
  "dh_gate (strict held h) = dh_gate h" "dh_steps (strict held h) = dh_steps h"
  "dh_force (strict held h) = dh_force h" "dh_state (strict held h) = dh_state h"
  "dh_reset (strict held h) = dh_reset h" "ContentLength (strict held h) = ContentLength h"
  "sv_diagnose (dh_service (strict held h)) = sv_diagnose (dh_service h)"
  "sv_status (dh_service (strict held h)) = sv_status (dh_service h)"
  "sv_catalog (dh_service (strict held h)) = sv_catalog (dh_service h)"
  "sv_statements (dh_service (strict held h)) = sv_statements (dh_service h)"
  "sv_states (dh_service (strict held h)) = sv_states (dh_service h)"
  "sv_verify (dh_service (strict held h)) = sv_verify (dh_service h)"
  "sv_force (dh_service (strict held h)) = sv_force (dh_service h)"
  "sv_seed (dh_service (strict held h)) = sv_seed (dh_service h)"
  "sv_up (dh_service (strict held h)) = under held (sv_up (dh_service h))"
  "sv_down (dh_service (strict held h)) n k = under held (sv_down (dh_service h) n k)"
  "sv_steps (dh_service (strict held h)) n k = under held (sv_steps (dh_service h) n k)"
  "sv_reset (dh_service (strict held h)) t = under held (sv_reset (dh_service h) t)"
  by (simp_all add: strict_def strict_service_def)

lemmas route_defs = db_diagnostics_def db_status_def db_patterns_def db_statements_def db_states_def
  db_verify_def db_up_def db_down_def db_steps_def db_force_def db_seed_def db_state_def

text \<open>C12. The gate: no route of the group changes the schema outside the gate. Every
  route answers as it does over a service whose up, down, steps and reset fail unless
  the gate is held; and up, down, steps and the state reset leave the gate free
  whatever the outcome.\<close>
theorem schema_changes_gated:
  assumes gate: "gate_ok held (dh_gate h)" and route: "(verb, path, route) \<in> set database_routes"
  shows "route (strict held h) r = route h r
    \<and> (path \<in> {''/schema/up'', ''/schema/down'', ''/schema/steps'', ''/state''} \<longrightarrow>
         route h r s = (x, s') \<longrightarrow> \<not> held s \<longrightarrow> \<not> held s')"
proof -
  note same = exclusive_under [OF gate]
  have "route (strict held h) r = route h r"
    using route by (auto simp: database_routes_def route_defs same Let_def cong: if_cong)
  moreover have "\<not> held s'"
    if "path \<in> {''/schema/up'', ''/schema/down'', ''/schema/steps'', ''/state''}" "route h r s = (x, s')" "\<not> held s"
    using route that
    by (auto simp: database_routes_def route_defs respond_def Let_def input_cases
        split: sum.splits if_splits dest: verb_frees [OF gate])
  ultimately show ?thesis by blast
qed

text \<open>A gate over a flag: held when the flag is up.\<close>
definition flag_gate :: "(bool \<times> 's) schema_gate" where
  "flag_gate = \<lparr>Exclusive = (\<lambda>(b, s). if b then (Some (plain ''context canceled''), (b, s)) else (None, (True, s))),
     release = (\<lambda>(b, s). (False, s))\<rparr>"

lemma flag_gate_ok: "gate_ok fst flag_gate"
  by (auto simp: gate_ok_def flag_gate_def split: if_splits)

text \<open>A service over a version number.\<close>
definition demo_service :: "(bool \<times> int, int) admin_service" where
  "demo_service =
     \<lparr>sv_diagnose = (\<lambda>s. (Inr 0, s)), sv_status = (\<lambda>s. (Inr (snd s), s)), sv_catalog = 0, sv_statements = 0,
      sv_states = 0, sv_verify = give (), sv_up = (\<lambda>(b, v). (Inr 9, (b, 9))),
      sv_down = (\<lambda>_ n (b, v). (Inr (v - n), (b, v - n))), sv_steps = (\<lambda>_ n (b, v). (Inr (v + n), (b, v + n))),
      sv_force = (\<lambda>_ n (b, v). (Inr n, (b, n))), sv_seed = (\<lambda>_ s. (Inr 1, s)), sv_reset = (\<lambda>_ (b, v). (Inr 9, (b, 9)))\<rparr>"

definition demo_database_handler :: "(string, bool \<times> int, int) database_handler" where
  "demo_database_handler =
     \<lparr>dh_service = demo_service, dh_gate = flag_gate,
      dh_steps = (\<lambda>_ _. Inr \<lparr>sb_set = ''app'', sb_steps = 0\<rparr>), dh_force = (\<lambda>_ _. Inr \<lparr>fb_set = ''app'', fb_version = 3\<rparr>),
      dh_state = (\<lambda>_ _. Inl (plain ''EOF'')), dh_reset = (\<lambda>_ _. Inr \<lparr>rb_state = ''default'', rb_confirm = False\<rparr>),
      ContentLength = (\<lambda>_. 0)\<rparr>"

lemma demo_down: "db_down demo_database_handler r (False, 9) = (Inr (WriteJSON 200 [] 8), (False, 8))"
  by (simp add: db_down_def demo_database_handler_def input_def Let_def respond_def reply_def andthen_def
      exclusive_def flag_gate_def demo_service_def give_def)

theorem schema_changes_gated_witness:
  "db_down (strict fst demo_database_handler) ''r'' (False, 9) = (Inr (WriteJSON 200 [] 8), (False, 8))
   \<and> \<not> fst (snd (db_down demo_database_handler ''r'' (False, 9)))"
proof -
  have gate: "gate_ok fst (dh_gate demo_database_handler)"
    by (simp add: demo_database_handler_def flag_gate_ok)
  have "db_down (strict fst demo_database_handler) ''r'' = db_down demo_database_handler ''r''"
    by (rule schema_changes_gated [OF gate, of "''POST''" "''/schema/down''", THEN conjunct1])
      (simp add: database_routes_def)
  then show ?thesis by (simp add: demo_down)
qed

section \<open>A reset's event\<close>

text \<open>A step on the database of the process, whose other part it leaves.\<close>
definition on_db :: "('s, 'a) step \<Rightarrow> ('g \<times> 's, 'a) step" where
  "on_db m = (\<lambda>(g, s). case m s of (r, s') \<Rightarrow> (r, (g, s')))"

text \<open>What go-database documents of a reset: the revert and the apply, the hook, the
  seed, the first error ending it.\<close>
definition resets :: "'f lib \<Rightarrow> ('f db, unit) step \<Rightarrow> (string \<Rightarrow> ('f db, 'w) step) \<Rightarrow> ('g \<times> 'f db, 'w) admin_service \<Rightarrow> bool" where
  "resets l again seed sv \<longleftrightarrow>
     (\<forall>t. sv_reset sv t = on_db (andthen again (\<lambda>_. andthen (OnReset l t) (\<lambda>_. seed t))))"

text \<open>A gate that is no part of the database.\<close>
definition gate_beside :: "('g \<times> 's) schema_gate \<Rightarrow> bool" where
  "gate_beside gate \<longleftrightarrow> (\<forall>p. snd (snd (Exclusive gate p)) = snd p \<and> snd (release gate p) = snd p)"

text \<open>A reset that runs is the service's, on the database alone.\<close>
lemma db_state_on_db:
  assumes "gate_beside (dh_gate h)" "sv_reset (dh_service h) t = on_db m"
    "dh_reset h maxBody r = Inr \<lparr>rb_state = t, rb_confirm = True\<rparr>"
    "db_state h r p = (x, p')"
  shows "(\<exists>e. x = Inl e \<and> fst (Exclusive (dh_gate h) p) = Some e \<and> snd p' = snd p)
    \<or> (\<exists>y. m (snd p) = (y, snd p') \<and> x = (case y of Inl e \<Rightarrow> Inl e | Inr w \<Rightarrow> Inr (WriteJSON 200 [] w)))"
proof -
  from assms(1) have gate: "snd (snd (Exclusive (dh_gate h) p)) = snd p" "snd (release (dh_gate h) q) = snd q" for q
    unfolding gate_beside_def by blast+
  obtain o1 g1 d1 where ex: "Exclusive (dh_gate h) p = (o1, (g1, d1))" by (metis surj_pair)
  with gate(1) have d1: "d1 = snd p" by simp
  from assms(2-4) ex gate(2) show ?thesis
    unfolding d1 db_state_def
    by (auto simp: handler_simps reply_cases exclusive_def on_db_def split: option.splits prod.splits sum.splits)
qed

text \<open>A reset commits its event between the apply and the seed. Over a service that
  resets as documented, a confirmed reset that answers 200 leaves the database the seed
  leaves from the applied one with StateReset, of that state, the outbox's newest row;
  one that fails after the gate fails in the apply, at the event, leaving the applied
  database unseeded and no event, or in the seed. An unconfirmed reset is a 400 that
  reaches neither the gate nor the service.\<close>
theorem reset_event_before_seed:
  assumes l: "lib_ok l" and sv: "resets l again seed (dh_service h)" and gate: "gate_beside (dh_gate h)"
    and body: "dh_reset h maxBody r = Inr b" and run: "db_state h r p = (x, p')"
  shows "if \<not> rb_confirm b
    then p' = p \<and> (\<exists>e. x = Inl e \<and> database_problem e = Some (no_detail 400))
    else (\<exists>e. fst (Exclusive (dh_gate h) p) = Some e \<and> x = Inl e \<and> snd p' = snd p)
       \<or> (\<exists>e. again (snd p) = (Inl e, snd p') \<and> x = Inl e)
       \<or> (\<exists>e s1. again (snd p) = (Inr (), s1) \<and> snd p' = s1 \<and> x = Inl e)
       \<or> (\<exists>s1 y. again (snd p) = (Inr (), s1)
            \<and> seed (rb_state b) (s1\<lparr>outbox := outbox s1 @ [Event StateReset (rb_state b) (StateP (rb_state b))]\<rparr>) = (y, snd p')
            \<and> x = (case y of Inl e \<Rightarrow> Inl e | Inr w \<Rightarrow> Inr (WriteJSON 200 [] w)))"
proof (cases "rb_confirm b")
  case False
  with body run have "p' = p" "x = Inl (Err Wrapped (error_text ErrUnconfirmed @ '' (state '' @ quoted (rb_state b) @ '')'') [ErrUnconfirmed])"
    by (simp_all add: db_state_def handler_simps)
  with False show ?thesis by (simp add: database_problem_def ErrUnconfirmed_def)
next
  case True
  then have b: "dh_reset h maxBody r = Inr \<lparr>rb_state = rb_state b, rb_confirm = True\<rparr>" using body by simp
  from sv have m: "sv_reset (dh_service h) (rb_state b)
      = on_db (andthen again (\<lambda>_. andthen (OnReset l (rb_state b)) (\<lambda>_. seed (rb_state b))))"
    by (simp add: resets_def)
  from db_state_on_db [OF gate m b run] show ?thesis
  proof (elim disjE exE conjE)
    fix y assume y: "andthen again (\<lambda>_. andthen (OnReset l (rb_state b)) (\<lambda>_. seed (rb_state b))) (snd p) = (y, snd p')"
      and x: "x = (case y of Inl e \<Rightarrow> Inl e | Inr w \<Rightarrow> Inr (WriteJSON 200 [] w))"
    obtain a s1 where a: "again (snd p) = (a, s1)" by fastforce
    obtain hk s2 where hk: "OnReset l (rb_state b) s1 = (hk, s2)" by fastforce
    show ?thesis
    proof (cases a)
      case (Inl e)
      with y a have "y = Inl e" "s1 = snd p'" by (simp_all add: andthen_def)
      with a Inl x True show ?thesis by simp
    next
      case a': (Inr u)
      show ?thesis
      proof (cases hk)
        case (Inl e)
        with OnReset_Inl [OF l] hk have "s2 = s1" by blast
        with y a a' hk Inl have "y = Inl e" "snd p' = s1" by (simp_all add: andthen_def)
        with a a' x True show ?thesis by simp
      next
        case (Inr u')
        with OnReset_Inr [OF l] hk
        have "s2 = s1\<lparr>outbox := outbox s1 @ [Event StateReset (rb_state b) (StateP (rb_state b))]\<rparr>" by blast
        with y a a' hk Inr x True show ?thesis by (simp add: andthen_def)
      qed
    qed
  qed (use True in simp)
qed

text \<open>A process that empties its database on a reset and seeds one event after it.\<close>
definition demo_again :: "(unit db, unit) step" where
  "demo_again s = (Inr (), empty_db ())"

definition demo_reseed :: "string \<Rightarrow> (unit db, nat) step" where
  "demo_reseed t s = (Inr 1, s\<lparr>outbox := outbox s @ [Event OrganizationCreated t (StateP t)]\<rparr>)"

definition reset_handler :: "(string, bool \<times> unit db, nat) database_handler" where
  "reset_handler =
     \<lparr>dh_service =
        \<lparr>sv_diagnose = give 0, sv_status = give 0, sv_catalog = 0, sv_statements = 0, sv_states = 0,
         sv_verify = give (), sv_up = give 0, sv_down = (\<lambda>_ _. give 0), sv_steps = (\<lambda>_ _. give 0),
         sv_force = (\<lambda>_ _. give 0), sv_seed = (\<lambda>_. give 0),
         sv_reset = (\<lambda>t. on_db (andthen demo_again (\<lambda>_. andthen (OnReset plain_lib t) (\<lambda>_. demo_reseed t))))\<rparr>,
      dh_gate = flag_gate, dh_steps = (\<lambda>_ _. Inl (plain ''EOF'')), dh_force = (\<lambda>_ _. Inl (plain ''EOF'')),
      dh_state = (\<lambda>_ _. Inl (plain ''EOF'')), dh_reset = (\<lambda>_ _. Inr \<lparr>rb_state = ''default'', rb_confirm = True\<rparr>),
      ContentLength = (\<lambda>_. 2)\<rparr>"

lemma reset_run:
  "db_state reset_handler r (False, d) = (Inr (WriteJSON 200 [] 1), (False, (empty_db ())\<lparr>outbox :=
     [Event StateReset ''default'' (StateP ''default''), Event OrganizationCreated ''default'' (StateP ''default'')]\<rparr>))"
  by (simp add: db_state_def reset_handler_def input_def reply_def andthen_def exclusive_def flag_gate_def
      on_db_def demo_again_def OnReset_def transact_def emit_def give_def plain_lib_def demo_reseed_def empty_db_def)

theorem reset_event_before_seed_witness:
  "snd (demo_reseed ''default'' ((empty_db ())\<lparr>outbox := [Event StateReset ''default'' (StateP ''default'')]\<rparr>))
     = snd (snd (db_state reset_handler ''r'' (False, (empty_db ())\<lparr>outbox := [Event OrganizationDeleted ''o'' (StateP [])]\<rparr>)))"
proof -
  let ?d = "(empty_db ())\<lparr>outbox := [Event OrganizationDeleted ''o'' (StateP [])]\<rparr>"
  have "resets plain_lib demo_again demo_reseed (dh_service reset_handler)" "gate_beside (dh_gate reset_handler)"
    "dh_reset reset_handler maxBody ''r'' = Inr \<lparr>rb_state = ''default'', rb_confirm = True\<rparr>"
    by (auto simp: resets_def reset_handler_def gate_beside_def flag_gate_def split: prod.splits)
  from reset_event_before_seed [OF plain_lib_ok this reset_run [of _ ?d]]
  obtain s1 y where s1: "demo_again ?d = (Inr (), s1)"
    and y: "demo_reseed ''default'' (s1\<lparr>outbox := outbox s1 @ [Event StateReset ''default'' (StateP ''default'')]\<rparr>)
       = (y, snd (snd (db_state reset_handler ''r'' (False, ?d))))"
    by (auto simp: reset_run)
  from s1 have "s1 = empty_db ()" by (simp add: demo_again_def)
  with y show ?thesis by (simp add: empty_db_def)
qed

end
