(* ===== verification/Config.thy ===== *)
theory Config
  imports Errors
begin

text \<open>
  internal/config: the service's own configuration blocks, how an overlay merges
  into each, and how each is finalized with its defaults, its environment overrides
  and its bounds; and the root configuration that finalizes every block in order.
  The library blocks and the environment are parameters.
\<close>

section \<open>The environment\<close>

text \<open>What the blocks use of go-core's config package and of os:
  \<^item> env_name composes a variable's name from the pfx and the key;
  \<^item> getenv is os.Getenv;
  \<^item> set_int is SetFromEnv with strconv.Atoi on a pointer field;
  \<^item> set_duration is Duration.Set on a field, of the variable's text;
  \<^item> duration_text is Duration.String, a duration as the messages print it.\<close>
record config_lib =
  env_name :: "string \<Rightarrow> string \<Rightarrow> string"
  getenv :: "string \<Rightarrow> string"
  set_int :: "string \<Rightarrow> int option \<Rightarrow> int option result"
  set_duration :: "string \<Rightarrow> int \<Rightarrow> int result"
  duration_text :: "int \<Rightarrow> string"

text \<open>What they document: an override never unsets a field, and an absent variable
  leaves it.\<close>
definition config_lib_ok :: "config_lib \<Rightarrow> bool" where
  "config_lib_ok L \<longleftrightarrow> (\<forall>n v x. set_int L n (Some v) = Inr x \<longrightarrow> x \<noteq> None)
     \<and> (\<forall>n d. getenv L n = [] \<longrightarrow> set_int L n d = Inr d) \<and> (\<forall>d. set_duration L [] d = Inr d)"

text \<open>A field the overlay sets replaces the receiver's.\<close>
definition overlay :: "'a option \<Rightarrow> 'a option \<Rightarrow> 'a option" where
  "overlay dst src = (case src of None \<Rightarrow> dst | Some v \<Rightarrow> Some v)"

lemma overlay_simps [config_simps]:
  "overlay d None = d" "overlay d (Some v) = Some v" "overlay None s = s"
  "overlay (overlay a b) c = overlay a (overlay b c)"
  by (simp_all add: overlay_def split: option.splits)

text \<open>A duration whose zero value is unset.\<close>
definition overlay_nonzero :: "int \<Rightarrow> int \<Rightarrow> int" where
  "overlay_nonzero dst src = (if src \<noteq> 0 then src else dst)"

lemma overlay_nonzero_simps [config_simps]:
  "overlay_nonzero d 0 = d" "overlay_nonzero 0 s = s"
  "overlay_nonzero (overlay_nonzero a b) c = overlay_nonzero a (overlay_nonzero b c)"
  by (simp_all add: overlay_nonzero_def)

section \<open>The reads policy\<close>

record reads_config =
  DefaultSize :: "int option"
  MaxSize :: "int option"

definition defaultReadsDefaultSize :: int where
  "defaultReadsDefaultSize = 20"
definition defaultReadsMaxSize :: int where
  "defaultReadsMaxSize = 100"

text \<open>Merge; a nil source is None.\<close>
definition reads_Merge :: "reads_config \<Rightarrow> reads_config option \<Rightarrow> reads_config" where
  "reads_Merge c src =
     (case src of
        None \<Rightarrow> c
      | Some x \<Rightarrow> \<lparr>DefaultSize = overlay (DefaultSize c) (DefaultSize x), MaxSize = overlay (MaxSize c) (MaxSize x)\<rparr>)"

definition reads_Finalize :: "config_lib \<Rightarrow> string \<Rightarrow> reads_config \<Rightarrow> reads_config result" where
  "reads_Finalize L pfx c =
     (case set_int L (env_name L pfx ''reads_default_size'') (overlay (Some defaultReadsDefaultSize) (DefaultSize c)) of
        Inl e \<Rightarrow> Inl e
      | Inr d \<Rightarrow>
          (case set_int L (env_name L pfx ''reads_max_size'') (overlay (Some defaultReadsMaxSize) (MaxSize c)) of
             Inl e \<Rightarrow> Inl e
           | Inr m \<Rightarrow>
               if the d < 1 then Inl (plain (''default_size must be at least 1, got '' @ itoa (the d)))
               else if the m < the d then Inl (plain (''max_size must be at least default_size ('' @ itoa (the d) @ ''), got '' @ itoa (the m)))
               else Inr \<lparr>DefaultSize = d, MaxSize = m\<rparr>))"

text \<open>Limits: it panics, None, on a field no Finalize set.\<close>
definition reads_Limits :: "reads_config \<Rightarrow> (int \<times> int) option" where
  "reads_Limits c =
     (case (DefaultSize c, MaxSize c) of (Some d, Some m) \<Rightarrow> Some (d, m) | _ \<Rightarrow> None)"

section \<open>The admin switches\<close>

record admin_config =
  SeedName :: "string option"

definition SeedState :: "admin_config \<Rightarrow> string" where
  "SeedState c = (case SeedName c of None \<Rightarrow> [] | Some s \<Rightarrow> s)"

definition admin_Merge :: "admin_config \<Rightarrow> admin_config option \<Rightarrow> admin_config" where
  "admin_Merge c src =
     (case src of None \<Rightarrow> c | Some x \<Rightarrow> \<lparr>SeedName = overlay (SeedName c) (SeedName x)\<rparr>)"

definition admin_Finalize :: "config_lib \<Rightarrow> string \<Rightarrow> admin_config \<Rightarrow> admin_config result" where
  "admin_Finalize L pfx c =
     (let v = getenv L (env_name L pfx ''admin_seed'')
      in Inr \<lparr>SeedName = (if v \<noteq> [] then Some v else overlay (Some []) (SeedName c))\<rparr>)"

section \<open>The sweep's schedule\<close>

text \<open>Durations in nanoseconds, zero being unset.\<close>
record sweep_config =
  Interval :: int
  Batch :: "int option"
  StaleAge :: int
  OutboxAge :: int
  InboxAge :: int

definition Second :: int where
  "Second = 1000000000"

definition defaultSweepInterval :: int where
  "defaultSweepInterval = 30 * Second"
definition defaultSweepBatch :: int where
  "defaultSweepBatch = 100"
definition defaultSweepStaleAge :: int where
  "defaultSweepStaleAge = 3600 * Second"
definition defaultSweepOutboxAge :: int where
  "defaultSweepOutboxAge = 7 * 24 * 3600 * Second"
definition defaultSweepInboxAge :: int where
  "defaultSweepInboxAge = 7 * 24 * 3600 * Second"

definition sweep_Merge :: "sweep_config \<Rightarrow> sweep_config option \<Rightarrow> sweep_config" where
  "sweep_Merge c src =
     (case src of
        None \<Rightarrow> c
      | Some x \<Rightarrow>
          \<lparr>Interval = overlay_nonzero (Interval c) (Interval x), Batch = overlay (Batch c) (Batch x),
           StaleAge = overlay_nonzero (StaleAge c) (StaleAge x), OutboxAge = overlay_nonzero (OutboxAge c) (OutboxAge x),
           InboxAge = overlay_nonzero (InboxAge c) (InboxAge x)\<rparr>)"

definition overrideDuration :: "config_lib \<Rightarrow> string \<Rightarrow> string \<Rightarrow> int \<Rightarrow> int result" where
  "overrideDuration L pfx key d =
     (let name = env_name L pfx key
      in case set_duration L (getenv L name) d of Inl e \<Rightarrow> Inl (wrapf name e) | Inr x \<Rightarrow> Inr x)"

text \<open>The bounds of a finalized block, in the order they are checked.\<close>
definition sweep_bounds :: "config_lib \<Rightarrow> sweep_config \<Rightarrow> err option" where
  "sweep_bounds L c =
     (if Interval c \<le> 0 then Some (plain (''interval must be positive, got '' @ duration_text L (Interval c)))
      else if the (Batch c) < 1 then Some (plain (''batch must be at least 1, got '' @ itoa (the (Batch c))))
      else if StaleAge c \<le> 0 then Some (plain (''stale_age must be positive, got '' @ duration_text L (StaleAge c)))
      else if OutboxAge c \<le> 0 then Some (plain (''outbox_age must be positive, got '' @ duration_text L (OutboxAge c)))
      else if InboxAge c \<le> 0 then Some (plain (''inbox_age must be positive, got '' @ duration_text L (InboxAge c)))
      else None)"

definition sweep_Finalize :: "config_lib \<Rightarrow> string \<Rightarrow> sweep_config \<Rightarrow> sweep_config result" where
  "sweep_Finalize L pfx c =
     (case overrideDuration L pfx ''sweep_interval'' (overlay_nonzero defaultSweepInterval (Interval c)) of
        Inl e \<Rightarrow> Inl e
      | Inr i \<Rightarrow>
     (case set_int L (env_name L pfx ''sweep_batch'') (overlay (Some defaultSweepBatch) (Batch c)) of
        Inl e \<Rightarrow> Inl e
      | Inr n \<Rightarrow>
     (case overrideDuration L pfx ''sweep_stale_age'' (overlay_nonzero defaultSweepStaleAge (StaleAge c)) of
        Inl e \<Rightarrow> Inl e
      | Inr st \<Rightarrow>
     (case overrideDuration L pfx ''sweep_outbox_age'' (overlay_nonzero defaultSweepOutboxAge (OutboxAge c)) of
        Inl e \<Rightarrow> Inl e
      | Inr ob \<Rightarrow>
     (case overrideDuration L pfx ''sweep_inbox_age'' (overlay_nonzero defaultSweepInboxAge (InboxAge c)) of
        Inl e \<Rightarrow> Inl e
      | Inr ib \<Rightarrow>
          (let f = \<lparr>Interval = i, Batch = n, StaleAge = st, OutboxAge = ob, InboxAge = ib\<rparr>
           in case sweep_bounds L f of Some e \<Rightarrow> Inl e | None \<Rightarrow> Inr f))))))"

section \<open>The root configuration\<close>

text \<open>The library capability blocks, in the order Finalize takes them.\<close>
datatype block = Lifecycle | Log | Server | DatabaseBlock | StorageBlock | Messaging | NATS | Observability | RateLimit

record 'b config =
  lib_block :: "block \<Rightarrow> 'b"
  cf_reads :: reads_config
  cf_admin :: admin_config
  cf_sweep :: sweep_config

definition config_Merge :: "(block \<Rightarrow> 'b \<Rightarrow> 'b \<Rightarrow> 'b) \<Rightarrow> 'b config \<Rightarrow> 'b config option \<Rightarrow> 'b config" where
  "config_Merge lib_merge c src =
     (case src of
        None \<Rightarrow> c
      | Some x \<Rightarrow>
          \<lparr>lib_block = (\<lambda>k. lib_merge k (lib_block c k) (lib_block x k)),
           cf_reads = reads_Merge (cf_reads c) (Some (cf_reads x)),
           cf_admin = admin_Merge (cf_admin c) (Some (cf_admin x)),
           cf_sweep = sweep_Merge (cf_sweep c) (Some (cf_sweep x))\<rparr>)"

text \<open>The label of a library block's error; the lifecycle's and the broker's have none.\<close>
fun block_label :: "block \<Rightarrow> string option" where
  "block_label Lifecycle = None"
| "block_label Log = Some ''log''"
| "block_label Server = Some ''server''"
| "block_label DatabaseBlock = Some ''database''"
| "block_label StorageBlock = Some ''storage''"
| "block_label Messaging = Some ''messaging''"
| "block_label NATS = None"
| "block_label Observability = Some ''observability''"
| "block_label RateLimit = Some ''rate_limit''"

definition labelled :: "string option \<Rightarrow> err \<Rightarrow> err" where
  "labelled lab e = (case lab of None \<Rightarrow> e | Some t \<Rightarrow> wrapf t e)"

fun finalize_blocks :: "(block \<Rightarrow> string \<Rightarrow> 'b \<Rightarrow> 'b result) \<Rightarrow> string \<Rightarrow> block list \<Rightarrow> (block \<Rightarrow> 'b) \<Rightarrow> (block \<Rightarrow> 'b) result" where
  "finalize_blocks lib_fin pfx [] bs = Inr bs"
| "finalize_blocks lib_fin pfx (k # ks) bs =
     (case lib_fin k pfx (bs k) of
        Inl e \<Rightarrow> Inl (labelled (block_label k) e)
      | Inr b \<Rightarrow> finalize_blocks lib_fin pfx ks (bs(k := b)))"

definition config_Finalize ::
    "config_lib \<Rightarrow> (block \<Rightarrow> string \<Rightarrow> 'b \<Rightarrow> 'b result) \<Rightarrow> string \<Rightarrow> 'b config \<Rightarrow> 'b config result" where
  "config_Finalize L lib_fin pfx c =
     (case finalize_blocks lib_fin pfx
             [Lifecycle, Log, Server, DatabaseBlock, StorageBlock, Messaging, NATS, Observability, RateLimit] (lib_block c) of
        Inl e \<Rightarrow> Inl e
      | Inr bs \<Rightarrow>
     (case reads_Finalize L pfx (cf_reads c) of
        Inl e \<Rightarrow> Inl (wrapf ''reads'' e)
      | Inr r \<Rightarrow>
     (case admin_Finalize L pfx (cf_admin c) of
        Inl e \<Rightarrow> Inl (wrapf ''admin'' e)
      | Inr a \<Rightarrow>
     (case sweep_Finalize L pfx (cf_sweep c) of
        Inl e \<Rightarrow> Inl (wrapf ''sweep'' e)
      | Inr w \<Rightarrow> Inr \<lparr>lib_block = bs, cf_reads = r, cf_admin = a, cf_sweep = w\<rparr>))))"

end
