(* ===== verification/ConfigProperties.thy ===== *)
theory ConfigProperties
  imports Config
begin

text \<open>
  The configuration's contracts: overlays compose, so the layers of a
  configuration come to one overlay and each field holds the last layer's value
  that set it; and a finalized configuration is within the bounds its readers
  rely on, whatever the layers and the environment said.
\<close>

section \<open>Overlays compose\<close>

locale overlay_block =
  fixes merge :: "'c \<Rightarrow> 'c \<Rightarrow> 'c" and unset :: 'c
  assumes unset_left: "merge unset c = c"
    and unset_right: "merge c unset = c"
    and merge_assoc: "merge (merge a b) c = merge a (merge b c)"
begin

lemma layers_as_one: "foldl merge c ls = merge c (foldl merge unset ls)"
proof (induction ls arbitrary: c)
  case Nil
  show ?case by (simp add: unset_right)
next
  case (Cons l ls)
  have "foldl merge c (l # ls) = merge (merge c l) (foldl merge unset ls)"
    using Cons.IH [of "merge c l"] by simp
  also have "\<dots> = merge c (merge l (foldl merge unset ls))" by (rule merge_assoc)
  also have "merge l (foldl merge unset ls) = foldl merge unset (l # ls)"
    using Cons.IH [of l] by (simp add: unset_left)
  finally show ?case .
qed

lemma layers_append: "foldl merge c (xs @ ys) = merge (foldl merge c xs) (foldl merge unset ys)"
  using layers_as_one [of "foldl merge c xs" ys] by simp

end

definition reads_layer :: "reads_config \<Rightarrow> reads_config \<Rightarrow> reads_config" where
  "reads_layer c x = reads_Merge c (Some x)"
definition admin_layer :: "admin_config \<Rightarrow> admin_config \<Rightarrow> admin_config" where
  "admin_layer c x = admin_Merge c (Some x)"
definition sweep_layer :: "sweep_config \<Rightarrow> sweep_config \<Rightarrow> sweep_config" where
  "sweep_layer c x = sweep_Merge c (Some x)"

definition unset_sweep :: sweep_config where
  "unset_sweep = \<lparr>Interval = 0, Batch = None, StaleAge = 0, OutboxAge = 0, InboxAge = 0\<rparr>"

interpretation reads_block: overlay_block reads_layer "\<lparr>DefaultSize = None, MaxSize = None\<rparr>"
  by unfold_locales (simp_all add: reads_layer_def reads_Merge_def config_simps)

interpretation admin_block: overlay_block admin_layer "\<lparr>SeedName = None\<rparr>"
  by unfold_locales (simp_all add: admin_layer_def admin_Merge_def config_simps)

interpretation sweep_block: overlay_block sweep_layer unset_sweep
  by unfold_locales (simp_all add: sweep_layer_def sweep_Merge_def unset_sweep_def config_simps)

text \<open>The value of a field after the layers: the last layer's that set it.\<close>
fun last_set :: "'a option list \<Rightarrow> 'a option" where
  "last_set [] = None"
| "last_set (x # xs) = (case last_set xs of None \<Rightarrow> x | r \<Rightarrow> r)"

fun last_nonzero :: "int list \<Rightarrow> int" where
  "last_nonzero [] = 0"
| "last_nonzero (x # xs) = (let r = last_nonzero xs in if r = 0 then x else r)"

lemma last_set_overlay: "last_set (overlay a b # xs) = last_set (a # b # xs)"
  by (simp add: overlay_def split: option.splits)

lemma last_nonzero_overlay: "last_nonzero (overlay_nonzero a b # xs) = last_nonzero (a # b # xs)"
  by (simp add: overlay_nonzero_def Let_def)

lemma field_layers:
  assumes "\<And>c x. g (m c x) = overlay (g c) (g x)"
  shows "g (foldl m c ls) = last_set (map g (c # ls))"
proof (induction ls arbitrary: c)
  case (Cons l ls)
  then show ?case
    using last_set_overlay [of "g c" "g l" "map g ls"] by (simp add: assms del: last_set.simps)
qed simp

lemma field_layers_nonzero:
  assumes "\<And>c x. g (m c x) = overlay_nonzero (g c) (g x)"
  shows "g (foldl m c ls) = last_nonzero (map g (c # ls))"
proof (induction ls arbitrary: c)
  case (Cons l ls)
  then show ?case
    using last_nonzero_overlay [of "g c" "g l" "map g ls"] by (simp add: assms del: last_nonzero.simps)
qed simp

definition config_layer :: "(block \<Rightarrow> 'b \<Rightarrow> 'b \<Rightarrow> 'b) \<Rightarrow> 'b config \<Rightarrow> 'b config \<Rightarrow> 'b config" where
  "config_layer lib c x = config_Merge lib c (Some x)"

lemma config_layer_fields:
  "DefaultSize (cf_reads (config_layer lib c x)) = overlay (DefaultSize (cf_reads c)) (DefaultSize (cf_reads x))"
  "MaxSize (cf_reads (config_layer lib c x)) = overlay (MaxSize (cf_reads c)) (MaxSize (cf_reads x))"
  "SeedName (cf_admin (config_layer lib c x)) = overlay (SeedName (cf_admin c)) (SeedName (cf_admin x))"
  "Batch (cf_sweep (config_layer lib c x)) = overlay (Batch (cf_sweep c)) (Batch (cf_sweep x))"
  "Interval (cf_sweep (config_layer lib c x)) = overlay_nonzero (Interval (cf_sweep c)) (Interval (cf_sweep x))"
  "StaleAge (cf_sweep (config_layer lib c x)) = overlay_nonzero (StaleAge (cf_sweep c)) (StaleAge (cf_sweep x))"
  "OutboxAge (cf_sweep (config_layer lib c x)) = overlay_nonzero (OutboxAge (cf_sweep c)) (OutboxAge (cf_sweep x))"
  "InboxAge (cf_sweep (config_layer lib c x)) = overlay_nonzero (InboxAge (cf_sweep c)) (InboxAge (cf_sweep x))"
  by (simp_all add: config_layer_def config_Merge_def reads_Merge_def admin_Merge_def sweep_Merge_def)

text \<open>Layering: after any number of overlays onto a base, every field of the
  service's own blocks holds the value of the last layer that set it, an explicit
  empty seed name included, and is unset when none did.\<close>
theorem layers_last_set:
  "let f = foldl (\<lambda>c x. config_Merge lib c (Some x)) base ls
   in DefaultSize (cf_reads f) = last_set (map (\<lambda>c. DefaultSize (cf_reads c)) (base # ls))
    \<and> MaxSize (cf_reads f) = last_set (map (\<lambda>c. MaxSize (cf_reads c)) (base # ls))
    \<and> SeedName (cf_admin f) = last_set (map (\<lambda>c. SeedName (cf_admin c)) (base # ls))
    \<and> Batch (cf_sweep f) = last_set (map (\<lambda>c. Batch (cf_sweep c)) (base # ls))
    \<and> Interval (cf_sweep f) = last_nonzero (map (\<lambda>c. Interval (cf_sweep c)) (base # ls))
    \<and> StaleAge (cf_sweep f) = last_nonzero (map (\<lambda>c. StaleAge (cf_sweep c)) (base # ls))
    \<and> OutboxAge (cf_sweep f) = last_nonzero (map (\<lambda>c. OutboxAge (cf_sweep c)) (base # ls))
    \<and> InboxAge (cf_sweep f) = last_nonzero (map (\<lambda>c. InboxAge (cf_sweep c)) (base # ls))"
  unfolding config_layer_def [symmetric] Let_def
  by (intro conjI field_layers field_layers_nonzero config_layer_fields)

section \<open>A finalized configuration\<close>

text \<open>What the readers of a finalized block rely on: a listing's limits are there
  and in order, and the sweep's schedule is positive.\<close>
definition reads_within :: "reads_config \<Rightarrow> bool" where
  "reads_within c = (case reads_Limits c of None \<Rightarrow> False | Some (d, m) \<Rightarrow> 1 \<le> d \<and> d \<le> m)"

definition sweep_within :: "sweep_config \<Rightarrow> bool" where
  "sweep_within c = (0 < Interval c \<and> (case Batch c of None \<Rightarrow> False | Some n \<Rightarrow> 1 \<le> n)
     \<and> 0 < StaleAge c \<and> 0 < OutboxAge c \<and> 0 < InboxAge c)"

lemma overlay_Some: "overlay (Some v) x \<noteq> None"
  by (simp add: overlay_def split: option.splits)

lemma set_int_Some:
  "config_lib_ok L \<Longrightarrow> set_int L n (overlay (Some v) x) = Inr r \<Longrightarrow> \<exists>i. r = Some i"
  using overlay_Some [of v x] unfolding config_lib_ok_def by (cases "overlay (Some v) x") auto

lemma reads_Finalize_within:
  assumes "config_lib_ok L" "reads_Finalize L pfx c = Inr f"
  shows "reads_within f"
proof -
  from assms(2) obtain d m where
      d: "set_int L (env_name L pfx ''reads_default_size'') (overlay (Some defaultReadsDefaultSize) (DefaultSize c)) = Inr d"
      and m: "set_int L (env_name L pfx ''reads_max_size'') (overlay (Some defaultReadsMaxSize) (MaxSize c)) = Inr m"
      and f: "\<not> the d < 1" "\<not> the m < the d" "f = \<lparr>DefaultSize = d, MaxSize = m\<rparr>"
    by (auto simp: reads_Finalize_def split: sum.splits if_splits)
  from set_int_Some [OF assms(1) d] set_int_Some [OF assms(1) m] f show ?thesis
    by (auto simp: reads_within_def reads_Limits_def)
qed

lemma admin_Finalize_named: "admin_Finalize L pfx c = Inr f \<Longrightarrow> SeedName f \<noteq> None"
  using overlay_Some [of "[]" "SeedName c"] by (auto simp: admin_Finalize_def Let_def split: if_splits)

lemma sweep_bounds_within:
  "Batch c \<noteq> None \<Longrightarrow> sweep_bounds L c = None \<longleftrightarrow> sweep_within c"
  by (auto simp: sweep_bounds_def sweep_within_def)

lemma sweep_Finalize_within:
  assumes "config_lib_ok L" "sweep_Finalize L pfx c = Inr f"
  shows "sweep_within f"
proof -
  from assms(2) obtain n where
      "set_int L (env_name L pfx ''sweep_batch'') (overlay (Some defaultSweepBatch) (Batch c)) = Inr n"
      and f: "Batch f = n" "sweep_bounds L f = None"
    by (auto simp: sweep_Finalize_def Let_def split: sum.splits option.splits)
  with set_int_Some [OF assms(1)] show ?thesis using sweep_bounds_within by fastforce
qed

lemma config_Finalize_blocks:
  assumes "config_Finalize L lib_fin pfx c = Inr f"
  shows "reads_Finalize L pfx (cf_reads c) = Inr (cf_reads f)"
    and "admin_Finalize L pfx (cf_admin c) = Inr (cf_admin f)"
    and "sweep_Finalize L pfx (cf_sweep c) = Inr (cf_sweep f)"
  using assms by (auto simp: config_Finalize_def split: sum.splits)

text \<open>C20. Bounds: a configuration that finalizes gives every listing a default size
  of at least one and no more than the largest size, gives the sweeper positive
  intervals and ages and a batch of at least one, and names the seed state, if only
  by the empty name, whatever the layers, the library blocks and the environment
  held.\<close>
theorem finalized_within:
  assumes "config_lib_ok L" "config_Finalize L lib_fin pfx c = Inr f"
  shows "reads_within (cf_reads f) \<and> sweep_within (cf_sweep f) \<and> SeedName (cf_admin f) \<noteq> None"
  using config_Finalize_blocks [OF assms(2)] reads_Finalize_within [OF assms(1)]
    sweep_Finalize_within [OF assms(1)] admin_Finalize_named by blast

text \<open>An environment that sets the page size to seven and nothing else.\<close>
definition demo_config_lib :: config_lib where
  "demo_config_lib =
     \<lparr>env_name = (\<lambda>pfx key. if pfx = [] then [] else pfx @ ''_'' @ key),
      getenv = (\<lambda>n. if n = ''app_reads_default_size'' then ''7'' else []),
      set_int = (\<lambda>n d. if n = ''app_reads_default_size'' then Inr (Some 7) else Inr d),
      set_duration = (\<lambda>t d. if t = [] then Inr d else Inl (plain ''duration'')),
      duration_text = itoa\<rparr>"

definition demo_config :: "string config" where
  "demo_config =
     \<lparr>lib_block = (\<lambda>_. []), cf_reads = \<lparr>DefaultSize = None, MaxSize = Some 50\<rparr>,
      cf_admin = \<lparr>SeedName = Some ''default''\<rparr>, cf_sweep = unset_sweep\<lparr>StaleAge := 60 * Second\<rparr>\<rparr>"

lemma demo_config_lib_ok: "config_lib_ok demo_config_lib"
  by (simp add: config_lib_ok_def demo_config_lib_def)

lemma demo_config_finalizes:
  "config_Finalize demo_config_lib (\<lambda>k pfx b. Inr b) ''app'' demo_config =
     Inr (demo_config\<lparr>cf_reads := \<lparr>DefaultSize = Some 7, MaxSize = Some 50\<rparr>,
       cf_sweep := \<lparr>Interval = 30 * Second, Batch = Some 100, StaleAge = 60 * Second,
         OutboxAge = 7 * 24 * 3600 * Second, InboxAge = 7 * 24 * 3600 * Second\<rparr>\<rparr>)"
  by (simp add: config_Finalize_def demo_config_def demo_config_lib_def unset_sweep_def reads_Finalize_def
      admin_Finalize_def sweep_Finalize_def overrideDuration_def sweep_bounds_def overlay_def
      overlay_nonzero_def Second_def defaultReadsDefaultSize_def defaultReadsMaxSize_def defaultSweepInterval_def
      defaultSweepBatch_def defaultSweepOutboxAge_def defaultSweepInboxAge_def fun_upd_idem)

theorem finalized_within_witness:
  "sweep_within (cf_sweep (projr (config_Finalize demo_config_lib (\<lambda>k pfx b. Inr b) ''app'' demo_config)))
   \<and> reads_Limits (cf_reads (projr (config_Finalize demo_config_lib (\<lambda>k pfx b. Inr b) ''app'' demo_config)))
       = Some (7, 50)"
  using finalized_within [OF demo_config_lib_ok demo_config_finalizes]
  by (simp add: demo_config_finalizes reads_Limits_def)

end
