(* ===== verification/Reactors.thy ===== *)
theory Reactors
  imports ConfigProperties
begin

text \<open>
  internal/app/reactors.go and telemetry.go: the reclaimers the sweeper registers and
  how the registrations are built, the sweeper's construction from the finalized
  configuration, the nudge, the sweep's metrics, and the telemetry node. go-database's
  sweeper, its retentions and the meter are parameters.
\<close>

section \<open>The reclaimers\<close>

definition reclaimFiles :: string where
  "reclaimFiles = ''files''"
definition reclaimOutbox :: string where
  "reclaimOutbox = ''outbox''"
definition reclaimInbox :: string where
  "reclaimInbox = ''inbox''"

definition reclaimers :: "string list" where
  "reclaimers = [reclaimFiles, reclaimOutbox, reclaimInbox]"

lemmas reclaimer_names = reclaimers_def reclaimFiles_def reclaimOutbox_def reclaimInbox_def

text \<open>sweep.Policy and sweep.Registration as the sweeper is given them.\<close>
record policy =
  po_interval :: int
  po_budget :: int

record 'r registration =
  rg_name :: string
  rg_reclaimer :: 'r
  rg_policy :: policy

text \<open>The loop of registrations over a list of names.\<close>
fun registrations_for :: "string list \<Rightarrow> (string \<times> 'r) list \<Rightarrow> policy \<Rightarrow> 'r registration list result" where
  "registrations_for [] built p = Inr []"
| "registrations_for (n # ns) built p =
     (case map_of built n of
        None \<Rightarrow> Inl (plain (''sweeper: no reclaimer for '' @ quoted n))
      | Some r \<Rightarrow>
          (case registrations_for ns built p of
             Inl e \<Rightarrow> Inl e
           | Inr regs \<Rightarrow> Inr (\<lparr>rg_name = n, rg_reclaimer = r, rg_policy = p\<rparr> # regs)))"

definition registrations :: "(string \<times> 'r) list \<Rightarrow> policy \<Rightarrow> 'r registration list result" where
  "registrations built p =
     (case registrations_for reclaimers built p of
        Inl e \<Rightarrow> Inl e
      | Inr regs \<Rightarrow>
          if length built \<noteq> length regs
          then Inl (plain (''sweeper: '' @ itoa (int (length built)) @ '' reclaimers built, ''
                           @ itoa (int (length regs)) @ '' named''))
          else Inr regs)"

text \<open>What newSweeper takes of its nodes: the retentions over the session, blobfs's
  reclaimer, and the sweeper's constructor over the registrations and the shutdown
  timeout.\<close>
record ('r, 'w) sweeper_lib =
  OutboxRetention :: "int \<Rightarrow> 'r result"
  InboxRetention :: "int \<Rightarrow> 'r result"
  FilesReclaimer :: "int \<Rightarrow> 'r"
  NewSweep :: "'r registration list \<Rightarrow> int \<Rightarrow> 'w result"

text \<open>newSweeper's value, with the sweeper the nudge node is bound to. An unset batch
  is the panic of a nil pointer, None.\<close>
definition newSweeper :: "('r, 'w) sweeper_lib \<Rightarrow> sweep_config \<Rightarrow> int \<Rightarrow> ('w \<times> 'w option) result option" where
  "newSweeper L c timeout =
     (case OutboxRetention L (OutboxAge c) of
        Inl e \<Rightarrow> Some (Inl e)
      | Inr ob \<Rightarrow>
     (case InboxRetention L (InboxAge c) of
        Inl e \<Rightarrow> Some (Inl e)
      | Inr ib \<Rightarrow>
     (case Batch c of
        None \<Rightarrow> None
      | Some n \<Rightarrow>
     (case registrations [(reclaimFiles, FilesReclaimer L (StaleAge c)), (reclaimOutbox, ob), (reclaimInbox, ib)]
             \<lparr>po_interval = Interval c, po_budget = n\<rparr> of
        Inl e \<Rightarrow> Some (Inl e)
      | Inr regs \<Rightarrow>
          (case NewSweep L regs timeout of
             Inl e \<Rightarrow> Some (Inl e)
           | Inr w \<Rightarrow> Some (Inr (w, Some w)))))))"

text \<open>Nudge.Nudge: the reclaimer the bound sweeper is nudged for, if one is bound.\<close>
definition Nudge :: "'w option \<Rightarrow> ('w \<times> string) option" where
  "Nudge bound = (case bound of None \<Rightarrow> None | Some w \<Rightarrow> Some (w, reclaimFiles))"

section \<open>The sweep's metrics\<close>

text \<open>sweep.Pass, and the sweep metrics: the counter's cells, the backlog, and the
  failed passes logged, oldest first.\<close>
record sweep_pass =
  ps_name :: string
  ps_more :: bool
  ps_err :: "err option"

definition outcomeError :: string where
  "outcomeError = ''error''"
definition outcomeMore :: string where
  "outcomeMore = ''more''"
definition outcomeDrained :: string where
  "outcomeDrained = ''drained''"

record sweep_metrics =
  sm_passes :: "string \<times> string \<Rightarrow> nat"
  sm_backlogged :: "string \<Rightarrow> bool option"
  sm_warned :: "sweep_pass list"

definition newSweepMetrics :: sweep_metrics where
  "newSweepMetrics = \<lparr>sm_passes = (\<lambda>_. 0), sm_backlogged = map_of (map (\<lambda>n. (n, False)) reclaimers), sm_warned = []\<rparr>"

definition outcome :: "sweep_pass \<Rightarrow> string" where
  "outcome p = (if ps_err p \<noteq> None then outcomeError else if ps_more p then outcomeMore else outcomeDrained)"

definition metrics_pass :: "sweep_metrics \<Rightarrow> sweep_pass \<Rightarrow> sweep_metrics" where
  "metrics_pass m p =
     \<lparr>sm_passes = (sm_passes m)((ps_name p, outcome p) := Suc (sm_passes m (ps_name p, outcome p))),
      sm_backlogged = (sm_backlogged m)(ps_name p \<mapsto> ps_more p),
      sm_warned = (if ps_err p \<noteq> None then sm_warned m @ [p] else sm_warned m)\<rparr>"

text \<open>observe: the gauge's value of each reclaimer in the map.\<close>
definition observe :: "sweep_metrics \<Rightarrow> string \<Rightarrow> nat option" where
  "observe m name = map_option (\<lambda>more. if more then 1 else 0) (sm_backlogged m name)"

section \<open>Telemetry\<close>

definition serviceName :: string where
  "serviceName = ''go-web-service''"

text \<open>debug.BuildInfo, as far as it is read: the module version and the settings.\<close>
fun first_revision :: "(string \<times> string) list \<Rightarrow> string option" where
  "first_revision [] = None"
| "first_revision ((k, v) # ss) = (if k = ''vcs.revision'' \<and> v \<noteq> [] then Some v else first_revision ss)"

definition serviceVersion :: "(string \<times> (string \<times> string) list) option \<Rightarrow> string" where
  "serviceVersion bi =
     (case bi of
        None \<Rightarrow> ''dev''
      | Some (v, settings) \<Rightarrow>
          if v \<noteq> [] \<and> v \<noteq> ''(devel)'' then v
          else (case first_revision settings of Some r \<Rightarrow> r | None \<Rightarrow> ''dev''))"

text \<open>observabilityConfig on the resource attributes: the service's identity over the
  configured ones.\<close>
definition observability_attributes ::
    "(string \<times> (string \<times> string) list) option \<Rightarrow> (string \<Rightarrow> string option) option \<Rightarrow> string \<Rightarrow> string option" where
  "observability_attributes bi configured =
     (case configured of None \<Rightarrow> Map.empty | Some m \<Rightarrow> m)
       (''service.name'' \<mapsto> serviceName, ''service.version'' \<mapsto> serviceVersion bi)"

text \<open>Telemetry.Shutdown: the flush's error is logged and swallowed. The result is the
  error returned and the error logged.\<close>
definition telemetry_Shutdown :: "('s \<Rightarrow> err option \<times> 's) \<Rightarrow> 's \<Rightarrow> (err option \<times> err option) \<times> 's" where
  "telemetry_Shutdown flush s = (case flush s of (e, s') \<Rightarrow> ((None, e), s'))"

section \<open>The registrations\<close>

lemma registrations_for_Inr:
  "registrations_for ns built p = Inr regs \<Longrightarrow>
     map rg_name regs = ns \<and> (\<forall>g\<in>set regs. rg_policy g = p \<and> map_of built (rg_name g) = Some (rg_reclaimer g))"
  by (induction ns arbitrary: regs) (auto split: option.splits sum.splits)

lemma registrations_for_total:
  "set ns \<subseteq> fst ` set built \<Longrightarrow> \<exists>regs. registrations_for ns built p = Inr regs"
proof (induction ns)
  case (Cons n ns)
  then obtain regs where "registrations_for ns built p = Inr regs" by auto
  moreover from Cons.prems obtain r where "map_of built n = Some r"
    by (metis image_iff list.set_intros(1) map_of_eq_None_iff not_None_eq subsetD)
  ultimately show ?case by simp
qed simp

lemma registrations_for_missing:
  "registrations_for ns built p = Inr regs \<Longrightarrow> set ns \<subseteq> fst ` set built"
proof (induction ns arbitrary: regs)
  case (Cons n ns)
  from Cons.prems obtain r rs where "map_of built n = Some r" "registrations_for ns built p = Inr rs"
    by (auto split: option.splits sum.splits)
  with Cons.IH map_of_SomeD [of built n r] show ?case by (auto simp: image_iff intro!: bexI [of _ "(n, r)"])
qed simp

text \<open>The names are one list: the registrations are built exactly when the names of the
  reclaimers built are the names listed, and then they are in the list's order, one
  policy for all.\<close>
lemma registrations_names:
  assumes "distinct (map fst built)"
  shows "(\<exists>regs. registrations built p = Inr regs) \<longleftrightarrow> fst ` set built = set reclaimers"
proof -
  have len: "length regs = length reclaimers" if "registrations_for reclaimers built p = Inr regs" for regs
    using registrations_for_Inr [OF that] by (metis length_map)
  have card: "card (fst ` set built) = length built" using assms by (metis distinct_card length_map set_map)
  have card': "card (set reclaimers) = length reclaimers" by (simp add: reclaimer_names)
  show ?thesis
  proof
    assume "\<exists>regs. registrations built p = Inr regs"
    then obtain regs where r: "registrations_for reclaimers built p = Inr regs" "length built = length regs"
      by (auto simp: registrations_def split: sum.splits if_splits)
    from registrations_for_missing [OF r(1)] have "set reclaimers \<subseteq> fst ` set built" .
    moreover have "card (set reclaimers) = card (fst ` set built)" using r(2) len [OF r(1)] card card' by simp
    ultimately show "fst ` set built = set reclaimers" by (metis List.finite_set card_subset_eq finite_imageI)
  next
    assume eq: "fst ` set built = set reclaimers"
    then obtain regs where r: "registrations_for reclaimers built p = Inr regs"
      using registrations_for_total [of reclaimers built p] by auto
    moreover have "length built = length regs" using eq len [OF r] card card' by simp
    ultimately show "\<exists>regs. registrations built p = Inr regs" by (simp add: registrations_def)
  qed
qed

end
