(* ===== verification/ReactorProperties.thy ===== *)
theory ReactorProperties
  imports Reactors
begin

text \<open>
  What the reactors promise the process: a finalized configuration always builds the
  sweeper with the three reclaimers, and the metrics are the history of its passes.
\<close>

section \<open>A finalized configuration builds the sweeper\<close>

text \<open>What go-messaging's retentions and go-database's sweeper accept: a positive age;
  registrations under distinct names, each with a positive interval and a budget of at
  least one, and a positive timeout.\<close>
definition sweeper_lib_ok :: "('r, 'w) sweeper_lib \<Rightarrow> bool" where
  "sweeper_lib_ok L \<longleftrightarrow>
     (\<forall>a > 0. (\<exists>r. OutboxRetention L a = Inr r) \<and> (\<exists>r. InboxRetention L a = Inr r)) \<and>
     (\<forall>regs t. distinct (map rg_name regs) \<longrightarrow> 0 < t \<longrightarrow>
        (\<forall>g\<in>set regs. 0 < po_interval (rg_policy g) \<and> 1 \<le> po_budget (rg_policy g)) \<longrightarrow>
        (\<exists>w. NewSweep L regs t = Inr w))"

lemma sweeper_lib_okD:
  assumes "sweeper_lib_ok L"
  shows "0 < a \<Longrightarrow> \<exists>r. OutboxRetention L a = Inr r"
    and "0 < a \<Longrightarrow> \<exists>r. InboxRetention L a = Inr r"
    and "\<lbrakk>distinct (map rg_name regs); 0 < t;
      list_all (\<lambda>g. 0 < po_interval (rg_policy g) \<and> 1 \<le> po_budget (rg_policy g)) regs\<rbrakk>
      \<Longrightarrow> \<exists>w. NewSweep L regs t = Inr w"
  using assms by (simp_all add: sweeper_lib_ok_def list_all_iff)

lemma registrations_three:
  "registrations [(reclaimFiles, a), (reclaimOutbox, b), (reclaimInbox, c)] p =
     Inr [\<lparr>rg_name = reclaimFiles, rg_reclaimer = a, rg_policy = p\<rparr>,
          \<lparr>rg_name = reclaimOutbox, rg_reclaimer = b, rg_policy = p\<rparr>,
          \<lparr>rg_name = reclaimInbox, rg_reclaimer = c, rg_policy = p\<rparr>]"
  by (simp add: registrations_def reclaimer_names)

lemma newSweeper_within:
  assumes "sweeper_lib_ok L" "sweep_within c" "0 < timeout"
  shows "\<exists>w. newSweeper L c timeout = Some (Inr (w, Some w))"
proof -
  from assms(2) obtain n where n: "Batch c = Some n" "1 \<le> n" "0 < Interval c" "0 < OutboxAge c" "0 < InboxAge c"
    by (auto simp: sweep_within_def split: option.splits)
  with sweeper_lib_okD(1,2) [OF assms(1)] obtain ob ib
    where r: "OutboxRetention L (OutboxAge c) = Inr ob" "InboxRetention L (InboxAge c) = Inr ib" by meson
  let ?p = "\<lparr>po_interval = Interval c, po_budget = n\<rparr>"
  let ?regs = "[\<lparr>rg_name = reclaimFiles, rg_reclaimer = FilesReclaimer L (StaleAge c), rg_policy = ?p\<rparr>,
    \<lparr>rg_name = reclaimOutbox, rg_reclaimer = ob, rg_policy = ?p\<rparr>, \<lparr>rg_name = reclaimInbox, rg_reclaimer = ib, rg_policy = ?p\<rparr>]"
  obtain w where "NewSweep L ?regs timeout = Inr w"
    using sweeper_lib_okD(3) [OF assms(1), of ?regs timeout] assms(3) n by (auto simp: reclaimer_names)
  with r n(1) show ?thesis by (simp add: newSweeper_def registrations_three)
qed

text \<open>C29. Startup: a configuration that finalizes never fails the sweeper's
  construction, nor reaches a nil field of it. Whatever the layers and the environment
  held, over retentions and a sweeper that refuse only what they document the sweeper
  is built, and the nudge node is bound to it, so that a branch's mark nudges its files
  reclaimer.\<close>
theorem finalized_builds_sweeper:
  assumes "config_lib_ok C" "config_Finalize C lib_fin pfx c = Inr f"
    and "sweeper_lib_ok L" "0 < timeout"
  shows "\<exists>w. newSweeper L (cf_sweep f) timeout = Some (Inr (w, Some w))
    \<and> Nudge (Some w) = Some (w, reclaimFiles)"
proof -
  from config_Finalize_blocks(3) [OF assms(2)] sweep_Finalize_within [OF assms(1)]
  have "sweep_within (cf_sweep f)" by blast
  from newSweeper_within [OF assms(3) this assms(4)] show ?thesis by (simp add: Nudge_def)
qed

text \<open>Retentions that refuse a non-positive age, and a sweeper of the registered names.\<close>
definition demo_sweeper_lib :: "(string \<times> int, string list) sweeper_lib" where
  "demo_sweeper_lib =
     \<lparr>OutboxRetention = (\<lambda>a. if a \<le> 0 then Inl (plain ''age'') else Inr (''outbox'', a)),
      InboxRetention = (\<lambda>a. if a \<le> 0 then Inl (plain ''age'') else Inr (''inbox'', a)),
      FilesReclaimer = (\<lambda>a. (''files'', a)),
      NewSweep = (\<lambda>regs t. if t \<le> 0 then Inl (plain ''timeout'') else Inr (map rg_name regs))\<rparr>"

lemma demo_sweeper_lib_ok: "sweeper_lib_ok demo_sweeper_lib"
  by (auto simp: sweeper_lib_ok_def demo_sweeper_lib_def)

theorem finalized_builds_sweeper_witness:
  "\<exists>w. newSweeper demo_sweeper_lib (cf_sweep (projr (config_Finalize demo_config_lib (\<lambda>k pfx b. Inr b) ''app'' demo_config)))
     (10 * Second) = Some (Inr (w, Some w))"
  using finalized_builds_sweeper [OF demo_config_lib_ok demo_config_finalizes demo_sweeper_lib_ok, of "10 * Second"]
  by (auto simp: demo_config_finalizes Second_def)

section \<open>The metrics are the history of the passes\<close>

lemma passes_snoc: "foldl metrics_pass m (ps @ [p]) = metrics_pass (foldl metrics_pass m ps) p"
  by simp

lemma metrics_backlog:
  "sm_backlogged (foldl metrics_pass newSweepMetrics ps) n =
     (case List.find (\<lambda>p. ps_name p = n) (rev ps) of
        Some p \<Rightarrow> Some (ps_more p)
      | None \<Rightarrow> if n \<in> set reclaimers then Some False else None)"
proof (induction ps rule: rev_induct)
  case Nil
  show ?case by (simp add: newSweepMetrics_def reclaimer_names)
qed (simp add: metrics_pass_def)

lemma metrics_count:
  "sm_passes (foldl metrics_pass newSweepMetrics ps) (n, k) = length (filter (\<lambda>p. ps_name p = n \<and> outcome p = k) ps)"
  by (induction ps rule: rev_induct) (auto simp: metrics_pass_def newSweepMetrics_def)

lemma metrics_warned:
  "sm_warned (foldl metrics_pass newSweepMetrics ps) = filter (\<lambda>p. ps_err p \<noteq> None) ps"
  by (induction ps rule: rev_induct) (auto simp: metrics_pass_def newSweepMetrics_def)

lemma outcomes_total:
  "length (filter (\<lambda>p. ps_name p = n \<and> outcome p = outcomeError) ps)
     + length (filter (\<lambda>p. ps_name p = n \<and> outcome p = outcomeMore) ps)
     + length (filter (\<lambda>p. ps_name p = n \<and> outcome p = outcomeDrained) ps) = length (filter (\<lambda>p. ps_name p = n) ps)"
  by (induction ps) (auto simp: outcome_def outcomeError_def outcomeMore_def outcomeDrained_def)

text \<open>C30. The sweep's metrics: after any run of passes, the gauge of a reclaimer shows
  whether its last pass reported more, and zero for a registered one that has not run;
  the counter of a name and an outcome is the number of that name's passes with it; the
  log holds the failed passes, in order; and the outcomes of a name add up to its
  passes.\<close>
theorem sweep_metrics_history:
  "let m = foldl metrics_pass newSweepMetrics ps
   in observe m n =
        (case List.find (\<lambda>p. ps_name p = n) (rev ps) of
           Some p \<Rightarrow> Some (if ps_more p then 1 else 0)
         | None \<Rightarrow> if n \<in> set reclaimers then Some 0 else None)
    \<and> sm_passes m (n, k) = length (filter (\<lambda>p. ps_name p = n \<and> outcome p = k) ps)
    \<and> sm_passes m (n, outcomeError) + sm_passes m (n, outcomeMore) + sm_passes m (n, outcomeDrained)
        = length (filter (\<lambda>p. ps_name p = n) ps)
    \<and> sm_warned m = filter (\<lambda>p. ps_err p \<noteq> None) ps"
  using outcomes_total [of n ps]
  by (simp add: Let_def observe_def metrics_backlog metrics_count metrics_warned split: option.splits)

end
