(* ===== verification/AppGraph.thy ===== *)
theory AppGraph
  imports Reactors AdminDatabase AdminStorage OrgHandler DocHandler
begin

text \<open>
  internal/app: the service as a graph of nodes. Each layer file's constructors are
  given as the calls they make, in their order: the nodes they Use, the nodes they only
  order themselves After, and the steps of them that may fail. go-core's Build and
  lifecycle are parameters.
\<close>

section \<open>The nodes and their constructors\<close>

datatype node =
    ConfigN | LoggerN | DatabaseN | StorageN | BrokerN | SQLN | FilesN
  | TelemetryN | MeterProviderN | SweepMetricsN
  | GateN | SchemaN
  | OrganizationN | DocumentN
  | NudgeN | SweeperN | RuntimeN | RelayN
  | ReadinessN | RouterN | ServerN

text \<open>A call of a constructor: Use and After on a node, or a step that may fail, with
  the label its error is returned under, if any.\<close>
datatype action = Use node | After node | Try "string option"

definition newLogger :: "action list" where
  "newLogger = [Use ConfigN]"

definition newDatabase :: "action list" where
  "newDatabase = [After TelemetryN, Use ConfigN, Try None]"

definition newStorage :: "action list" where
  "newStorage = [After TelemetryN, Use ConfigN, Try None]"

definition newBroker :: "action list" where
  "newBroker = [After TelemetryN, Use ConfigN, Try None]"

definition newSQL :: "action list" where
  "newSQL = [Use DatabaseN]"

definition newFiles :: "action list" where
  "newFiles = [Use SQLN, Try (Some ''blobfs''), Use StorageN]"

definition newTelemetry :: "action list" where
  "newTelemetry = [Use ConfigN, Try None, Try None, Use LoggerN]"

definition newMeterProvider :: "action list" where
  "newMeterProvider = []"

definition newSweepMetrics_calls :: "action list" where
  "newSweepMetrics_calls = [Use MeterProviderN, Use LoggerN, Try None, Try None]"

definition newSchema :: "action list" where
  "newSchema =
     [Use SQLN, Use LoggerN, Try (Some ''messaging migrations''), Try (Some ''blobfs migrations''), Try (Some ''migrate''),
      Use OrganizationN, Use DocumentN, Use DatabaseN, Use ConfigN, Use RuntimeN]"

definition organization_calls :: "action list" where
  "organization_calls = [Use SQLN, Use FilesN, Use LoggerN, Use RuntimeN]"

definition document_calls :: "action list" where
  "document_calls = [Use SQLN, Use FilesN, Use NudgeN, Use RuntimeN]"

definition newSweeper_calls :: "action list" where
  "newSweeper_calls =
     [After SchemaN, Use ConfigN, Use SQLN, Use LoggerN, Try None, Try None, Use FilesN, Try None,
      Use GateN, Use SweepMetricsN, Try None, Use NudgeN]"

definition newRuntime :: "action list" where
  "newRuntime = [Use ConfigN, Use BrokerN, Use LoggerN, Use GateN, Try None]"

definition newRelay :: "action list" where
  "newRelay = [After SchemaN, Use RuntimeN, Use SQLN]"

definition middleware_calls :: "action list" where
  "middleware_calls = [Use ConfigN, Use LoggerN, Use TelemetryN]"

definition mountAPI_calls :: "action list" where
  "mountAPI_calls = [Use ConfigN, Use LoggerN, Use OrganizationN, Use DocumentN]"

definition mountAdmin_calls :: "action list" where
  "mountAdmin_calls = [Use LoggerN, Use SchemaN, Use GateN, Use StorageN]"

definition newRouter :: "action list" where
  "newRouter = middleware_calls @ mountAPI_calls @ mountAdmin_calls @ [Use ReadinessN]"

text \<open>Nodes.Reactors: the reactor layer's Build roots.\<close>
definition Reactors :: "node list" where
  "Reactors = [SweeperN, RelayN]"

definition newServer :: "action list" where
  "newServer = map After Reactors @ [After SchemaN, Use ConfigN, Use RouterN, Use LoggerN]"

fun calls :: "node \<Rightarrow> action list" where
  "calls ConfigN = []"
| "calls LoggerN = newLogger"
| "calls DatabaseN = newDatabase"
| "calls StorageN = newStorage"
| "calls BrokerN = newBroker"
| "calls SQLN = newSQL"
| "calls FilesN = newFiles"
| "calls TelemetryN = newTelemetry"
| "calls MeterProviderN = newMeterProvider"
| "calls SweepMetricsN = newSweepMetrics_calls"
| "calls GateN = []"
| "calls SchemaN = newSchema"
| "calls OrganizationN = organization_calls"
| "calls DocumentN = document_calls"
| "calls NudgeN = []"
| "calls SweeperN = newSweeper_calls"
| "calls RuntimeN = newRuntime"
| "calls RelayN = newRelay"
| "calls ReadinessN = []"
| "calls RouterN = newRouter"
| "calls ServerN = newServer"

lemmas call_defs = newLogger_def newDatabase_def newStorage_def newBroker_def newSQL_def newFiles_def
  newTelemetry_def newMeterProvider_def newSweepMetrics_calls_def newSchema_def organization_calls_def
  document_calls_def newSweeper_calls_def newRuntime_def newRelay_def middleware_calls_def
  mountAPI_calls_def mountAdmin_calls_def newRouter_def Reactors_def newServer_def

section \<open>The order New defines the nodes in\<close>

definition defineInfrastructure :: "node list" where
  "defineInfrastructure = [ConfigN, LoggerN, DatabaseN, StorageN, BrokerN, SQLN, FilesN]"
definition defineTelemetry :: "node list" where
  "defineTelemetry = [TelemetryN, MeterProviderN, SweepMetricsN]"
definition defineAdmin :: "node list" where
  "defineAdmin = [GateN, SchemaN]"
definition defineDomain :: "node list" where
  "defineDomain = [OrganizationN, DocumentN]"
definition defineReactors :: "node list" where
  "defineReactors = [NudgeN, SweeperN, RuntimeN, RelayN]"
definition defineServer :: "node list" where
  "defineServer = [ReadinessN, RouterN, ServerN]"

definition app_New :: "node list" where
  "app_New = defineInfrastructure @ defineTelemetry @ defineAdmin @ defineDomain @ defineReactors @ defineServer"

section \<open>What a Build constructs and how it is ordered\<close>

definition uses :: "node \<Rightarrow> node list" where
  "uses n = concat (map (\<lambda>a. case a of Use m \<Rightarrow> [m] | _ \<Rightarrow> []) (calls n))"

definition afters :: "node \<Rightarrow> node list" where
  "afters n = concat (map (\<lambda>a. case a of After m \<Rightarrow> [m] | _ \<Rightarrow> []) (calls n))"

text \<open>Run's roots: every node it reads, the schema, and the reactors.\<close>
definition run_roots :: "node list" where
  "run_roots = [ConfigN, LoggerN, ServerN, SchemaN] @ Reactors"

text \<open>The nodes a Build of some roots constructs: the roots and what they Use. An After
  only orders.\<close>
inductive built :: "node list \<Rightarrow> node \<Rightarrow> bool" for roots where
  root: "n \<in> set roots \<Longrightarrow> built roots n"
| used: "built roots m \<Longrightarrow> n \<in> set (uses m) \<Longrightarrow> built roots n"

text \<open>A layering of the built nodes: each above everything it Uses, and above every
  built node it is ordered After.\<close>
definition layering :: "node list \<Rightarrow> (node \<Rightarrow> nat) \<Rightarrow> bool" where
  "layering roots lay \<longleftrightarrow>
     (\<forall>n m. built roots n \<longrightarrow> built roots m \<longrightarrow> m \<in> set (uses n @ afters n) \<longrightarrow> lay m < lay n)"

section \<open>Run\<close>

datatype app_log = ServiceFailed err | ServerReady | ServerStopped

record app =
  ran :: bool

text \<open>Run over go-core's Build and lifecycle: the outcome of the Build from the roots,
  and of the lifecycle, whether it got ready and its error. A second Run panics, None.\<close>
definition Run :: "(node list \<Rightarrow> 'sys result) \<Rightarrow> ('sys \<Rightarrow> bool \<times> err option) \<Rightarrow> app \<Rightarrow> ((nat \<times> app_log list) \<times> app) option" where
  "Run build lifecycle a =
     (if ran a then None
      else Some
       ((case build run_roots of
           Inl e \<Rightarrow> (1, [ServiceFailed e])
         | Inr sys \<Rightarrow>
             (case lifecycle sys of (ready, e) \<Rightarrow>
                (let rs = (if ready then [ServerReady] else [])
                 in case e of Some x \<Rightarrow> (1, rs @ [ServiceFailed x]) | None \<Rightarrow> (0, rs @ [ServerStopped])))),
        a\<lparr>ran := True\<rparr>))"

text \<open>cmd/server: the configuration's failure is process.Fail's code.\<close>
definition run_main :: "'c result \<Rightarrow> (err \<Rightarrow> nat) \<Rightarrow> ('c \<Rightarrow> app \<Rightarrow> ((nat \<times> app_log list) \<times> app) option) \<Rightarrow> nat option" where
  "run_main load failed run =
     (case load of
        Inl e \<Rightarrow> Some (failed e)
      | Inr cfg \<Rightarrow> map_option (\<lambda>((code, _), _). code) (run cfg \<lparr>ran = False\<rparr>))"

section \<open>The migration sets\<close>

definition AppSet :: string where
  "AppSet = ''app''"

text \<open>data.Migrations: the libraries' sets as they are given, then the service's own.\<close>
definition Migrations :: "(string \<times> 'm) list \<Rightarrow> 'm \<Rightarrow> (string \<times> 'm) list" where
  "Migrations beneath own = beneath @ [(AppSet, own)]"

text \<open>The sets newSchema gives the migrator.\<close>
definition schema_sets :: "string \<times> 'm \<Rightarrow> string \<times> 'm \<Rightarrow> 'm \<Rightarrow> (string \<times> 'm) list" where
  "schema_sets messaging blobfs own = Migrations [messaging, blobfs] own"

section \<open>The request edge\<close>

text \<open>The router's stack, outermost first.\<close>
datatype middleware = Tracing | RequestID | RequestLogger | Recoverer | RateLimitUnlessProbe

definition middleware_stack :: "middleware list" where
  "middleware_stack = [Tracing, RequestID, RequestLogger, Recoverer, RateLimitUnlessProbe]"

text \<open>A group's routes, under the prefix it is mounted at.\<close>
definition under_group :: "string \<Rightarrow> (string \<times> string \<times> 'h) list \<Rightarrow> (string \<times> string) list" where
  "under_group pfx rs = map (\<lambda>(verb, p, _). (verb, pfx @ p)) rs"

text \<open>Each mount, with the settings its groups are built over: the limits of the reads
  block with cursors on, None being the panic of a block no Finalize set.\<close>
definition mountAPI :: "'b config \<Rightarrow> ((string \<times> string) list \<times> (int \<times> int) \<times> bool) option" where
  "mountAPI cfg =
     (case reads_Limits (cf_reads cfg) of
        None \<Rightarrow> None
      | Some limits \<Rightarrow>
          Some (under_group ''/api/organizations'' (org_routes :: (string \<times> string \<times> (unit, unit) org_route) list)
                @ under_group ''/api/documents'' (doc_routes :: (string \<times> string \<times> (unit, unit) doc_route) list), limits, True))"

definition mountAdmin :: "(string \<times> string) list" where
  "mountAdmin =
     under_group ''/admin/database'' (database_routes :: (string \<times> string \<times> (unit, unit, unit) database_route) list)
     @ under_group ''/admin/storage'' (storage_routes :: (string \<times> string \<times> (unit admin_store \<Rightarrow> (unit, unit, diagnostics) handler)) list)"

definition routes :: "'b config \<Rightarrow> (string \<times> string) list option" where
  "routes cfg = map_option (\<lambda>(rs, _). rs @ mountAdmin) (mountAPI cfg)"

section \<open>Patterns\<close>

text \<open>How net/http's ServeMux compares two patterns of one method: by segments, a
  segment in braces matching any.\<close>
definition wild :: "string \<Rightarrow> bool" where
  "wild seg = has_prefix ''{'' seg"

fun overlap :: "string list \<Rightarrow> string list \<Rightarrow> bool" where
  "overlap [] [] = True"
| "overlap (a # as) (b # bs) = ((wild a \<or> wild b \<or> a = b) \<and> overlap as bs)"
| "overlap _ _ = False"

fun covers :: "string list \<Rightarrow> string list \<Rightarrow> bool" where
  "covers [] [] = True"
| "covers (a # as) (b # bs) = ((wild a \<or> (\<not> wild b \<and> a = b)) \<and> covers as bs)"
| "covers _ _ = False"

end
