(* ===== verification/AppProperties.thy ===== *)
theory AppProperties
  imports AppGraph ReactorProperties
begin

text \<open>
  The service's composition: which nodes a run builds, the order every layering of the
  graph gives them, the outcomes of a run, and the routes the router is built with.
\<close>

section \<open>The edges\<close>

lemma edges:
  "uses ConfigN = []" "uses LoggerN = [ConfigN]" "uses DatabaseN = [ConfigN]" "uses StorageN = [ConfigN]"
  "uses BrokerN = [ConfigN]" "uses SQLN = [DatabaseN]" "uses FilesN = [SQLN, StorageN]"
  "uses TelemetryN = [ConfigN, LoggerN]" "uses MeterProviderN = []" "uses SweepMetricsN = [MeterProviderN, LoggerN]"
  "uses GateN = []"
  "uses SchemaN = [SQLN, LoggerN, OrganizationN, DocumentN, DatabaseN, ConfigN, RuntimeN]"
  "uses OrganizationN = [SQLN, FilesN, LoggerN, RuntimeN]" "uses DocumentN = [SQLN, FilesN, NudgeN, RuntimeN]"
  "uses NudgeN = []"
  "uses SweeperN = [ConfigN, SQLN, LoggerN, FilesN, GateN, SweepMetricsN, NudgeN]"
  "uses RuntimeN = [ConfigN, BrokerN, LoggerN, GateN]" "uses RelayN = [RuntimeN, SQLN]" "uses ReadinessN = []"
  "uses RouterN = [ConfigN, LoggerN, TelemetryN, ConfigN, LoggerN, OrganizationN, DocumentN, LoggerN, SchemaN, GateN, StorageN, ReadinessN]"
  "uses ServerN = [ConfigN, RouterN, LoggerN]"
  by (simp_all add: uses_def call_defs)

lemma after_edges:
  "afters DatabaseN = [TelemetryN]" "afters StorageN = [TelemetryN]" "afters BrokerN = [TelemetryN]"
  "afters SweeperN = [SchemaN]" "afters RelayN = [SchemaN]" "afters ServerN = [SweeperN, RelayN, SchemaN]"
  "n \<notin> {DatabaseN, StorageN, BrokerN, SweeperN, RelayN, ServerN} \<Longrightarrow> afters n = []"
  by (simp_all add: afters_def call_defs) (cases n; simp add: call_defs)

lemma app_New_all: "distinct app_New" "set app_New = UNIV"
proof -
  show "distinct app_New"
    by (simp add: app_New_def defineInfrastructure_def defineTelemetry_def defineAdmin_def defineDomain_def
        defineReactors_def defineServer_def)
  have "n \<in> set app_New" for n
    by (cases n) (simp_all add: app_New_def defineInfrastructure_def defineTelemetry_def defineAdmin_def
        defineDomain_def defineReactors_def defineServer_def)
  then show "set app_New = UNIV" by blast
qed

text \<open>The edges that order without passing a value, and the sets of the schema.\<close>
lemma after_edge_count: "length (concat (map afters app_New)) = 8"
  by (simp add: app_New_def defineInfrastructure_def defineTelemetry_def defineAdmin_def defineDomain_def
      defineReactors_def defineServer_def after_edges)

lemma schema_set_count: "length (schema_sets messaging blobfs own) = 3"
  by (simp add: schema_sets_def Migrations_def)

text \<open>A run builds every node New defines.\<close>
lemma run_builds_all: "built run_roots n"
proof -
  let ?b = "built run_roots"
  have step: "?b m \<Longrightarrow> k \<in> set (uses m) \<Longrightarrow> ?b k" for m k by (rule used)
  have roots: "?b ConfigN" "?b LoggerN" "?b ServerN" "?b SchemaN" "?b SweeperN" "?b RelayN"
    by (simp_all add: root run_roots_def Reactors_def)
  have router: "?b RouterN" by (rule step [OF roots(3)]) (simp add: edges)
  have schema: "?b SQLN" "?b OrganizationN" "?b DocumentN" "?b DatabaseN" "?b RuntimeN"
    by (rule step [OF roots(4)]; simp add: edges)+
  have sweeper: "?b FilesN" "?b GateN" "?b SweepMetricsN" "?b NudgeN"
    by (rule step [OF roots(5)]; simp add: edges)+
  have rest: "?b BrokerN" "?b TelemetryN" "?b StorageN" "?b ReadinessN" "?b MeterProviderN"
    using step [OF schema(5)] step [OF router] step [OF sweeper(3)] by (simp_all add: edges)
  from roots router schema sweeper rest show ?thesis by (cases n) simp_all
qed

section \<open>The order of a run\<close>

lemma lay_uses: "layering run_roots lay \<Longrightarrow> m \<in> set (uses n) \<Longrightarrow> lay m < lay n"
  by (simp add: layering_def run_builds_all)

lemma lay_after: "layering run_roots lay \<Longrightarrow> m \<in> set (afters n) \<Longrightarrow> lay m < lay n"
  by (simp add: layering_def run_builds_all)

text \<open>C13. The order of a run: every node the service defines is built, and in every
  layering that keeps the edges each node starts below, and drains after, what rests
  on it: the server is alone on top; the sweeper and the relay start above the schema
  and every table it verifies; the schema above both domains; the relay above the
  broker its last pass publishes to; and the three connections above telemetry, whose
  providers are installed first and flushed last.\<close>
theorem run_order:
  assumes "layering run_roots lay"
  shows "built run_roots n \<and> (n \<noteq> ServerN \<longrightarrow> lay n < lay ServerN)
    \<and> lay SchemaN < lay SweeperN \<and> lay SchemaN < lay RelayN
    \<and> lay OrganizationN < lay SchemaN \<and> lay DocumentN < lay SchemaN
    \<and> lay BrokerN < lay RelayN
    \<and> lay TelemetryN < lay DatabaseN \<and> lay TelemetryN < lay StorageN \<and> lay TelemetryN < lay BrokerN"
proof -
  note u = lay_uses [OF assms] and a = lay_after [OF assms]
  have telemetry: "lay TelemetryN < lay DatabaseN" "lay TelemetryN < lay StorageN" "lay TelemetryN < lay BrokerN"
    using a by (simp_all add: after_edges)
  have low: "lay ConfigN < lay LoggerN" "lay LoggerN < lay TelemetryN" "lay DatabaseN < lay SQLN" "lay SQLN < lay FilesN"
      "lay StorageN < lay FilesN" "lay BrokerN < lay RuntimeN" "lay GateN < lay RuntimeN"
      "lay FilesN < lay OrganizationN" "lay RuntimeN < lay OrganizationN" "lay FilesN < lay DocumentN"
      "lay NudgeN < lay DocumentN" "lay OrganizationN < lay SchemaN" "lay DocumentN < lay SchemaN"
      "lay RuntimeN < lay RelayN"
      "lay MeterProviderN < lay SweepMetricsN" "lay SweepMetricsN < lay SweeperN"
      "lay ReadinessN < lay RouterN" "lay RouterN < lay ServerN"
    by (rule u, simp add: edges)+
  have high: "lay SchemaN < lay SweeperN" "lay SchemaN < lay RelayN" "lay SweeperN < lay ServerN" "lay RelayN < lay ServerN"
    by (rule a, simp add: after_edges)+
  have "n \<noteq> ServerN \<longrightarrow> lay n < lay ServerN"
    using telemetry low high by (cases n) (simp_all del: One_nat_def)
  moreover have "lay BrokerN < lay RelayN" using low by simp
  ultimately show ?thesis using run_builds_all telemetry low(12,13) high by blast
qed

text \<open>The layers of the graph, by the longest path beneath each node.\<close>
fun graph_layer :: "node \<Rightarrow> nat" where
  "graph_layer ConfigN = 0"
| "graph_layer LoggerN = 1"
| "graph_layer DatabaseN = 3"
| "graph_layer StorageN = 3"
| "graph_layer BrokerN = 3"
| "graph_layer SQLN = 4"
| "graph_layer FilesN = 5"
| "graph_layer TelemetryN = 2"
| "graph_layer MeterProviderN = 0"
| "graph_layer SweepMetricsN = 2"
| "graph_layer GateN = 0"
| "graph_layer SchemaN = 7"
| "graph_layer OrganizationN = 6"
| "graph_layer DocumentN = 6"
| "graph_layer NudgeN = 0"
| "graph_layer SweeperN = 8"
| "graph_layer RuntimeN = 4"
| "graph_layer RelayN = 8"
| "graph_layer ReadinessN = 0"
| "graph_layer RouterN = 8"
| "graph_layer ServerN = 9"

lemma graph_layering: "layering run_roots graph_layer"
proof -
  have "graph_layer m < graph_layer n" if "m \<in> set (uses n @ afters n)" for n m
    using that by (cases n) (auto simp: edges after_edges)
  then show ?thesis by (simp add: layering_def)
qed

theorem run_order_witness:
  "built run_roots TelemetryN \<and> graph_layer TelemetryN < graph_layer BrokerN \<and> graph_layer RelayN < graph_layer ServerN"
  using run_order [OF graph_layering, of TelemetryN] run_order [OF graph_layering, of RelayN] by blast

section \<open>The outcome of a run\<close>

text \<open>An app runs once, and its exit code is zero exactly after a build and a lifecycle
  without an error; the last record of its log says which.\<close>
lemma Run_code:
  assumes "Run build lifecycle a = Some ((code, logs), a')"
  shows "ran a' \<and> Run build lifecycle a' = None
    \<and> (code = 0 \<longleftrightarrow> (\<exists>sys. build run_roots = Inr sys \<and> snd (lifecycle sys) = None))
    \<and> (if code = 0 then last logs = ServerStopped else code = 1 \<and> (\<exists>e. last logs = ServiceFailed e))"
  using assms
  by (auto simp: Run_def Let_def split: if_splits sum.splits prod.splits option.splits)

section \<open>The router builds\<close>

text \<open>Two patterns conflict, which a registration panics on, when they overlap and
  neither is the more specific.\<close>
definition pattern_conflict :: "string \<times> string \<Rightarrow> string \<times> string \<Rightarrow> bool" where
  "pattern_conflict p q =
     (fst p = fst q \<and> overlap (split_at (CHR ''/'') (snd p)) (split_at (CHR ''/'') (snd q))
      \<and> covers (split_at (CHR ''/'') (snd p)) (split_at (CHR ''/'') (snd q))
          = covers (split_at (CHR ''/'') (snd q)) (split_at (CHR ''/'') (snd p)))"

fun conflict_free :: "(string \<times> string) list \<Rightarrow> bool" where
  "conflict_free [] = True"
| "conflict_free (p # ps) = (list_all (\<lambda>q. \<not> pattern_conflict p q) ps \<and> conflict_free ps)"

lemma mounts_conflict_free:
  "conflict_free
     ((under_group ''/api/organizations'' (org_routes :: (string \<times> string \<times> (unit, unit) org_route) list)
       @ under_group ''/api/documents'' (doc_routes :: (string \<times> string \<times> (unit, unit) doc_route) list)) @ mountAdmin)"
  unfolding mountAdmin_def under_group_def org_routes_def doc_routes_def database_routes_def storage_routes_def
  by code_simp

text \<open>The router: a configuration that finalizes is one the mounts build over, with
  its limits and no nil field reached, and no two of the routes they register conflict,
  so no registration panics.\<close>
theorem finalized_builds_routes:
  assumes "config_lib_ok C" "config_Finalize C lib_fin pfx c = Inr f"
  shows "\<exists>rs. routes f = Some rs \<and> conflict_free rs"
proof -
  from config_Finalize_blocks(1) [OF assms(2)] reads_Finalize_within [OF assms(1)]
  have "reads_within (cf_reads f)" by blast
  then obtain lim where "reads_Limits (cf_reads f) = Some lim"
    by (auto simp: reads_within_def split: option.splits)
  then show ?thesis using mounts_conflict_free by (simp add: routes_def mountAPI_def)
qed

theorem finalized_builds_routes_witness:
  "\<exists>rs. routes (projr (config_Finalize demo_config_lib (\<lambda>k pfx b. Inr b) ''app'' demo_config)) = Some rs \<and> conflict_free rs"
  using finalized_builds_routes [OF demo_config_lib_ok demo_config_finalizes] by (simp add: demo_config_finalizes)

end
