(* ===== verification/SeedFiles.thy ===== *)
theory SeedFiles
  imports SeedProperties AdminDatabase
begin

text \<open>
  data/seed.go: the embedded state files, as the seeder lists and reads them, and the
  statement check over everything recorded. The embedded directory is given as its
  entries, in the order of their file names, and the decoder is a parameter.
\<close>

section \<open>The files\<close>

text \<open>path.Ext: the text from the last dot of the last element, or none.\<close>
definition ext_char :: "char \<Rightarrow> bool" where
  "ext_char c = (c \<noteq> CHR ''.'' \<and> c \<noteq> CHR ''/'')"

definition path_Ext :: "string \<Rightarrow> string" where
  "path_Ext s =
     (case dropWhile ext_char (rev s) of
        [] \<Rightarrow> []
      | c # _ \<Rightarrow> if c = CHR ''.'' then c # rev (takeWhile ext_char (rev s)) else [])"

text \<open>A directory entry: its name and what it is, a directory or a file's content.\<close>
type_synonym 'c entries = "(string \<times> 'c option) list"

text \<open>States: the state files by name.\<close>
definition States :: "'c entries \<Rightarrow> string list" where
  "States es = map (\<lambda>(n, _). trim_suffix ''.json'' n) (filter (\<lambda>(n, c). c \<noteq> None \<and> path_Ext n = ''.json'') es)"

text \<open>readSeed: the named file decoded; a name with no file is ErrUnknownState, and a
  directory or an undecodable file fails under the state's name.\<close>
definition readSeed :: "'c entries \<Rightarrow> ('c \<Rightarrow> 'v result) \<Rightarrow> err \<Rightarrow> err \<Rightarrow> string \<Rightarrow> 'v result" where
  "readSeed es decode unknown_state is_dir name =
     (case map_of es (name @ ''.json'') of
        None \<Rightarrow> Inl (Err Wrapped (error_text unknown_state @ '': '' @ quoted name) [unknown_state])
      | Some None \<Rightarrow> Inl (wrapf (''seed '' @ name) is_dir)
      | Some (Some c) \<Rightarrow> (case decode c of Inl e \<Rightarrow> Inl (wrapf (''seed '' @ name) e) | Inr v \<Rightarrow> Inr v))"

text \<open>Seeder.Verify: the library's check over every verifier recorded when it runs.\<close>
definition Seeder_Verify :: "('v list \<Rightarrow> ('s, unit) step) \<Rightarrow> ('st, 'v) database \<Rightarrow> ('s, unit) step" where
  "Seeder_Verify check d = check (recorded d)"

section \<open>What the listing says\<close>

lemma trim_suffix_append [simp]: "trim_suffix p (s @ p) = s"
  by (simp add: trim_suffix_def)

lemma path_Ext_json: "path_Ext (n @ ''.json'') = ''.json''"
  by (simp add: path_Ext_def ext_char_def)

lemma path_Ext_suffix:
  assumes "path_Ext s = e" "e \<noteq> []"
  shows "\<exists>p. s = p @ e"
proof (cases "dropWhile ext_char (rev s)")
  case Nil
  with assms show ?thesis by (simp add: path_Ext_def)
next
  case (Cons c r)
  with assms have e: "e = c # rev (takeWhile ext_char (rev s))"
    by (simp add: path_Ext_def split: if_splits)
  have "rev s = takeWhile ext_char (rev s) @ c # r"
    using takeWhile_dropWhile_id [of ext_char "rev s"] by (simp only: Cons)
  then have "s = rev (takeWhile ext_char (rev s) @ c # r)" by (metis rev_rev_ident)
  also have "\<dots> = rev r @ e" by (simp only: e rev_append rev.simps append_assoc append_Cons append_Nil)
  finally show ?thesis by blast
qed

lemma States_iff: "n \<in> set (States es) \<longleftrightarrow> (\<exists>c. (n @ ''.json'', Some c) \<in> set es)"
proof
  assume "n \<in> set (States es)"
  then obtain f c where *: "(f, Some c) \<in> set es" "path_Ext f = ''.json''" "n = trim_suffix ''.json'' f"
    by (auto simp: States_def)
  from path_Ext_suffix [OF *(2)] obtain p where "f = p @ ''.json''" by auto
  with * show "\<exists>c. (n @ ''.json'', Some c) \<in> set es" by auto
next
  assume "\<exists>c. (n @ ''.json'', Some c) \<in> set es"
  then show "n \<in> set (States es)"
    by (force simp: States_def path_Ext_json image_iff)
qed

text \<open>The states: a name the seeder lists is one it reads, with the content of its
  own file, and a name it neither lists nor has a directory for is refused as unknown,
  which the database admin domain answers with a 400.\<close>
theorem listed_states_read:
  assumes "distinct (map fst es)" "kind unknown_state = UnknownState"
  shows "(n \<in> set (States es) \<longrightarrow>
      (\<exists>c. (n @ ''.json'', Some c) \<in> set es
         \<and> readSeed es decode unknown_state is_dir n
             = (case decode c of Inl e \<Rightarrow> Inl (wrapf (''seed '' @ n) e) | Inr v \<Rightarrow> Inr v)))
    \<and> (n \<notin> set (States es) \<longrightarrow> (n @ ''.json'', None) \<notin> set es \<longrightarrow>
      (\<exists>e. readSeed es decode unknown_state is_dir n = Inl e \<and> database_problem e = Some (no_detail 400)))"
proof (intro conjI impI)
  assume "n \<in> set (States es)"
  then obtain c where c: "(n @ ''.json'', Some c) \<in> set es" by (auto simp: States_iff)
  with map_of_is_SomeI [OF assms(1)] have "map_of es (n @ ''.json'') = Some (Some c)" by simp
  with c show "\<exists>c. (n @ ''.json'', Some c) \<in> set es
      \<and> readSeed es decode unknown_state is_dir n
          = (case decode c of Inl e \<Rightarrow> Inl (wrapf (''seed '' @ n) e) | Inr v \<Rightarrow> Inr v)"
    by (auto simp: readSeed_def)
next
  assume "n \<notin> set (States es)" "(n @ ''.json'', None) \<notin> set es"
  then have "\<forall>c. (n @ ''.json'', c) \<notin> set es"
    by (metis States_iff not_None_eq)
  then have "map_of es (n @ ''.json'') = None" by (auto simp: map_of_eq_None_iff image_iff)
  moreover have "errors_is UnknownState unknown_state"
    using assms(2) by (cases unknown_state) simp
  ultimately show "\<exists>e. readSeed es decode unknown_state is_dir n = Inl e \<and> database_problem e = Some (no_detail 400)"
    by (simp add: readSeed_def database_problem_def)
qed

definition demo_entries :: "string entries" where
  "demo_entries = [(''default.json'', Some ''a''), (''empty.json'', Some ''b''), (''fixtures'', None)]"

theorem listed_states_read_witness:
  "set (States demo_entries) = {''default'', ''empty''}
   \<and> readSeed demo_entries Inr (Err UnknownState ''unknown state'' []) (plain ''is a directory'') ''empty'' = Inr ''b''"
proof -
  have "distinct (map fst demo_entries)" by (simp add: demo_entries_def)
  from listed_states_read [OF this, of "Err UnknownState ''unknown state'' []" "''empty''" Inr "plain ''is a directory''"]
  have "readSeed demo_entries Inr (Err UnknownState ''unknown state'' []) (plain ''is a directory'') ''empty'' = Inr ''b''"
    by (simp add: demo_entries_def States_iff)
  then show ?thesis
    by (auto simp: demo_entries_def States_def path_Ext_def ext_char_def trim_suffix_def trim_prefix_def has_prefix_def)
qed

text \<open>The listing is in the order of the file names, which is not the order of the
  states' names: a name's extension sorts after a hyphen.\<close>
lemma States_not_sorted:
  "sorted (map fst [(''acme-two.json'', Some 0), (''acme.json'', Some (1::nat))])"
  "States [(''acme-two.json'', Some 0), (''acme.json'', Some (1::nat))] = [''acme-two'', ''acme'']"
  "\<not> sorted [''acme-two'', ''acme'']"
  by (simp_all add: States_def path_Ext_def ext_char_def trim_suffix_def trim_prefix_def has_prefix_def less_eq_char_def)

end
