(* ===== verification/SlabHttp.thy ===== *)
theory SlabHttp
  imports Errors
begin

text \<open>
  tools/slab/httpx: the request a call sends, the query it joins, the responses it
  checks, and the poll of a metric. The transport, the clock and the decoders are
  parameters; the header map is a map of lower-case names.
\<close>

section \<open>The standard library\<close>

definition lower :: "string \<Rightarrow> string" where
  "lower s = map (\<lambda>c. let n = of_char c :: nat in if 65 \<le> n \<and> n \<le> 90 then char_of (n + 32) else c) s"

text \<open>http.StatusText.\<close>
definition status_texts :: "(nat \<times> string) list" where
  "status_texts =
     [(100, ''Continue''), (101, ''Switching Protocols''), (102, ''Processing''),
      (103, ''Early Hints''), (200, ''OK''), (201, ''Created''), (202, ''Accepted''),
      (203, ''Non-Authoritative Information''), (204, ''No Content''), (205, ''Reset Content''),
      (206, ''Partial Content''), (207, ''Multi-Status''), (208, ''Already Reported''),
      (226, ''IM Used''), (300, ''Multiple Choices''), (301, ''Moved Permanently''), (302, ''Found''),
      (303, ''See Other''), (304, ''Not Modified''), (305, ''Use Proxy''),
      (307, ''Temporary Redirect''), (308, ''Permanent Redirect''), (400, ''Bad Request''),
      (401, ''Unauthorized''), (402, ''Payment Required''), (403, ''Forbidden''), (404, ''Not Found''),
      (405, ''Method Not Allowed''), (406, ''Not Acceptable''),
      (407, ''Proxy Authentication Required''), (408, ''Request Timeout''), (409, ''Conflict''),
      (410, ''Gone''), (411, ''Length Required''), (412, ''Precondition Failed''),
      (413, ''Request Entity Too Large''), (414, ''Request URI Too Long''),
      (415, ''Unsupported Media Type''), (416, ''Requested Range Not Satisfiable''),
      (417, ''Expectation Failed''), (418, ''I'm a teapot''), (421, ''Misdirected Request''),
      (422, ''Unprocessable Entity''), (423, ''Locked''), (424, ''Failed Dependency''),
      (425, ''Too Early''), (426, ''Upgrade Required''), (428, ''Precondition Required''),
      (429, ''Too Many Requests''), (431, ''Request Header Fields Too Large''),
      (451, ''Unavailable For Legal Reasons''), (500, ''Internal Server Error''),
      (501, ''Not Implemented''), (502, ''Bad Gateway''), (503, ''Service Unavailable''),
      (504, ''Gateway Timeout''), (505, ''HTTP Version Not Supported''),
      (506, ''Variant Also Negotiates''), (507, ''Insufficient Storage''), (508, ''Loop Detected''),
      (510, ''Not Extended''), (511, ''Network Authentication Required'')]"

definition StatusText :: "nat \<Rightarrow> string" where
  "StatusText code = (case map_of status_texts code of None \<Rightarrow> [] | Some t \<Rightarrow> t)"

text \<open>url.QueryEscape and its inverse, url.QueryUnescape, on bytes.\<close>
definition unreserved :: "char \<Rightarrow> bool" where
  "unreserved c = (let n = of_char c :: nat
     in (48 \<le> n \<and> n \<le> 57) \<or> (65 \<le> n \<and> n \<le> 90) \<or> (97 \<le> n \<and> n \<le> 122) \<or> n \<in> {45, 46, 95, 126})"

definition upper_hex :: "nat \<Rightarrow> char" where
  "upper_hex n = char_of (if n < 10 then 48 + n else 55 + n)"

definition escape_char :: "char \<Rightarrow> string" where
  "escape_char c =
     (if unreserved c then [c]
      else if c = CHR '' '' then ''+''
      else (let n = of_char c :: nat in [CHR 0x25, upper_hex (n div 16), upper_hex (n mod 16)]))"

definition QueryEscape :: "string \<Rightarrow> string" where
  "QueryEscape s = concat (map escape_char s)"

definition hex_value :: "char \<Rightarrow> nat" where
  "hex_value c = (let n = of_char c :: nat in if n < 58 then n - 48 else if n < 71 then n - 55 else n - 87)"

fun QueryUnescape :: "string \<Rightarrow> string" where
  "QueryUnescape (c # a # b # s) =
     (if c = CHR 0x25 then char_of (16 * hex_value a + hex_value b) # QueryUnescape s
      else (if c = CHR ''+'' then CHR '' '' else c) # QueryUnescape (a # b # s))"
| "QueryUnescape (c # s) = (if c = CHR ''+'' then CHR '' '' else c) # QueryUnescape s"
| "QueryUnescape [] = []"

section \<open>Requests\<close>

text \<open>IfMatch: the version quoted as an entity tag.\<close>
definition IfMatchHeader :: "int \<Rightarrow> string \<times> string" where
  "IfMatchHeader v = (''If-Match'', CHR 0x22 # itoa v @ [CHR 0x22])"

definition RawQuery :: "(string \<times> string) list \<Rightarrow> string" where
  "RawQuery pairs = join_with ''&'' (map (\<lambda>(n, v). n @ ''='' @ QueryEscape v) pairs)"

text \<open>A request's body as Do is given it: none, bytes, a string, or a value to encode.\<close>
datatype 'v body_arg = NilBody | BytesBody string | StringBody string | ValueBody 'v

text \<open>What Do sends for it; an empty byte or string body is none.\<close>
fun body_bytes :: "('v \<Rightarrow> string result) \<Rightarrow> 'v body_arg \<Rightarrow> string option result" where
  "body_bytes encode NilBody = Inr None"
| "body_bytes encode (BytesBody b) = Inr (if b = [] then None else Some b)"
| "body_bytes encode (StringBody b) = Inr (if b = [] then None else Some b)"
| "body_bytes encode (ValueBody v) = (case encode v of Inl e \<Rightarrow> Inl e | Inr b \<Rightarrow> Inr (Some b))"

type_synonym header_map = "string \<Rightarrow> string option"

definition header_set :: "header_map \<Rightarrow> string \<times> string \<Rightarrow> header_map" where
  "header_set m h = m(lower (fst h) \<mapsto> snd h)"

definition header_get :: "header_map \<Rightarrow> string \<Rightarrow> string" where
  "header_get m n = (case m (lower n) of None \<Rightarrow> [] | Some v \<Rightarrow> v)"

text \<open>The headers sent: the content type of a body, then the caller's in order.\<close>
definition sent_headers :: "string option \<Rightarrow> (string \<times> string) list \<Rightarrow> header_map" where
  "sent_headers b hs =
     foldl header_set (if b \<noteq> None then header_set Map.empty (''Content-Type'', ''application/json'') else Map.empty) hs"

section \<open>Responses\<close>

record response_seen =
  rp_status :: nat
  rp_header :: header_map
  rp_body :: string

text \<open>The transport, by where it fails.\<close>
datatype exchange = BuildFails err | SendFails err | ReadFails err | Answered response_seen

definition Client_Do ::
    "('v \<Rightarrow> string result) \<Rightarrow> (string \<Rightarrow> string \<Rightarrow> string option \<Rightarrow> header_map \<Rightarrow> exchange) \<Rightarrow> string
     \<Rightarrow> string \<Rightarrow> string \<Rightarrow> 'v body_arg \<Rightarrow> (string \<times> string) list \<Rightarrow> response_seen result" where
  "Client_Do encode transport base verb path b hs =
     (let at = verb @ '' '' @ path
      in case body_bytes encode b of
           Inl e \<Rightarrow> Inl (wrapf (at @ '': encode body'') e)
         | Inr sent \<Rightarrow>
             (case transport verb (base @ path) sent (sent_headers sent hs) of
                BuildFails e \<Rightarrow> Inl (wrapf (at @ '': build request'') e)
              | SendFails e \<Rightarrow> Inl (wrapf at e)
              | ReadFails e \<Rightarrow> Inl (wrapf (at @ '': read body'') e)
              | Answered r \<Rightarrow> Inr r))"

text \<open>NewClient binds to the URL without its trailing slashes.\<close>
definition NewClient :: "string \<Rightarrow> string" where
  "NewClient base = rev (dropWhile (\<lambda>c. c = CHR ''/'') (rev base))"

definition Expect :: "response_seen \<Rightarrow> nat \<Rightarrow> err option" where
  "Expect r code =
     (if rp_status r = code then None
      else Some (plain (''status = '' @ decimal (rp_status r) @ '' '' @ StatusText (rp_status r) @ '', want '' @ decimal code
              @ ''; body: '' @ rp_body r)))"

definition trace_id_char :: "char \<Rightarrow> bool" where
  "trace_id_char c = (let n = of_char c :: nat in (48 \<le> n \<and> n \<le> 57) \<or> (97 \<le> n \<and> n \<le> 102))"

definition TraceID :: "response_seen \<Rightarrow> string result" where
  "TraceID r =
     (let i = header_get (rp_header r) ''X-Request-Id''
      in if i = [] then Inl (plain ''the response carries no X-Request-Id header'')
         else if \<not> (length i = 32 \<and> list_all trace_id_char i)
         then Inl (plain (''X-Request-Id = '' @ quoted i @ '', which is not a trace id (32 lowercase hex characters)''))
         else Inr i)"

text \<open>A decoded problem document, with the members the report prints.\<close>
record problem_doc =
  pd_status :: nat
  pd_title :: string
  pd_detail :: string
  pd_instance :: string
  pd_type :: string
  pd_extras :: "(string \<times> string) list"

definition ProblemMediaType :: string where
  "ProblemMediaType = ''application/problem+json''"

definition Problem ::
    "(string \<Rightarrow> string result) \<Rightarrow> (string \<Rightarrow> problem_doc result) \<Rightarrow> response_seen \<Rightarrow> nat \<Rightarrow> problem_doc result" where
  "Problem media decode r code =
     (case Expect r code of
        Some e \<Rightarrow> Inl e
      | None \<Rightarrow>
          (let ct = header_get (rp_header r) ''Content-Type''
           in if media ct \<noteq> Inr ProblemMediaType
              then Inl (plain (''Content-Type = '' @ quoted ct @ '', want '' @ ProblemMediaType @ ''; body: '' @ rp_body r))
              else (case decode (rp_body r) of
                      Inl e \<Rightarrow> Inl (Err Wrapped (''decode body: '' @ error_text e @ ''; body: '' @ rp_body r) [e])
                    | Inr p \<Rightarrow>
                        if pd_status p \<noteq> code
                        then Inl (plain (''the problem document says status '' @ decimal (pd_status p) @ '', but the response is ''
                                @ decimal code @ ''; body: '' @ rp_body r))
                        else Inr p)))"

text \<open>Probe: a status other than 200 is an error naming it, and nothing answering the
  transport's.\<close>
definition Probe :: "string \<Rightarrow> nat result \<Rightarrow> err option" where
  "Probe path answered =
     (case answered of
        Inl e \<Rightarrow> Some e
      | Inr code \<Rightarrow> if code = 200 then None
                   else Some (plain (''GET '' @ path @ '': status '' @ decimal code @ '' '' @ StatusText code)))"

section \<open>The metrics store\<close>

text \<open>A series of an instant query: its labels, the time of its evaluation in Unix
  milliseconds, and its value.\<close>
record 'v sample =
  sa_labels :: "(string \<times> string) list"
  sa_time :: int
  sa_value :: 'v

text \<open>The value pair of an entry, as any: a number by its literal, a string, or another
  value by the text %v prints of it.\<close>
datatype any_value = AnyNumber string | AnyString string | AnyOther string

fun any_text :: "any_value \<Rightarrow> string" where
  "any_text (AnyNumber s) = s"
| "any_text (AnyString s) = s"
| "any_text (AnyOther s) = s"

record vector_response =
  vr_status :: string
  vr_error :: string
  vr_type :: string
  vr_result :: "((string \<times> string) list \<times> any_value \<times> any_value) list"

text \<open>The entries decoded in order, up to the first that is not a sample. millis is the
  time's conversion, parse strconv.ParseFloat.\<close>
fun decode_entries ::
    "(string \<Rightarrow> int) \<Rightarrow> (string \<Rightarrow> 'v result) \<Rightarrow> ((string \<times> string) list \<times> any_value \<times> any_value) list
     \<Rightarrow> 'v sample list result" where
  "decode_entries millis parse [] = Inr []"
| "decode_entries millis parse ((labels, at, v) # es) =
     (case at of
        AnyNumber t \<Rightarrow>
          (case v of
             AnyString txt \<Rightarrow>
               (case parse txt of
                  Inl e \<Rightarrow> Inl (wrapf (''sample value '' @ quoted txt) e)
                | Inr x \<Rightarrow>
                    (case decode_entries millis parse es of
                       Inl e \<Rightarrow> Inl e
                     | Inr xs \<Rightarrow> Inr (\<lparr>sa_labels = labels, sa_time = millis t, sa_value = x\<rparr> # xs)))
           | _ \<Rightarrow> Inl (plain (''sample value '' @ any_text v @ '' is not a string'')))
      | _ \<Rightarrow> Inl (plain (''sample time '' @ any_text at @ '' is not a number'')))"

definition decodeVector ::
    "(string \<Rightarrow> vector_response result) \<Rightarrow> (string \<Rightarrow> int) \<Rightarrow> (string \<Rightarrow> 'v result) \<Rightarrow> string \<Rightarrow> 'v sample list result" where
  "decodeVector decode millis parse body =
     (case decode body of
        Inl e \<Rightarrow> Inl (Err Wrapped (''decode: '' @ error_text e @ ''; body: '' @ body) [e])
      | Inr r \<Rightarrow>
          if vr_status r \<noteq> ''success'' then Inl (plain (''status '' @ quoted (vr_status r) @ '': '' @ vr_error r))
          else if vr_type r \<noteq> ''vector'' then Inl (plain (''result type '' @ quoted (vr_type r) @ '', want vector''))
          else decode_entries millis parse (vr_result r))"

definition mimirQueryRoute :: string where
  "mimirQueryRoute = ''/api/datasources/proxy/uid/mimir/api/v1/query''"

text \<open>Query, over what Grafana answers a GET with.\<close>
definition mimir_Query ::
    "(string \<Rightarrow> response_seen result) \<Rightarrow> (string \<Rightarrow> 'v sample list result) \<Rightarrow> string \<Rightarrow> 'v sample list result" where
  "mimir_Query get vector promql =
     (case get (mimirQueryRoute @ ''?query='' @ QueryEscape promql) of
        Inl e \<Rightarrow> Inl e
      | Inr res \<Rightarrow>
          (case Expect res 200 of
             Some e \<Rightarrow> Inl (wrapf (''query '' @ promql) e)
           | None \<Rightarrow>
               (case vector (rp_body res) of
                  Inl e \<Rightarrow> Inl (wrapf (''query '' @ promql) e)
                | Inr samples \<Rightarrow> Inr samples)))"

section \<open>The poll of a metric\<close>

text \<open>Await's turns: the n-th query, what remains of the limit when it is read after it, and
  the context's error if it ends before the next.\<close>
record 'a poll =
  po_query :: "nat \<Rightarrow> 'a result"
  po_remaining :: "nat \<Rightarrow> int"
  po_done :: "nat \<Rightarrow> err option"

partial_function (option) await_from :: "'a poll \<Rightarrow> ('a \<Rightarrow> bool) \<Rightarrow> err \<Rightarrow> nat \<Rightarrow> 'a result option" where
  "await_from p until not_met n =
     (case po_query p n of
        Inl e \<Rightarrow> Some (Inl e)
      | Inr x \<Rightarrow>
          if until x then Some (Inr x)
          else if po_remaining p n \<le> 0 then Some (Inl not_met)
          else (case po_done p n of Some e \<Rightarrow> Some (Inl e) | None \<Rightarrow> await_from p until not_met (Suc n)))"

definition Await :: "'a poll \<Rightarrow> string \<Rightarrow> string \<Rightarrow> ('a \<Rightarrow> bool) \<Rightarrow> 'a result option" where
  "Await p promql limit until = await_from p until (plain (promql @ '': not met within '' @ limit)) 0"

section \<open>The query as the service reads it\<close>

text \<open>url.ParseQuery: the pairs of the parts, in order, an empty part skipped.\<close>
definition parse_query :: "string \<Rightarrow> (string \<times> string) list" where
  "parse_query q =
     map (\<lambda>part. case cut_at (CHR ''='') part of (n, v, _) \<Rightarrow> (QueryUnescape n, QueryUnescape v))
       (filter (\<lambda>part. part \<noteq> []) (split_at (CHR ''&'') q))"

definition plain_name :: "string \<Rightarrow> bool" where
  "plain_name n \<longleftrightarrow> list_all (\<lambda>c. c \<notin> {CHR 0x25, CHR ''+'', CHR ''&'', CHR ''='', CHR '';'', CHR 0x23}) n"

lemma unescape_plain: "c \<noteq> CHR 0x25 \<Longrightarrow> c \<noteq> CHR ''+'' \<Longrightarrow> QueryUnescape (c # s) = c # QueryUnescape s"
  by (cases s; cases "tl s") auto

lemma unescape_plus: "QueryUnescape (CHR ''+'' # s) = CHR '' '' # QueryUnescape s"
  by (cases s; cases "tl s") auto

lemma hex_round: "n < 16 \<Longrightarrow> hex_value (upper_hex n) = n"
  by (auto simp: hex_value_def upper_hex_def Let_def)

lemma unescape_escape_char: "QueryUnescape (escape_char c @ s) = c # QueryUnescape s"
proof (cases "unreserved c")
  case True
  then have "c \<noteq> CHR 0x25" "c \<noteq> CHR ''+''" by (auto simp: unreserved_def)
  with True show ?thesis by (simp add: escape_char_def unescape_plain)
next
  case False
  have "(of_char c :: nat) < 256" by simp
  then have "(of_char c :: nat) div 16 < 16"
    using less_mult_imp_div_less [of "of_char c" 16 16] by simp
  with False show ?thesis
    by (simp add: escape_char_def unescape_plus Let_def hex_round)
qed

lemma unescape_QueryEscape: "QueryUnescape (QueryEscape s) = s"
proof -
  have "QueryUnescape (concat (map escape_char s) @ []) = s @ QueryUnescape []"
    by (induction s) (simp_all add: unescape_escape_char)
  then show ?thesis by (simp add: QueryEscape_def)
qed

lemma unescape_name: "plain_name n \<Longrightarrow> QueryUnescape n = n"
proof (induction n)
  case (Cons c n)
  then show ?case using unescape_plain [of c n] by (simp add: plain_name_def)
qed simp

end
