(* ===== verification/SlabInput.thy ===== *)
theory SlabInput
  imports SlabHttp OrgEntities "HOL-Library.List_Lexorder" "HOL-Library.Char_ord"
begin

text \<open>
  tools/slab/input: what a direct command sends, its body and the version its
  precondition carries, and the query of a collection read. The flags given are a
  predicate on their names; a --body text arrives with the JSON it parses to.
\<close>

section \<open>Numbers\<close>

definition is_digit :: "char \<Rightarrow> bool" where
  "is_digit c = (let n = of_char c :: nat in 48 \<le> n \<and> n \<le> 57)"

definition digits_value :: "string \<Rightarrow> nat" where
  "digits_value s = foldl (\<lambda>v c. 10 * v + (of_char c - 48)) 0 s"

text \<open>strconv.ParseInt(s, 10, 64) on a JSON number's literal.\<close>
definition parse_int64 :: "string \<Rightarrow> int option" where
  "parse_int64 s =
     (let ds = (case s of c # cs \<Rightarrow> if c = CHR ''-'' then cs else s | [] \<Rightarrow> []);
          v = (if ds \<noteq> s then - int (digits_value ds) else int (digits_value ds))
      in if ds = [] \<or> \<not> list_all is_digit ds \<or> v < - (2 ^ 63) \<or> v \<ge> 2 ^ 63 then None else Some v)"

text \<open>json.Unmarshal into an int64 that holds a value: null leaves it.\<close>
fun unmarshal_int64 :: "json \<Rightarrow> int \<Rightarrow> int option" where
  "unmarshal_int64 JNull v = Some v"
| "unmarshal_int64 (JNumber s) v = parse_int64 s"
| "unmarshal_int64 _ v = None"

section \<open>Bodies\<close>

text \<open>What is sent: the --body text as given, or a value marshaled.\<close>
datatype body_sent = Verbatim string | Marshalled json

definition Body :: "bool \<Rightarrow> string \<Rightarrow> json result \<Rightarrow> body_sent result" where
  "Body body_given raw from_flags =
     (if body_given then Inr (Verbatim raw)
      else (case from_flags of Inl e \<Rightarrow> Inl e | Inr v \<Rightarrow> Inr (Marshalled v)))"

text \<open>A member of an object, of a repeated key the last.\<close>
definition member_of :: "(string \<times> json) list \<Rightarrow> string \<Rightarrow> json option" where
  "member_of ms k = map_of (rev ms) k"

text \<open>A map of members without a key, as it marshals: each key once, in order.\<close>
definition without :: "string \<Rightarrow> (string \<times> json) list \<Rightarrow> (string \<times> json) list" where
  "without k ms = map (\<lambda>n. (n, the (member_of ms n))) (sort (remdups (filter (\<lambda>n. n \<noteq> k) (map fst ms))))"

text \<open>GuardedBody, over whether --body and --version were given, the --body text and what
  it parses to, the --version value, zero when it was not given, and the body the field
  flags build. print is the text a JSON value had.\<close>
definition GuardedBody ::
    "(json \<Rightarrow> string) \<Rightarrow> bool \<Rightarrow> bool \<Rightarrow> string \<Rightarrow> json result \<Rightarrow> int \<Rightarrow> json result \<Rightarrow> (body_sent \<times> int) result" where
  "GuardedBody print body_given version_given raw parsed version from_flags =
     (if \<not> body_given
      then if \<not> version_given then Inl (plain ''required flag --version not set'')
           else (case from_flags of Inl e \<Rightarrow> Inl e | Inr v \<Rightarrow> Inr (Marshalled v, version))
      else (case (case parsed of Inl e \<Rightarrow> Inl e | Inr j \<Rightarrow> raw_object j) of
              Inl e \<Rightarrow> Inl (wrapf ''--body is not a JSON object'' e)
            | Inr ms \<Rightarrow>
                (case member_of ms ''version'' of
                   None \<Rightarrow>
                     if \<not> version_given
                     then Inl (plain (''--version is required, as the flag or as a top-level '' @ quoted ''version'' @ '' number in --body''))
                     else Inr (Verbatim raw, version)
                 | Some embedded \<Rightarrow>
                     (let body = Marshalled (JObject (without ''version'' ms))
                      in if version_given then Inr (body, version)
                         else (case unmarshal_int64 embedded version of
                                 None \<Rightarrow> Inl (plain (''--body: '' @ quoted ''version'' @ '' is not an integer: '' @ print embedded))
                               | Some v \<Rightarrow> Inr (body, v))))))"

section \<open>The read flags\<close>

definition DefaultPageSize :: int where
  "DefaultPageSize = 20"

record read_flags =
  rf_page :: int
  rf_size :: int
  rf_sort :: string
  rf_cursor :: string
  rf_filters :: "string list"

fun filter_pairs :: "string list \<Rightarrow> (string \<times> string) list result" where
  "filter_pairs [] = Inr []"
| "filter_pairs (f # fs) =
     (case cut_at (CHR ''='') f of
        (name, v, _) \<Rightarrow>
          if name = [] then Inl (plain (''--filter '' @ quoted f @ '': want field=value, or field[op]=value''))
          else (case filter_pairs fs of Inl e \<Rightarrow> Inl e | Inr ps \<Rightarrow> Inr ((name, v) # ps)))"

definition flag_pairs :: "(string \<Rightarrow> bool) \<Rightarrow> read_flags \<Rightarrow> (string \<times> string) list" where
  "flag_pairs given r =
     (if given ''page'' then [(''page'', itoa (rf_page r))] else [])
     @ (if given ''cursor'' then [(''cursor'', rf_cursor r)] else [])
     @ (if given ''size'' then [(''size'', itoa (rf_size r))] else [])
     @ (if given ''sort'' then [(''sort'', rf_sort r)] else [])"

definition Query :: "(string \<Rightarrow> bool) \<Rightarrow> read_flags \<Rightarrow> (string \<times> string) list result" where
  "Query given r =
     (case filter_pairs (rf_filters r) of Inl e \<Rightarrow> Inl e | Inr ps \<Rightarrow> Inr (flag_pairs given r @ ps))"

section \<open>A number is read as it is printed\<close>

lemma digits_value_snoc: "digits_value (s @ [c]) = 10 * digits_value s + (of_char c - 48)"
  by (simp add: digits_value_def)

lemma digit_char: "n < 10 \<Longrightarrow> is_digit (char_of (48 + n :: nat)) \<and> of_char (char_of (48 + n) :: char) - 48 = (n :: nat)"
  by (simp add: is_digit_def Let_def)

lemma decimal_digits: "list_all is_digit (decimal n) \<and> decimal n \<noteq> [] \<and> digits_value (decimal n) = n"
proof (induction n rule: less_induct)
  case (less n)
  show ?case
  proof (cases "n < 10")
    case True
    with digit_char [OF True] show ?thesis by (simp add: decimal.simps [of n] digits_value_def)
  next
    case False
    with less.IH [of "n div 10"] have "list_all is_digit (decimal (n div 10))" "decimal (n div 10) \<noteq> []"
      "digits_value (decimal (n div 10)) = n div 10" by simp_all
    with False digit_char [of "n mod 10"] show ?thesis
      by (simp add: decimal.simps [of n] digits_value_snoc del: of_char_of)
  qed
qed

lemma decimal_no_sign: "decimal n = c # cs \<Longrightarrow> c \<noteq> CHR ''-''"
  using decimal_digits [of n] by (auto simp: is_digit_def)

lemma parse_unsigned:
  assumes "int n < 2 ^ 63"
  shows "parse_int64 (decimal n) = Some (int n)"
proof -
  obtain c cs where d: "decimal n = c # cs" using decimal_digits [of n] by (cases "decimal n") auto
  from decimal_no_sign [OF d] have "(case decimal n of c # cs \<Rightarrow> if c = CHR ''-'' then cs else decimal n | [] \<Rightarrow> []) = decimal n"
    by (simp add: d)
  with decimal_digits [of n] assms show ?thesis by (simp add: parse_int64_def Let_def)
qed

lemma parse_int64_itoa: "- (2 ^ 63) \<le> v \<Longrightarrow> v < 2 ^ 63 \<Longrightarrow> parse_int64 (itoa v) = Some v"
proof (cases "v < 0")
  case True
  assume r: "- (2 ^ 63) \<le> v" "v < 2 ^ 63"
  have "- int (digits_value (decimal (nat (- v)))) = v" using True decimal_digits [of "nat (- v)"] by simp
  with True r decimal_digits [of "nat (- v)"] show ?thesis
    by (simp add: parse_int64_def itoa_def Let_def)
next
  case False
  assume "- (2 ^ 63) \<le> v" "v < 2 ^ 63"
  with False parse_unsigned [of "nat v"] show ?thesis by (simp add: itoa_def)
qed

end
