(* ===== verification/SlabStyle.thy ===== *)
theory SlabStyle
  imports Prelude
begin

text \<open>
  tools/slab/style: the escapes a terminal's output is colored with, and the two
  formats colored, SQL and JSON. A text is the list of its characters; the JSON
  tokenizer is a parameter, given as the tokens it reports with their end offsets.
\<close>

section \<open>The escapes\<close>

definition ESC :: char where
  "ESC = CHR 0x1B"

definition ansiReset :: string where
  "ansiReset = ESC # ''[0m''"
definition ansiBold :: string where
  "ansiBold = ESC # ''[1m''"
definition ansiDim :: string where
  "ansiDim = ESC # ''[2m''"
definition ansiGreen :: string where
  "ansiGreen = ESC # ''[32m''"
definition ansiYellow :: string where
  "ansiYellow = ESC # ''[33m''"
definition ansiBlue :: string where
  "ansiBlue = ESC # ''[34m''"
definition ansiMagenta :: string where
  "ansiMagenta = ESC # ''[35m''"
definition ansiCyan :: string where
  "ansiCyan = ESC # ''[36m''"

lemmas ansi_defs = ansiReset_def ansiBold_def ansiDim_def ansiGreen_def ansiYellow_def ansiBlue_def
  ansiMagenta_def ansiCyan_def

record style =
  st_on :: bool

definition style_wrap :: "style \<Rightarrow> string \<Rightarrow> string \<Rightarrow> string" where
  "style_wrap s code t = (if \<not> st_on s \<or> t = [] then t else code @ t @ ansiReset)"

definition Bold :: "style \<Rightarrow> string \<Rightarrow> string" where
  "Bold s = style_wrap s ansiBold"
definition Dim :: "style \<Rightarrow> string \<Rightarrow> string" where
  "Dim s = style_wrap s ansiDim"
definition Heading :: "style \<Rightarrow> string \<Rightarrow> string" where
  "Heading s = style_wrap s (ansiBold @ ansiCyan)"
definition Caption :: "style \<Rightarrow> string \<Rightarrow> string" where
  "Caption s = style_wrap s ansiMagenta"
definition Key :: "style \<Rightarrow> string \<Rightarrow> string" where
  "Key s = style_wrap s ansiBlue"
definition Value :: "style \<Rightarrow> string \<Rightarrow> string" where
  "Value s = style_wrap s ansiGreen"
definition StatusLine :: "style \<Rightarrow> string \<Rightarrow> string" where
  "StatusLine s = style_wrap s (ansiBold @ ansiYellow)"

text \<open>ColorEnabled: of the flag, the variable NO_COLOR and whether the writer is a
  terminal.\<close>
definition ColorEnabled :: "bool \<Rightarrow> string \<Rightarrow> bool \<Rightarrow> bool" where
  "ColorEnabled no_color no_color_env terminal = (\<not> no_color \<and> no_color_env = [] \<and> terminal)"

section \<open>SQL\<close>

definition sqlKeywords :: "string list" where
  "sqlKeywords =
     [''SELECT'', ''FROM'', ''WHERE'', ''INSERT'', ''UPDATE'', ''DELETE'', ''SET'', ''JOIN'', ''ON'', ''AND'', ''OR'',
      ''ORDER'', ''BY'', ''GROUP'', ''LIMIT'', ''OFFSET'', ''VALUES'', ''INTO'', ''RETURNING'']"

definition sqlComment :: string where
  "sqlComment = ''--''"
definition sqlMarkerOpen :: string where
  "sqlMarkerOpen = ''{{''"
definition sqlMarkerClose :: string where
  "sqlMarkerClose = ''}}''"

definition isWordByte :: "char \<Rightarrow> bool" where
  "isWordByte c = (let n = of_char c :: nat
     in c = CHR ''_'' \<or> (48 \<le> n \<and> n \<le> 57) \<or> (97 \<le> n \<and> n \<le> 122) \<or> (65 \<le> n \<and> n \<le> 90))"

text \<open>The word held so far is flushed at each character that is no word's.\<close>
definition sql_flush :: "style \<Rightarrow> string \<Rightarrow> string" where
  "sql_flush s w = (if w = [] then [] else if w \<in> set sqlKeywords then Bold s w else w)"

fun sqlCode :: "style \<Rightarrow> string \<Rightarrow> string \<Rightarrow> string" where
  "sqlCode s w [] = sql_flush s w"
| "sqlCode s w (c # cs) =
     (if isWordByte c then sqlCode s (w @ [c]) cs else sql_flush s w @ c # sqlCode s [] cs)"

text \<open>strings.Index.\<close>
fun index_of :: "string \<Rightarrow> string \<Rightarrow> nat option" where
  "index_of p [] = (if p = [] then Some 0 else None)"
| "index_of p (c # cs) = (if has_prefix p (c # cs) then Some 0 else map_option Suc (index_of p cs))"

text \<open>The loop of sqlLine: the marker next on the line, if one is closed before any
  comment, and else the code up to the comment.\<close>
function sql_segments :: "style \<Rightarrow> string \<Rightarrow> string" where
  "sql_segments s l =
     (if l = [] then []
      else (let comment = index_of sqlComment l;
                marker = (case index_of sqlMarkerOpen l of
                            None \<Rightarrow> None
                          | Some i \<Rightarrow> (case index_of sqlMarkerClose (drop i l) of
                                         None \<Rightarrow> None
                                       | Some j \<Rightarrow> if (case comment of None \<Rightarrow> False | Some k \<Rightarrow> k < i) then None else Some (i, j)))
            in case marker of
                 None \<Rightarrow> (case comment of
                            None \<Rightarrow> sqlCode s [] l
                          | Some k \<Rightarrow> sqlCode s [] (take k l) @ Dim s (drop k l))
               | Some (i, j) \<Rightarrow>
                   sqlCode s [] (take i l) @ Value s (take (j + 2) (drop i l)) @ sql_segments s (drop (i + j + 2) l)))"
  by pat_completeness auto
termination
  by (relation "measure (\<lambda>(s, l). length l)") (auto split: option.splits if_splits)

declare sql_segments.simps [simp del]

definition sqlLine :: "style \<Rightarrow> string \<Rightarrow> string" where
  "sqlLine s l =
     (if has_prefix sqlComment (dropWhile (\<lambda>c. c = CHR '' '' \<or> c = CHR 0x09) l) then Dim s l else sql_segments s l)"

definition style_SQL :: "style \<Rightarrow> string \<Rightarrow> string" where
  "style_SQL s t =
     (if \<not> st_on s then t else join_with [CHR 0x0A] (map (sqlLine s) (split_at (CHR 0x0A) t)))"

section \<open>JSON\<close>

text \<open>encoding/json's tokens, as far as they are told apart.\<close>
datatype jtoken = OpenObject | OpenArray | Close | StringTok | NumberTok | LiteralTok

text \<open>A frame of the stack: whether it is an object, and whether its next scalar is a key.\<close>
type_synonym jframe = "bool \<times> bool"

fun top_wants_key :: "jframe list \<Rightarrow> bool" where
  "top_wants_key [] = False"
| "top_wants_key ((object, wantKey) # _) = (object \<and> wantKey)"

text \<open>After a scalar an object's frame turns over; after a container it wants a key.\<close>
fun turn_over :: "jframe list \<Rightarrow> jframe list" where
  "turn_over [] = []"
| "turn_over ((object, wantKey) # fs) = (object, if object then \<not> wantKey else wantKey) # fs"

fun want_key :: "jframe list \<Rightarrow> jframe list" where
  "want_key [] = []"
| "want_key ((object, wantKey) # fs) = (object, if object then True else wantKey) # fs"

definition json_space :: "char \<Rightarrow> bool" where
  "json_space c = (c \<in> {CHR '' '', CHR 0x09, CHR 0x0D, CHR 0x0A, CHR '':'', CHR '',''})"

definition json_literal :: "style \<Rightarrow> jframe list \<Rightarrow> jtoken \<Rightarrow> string \<Rightarrow> string" where
  "json_literal s stack k lit =
     (case k of
        StringTok \<Rightarrow> if top_wants_key stack then Key s lit else Value s lit
      | NumberTok \<Rightarrow> Value s lit
      | _ \<Rightarrow> lit)"

definition json_stack :: "jframe list \<Rightarrow> jtoken \<Rightarrow> jframe list" where
  "json_stack stack k =
     (case k of
        OpenObject \<Rightarrow> (True, True) # stack
      | OpenArray \<Rightarrow> (False, False) # stack
      | Close \<Rightarrow> want_key (tl stack)
      | _ \<Rightarrow> turn_over stack)"

text \<open>The loop over the tokens, from the offset copied so far and the output; at their end
  the tokenizer reports the end of the input, eof, or an error.\<close>
fun json_tokens :: "style \<Rightarrow> string \<Rightarrow> bool \<Rightarrow> jframe list \<Rightarrow> nat \<Rightarrow> string \<Rightarrow> (jtoken \<times> nat) list \<Rightarrow> string" where
  "json_tokens s t eof stack pos out [] = (if eof \<and> stack = [] then out @ drop pos t else t)"
| "json_tokens s t eof stack pos out ((k, end_at) # ks) =
     (let begin_at = pos + length (takeWhile json_space (take (end_at - pos) (drop pos t)))
      in if begin_at \<ge> end_at then t
         else json_tokens s t eof (json_stack stack k) end_at
                (out @ take (begin_at - pos) (drop pos t) @ json_literal s stack k (take (end_at - begin_at) (drop begin_at t))) ks)"

definition style_JSON :: "style \<Rightarrow> string \<Rightarrow> (jtoken \<times> nat) list \<Rightarrow> bool \<Rightarrow> string" where
  "style_JSON s t ks eof = (if \<not> st_on s then t else json_tokens s t eof [] 0 [] ks)"

section \<open>What a terminal shows\<close>

text \<open>The text without its escapes: from an escape to its final m.\<close>
fun after_m :: "string \<Rightarrow> string" where
  "after_m [] = []"
| "after_m (c # cs) = (if c = CHR ''m'' then cs else after_m cs)"

lemma after_m_length: "length (after_m cs) \<le> length cs"
  by (induction cs) auto

function shown :: "string \<Rightarrow> string" where
  "shown [] = []"
| "shown (c # cs) = (if c = ESC then shown (after_m cs) else c # shown cs)"
  by pat_completeness auto
termination
  by (relation "measure length") (auto simp: le_imp_less_Suc after_m_length)

lemma shown_plain: "ESC \<notin> set t \<Longrightarrow> shown (t @ r) = t @ shown r"
  by (induction t) auto

lemma shown_codes:
  "shown (ansiReset @ r) = shown r" "shown (ansiBold @ r) = shown r" "shown (ansiDim @ r) = shown r"
  "shown (ansiGreen @ r) = shown r" "shown (ansiYellow @ r) = shown r" "shown (ansiBlue @ r) = shown r"
  "shown (ansiMagenta @ r) = shown r" "shown (ansiCyan @ r) = shown r"
  by (simp_all add: ansi_defs)

text \<open>A style shows its text, whatever follows.\<close>
lemma shown_styles:
  assumes "ESC \<notin> set t"
  shows "shown (Bold s t @ r) = t @ shown r" "shown (Dim s t @ r) = t @ shown r" "shown (Heading s t @ r) = t @ shown r"
    "shown (Caption s t @ r) = t @ shown r" "shown (Key s t @ r) = t @ shown r" "shown (Value s t @ r) = t @ shown r"
    "shown (StatusLine s t @ r) = t @ shown r"
  using shown_plain [OF assms]
  by (simp_all add: Bold_def Dim_def Heading_def Caption_def Key_def Value_def StatusLine_def style_wrap_def shown_codes)

lemma shown_flush: "ESC \<notin> set w \<Longrightarrow> shown (sql_flush s w @ r) = w @ shown r"
  by (simp add: sql_flush_def shown_styles shown_plain)

lemma shown_sqlCode: "ESC \<notin> set w \<Longrightarrow> ESC \<notin> set l \<Longrightarrow> shown (sqlCode s w l @ r) = w @ l @ shown r"
  by (induction s w l rule: sqlCode.induct) (auto simp: shown_flush)

lemma shown_segments: "ESC \<notin> set l \<Longrightarrow> shown (sql_segments s l @ r) = l @ shown r"
proof (induction s l arbitrary: r rule: sql_segments.induct)
  case (1 s l)
  have pieces: "ESC \<notin> set (take n l)" "ESC \<notin> set (drop n l)" "ESC \<notin> set (take m (drop n l))" for n m
    using "1.prems" in_set_takeD in_set_dropD by metis+
  note code = shown_sqlCode [of "[]" _ s, simplified]
  show ?case
  proof (cases "l = []")
    case False
    define comment where "comment = index_of sqlComment l"
    define marker where "marker = (case index_of sqlMarkerOpen l of
        None \<Rightarrow> None
      | Some i \<Rightarrow> (case index_of sqlMarkerClose (drop i l) of
                     None \<Rightarrow> None
                   | Some j \<Rightarrow> if (case comment of None \<Rightarrow> False | Some k \<Rightarrow> k < i) then None else Some (i, j)))"
    note unfold = sql_segments.simps [of s l, folded comment_def marker_def] comment_def marker_def
    show ?thesis
    proof (cases marker)
      case None
      show ?thesis
        by (subst sql_segments.simps)
          (use None False pieces "1.prems" in \<open>simp add: Let_def marker_def [symmetric] comment_def [symmetric] code shown_styles
            split: option.splits\<close>)
    next
      case (Some ij)
      obtain i j where ij: "ij = (i, j)" by fastforce
      have rest: "shown (sql_segments s (drop (i + j + 2) l) @ r) = drop (i + j + 2) l @ shown r"
        using "1.IH" [OF False comment_def marker_def] Some ij pieces(2) by blast
      have join: "take i l @ take (j + 2) (drop i l) @ drop (i + j + 2) l = l"
        by (metis (no_types, lifting) add.assoc add.commute append_take_drop_id drop_drop)
      show ?thesis
        by (subst sql_segments.simps)
          (use Some ij False pieces rest join in \<open>simp add: Let_def marker_def [symmetric] comment_def [symmetric] code shown_styles\<close>)
    qed
  qed (simp add: sql_segments.simps)
qed

lemma shown_sqlLine: "ESC \<notin> set l \<Longrightarrow> shown (sqlLine s l @ r) = l @ shown r"
  by (simp add: sqlLine_def shown_styles shown_segments)

lemma shown_join:
  assumes "c \<noteq> ESC"
  shows "list_all (\<lambda>l. ESC \<notin> set l) ls \<Longrightarrow> shown (join_with [c] (map (sqlLine s) ls)) = join_with [c] ls"
proof (induction ls rule: induct_list012)
  case (2 l)
  with shown_sqlLine [of l s "[]"] show ?case by simp
next
  case (3 l l' ls)
  then show ?case using shown_sqlLine [of l s] assms by simp
qed simp

lemma set_split_at: "x \<in> set l \<Longrightarrow> l \<in> set (split_at c t) \<Longrightarrow> x \<in> set t"
proof (induction t arbitrary: l)
  case (Cons y t)
  then show ?case by (cases "split_at c t") (fastforce split: if_splits)+
qed simp

lemma shown_SQL: "ESC \<notin> set t \<Longrightarrow> shown (style_SQL s t) = t"
  using shown_plain [of t "[]"] shown_join [of "CHR 0x0A" "split_at (CHR 0x0A) t" s] set_split_at [of ESC _ "CHR 0x0A" t]
  by (auto simp: style_SQL_def join_split_at list_all_iff ESC_def)

lemma shown_literal: "ESC \<notin> set lit \<Longrightarrow> shown (json_literal s stack k lit @ r) = lit @ shown r"
  by (simp add: json_literal_def shown_styles shown_plain split: jtoken.splits)

lemma shown_tokens:
  assumes "ESC \<notin> set t"
  shows "list_all (\<lambda>(k, e). e \<le> length t) ks \<Longrightarrow> (\<And>r. shown (out @ r) = take pos t @ shown r)
    \<Longrightarrow> shown (json_tokens s t eof stack pos out ks) = t"
proof (induction ks arbitrary: stack pos out)
  case Nil
  have "ESC \<notin> set (drop pos t)" using assms in_set_dropD by metis
  with Nil.prems(2) assms shown_plain [of t "[]"] shown_plain [of "drop pos t" "[]"] show ?case by auto
next
  case (Cons ke ks)
  obtain k e where ke: "ke = (k, e)" by fastforce
  define b where "b = pos + length (takeWhile json_space (take (e - pos) (drop pos t)))"
  have plain: "shown (t @ []) = t @ shown []" using shown_plain [OF assms] .
  show ?case
  proof (cases "b \<ge> e")
    case True
    with plain ke show ?thesis by (simp add: b_def)
  next
    case False
    have free: "ESC \<notin> set (take n (drop m t))" for n m
      using assms in_set_takeD in_set_dropD by metis
    have "take (b - pos) (drop pos t) @ take (e - b) (drop b t) = take (e - pos) (drop pos t)"
    proof -
      have "pos \<le> b" by (simp add: b_def)
      then obtain d where d: "b = pos + d" using le_Suc_ex by blast
      with False obtain d' where "e = b + d'" by (metis le_Suc_ex nat_le_linear)
      with d have eq: "b - pos = d" "e - b = d'" "e - pos = d + d'" "drop b t = drop d (drop pos t)"
        by (simp_all add: add.commute)
      show ?thesis by (simp only: eq take_add)
    qed
    moreover have "take pos t @ take (e - pos) (drop pos t) = take e t"
    proof -
      have "pos \<le> e" using False by (simp add: b_def)
      then obtain d where "e = pos + d" using le_Suc_ex by blast
      then show ?thesis by (simp add: take_add)
    qed
    ultimately have "shown ((out @ take (b - pos) (drop pos t) @ json_literal s stack k (take (e - b) (drop b t))) @ r) = take e t @ shown r" for r
      using Cons.prems(2) shown_plain [OF free] shown_literal [OF free] by (simp add: append_assoc [symmetric] del: append_assoc)
        (simp)
    with Cons.IH Cons.prems(1) False ke show ?thesis by (simp add: b_def [symmetric] Let_def)
  qed
qed

end
