(* ===== verification/SlabRepo.thy ===== *)
theory SlabRepo
  imports Errors
begin

text \<open>
  tools/slab/repo and tools/slab/statement: the repository root found by walking up
  from a directory, and a statement found by its name. A directory is its path's
  segments from the filesystem root, and reading its go.mod is a parameter.
\<close>

section \<open>The repository root\<close>

definition Module :: string where
  "Module = ''github.com/standards-lab/go-web-service''"

definition ErrRootNotFound :: err where
  "ErrRootNotFound = Err (OtherKind ''repo.ErrNotFound'') (''repo: no go.mod declaring '' @ Module) []"

text \<open>What opening and scanning a go.mod gives: its lines, and the scan's error after them.\<close>
datatype go_mod = NoFile | OpenFails err | Lines "string list" "err option"

definition white_space :: "char \<Rightarrow> bool" where
  "white_space c = (c \<in> {CHR '' '', CHR 0x09, CHR 0x0A, CHR 0x0B, CHR 0x0C, CHR 0x0D})"

definition trim_chars :: "(char \<Rightarrow> bool) \<Rightarrow> string \<Rightarrow> string" where
  "trim_chars p s = rev (dropWhile p (rev (dropWhile p s)))"

text \<open>The module directive: the first line that is one decides.\<close>
fun module_directive :: "string list \<Rightarrow> string option" where
  "module_directive [] = None"
| "module_directive (l # ls) =
     (let t = trim_chars white_space l
      in if has_prefix ''module '' t \<or> has_prefix (''module'' @ [CHR 0x09]) t
         then Some (trim_chars (\<lambda>c. c = CHR 0x22) (trim_chars white_space (trim_prefix ''module'' t)))
         else module_directive ls)"

fun declares :: "go_mod \<Rightarrow> bool result" where
  "declares NoFile = Inr False"
| "declares (OpenFails e) = Inl e"
| "declares (Lines ls scan) =
     (case module_directive ls of
        Some m \<Rightarrow> Inr (m = Module)
      | None \<Rightarrow> (case scan of Some e \<Rightarrow> Inl e | None \<Rightarrow> Inr False))"

definition show_path :: "string list \<Rightarrow> string" where
  "show_path segs = ''/'' @ join_with ''/'' segs"

text \<open>Find's walk, over the reversed path: filepath.Dir drops the last segment, and the
  root is its own.\<close>
fun find_up :: "(string list \<Rightarrow> go_mod) \<Rightarrow> string list \<Rightarrow> string list \<Rightarrow> string list result" where
  "find_up fs start [] =
     (case declares (fs []) of
        Inl e \<Rightarrow> Inl (wrapf ''repo'' e)
      | Inr ok \<Rightarrow> if ok then Inr []
                  else Inl (Err Wrapped (error_text ErrRootNotFound @ '' above '' @ show_path start) [ErrRootNotFound]))"
| "find_up fs start (d # up) =
     (case declares (fs (rev (d # up))) of
        Inl e \<Rightarrow> Inl (wrapf ''repo'' e)
      | Inr ok \<Rightarrow> if ok then Inr (rev (d # up)) else find_up fs start up)"

definition repo_Find :: "(string list \<Rightarrow> go_mod) \<Rightarrow> string list result \<Rightarrow> string list result" where
  "repo_Find fs abs_dir =
     (case abs_dir of Inl e \<Rightarrow> Inl (wrapf ''repo'' e) | Inr dir \<Rightarrow> find_up fs dir (rev dir))"

text \<open>Root: the override, checked to be a root, or the walk from the working directory;
  absolute is filepath.Abs and wd os.Getwd.\<close>
definition repo_Root ::
    "(string list \<Rightarrow> go_mod) \<Rightarrow> (string \<Rightarrow> string list result) \<Rightarrow> string list result \<Rightarrow> string \<Rightarrow> string list result" where
  "repo_Root fs absolute wd override =
     (if override \<noteq> []
      then (case absolute override of
              Inl e \<Rightarrow> Inl (wrapf (''repo: --repo '' @ quoted override) e)
            | Inr dir \<Rightarrow>
                (case declares (fs dir) of
                   Inl e \<Rightarrow> Inl (wrapf (''repo: --repo '' @ show_path dir) e)
                 | Inr ok \<Rightarrow>
                     if ok then Inr dir
                     else Inl (plain (''repo: --repo '' @ show_path dir @ '': its go.mod does not declare module '' @ Module))))
      else (case wd of Inl e \<Rightarrow> Inl (wrapf ''repo'' e) | Inr dir \<Rightarrow> repo_Find fs (Inr dir)))"

section \<open>Statements\<close>

definition find_statement :: "(string \<times> 's) list \<Rightarrow> string \<Rightarrow> (string \<times> 's) result" where
  "find_statement stmts name =
     (case List.find (\<lambda>st. fst st = name) stmts of
        Some st \<Rightarrow> Inr st
      | None \<Rightarrow> Inl (plain (''no statement '' @ quoted name @ '' among the compiled statements'')))"

definition Placeholders :: "(nat \<Rightarrow> string) \<Rightarrow> string list \<Rightarrow> (string \<times> string) list" where
  "Placeholders placeholder names = map (\<lambda>(i, n). (placeholder (i + 1), n)) (List.enumerate 0 names)"

section \<open>The nearest root\<close>

text \<open>Which ancestors declare the module, as far as they read.\<close>
definition declaring :: "(string list \<Rightarrow> go_mod) \<Rightarrow> string list \<Rightarrow> bool" where
  "declaring fs dir = (declares (fs dir) = Inr True)"

definition readable :: "(string list \<Rightarrow> go_mod) \<Rightarrow> string list \<Rightarrow> bool" where
  "readable fs dir = (\<exists>b. declares (fs dir) = Inr b)"

lemma find_up_Inr:
  "find_up fs start r = Inr dir \<Longrightarrow>
     prefix dir (rev r) \<and> declaring fs dir \<and> (\<forall>d. prefix d (rev r) \<longrightarrow> length dir < length d \<longrightarrow> \<not> declaring fs d)"
proof (induction fs start r rule: find_up.induct)
  case (2 fs start d up)
  obtain ok where ok: "declares (fs (rev (d # up))) = Inr ok"
    using "2.prems" by (auto split: sum.splits)
  show ?case
  proof (cases ok)
    case True
    with "2.prems" ok have "dir = rev (d # up)" by (simp split: if_splits)
    with ok True show ?thesis by (auto simp: declaring_def dest: prefix_length_le)
  next
    case False
    with "2.prems" ok have *: "prefix dir (rev up) \<and> declaring fs dir
        \<and> (\<forall>e. prefix e (rev up) \<longrightarrow> length dir < length e \<longrightarrow> \<not> declaring fs e)"
      by (intro "2.IH") simp_all
    have "\<not> declaring fs (rev up @ [d])" using ok False by (simp add: declaring_def)
    with * show ?thesis by (auto simp: prefix_snoc)
  qed
qed (auto simp: declaring_def split: sum.splits if_splits)

lemma find_up_missing:
  "list_all (readable fs) (prefixes (rev r)) \<Longrightarrow> \<forall>d. prefix d (rev r) \<longrightarrow> \<not> declaring fs d
    \<Longrightarrow> \<exists>e. find_up fs start r = Inl e \<and> errors_is (OtherKind ''repo.ErrNotFound'') e"
proof (induction fs start r rule: find_up.induct)
  case (1 fs start)
  then show ?case
    by (auto simp: readable_def declaring_def ErrRootNotFound_def split: sum.splits)
next
  case (2 fs start d up)
  from "2.prems"(1) have "readable fs (rev (d # up))" by (simp add: list_all_iff)
  moreover from "2.prems"(2) have "\<not> declaring fs (rev (d # up))" by blast
  ultimately have ok: "declares (fs (rev (d # up))) = Inr False" by (auto simp: readable_def declaring_def)
  have "list_all (readable fs) (prefixes (rev up))" using "2.prems"(1) by (auto simp: list_all_iff)
  moreover have "\<forall>e. prefix e (rev up) \<longrightarrow> \<not> declaring fs e" using "2.prems"(2) by auto
  ultimately show ?case using "2.IH" [OF ok] ok by simp
qed

end
