(* ===== verification/SlabOutput.thy ===== *)
theory SlabOutput
  imports SlabStyle SlabHttp SlabRepo "HOL-Library.List_Lexorder" "HOL-Library.Char_ord"
begin

text \<open>
  tools/slab/output: the blocks a command and a scenario print, as text: aligned pairs,
  a request and a response, an object's headers, and the report of a problem document.
  encoding/json's Indent, its tokenizer and its Marshal are parameters.
\<close>

section \<open>Printing\<close>

text \<open>json.Indent, None for a text that is not JSON; the tokens of a text, and whether
  they end at the input's end; and json.Marshal's error or text.\<close>
record 'v printer =
  pr_indent :: "string \<Rightarrow> string option"
  pr_tokens :: "string \<Rightarrow> (jtoken \<times> nat) list \<times> bool"
  pr_encode :: "'v \<Rightarrow> string result"

definition line :: "string \<Rightarrow> string" where
  "line s = s @ [CHR 0x0A]"

definition print_JSON :: "'v printer \<Rightarrow> style \<Rightarrow> string \<Rightarrow> string" where
  "print_JSON p st t = (case pr_tokens p t of (ks, eof) \<Rightarrow> style_JSON st t ks eof)"

text \<open>aligned, and Table over it.\<close>
definition aligned_width :: "(string \<times> string) list \<Rightarrow> nat" where
  "aligned_width rows = foldl (\<lambda>w row. max w (length (fst row))) 0 rows"

definition aligned :: "style \<Rightarrow> (string \<times> string) list \<Rightarrow> string \<Rightarrow> string" where
  "aligned st rows sep =
     concat (map (\<lambda>row. line (Key st (fst row) @ replicate (aligned_width rows - length (fst row)) (CHR '' '') @ sep @ snd row)) rows)"

definition Table :: "style \<Rightarrow> (string \<times> string) list \<Rightarrow> string" where
  "Table st rows = aligned st rows ''  ''"

definition render_SQL :: "style \<Rightarrow> string \<Rightarrow> string" where
  "render_SQL st t = line (style_SQL st (rev (dropWhile (\<lambda>c. c = CHR 0x0A) (rev t))))"

definition render_JSON :: "'v printer \<Rightarrow> style \<Rightarrow> string \<Rightarrow> string" where
  "render_JSON p st raw = line (print_JSON p st (trim_chars white_space raw))"

definition trim_slashes :: "string \<Rightarrow> string" where
  "trim_slashes base = rev (dropWhile (\<lambda>c. c = CHR ''/'') (rev base))"

definition Trace :: "style \<Rightarrow> string \<Rightarrow> string \<Rightarrow> string \<Rightarrow> string" where
  "Trace st base service trace =
     aligned st [(''Grafana'', trim_slashes base @ ''/explore''), (''Service Name'', service), (''Trace ID'', trace)] '': ''"

definition Metrics :: "style \<Rightarrow> string \<Rightarrow> string \<Rightarrow> string \<Rightarrow> string" where
  "Metrics st base datasource promql =
     aligned st [(''Grafana'', trim_slashes base @ ''/explore''), (''Datasource'', datasource), (''PromQL'', promql)] '': ''"

section \<open>Requests and responses\<close>

definition writeHeader :: "style \<Rightarrow> string \<times> string \<Rightarrow> string" where
  "writeHeader st h = line (Key st (fst h) @ '': '' @ snd h)"

definition writeBody :: "'v printer \<Rightarrow> style \<Rightarrow> string \<Rightarrow> string" where
  "writeBody p st raw =
     (let body = trim_chars white_space raw
      in if body = [] then []
         else line [] @ (case pr_indent p body of None \<Rightarrow> line body | Some pretty \<Rightarrow> line (print_JSON p st pretty)))"

text \<open>hasHeader, the names compared as strings.EqualFold does on ASCII.\<close>
definition hasHeader :: "(string \<times> string) list \<Rightarrow> string \<Rightarrow> bool" where
  "hasHeader hs name = list_ex (\<lambda>h. lower (fst h) = lower name) hs"

definition requestContentType :: string where
  "requestContentType = ''Content-Type''"

text \<open>The headers Request shows of a body: the content type Do adds, then the caller's.\<close>
definition shown_request_headers :: "'v body_arg \<Rightarrow> (string \<times> string) list \<Rightarrow> (string \<times> string) list" where
  "shown_request_headers b hs =
     (if b \<noteq> NilBody \<and> \<not> hasHeader hs requestContentType then [(requestContentType, ''application/json'')] else []) @ hs"

fun shown_request_body :: "'v printer \<Rightarrow> style \<Rightarrow> 'v body_arg \<Rightarrow> string" where
  "shown_request_body p st NilBody = []"
| "shown_request_body p st (BytesBody b) = writeBody p st b"
| "shown_request_body p st (StringBody b) = writeBody p st b"
| "shown_request_body p st (ValueBody v) =
     writeBody p st (case pr_encode p v of Inr raw \<Rightarrow> raw | Inl e \<Rightarrow> ''(body does not encode: '' @ error_text e @ '')'')"

definition render_Request ::
    "'v printer \<Rightarrow> style \<Rightarrow> string \<Rightarrow> string \<Rightarrow> (string \<times> string) list \<Rightarrow> 'v body_arg \<Rightarrow> string" where
  "render_Request p st verb path hs b =
     line (StatusLine st (verb @ '' '' @ path)) @ concat (map (writeHeader st) (shown_request_headers b hs))
     @ shown_request_body p st b"

definition shownHeaders :: "string list" where
  "shownHeaders = [''Content-Type'', ''ETag'', ''Last-Modified'', ''Location'', ''Traceparent'', ''X-Request-Id'']"

definition present_headers :: "response_seen \<Rightarrow> string list \<Rightarrow> (string \<times> string) list" where
  "present_headers r names =
     filter (\<lambda>h. snd h \<noteq> []) (map (\<lambda>n. (n, header_get (rp_header r) n)) names)"

definition render_Response :: "'v printer \<Rightarrow> style \<Rightarrow> response_seen \<Rightarrow> string" where
  "render_Response p st r =
     (let hs = present_headers r shownHeaders
      in line (StatusLine st (''HTTP '' @ decimal (rp_status r) @ '' '' @ StatusText (rp_status r)))
         @ writeBody p st (rp_body r) @ (if hs = [] then [] else line []) @ concat (map (writeHeader st) hs))"

section \<open>A direct command's output\<close>

definition output_Status :: "style \<Rightarrow> nat \<Rightarrow> string list \<Rightarrow> string" where
  "output_Status st code ls =
     line (StatusLine st (decimal code @ '' '' @ StatusText code)) @ concat (map line ls)"

definition output_Response :: "'v printer \<Rightarrow> style \<Rightarrow> nat \<Rightarrow> string \<Rightarrow> string" where
  "output_Response p st code raw =
     (let body = trim_chars white_space raw
      in if body = [] then output_Status st code []
         else (case pr_indent p body of None \<Rightarrow> line body | Some pretty \<Rightarrow> line (print_JSON p st pretty)))"

definition objectHeaders :: "string list" where
  "objectHeaders = [''Content-Type'', ''Content-Length'', ''Content-Disposition'', ''ETag'', ''Last-Modified'',
     ''Cache-Control'', ''X-Content-Type-Options'']"

definition output_Object :: "style \<Rightarrow> response_seen \<Rightarrow> nat \<Rightarrow> string \<Rightarrow> string" where
  "output_Object st r n saved =
     line (StatusLine st (decimal (rp_status r) @ '' '' @ StatusText (rp_status r)))
     @ concat (map (\<lambda>h. line (fst h @ '': '' @ snd h)) (present_headers r objectHeaders))
     @ (if saved \<noteq> [] then line (decimal n @ '' bytes written to '' @ saved)
        else if n > 0 then line (decimal n @ '' bytes (--out saves them)'') else [])"

text \<open>Report.Error: one member to a line, the extension members by name, their values
  being text already.\<close>
definition report_lines :: "problem_doc \<Rightarrow> string list" where
  "report_lines p =
     [decimal (pd_status p) @ '' '' @ (if pd_title p = [] then StatusText (pd_status p) else pd_title p)]
     @ (if pd_detail p \<noteq> [] then [''detail: '' @ pd_detail p] else [])
     @ (if pd_instance p \<noteq> [] then [''instance: '' @ pd_instance p] else [])
     @ (if pd_type p \<noteq> [] \<and> pd_type p \<noteq> ''about:blank'' then [''type: '' @ pd_type p] else [])
     @ map (\<lambda>(k, v). k @ '': '' @ v) (sort_key fst (pd_extras p))"

definition report_Error :: "problem_doc \<Rightarrow> string" where
  "report_Error p = join_with [CHR 0x0A] (report_lines p)"

datatype command_error = Report problem_doc | Failed err

text \<open>output.Expect: the report of a problem document, or the response's own error.\<close>
definition output_Expect ::
    "(string \<Rightarrow> string result) \<Rightarrow> (string \<Rightarrow> problem_doc result) \<Rightarrow> response_seen \<Rightarrow> nat \<Rightarrow> command_error option" where
  "output_Expect media decode r code =
     (if rp_status r = code then None
      else (case Problem media decode r (rp_status r) of
              Inr p \<Rightarrow> Some (Report p)
            | Inl _ \<Rightarrow> map_option Failed (Expect r code)))"

text \<open>Source.Respond: the request's error, the unexpected status's, or the output.\<close>
definition Respond ::
    "(string \<Rightarrow> string result) \<Rightarrow> (string \<Rightarrow> problem_doc result) \<Rightarrow> 'v printer \<Rightarrow> style
     \<Rightarrow> response_seen result \<Rightarrow> nat \<Rightarrow> command_error + string" where
  "Respond media decode p st got code =
     (case got of
        Inl e \<Rightarrow> Inl (Failed e)
      | Inr r \<Rightarrow>
          (case output_Expect media decode r code of
             Some e \<Rightarrow> Inl e
           | None \<Rightarrow> Inr (output_Response p st (rp_status r) (rp_body r))))"

end
