(* ===== verification/SlabProperties.thy ===== *)
theory SlabProperties
  imports SlabInput SlabOutput
begin

text \<open>
  What the command line tool promises its reader and the service: color changes no
  character, a read's flags reach the service as given, a guarded command carries its
  version once, a poll ends, the nearest root is found, and a failure is never printed
  as a success.
\<close>

section \<open>Color\<close>

text \<open>Color changes nothing a reader sees: a terminal that interprets the escapes
  shows a colored SQL text and a colored JSON text exactly as they were, for any text
  without escapes of its own, and for JSON whatever tokens the tokenizer reports within
  the text, a document that breaks or ends early included.\<close>
theorem color_loses_nothing:
  assumes "ESC \<notin> set t" "list_all (\<lambda>(k, e). e \<le> length t) ks"
  shows "shown (style_SQL st t) = t \<and> shown (style_JSON st t ks eof) = t"
  using shown_SQL [OF assms(1)] shown_tokens [OF assms(1,2), of "[]" 0 st eof "[]"] shown_plain [OF assms(1), of "[]"]
  by (simp add: style_JSON_def)

theorem color_loses_nothing_witness:
  "shown (style_SQL \<lparr>st_on = True\<rparr> ''SELECT {{id}} -- one'') = ''SELECT {{id}} -- one''
   \<and> style_SQL \<lparr>st_on = True\<rparr> ''SELECT {{id}} -- one'' \<noteq> ''SELECT {{id}} -- one''"
proof
  show "shown (style_SQL \<lparr>st_on = True\<rparr> ''SELECT {{id}} -- one'') = ''SELECT {{id}} -- one''"
    by (rule color_loses_nothing [of _ "[]", THEN conjunct1]) (simp_all add: ESC_def)
  show "style_SQL \<lparr>st_on = True\<rparr> ''SELECT {{id}} -- one'' \<noteq> ''SELECT {{id}} -- one''"
    by (simp add: style_SQL_def sqlLine_def sql_segments.simps isWordByte_def has_prefix_def sqlComment_def
        sqlMarkerOpen_def sqlMarkerClose_def sql_flush_def sqlKeywords_def Bold_def style_wrap_def ansi_defs ESC_def Let_def)
qed

section \<open>A read's query\<close>

lemma escape_char_safe: "c \<in> set (escape_char d) \<Longrightarrow> c \<noteq> CHR ''&'' \<and> c \<noteq> CHR ''=''"
proof -
  assume "c \<in> set (escape_char d)"
  moreover have "upper_hex n \<noteq> CHR ''&'' \<and> upper_hex n \<noteq> CHR ''=''" if "n < 16" for n
    using that by (auto simp: upper_hex_def char_of_eq_iff take_bit_eq_mod)
  moreover have "(of_char d :: nat) div 16 < 16"
    using less_mult_imp_div_less [of "of_char d" 16 16] by simp
  ultimately show ?thesis
    by (auto simp: escape_char_def unreserved_def Let_def split: if_splits)
qed

lemma QueryEscape_safe: "CHR ''&'' \<notin> set (QueryEscape v)" "CHR ''='' \<notin> set (QueryEscape v)"
  using escape_char_safe by (auto simp: QueryEscape_def)

lemma plain_name_safe: "plain_name n \<Longrightarrow> CHR ''&'' \<notin> set n \<and> CHR ''='' \<notin> set n"
  by (auto simp: plain_name_def list_all_iff)

lemma parse_RawQuery:
  assumes "list_all (\<lambda>(n, v). plain_name n) ps"
  shows "parse_query (RawQuery ps) = ps"
proof (cases "ps = []")
  case True
  then show ?thesis by (simp add: parse_query_def RawQuery_def)
next
  case False
  let ?part = "\<lambda>(n, v). n @ ''='' @ QueryEscape v"
  have parts: "split_at (CHR ''&'') (RawQuery ps) = map ?part ps"
    unfolding RawQuery_def
  proof (rule split_at_join)
    show "\<forall>x\<in>set (map ?part ps). CHR ''&'' \<notin> set x"
      using assms plain_name_safe QueryEscape_safe(1) by (fastforce simp: list_all_iff)
  qed (use False in simp)
  have one: "(case cut_at (CHR ''='') (?part p) of (n, v, _) \<Rightarrow> (QueryUnescape n, QueryUnescape v)) = p"
    if "p \<in> set ps" for p
  proof -
    obtain n v where p: "p = (n, v)" by fastforce
    with that assms have n: "plain_name n" by (auto simp: list_all_iff)
    then have "CHR ''='' \<notin> set n" using plain_name_safe by blast
    then have "cut_at (CHR ''='') (n @ ''='' @ QueryEscape v) = (n, QueryEscape v, True)"
      using cut_at_found [of "CHR ''=''" n "QueryEscape v"] by simp
    with p show ?thesis by (simp add: unescape_name [OF n] unescape_QueryEscape)
  qed
  have "filter (\<lambda>part. part \<noteq> []) (map ?part ps) = map ?part ps"
    by (auto simp: filter_id_conv)
  with one show ?thesis unfolding parse_query_def parts by (simp add: map_idI)
qed

lemma filter_pairs_Inr:
  "filter_pairs fs = Inr ps \<Longrightarrow> ps = map (\<lambda>f. case cut_at (CHR ''='') f of (n, v, _) \<Rightarrow> (n, v)) fs
     \<and> list_all (\<lambda>(n, v). n \<noteq> []) ps"
  by (induction fs arbitrary: ps) (auto split: prod.splits if_splits sum.splits)

lemma flag_names_plain: "list_all (\<lambda>(n, v). plain_name n) (flag_pairs given r)"
  by (simp add: flag_pairs_def plain_name_def)

text \<open>C31. A read's flags reach the service as given: when the query is built and no
  filter's name holds a character the query syntax takes, what the service parses from
  the request's query is, of page, cursor, size and sort in this order, those the
  invocation was given, each under its name with its own value, the numbers in
  decimal; and then each filter's name and value as written, whatever characters the
  values hold.\<close>
theorem read_query_arrives:
  assumes "Query given r = Inr ps"
    and "list_all (\<lambda>f. plain_name (fst (cut_at (CHR ''='') f))) (rf_filters r)"
  shows "parse_query (RawQuery ps) =
    filter (\<lambda>(name, _). given name)
      [(''page'', itoa (rf_page r)), (''cursor'', rf_cursor r), (''size'', itoa (rf_size r)), (''sort'', rf_sort r)]
    @ map (\<lambda>f. case cut_at (CHR ''='') f of (n, v, _) \<Rightarrow> (n, v)) (rf_filters r)"
proof -
  from assms(1) obtain qs where qs: "filter_pairs (rf_filters r) = Inr qs" "ps = flag_pairs given r @ qs"
    by (auto simp: Query_def split: sum.splits)
  from filter_pairs_Inr [OF qs(1)]
  have eq: "qs = map (\<lambda>f. case cut_at (CHR ''='') f of (n, v, _) \<Rightarrow> (n, v)) (rf_filters r)" by simp
  have flags: "flag_pairs given r = filter (\<lambda>(name, _). given name)
      [(''page'', itoa (rf_page r)), (''cursor'', rf_cursor r), (''size'', itoa (rf_size r)), (''sort'', rf_sort r)]"
    by (simp add: flag_pairs_def)
  from assms(2) have "list_all (\<lambda>(n, v). plain_name n) qs"
    by (auto simp: eq list_all_iff split: prod.splits)
  with flag_names_plain qs(2) have "list_all (\<lambda>(n, v). plain_name n) ps" by simp
  from parse_RawQuery [OF this] show ?thesis by (simp only: qs(2) eq flags)
qed

definition demo_flags :: read_flags where
  "demo_flags = \<lparr>rf_page = 2, rf_size = 5, rf_sort = ''-name'', rf_cursor = [], rf_filters = [''code[like]=%o & p%'']\<rparr>"

lemma char_digits: "char_of (50 :: nat) = CHR ''2''" "char_of (53 :: nat) = CHR ''5''"
  by code_simp+

theorem read_query_arrives_witness:
  "parse_query (RawQuery (projr (Query (\<lambda>f. f \<in> {''page'', ''size'', ''sort''}) demo_flags))) =
     [(''page'', ''2''), (''size'', ''5''), (''sort'', ''-name''), (''code[like]'', ''%o & p%'')]"
proof -
  have q: "Query (\<lambda>f. f \<in> {''page'', ''size'', ''sort''}) demo_flags
      = Inr [(''page'', ''2''), (''size'', ''5''), (''sort'', ''-name''), (''code[like]'', ''%o & p%'')]"
    by (simp add: Query_def demo_flags_def flag_pairs_def itoa_def decimal.simps char_digits)
  have "list_all (\<lambda>f. plain_name (fst (cut_at (CHR ''='') f))) (rf_filters demo_flags)"
    by (simp add: demo_flags_def plain_name_def)
  from read_query_arrives [OF q this] have
    "parse_query (RawQuery [(''page'', ''2''), (''size'', ''5''), (''sort'', ''-name''), (''code[like]'', ''%o & p%'')])
       = [(''page'', ''2''), (''size'', ''5''), (''sort'', ''-name''), (''code[like]'', ''%o & p%'')]"
    by (simp add: demo_flags_def itoa_def decimal.simps char_digits)
  then show ?thesis by (simp only: q sum.sel)
qed

section \<open>A guarded command's version\<close>

text \<open>The body sent holds no version of its own.\<close>
fun versionless :: "body_sent \<Rightarrow> bool" where
  "versionless (Marshalled (JObject ms)) = (''version'' \<notin> fst ` set ms)"
| "versionless _ = True"

text \<open>A guarded command carries one version: a body given as text sends its top-level
  version in the precondition and never in the body; the flag wins over it; a body
  without one is sent verbatim under the flag's; and the version is the flag's, the
  member's number, or, for a member that is null, the zero the flag was left at.\<close>
theorem guarded_version_once:
  assumes "GuardedBody print True version_given raw parsed v from_flags = Inr (body, sent)"
    and "parsed = Inr (JObject ms)"
  shows "if ''version'' \<notin> fst ` set ms then version_given \<and> body = Verbatim raw \<and> sent = v
    else versionless body \<and> body = Marshalled (JObject (without ''version'' ms))
      \<and> (if version_given then sent = v
         else (member_of ms ''version'' = Some JNull \<and> sent = v)
            \<or> (\<exists>n. member_of ms ''version'' = Some (JNumber n) \<and> parse_int64 n = Some sent))"
proof -
  have none: "member_of ms ''version'' = None \<longleftrightarrow> ''version'' \<notin> fst ` set ms"
    by (simp add: member_of_def map_of_eq_None_iff)
  have num: "unmarshal_int64 j v = Some sent \<Longrightarrow> (j = JNull \<and> sent = v) \<or> (\<exists>n. j = JNumber n \<and> parse_int64 n = Some sent)" for j
    by (cases j) auto
  show ?thesis
  proof (cases "member_of ms ''version''")
    case None
    with assms none show ?thesis by (auto simp: GuardedBody_def split: if_splits)
  next
    case (Some j)
    with assms none num [of j] show ?thesis
      by (auto simp: GuardedBody_def Let_def without_def split: if_splits option.splits)
  qed
qed

theorem guarded_version_once_witness:
  "GuardedBody (\<lambda>_. []) True False ''text'' (Inr (JObject [(''name'', JString ''y''), (''version'', JNumber ''4'')])) 0 (Inl (plain []))
     = Inr (Marshalled (JObject [(''name'', JString ''y'')]), 4)
   \<and> versionless (Marshalled (JObject [(''name'', JString ''y'')]))"
proof -
  have run: "GuardedBody (\<lambda>_. []) True False ''text'' (Inr (JObject [(''name'', JString ''y''), (''version'', JNumber ''4'')])) 0 (Inl (plain []))
     = Inr (Marshalled (JObject [(''name'', JString ''y'')]), 4)"
    by (simp add: GuardedBody_def member_of_def without_def Let_def parse_int64_def is_digit_def digits_value_def)
  from guarded_version_once [OF run refl] have "versionless (Marshalled (JObject [(''name'', JString ''y'')]))"
    by (simp add: without_def)
  with run show ?thesis by simp
qed

text \<open>A null version is no version: nothing gave one, and the command is sent under zero
  rather than refused.\<close>
lemma null_version_sent:
  "GuardedBody print True False raw (Inr (JObject [(''version'', JNull)])) 0 from_flags = Inr (Marshalled (JObject []), 0)"
  by (simp add: GuardedBody_def member_of_def without_def Let_def)

section \<open>The poll, the root and the report\<close>

lemma await_from_returns:
  "po_remaining p (n + k) \<le> 0 \<Longrightarrow> \<exists>r. await_from p until e n = Some r"
proof (induction k arbitrary: n)
  case 0
  then show ?case by (subst await_from.simps) (auto split: sum.splits)
next
  case (Suc k)
  then have "\<exists>r. await_from p until e (Suc n) = Some r" by (intro Suc.IH) simp
  then show ?case by (subst await_from.simps) (auto split: sum.splits option.splits)
qed

lemma await_from_met:
  "await_from p until e n = Some (Inr x) \<Longrightarrow> n \<le> N \<Longrightarrow> po_remaining p N \<le> 0
     \<Longrightarrow> until x \<and> (\<exists>m \<le> N. n \<le> m \<and> po_query p m = Inr x
            \<and> (\<forall>k. n \<le> k \<and> k < m \<longrightarrow> (\<exists>y. po_query p k = Inr y \<and> \<not> until y)))"
proof (induction "N - n" arbitrary: n rule: less_induct)
  case less
  from less.prems(1) obtain y where y: "po_query p n = Inr y"
    by (subst (asm) await_from.simps) (auto split: sum.splits)
  show ?case
  proof (cases "until y")
    case True
    with less.prems(1) y have "x = y" by (subst (asm) await_from.simps) simp
    with True y less.prems(2) show ?thesis by auto
  next
    case False
    with less.prems(1) y have more: "\<not> po_remaining p n \<le> 0" "await_from p until e (Suc n) = Some (Inr x)"
      by (subst (asm) await_from.simps, simp split: if_splits option.splits)+
    with less.prems(3) have "n \<noteq> N" by blast
    with less.prems(2) have "Suc n \<le> N" by simp
    moreover from this have "N - Suc n < N - n" by simp
    ultimately obtain m where m: "until x" "m \<le> N" "Suc n \<le> m" "po_query p m = Inr x"
      "\<forall>k. Suc n \<le> k \<and> k < m \<longrightarrow> (\<exists>y. po_query p k = Inr y \<and> \<not> until y)"
      using less.hyps [OF _ more(2) _ less.prems(3)] by blast
    have "\<exists>y. po_query p k = Inr y \<and> \<not> until y" if "n \<le> k" "k < m" for k
      using that y False m(5) by (cases "k = n") auto
    with m show ?thesis by (metis Suc_leD)
  qed
qed

text \<open>The poll of a metric ends: once a turn's reading of the clock is past the limit
  the poll has returned, and what it returned with is samples that met the condition,
  read no later than that turn, or an error.\<close>
theorem await_ends:
  assumes "po_remaining p N \<le> 0"
  shows "\<exists>r. Await p promql limit until = Some r
    \<and> (case r of Inl _ \<Rightarrow> True | Inr x \<Rightarrow> until x \<and> (\<exists>m \<le> N. po_query p m = Inr x))"
proof -
  let ?e = "plain (promql @ '': not met within '' @ limit)"
  from await_from_returns [of p 0 N until ?e] assms obtain r where r: "await_from p until ?e 0 = Some r" by auto
  with await_from_met [of p until ?e 0 _ N] assms show ?thesis
    by (fastforce simp: Await_def split: sum.splits)
qed

definition demo_poll :: "nat poll" where
  "demo_poll = \<lparr>po_query = (\<lambda>n. Inr n), po_remaining = (\<lambda>n. 5 - int n), po_done = (\<lambda>_. None)\<rparr>"

theorem await_ends_witness:
  "\<exists>r. Await demo_poll ''up'' ''5s'' (\<lambda>x. x \<ge> 2) = Some r"
  using await_ends [of demo_poll 5 "''up''" "''5s''" "\<lambda>x. x \<ge> 2"] by (auto simp: demo_poll_def)

text \<open>The root found is the nearest ancestor that declares the module, and where every
  ancestor reads and none does the walk answers the sentinel.\<close>
lemma nearest_root:
  "repo_Find fs (Inr dir) = Inr root \<Longrightarrow>
     prefix root dir \<and> declaring fs root \<and> (\<forall>d. prefix d dir \<longrightarrow> length root < length d \<longrightarrow> \<not> declaring fs d)"
  "list_all (readable fs) (prefixes dir) \<Longrightarrow> \<forall>d. prefix d dir \<longrightarrow> \<not> declaring fs d
     \<Longrightarrow> \<exists>e. repo_Find fs (Inr dir) = Inl e \<and> errors_is (OtherKind ''repo.ErrNotFound'') e"
  using find_up_Inr [of fs dir "rev dir" root] find_up_missing [of fs "rev dir" dir] by (simp_all add: repo_Find_def)

text \<open>A command prints a response only under the status it expects; a problem document of
  another status is reported whole, and nothing else is.\<close>
lemma Respond_prints:
  "Respond media decode p st got code = Inr out \<Longrightarrow>
     \<exists>r. got = Inr r \<and> rp_status r = code \<and> out = output_Response p st code (rp_body r)"
  by (auto simp: Respond_def output_Expect_def Expect_def split: sum.splits option.splits if_splits)

lemma Respond_reports:
  assumes "Respond media decode p st (Inr r) code = Inl (Report d)"
  shows "rp_status r \<noteq> code \<and> pd_status d = rp_status r \<and> decode (rp_body r) = Inr d
    \<and> media (header_get (rp_header r) ''Content-Type'') = Inr ProblemMediaType"
  using assms
  by (auto simp: Respond_def output_Expect_def Problem_def Expect_def Let_def split: sum.splits option.splits if_splits)

text \<open>The request printed shows a content type for an empty text body, which Do sends none
  of.\<close>
lemma empty_body_shown:
  "shown_request_headers (BytesBody []) [] = [(''Content-Type'', ''application/json'')]"
  "body_bytes encode (BytesBody []) = Inr None" "sent_headers None [] = Map.empty"
  by (simp_all add: shown_request_headers_def requestContentType_def hasHeader_def sent_headers_def)

text \<open>For every other body it shows the headers that are sent.\<close>
lemma header_map_cons: "foldl header_set m hs (lower n) = (case List.find (\<lambda>h. lower (fst h) = lower n) (rev hs) of
    Some h \<Rightarrow> Some (snd h) | None \<Rightarrow> m (lower n))"
  by (induction hs rule: rev_induct) (auto simp: header_set_def)


end
