(* ===== verification/SlabClient.thy ===== *)
theory SlabClient
  imports SlabInput SlabOutput AppGraph
begin

text \<open>
  The clients of tools/slab: one request per endpoint of the organization, document,
  database admin and storage admin APIs, and how net/http's ServeMux reads a request's
  path against a pattern.
\<close>

section \<open>Paths\<close>

text \<open>url.PathEscape and url.PathUnescape, on bytes.\<close>
definition path_safe :: "char \<Rightarrow> bool" where
  "path_safe c = (unreserved c \<or> c \<in> {CHR ''$'', CHR ''&'', CHR ''+'', CHR '':'', CHR ''='', CHR ''@''})"

definition path_escape_char :: "char \<Rightarrow> string" where
  "path_escape_char c =
     (if path_safe c then [c]
      else (let n = of_char c :: nat in [CHR 0x25, upper_hex (n div 16), upper_hex (n mod 16)]))"

definition PathEscape :: "string \<Rightarrow> string" where
  "PathEscape s = concat (map path_escape_char s)"

fun PathUnescape :: "string \<Rightarrow> string" where
  "PathUnescape (c # a # b # s) =
     (if c = CHR 0x25 then char_of (16 * hex_value a + hex_value b) # PathUnescape s else c # PathUnescape (a # b # s))"
| "PathUnescape (c # s) = c # PathUnescape s"
| "PathUnescape [] = []"

section \<open>Requests\<close>

text \<open>A request: its method, path, query, body and headers beside the body's own.\<close>
record request =
  rq_verb :: string
  rq_path :: string
  rq_query :: string
  rq_body :: "body_sent option"
  rq_headers :: "(string \<times> string) list"

definition Request ::
    "string \<Rightarrow> string \<Rightarrow> string \<Rightarrow> body_sent option \<Rightarrow> (string \<times> string) list \<Rightarrow> request" where
  "Request verb path query body hs = \<lparr>rq_verb = verb, rq_path = path, rq_query = query, rq_body = body, rq_headers = hs\<rparr>"

definition etag_header :: "string \<Rightarrow> (string \<times> string) list" where
  "etag_header etag = (if etag \<noteq> [] then [(''If-None-Match'', etag)] else [])"

subsection \<open>Organizations\<close>

definition Organizations :: string where
  "Organizations = ''/api/organizations''"

definition organization_path :: "string \<Rightarrow> string" where
  "organization_path i = Organizations @ ''/'' @ PathEscape i"

definition client_List :: "(string \<times> string) list \<Rightarrow> request" where
  "client_List q = Request ''GET'' Organizations (if q \<noteq> [] then RawQuery q else []) None []"

definition client_Find :: "string \<Rightarrow> request" where
  "client_Find i = Request ''GET'' (organization_path i) [] None []"

definition client_FindByPath :: "string \<Rightarrow> request" where
  "client_FindByPath path =
     Request ''GET'' (Organizations @ ''/lookup'') (RawQuery [(''path'', ''/'' @ dropWhile (\<lambda>c. c = CHR ''/'') path)]) None []"

definition client_PutLogo :: "string \<Rightarrow> string \<Rightarrow> string \<Rightarrow> request" where
  "client_PutLogo i ct body =
     Request ''PUT'' (organization_path i @ ''/logo'') [] (Some (Verbatim body)) [(''Content-Type'', ct)]"

definition client_Logo :: "string \<Rightarrow> string \<Rightarrow> request" where
  "client_Logo i etag = Request ''GET'' (organization_path i @ ''/logo'') [] None (etag_header etag)"

definition client_DeleteLogo :: "string \<Rightarrow> request" where
  "client_DeleteLogo i = Request ''DELETE'' (organization_path i @ ''/logo'') [] None []"

definition client_Create :: "body_sent \<Rightarrow> request" where
  "client_Create body = Request ''POST'' Organizations [] (Some body) []"

definition client_Edit :: "string \<Rightarrow> int \<Rightarrow> body_sent \<Rightarrow> request" where
  "client_Edit i v body = Request ''PUT'' (organization_path i) [] (Some body) [IfMatchHeader v]"

definition client_Transfer :: "string \<Rightarrow> int \<Rightarrow> body_sent \<Rightarrow> request" where
  "client_Transfer i v body = Request ''POST'' (organization_path i @ ''/transfer'') [] (Some body) [IfMatchHeader v]"

definition client_Delete :: "string \<Rightarrow> int \<Rightarrow> request" where
  "client_Delete i v = Request ''DELETE'' (organization_path i) [] None [IfMatchHeader v]"

subsection \<open>Documents\<close>

definition Documents :: string where
  "Documents = ''/api/documents''"

definition directories_path :: "string \<Rightarrow> string" where
  "directories_path org = Documents @ ''/'' @ PathEscape org @ ''/directories''"

definition directory_path :: "string \<Rightarrow> string \<Rightarrow> string" where
  "directory_path org i = directories_path org @ ''/'' @ PathEscape i"

definition file_path :: "string \<Rightarrow> string \<Rightarrow> string" where
  "file_path org i = Documents @ ''/'' @ PathEscape org @ ''/files/'' @ PathEscape i"

definition with_query :: "(string \<times> string) list \<Rightarrow> string" where
  "with_query q = (if q = [] then [] else RawQuery q)"

definition client_CreateDirectory :: "string \<Rightarrow> body_sent \<Rightarrow> request" where
  "client_CreateDirectory org body = Request ''POST'' (directories_path org) [] (Some body) []"

definition client_Directory :: "string \<Rightarrow> string \<Rightarrow> request" where
  "client_Directory org i = Request ''GET'' (directory_path org i) [] None []"

definition client_ListDirectories :: "string \<Rightarrow> string \<Rightarrow> (string \<times> string) list \<Rightarrow> request" where
  "client_ListDirectories org i q = Request ''GET'' (directory_path org i @ ''/directories'') (with_query q) None []"

definition client_ListFiles :: "string \<Rightarrow> string \<Rightarrow> (string \<times> string) list \<Rightarrow> request" where
  "client_ListFiles org i q = Request ''GET'' (directory_path org i @ ''/files'') (with_query q) None []"

definition client_MoveDirectory :: "string \<Rightarrow> string \<Rightarrow> int \<Rightarrow> body_sent \<Rightarrow> request" where
  "client_MoveDirectory org i v body = Request ''POST'' (directory_path org i @ ''/move'') [] (Some body) [IfMatchHeader v]"

definition client_DeleteDirectory :: "string \<Rightarrow> string \<Rightarrow> int \<Rightarrow> bool \<Rightarrow> request" where
  "client_DeleteDirectory org i v recursive =
     Request ''DELETE'' (directory_path org i) (if recursive then ''recursive=true'' else []) None [IfMatchHeader v]"

text \<open>DirectoryAt follows a Location; parsed is what url.Parse reads of it, its escaped path
  and query.\<close>
definition client_DirectoryAt :: "(string \<Rightarrow> (string \<times> string) result) \<Rightarrow> string \<Rightarrow> request result" where
  "client_DirectoryAt parsed location =
     (case parsed location of
        Inl e \<Rightarrow> Inl (wrapf (''location '' @ quoted location) e)
      | Inr (p, q) \<Rightarrow> Inr (Request ''GET'' p q None []))"

definition client_UploadFile :: "string \<Rightarrow> string \<Rightarrow> string \<Rightarrow> string \<Rightarrow> string \<Rightarrow> request" where
  "client_UploadFile org dir name ct body =
     Request ''POST'' (directory_path org dir @ ''/files'') (''name='' @ QueryEscape name) (Some (Verbatim body)) [(''Content-Type'', ct)]"

definition client_File :: "string \<Rightarrow> string \<Rightarrow> request" where
  "client_File org i = Request ''GET'' (file_path org i) [] None []"

definition client_Content :: "string \<Rightarrow> string \<Rightarrow> string \<Rightarrow> request" where
  "client_Content org i etag = Request ''GET'' (file_path org i @ ''/content'') [] None (etag_header etag)"

definition client_MoveFile :: "string \<Rightarrow> string \<Rightarrow> int \<Rightarrow> body_sent \<Rightarrow> request" where
  "client_MoveFile org i v body = Request ''POST'' (file_path org i @ ''/move'') [] (Some body) [IfMatchHeader v]"

definition client_DeleteFile :: "string \<Rightarrow> string \<Rightarrow> int \<Rightarrow> request" where
  "client_DeleteFile org i v = Request ''DELETE'' (file_path org i) [] None [IfMatchHeader v]"

subsection \<open>Administration\<close>

definition DatabaseRoute :: string where
  "DatabaseRoute = ''/admin/database''"
definition StorageRoute :: string where
  "StorageRoute = ''/admin/storage''"

text \<open>The endpoints without input, and those whose body is sent as given.\<close>
datatype fixed_call = SchemaStatus | SchemaVerify | SchemaUp | Diagnose | Catalog | StatementsCall | StatesCall
  | StorageDiagnostics | StorageContainer

fun client_fixed :: "fixed_call \<Rightarrow> request" where
  "client_fixed SchemaStatus = Request ''GET'' (DatabaseRoute @ ''/schema'') [] None []"
| "client_fixed SchemaVerify = Request ''POST'' (DatabaseRoute @ ''/schema/verify'') [] None []"
| "client_fixed SchemaUp = Request ''POST'' (DatabaseRoute @ ''/schema/up'') [] None []"
| "client_fixed Diagnose = Request ''GET'' (DatabaseRoute @ ''/diagnostics'') [] None []"
| "client_fixed Catalog = Request ''GET'' (DatabaseRoute @ ''/patterns'') [] None []"
| "client_fixed StatementsCall = Request ''GET'' (DatabaseRoute @ ''/statements'') [] None []"
| "client_fixed StatesCall = Request ''GET'' (DatabaseRoute @ ''/states'') [] None []"
| "client_fixed StorageDiagnostics = Request ''GET'' (StorageRoute @ ''/diagnostics'') [] None []"
| "client_fixed StorageContainer = Request ''POST'' (StorageRoute @ ''/container'') [] None []"

datatype body_call = SchemaDown | SchemaSteps | SchemaForce | SeedCall | ResetCall

fun client_body :: "body_call \<Rightarrow> body_sent option \<Rightarrow> request" where
  "client_body SchemaDown b = Request ''POST'' (DatabaseRoute @ ''/schema/down'') [] b []"
| "client_body SchemaSteps b = Request ''POST'' (DatabaseRoute @ ''/schema/steps'') [] b []"
| "client_body SchemaForce b = Request ''POST'' (DatabaseRoute @ ''/schema/force'') [] b []"
| "client_body SeedCall b = Request ''POST'' (DatabaseRoute @ ''/seed'') [] b []"
| "client_body ResetCall b = Request ''POST'' (DatabaseRoute @ ''/state'') [] b []"

lemmas client_defs = client_List_def client_Find_def client_FindByPath_def client_PutLogo_def client_Logo_def
  client_DeleteLogo_def client_Create_def client_Edit_def client_Transfer_def client_Delete_def
  client_CreateDirectory_def client_Directory_def client_ListDirectories_def client_ListFiles_def
  client_MoveDirectory_def client_DeleteDirectory_def client_UploadFile_def client_File_def client_Content_def
  client_MoveFile_def client_DeleteFile_def
lemmas path_defs = organization_path_def Organizations_def directory_path_def directories_path_def file_path_def
  Documents_def DatabaseRoute_def StorageRoute_def

section \<open>How the service reads a path\<close>

text \<open>A pattern's segment in braces takes any segment of the path but the empty one and the
  two the path cleaning removes, and any other segment the one that reads as it once
  unescaped; the value is the segment unescaped.\<close>
fun match_segments :: "string list \<Rightarrow> string list \<Rightarrow> string list option" where
  "match_segments [] [] = Some []"
| "match_segments (p # ps) (s # ss) =
     (case match_segments ps ss of
        None \<Rightarrow> None
      | Some vs \<Rightarrow>
          if wild p
          then if s \<in> {[], ''.'', ''..''} then None else Some (PathUnescape s # vs)
          else if p = PathUnescape s then Some vs else None)"
| "match_segments _ _ = None"

text \<open>The routes of both mounts.\<close>
definition mounted :: "(string \<times> string) list" where
  "mounted =
     (under_group ''/api/organizations'' (org_routes :: (string \<times> string \<times> (unit, unit) org_route) list)
       @ under_group ''/api/documents'' (doc_routes :: (string \<times> string \<times> (unit, unit) doc_route) list)) @ mountAdmin"

lemma routes_mounted: "routes f = Some rs \<Longrightarrow> rs = mounted"
  by (auto simp: routes_def mountAPI_def mounted_def split: option.splits)

text \<open>The route a request takes: of the routes of its method whose pattern matches, the
  one every other one covers; with the path values its handler reads.\<close>
definition split_routes :: "(string \<times> string list) list" where
  "split_routes = map (\<lambda>(v, pat). (v, split_at (CHR ''/'') pat)) mounted"

definition candidates :: "string \<Rightarrow> string list \<Rightarrow> (string list \<times> string list) list" where
  "candidates verb ss =
     List.map_filter (\<lambda>(v, pat). if v = verb then map_option (Pair pat) (match_segments pat ss) else None) split_routes"

definition route_taken :: "request \<Rightarrow> (string list \<times> string list) option" where
  "route_taken rq =
     (let cs = candidates (rq_verb rq) (split_at (CHR ''/'') (rq_path rq)) in
      List.find (\<lambda>(p, _). list_all (\<lambda>(q, _). covers q p) cs) cs)"

section \<open>Escaping\<close>

lemma path_unescape_plain: "c \<noteq> CHR 0x25 \<Longrightarrow> PathUnescape (c # s) = c # PathUnescape s"
  by (cases s; cases "tl s") auto

lemma path_unescape_char: "PathUnescape (path_escape_char c @ s) = c # PathUnescape s"
proof (cases "path_safe c")
  case True
  then have "c \<noteq> CHR 0x25" by (auto simp: path_safe_def unreserved_def)
  with True show ?thesis by (simp add: path_escape_char_def path_unescape_plain)
next
  case False
  have "(of_char c :: nat) div 16 < 16"
    using less_mult_imp_div_less [of "of_char c" 16 16] by simp
  with False show ?thesis by (simp add: path_escape_char_def Let_def hex_round)
qed

lemma PathUnescape_PathEscape [simp]: "PathUnescape (PathEscape s) = s"
proof -
  have "PathUnescape (concat (map path_escape_char s) @ []) = s @ PathUnescape []"
    by (induction s) (simp_all add: path_unescape_char)
  then show ?thesis by (simp add: PathEscape_def)
qed

lemma upper_hex_slash: "n < 16 \<Longrightarrow> CHR ''/'' \<noteq> upper_hex n"
  by (auto simp: upper_hex_def char_of_eq_iff take_bit_eq_mod
      dest!: arg_cong [where f = "of_char :: char \<Rightarrow> nat"])

lemma path_escape_char_slash: "CHR ''/'' \<notin> set (path_escape_char c)"
proof (cases "path_safe c")
  case True
  then show ?thesis by (auto simp: path_escape_char_def path_safe_def unreserved_def)
next
  case False
  have "(of_char c :: nat) div 16 < 16"
    using less_mult_imp_div_less [of "of_char c" 16 16] by simp
  from False upper_hex_slash [OF this] upper_hex_slash [of "of_char c mod 16"]
  show ?thesis by (simp add: path_escape_char_def Let_def)
qed

lemma PathEscape_slash [simp]: "CHR ''/'' \<notin> set (PathEscape s)"
  using path_escape_char_slash by (auto simp: PathEscape_def)

text \<open>An id the path cleaning leaves alone.\<close>
definition segment :: "string \<Rightarrow> bool" where
  "segment s = (s \<notin> {[], ''.'', ''..''})"

lemma PathEscape_segment: "segment s \<Longrightarrow> PathEscape s \<notin> {[], ''.'', ''..''}"
proof
  assume "segment s" and t: "PathEscape s \<in> {[], ''.'', ''..''}"
  have "s = PathUnescape (PathEscape s)" by simp
  also have "\<dots> \<in> PathUnescape ` {[], ''.'', ''..''}" using t by (rule imageI)
  finally show False using \<open>segment s\<close> by (simp add: segment_def)
qed

end
