(* ===== verification/SlabClientProperties.thy ===== *)
theory SlabClientProperties
  imports SlabClient
begin

text \<open>
  The clients against the service's routes: every request a client builds takes the route
  it is meant for, and its path values are the client's arguments.
\<close>

section \<open>The mounted routes, by segments\<close>

text \<open>A path below a literal prefix, an escaped argument and a literal rest.\<close>
lemma split_escaped:
  "split_at (CHR ''/'') (PathEscape i) = [PathEscape i]"
  "split_at (CHR ''/'') (PathEscape i @ CHR ''/'' # t) = PathEscape i # split_at (CHR ''/'') t"
  by (simp_all add: split_at_no_sep split_at_append)

lemma unescape_no_percent: "CHR 0x25 \<notin> set s \<Longrightarrow> PathUnescape s = s"
  by (induction s) (auto simp: path_unescape_plain)

lemmas mounted_defs = mounted_def mountAdmin_def under_group_def org_routes_def doc_routes_def
  database_routes_def storage_routes_def

lemma split_routes_eq: "split_routes =
    [(''GET'', [[], ''api'', ''organizations'']),
     (''GET'', [[], ''api'', ''organizations'', ''{id}'']),
     (''GET'', [[], ''api'', ''organizations'', ''lookup'']),
     (''POST'', [[], ''api'', ''organizations'']),
     (''PUT'', [[], ''api'', ''organizations'', ''{id}'']),
     (''POST'', [[], ''api'', ''organizations'', ''{id}'', ''transfer'']),
     (''DELETE'', [[], ''api'', ''organizations'', ''{id}'']),
     (''PUT'', [[], ''api'', ''organizations'', ''{id}'', ''logo'']),
     (''GET'', [[], ''api'', ''organizations'', ''{id}'', ''logo'']),
     (''DELETE'', [[], ''api'', ''organizations'', ''{id}'', ''logo'']),
     (''POST'', [[], ''api'', ''documents'', ''{org}'', ''directories'']),
     (''GET'', [[], ''api'', ''documents'', ''{org}'', ''directories'', ''{id}'']),
     (''GET'', [[], ''api'', ''documents'', ''{org}'', ''directories'', ''{id}'', ''directories'']),
     (''GET'', [[], ''api'', ''documents'', ''{org}'', ''directories'', ''{id}'', ''files'']),
     (''DELETE'', [[], ''api'', ''documents'', ''{org}'', ''directories'', ''{id}'']),
     (''POST'', [[], ''api'', ''documents'', ''{org}'', ''directories'', ''{id}'', ''move'']),
     (''POST'', [[], ''api'', ''documents'', ''{org}'', ''directories'', ''{id}'', ''files'']),
     (''GET'', [[], ''api'', ''documents'', ''{org}'', ''files'', ''{id}'']),
     (''GET'', [[], ''api'', ''documents'', ''{org}'', ''files'', ''{id}'', ''content'']),
     (''DELETE'', [[], ''api'', ''documents'', ''{org}'', ''files'', ''{id}'']),
     (''POST'', [[], ''api'', ''documents'', ''{org}'', ''files'', ''{id}'', ''move'']),
     (''GET'', [[], ''admin'', ''database'', ''diagnostics'']),
     (''GET'', [[], ''admin'', ''database'', ''schema'']),
     (''GET'', [[], ''admin'', ''database'', ''patterns'']),
     (''GET'', [[], ''admin'', ''database'', ''statements'']),
     (''GET'', [[], ''admin'', ''database'', ''states'']),
     (''POST'', [[], ''admin'', ''database'', ''schema'', ''verify'']),
     (''POST'', [[], ''admin'', ''database'', ''schema'', ''up'']),
     (''POST'', [[], ''admin'', ''database'', ''schema'', ''down'']),
     (''POST'', [[], ''admin'', ''database'', ''schema'', ''steps'']),
     (''POST'', [[], ''admin'', ''database'', ''schema'', ''force'']),
     (''POST'', [[], ''admin'', ''database'', ''seed'']),
     (''POST'', [[], ''admin'', ''database'', ''state'']),
     (''GET'', [[], ''admin'', ''storage'', ''diagnostics'']),
     (''POST'', [[], ''admin'', ''storage'', ''container''])]"
  unfolding split_routes_def mounted_defs by code_simp

lemmas route_defs = route_taken_def candidates_def split_routes_eq List.map_filter_simps wild_def has_prefix_def Let_def

section \<open>Every client request\<close>

text \<open>Each request of the organization client, the pattern it is meant for and the
  arguments its path carries.\<close>
definition organization_requests ::
    "string \<Rightarrow> int \<Rightarrow> (string \<times> string) list \<Rightarrow> string \<Rightarrow> string \<Rightarrow> body_sent
      \<Rightarrow> (request \<times> string \<times> string list) list" where
  "organization_requests i v q text bytes body =
     [(client_List q, ''/api/organizations'', []),
      (client_Find i, ''/api/organizations/{id}'', [i]),
      (client_FindByPath text, ''/api/organizations/lookup'', []),
      (client_PutLogo i text bytes, ''/api/organizations/{id}/logo'', [i]),
      (client_Logo i text, ''/api/organizations/{id}/logo'', [i]),
      (client_DeleteLogo i, ''/api/organizations/{id}/logo'', [i]),
      (client_Create body, ''/api/organizations'', []),
      (client_Edit i v body, ''/api/organizations/{id}'', [i]),
      (client_Transfer i v body, ''/api/organizations/{id}/transfer'', [i]),
      (client_Delete i v, ''/api/organizations/{id}'', [i])]"

definition document_requests ::
    "string \<Rightarrow> string \<Rightarrow> int \<Rightarrow> (string \<times> string) list \<Rightarrow> string \<Rightarrow> string \<Rightarrow> string \<Rightarrow> body_sent \<Rightarrow> bool
      \<Rightarrow> (request \<times> string \<times> string list) list" where
  "document_requests org i v q name text bytes body recursive =
     [(client_CreateDirectory org body, ''/api/documents/{org}/directories'', [org]),
      (client_Directory org i, ''/api/documents/{org}/directories/{id}'', [org, i]),
      (client_ListDirectories org i q, ''/api/documents/{org}/directories/{id}/directories'', [org, i]),
      (client_ListFiles org i q, ''/api/documents/{org}/directories/{id}/files'', [org, i]),
      (client_MoveDirectory org i v body, ''/api/documents/{org}/directories/{id}/move'', [org, i]),
      (client_DeleteDirectory org i v recursive, ''/api/documents/{org}/directories/{id}'', [org, i]),
      (client_UploadFile org i name text bytes, ''/api/documents/{org}/directories/{id}/files'', [org, i]),
      (client_File org i, ''/api/documents/{org}/files/{id}'', [org, i]),
      (client_Content org i text, ''/api/documents/{org}/files/{id}/content'', [org, i]),
      (client_MoveFile org i v body, ''/api/documents/{org}/files/{id}/move'', [org, i]),
      (client_DeleteFile org i v, ''/api/documents/{org}/files/{id}'', [org, i])]"

definition admin_requests :: "body_sent option \<Rightarrow> (request \<times> string \<times> string list) list" where
  "admin_requests b =
     [(client_fixed SchemaStatus, ''/admin/database/schema'', []),
      (client_fixed SchemaVerify, ''/admin/database/schema/verify'', []),
      (client_fixed SchemaUp, ''/admin/database/schema/up'', []),
      (client_fixed Diagnose, ''/admin/database/diagnostics'', []),
      (client_fixed Catalog, ''/admin/database/patterns'', []),
      (client_fixed StatementsCall, ''/admin/database/statements'', []),
      (client_fixed StatesCall, ''/admin/database/states'', []),
      (client_fixed StorageDiagnostics, ''/admin/storage/diagnostics'', []),
      (client_fixed StorageContainer, ''/admin/storage/container'', []),
      (client_body SchemaDown b, ''/admin/database/schema/down'', []),
      (client_body SchemaSteps b, ''/admin/database/schema/steps'', []),
      (client_body SchemaForce b, ''/admin/database/schema/force'', []),
      (client_body SeedCall b, ''/admin/database/seed'', []),
      (client_body ResetCall b, ''/admin/database/state'', [])]"

text \<open>A request that takes the route meant for it.\<close>
definition takes :: "request \<times> string \<times> string list \<Rightarrow> bool" where
  "takes x = (case x of (rq, pat, vs) \<Rightarrow> route_taken rq = Some (split_at (CHR ''/'') pat, vs))"

lemma organization_requests_take:
  assumes "segment i" "i \<noteq> ''lookup''"
  shows "list_all takes (organization_requests i v q text bytes body)"
proof -
  from PathEscape_segment [OF assms(1)] assms(2)
  have e: "PathEscape i \<noteq> []" "PathEscape i \<noteq> ''.''" "PathEscape i \<noteq> ''..''" "i \<noteq> ''lookup''" by auto
  show ?thesis
    by (simp add: organization_requests_def takes_def client_defs path_defs Request_def route_defs split_escaped e e(4) [symmetric])
qed

lemma document_requests_take:
  assumes "segment org" "segment i"
  shows "list_all takes (document_requests org i v q name text bytes body recursive)"
proof -
  from PathEscape_segment [OF assms(1)] PathEscape_segment [OF assms(2)]
  have e: "PathEscape org \<noteq> []" "PathEscape org \<noteq> ''.''" "PathEscape org \<noteq> ''..''"
    "PathEscape i \<noteq> []" "PathEscape i \<noteq> ''.''" "PathEscape i \<noteq> ''..''" by auto
  show ?thesis
    by (simp add: document_requests_def takes_def client_defs path_defs Request_def route_defs split_escaped e)
qed

lemma admin_requests_take: "list_all takes (admin_requests b)"
  by (simp add: admin_requests_def takes_def path_defs Request_def route_defs)

text \<open>The clients reach the service: every request of the organization, document and
  administration clients takes the one route meant for it among all those both mounts
  register, and the path values the handler reads are the client's own arguments,
  whatever characters the ids hold, a slash or a percent sign included. The empty id and
  the two dot segments, which the service's path cleaning removes, are outside the
  statement, and so is an organization id that reads lookup, whose find is the lookup
  route's.\<close>
theorem clients_reach_routes:
  assumes "segment org" "segment i" "i \<noteq> ''lookup''"
  shows "list_all takes
    (organization_requests i v q text bytes body @ document_requests org i v q name text bytes body recursive @ admin_requests b)"
  using organization_requests_take [OF assms(2,3)] document_requests_take [OF assms(1,2)] admin_requests_take
  by simp

lemma slash_hex: "char_of (50 :: nat) = CHR ''2''" "char_of (70 :: nat) = CHR ''F''"
  by code_simp+

theorem clients_reach_routes_witness:
  "takes (client_Transfer ''a/b'' 3 (Verbatim []), ''/api/organizations/{id}/transfer'', [''a/b''])
   \<and> rq_path (client_Transfer ''a/b'' 3 (Verbatim [])) = ''/api/organizations/a%2Fb/transfer''"
proof
  have "list_all takes (organization_requests ''a/b'' 3 [] [] [] (Verbatim [])
      @ document_requests ''o'' ''a/b'' 3 [] [] [] [] (Verbatim []) False @ admin_requests None)"
    by (rule clients_reach_routes) (simp_all add: segment_def)
  then show "takes (client_Transfer ''a/b'' 3 (Verbatim []), ''/api/organizations/{id}/transfer'', [''a/b''])"
    by (simp add: organization_requests_def)
  show "rq_path (client_Transfer ''a/b'' 3 (Verbatim [])) = ''/api/organizations/a%2Fb/transfer''"
    by (simp add: client_Transfer_def Request_def organization_path_def Organizations_def PathEscape_def
        path_escape_char_def path_safe_def unreserved_def upper_hex_def Let_def slash_hex)
qed

text \<open>The find of the id lookup is the lookup route's.\<close>
lemma lookup_id_shadowed:
  "route_taken (client_Find ''lookup'') = Some (split_at (CHR ''/'') ''/api/organizations/lookup'', [])"
  by (simp add: client_Find_def path_defs Request_def route_defs PathEscape_def path_escape_char_def path_safe_def
      unreserved_def)

end
