(* ===== verification/SlabCommands.thy ===== *)
theory SlabCommands
  imports SlabClient
begin

text \<open>
  tools/slab's direct commands: one leaf per endpoint. A leaf checks its flags in
  Validate, before anything is built, and its Run sends one request, checks the status
  it expects and prints the reply. The command library is what parses a command line
  into an invocation; the files a command reads and writes are parameters.
\<close>

section \<open>Invocations and leaves\<close>

text \<open>What a leaf reads of its invocation: its arguments, the flags given, and the flags'
  values, at their defaults when not given; and the JSON the --body text parses to.\<close>
record invocation =
  iv_args :: "string list"
  iv_changed :: "string \<Rightarrow> bool"
  iv_text :: "string \<Rightarrow> string"
  iv_number :: "string \<Rightarrow> int"
  iv_switch :: "string \<Rightarrow> bool"
  iv_read :: read_flags
  iv_parsed :: "json result"

definition arg :: "invocation \<Rightarrow> nat \<Rightarrow> string" where
  "arg iv n = iv_args iv ! n"

text \<open>What Validate hands to Run: the body, the version of the precondition, the query and
  the media type.\<close>
record prepared =
  pp_body :: "body_sent option"
  pp_version :: int
  pp_query :: "(string \<times> string) list"
  pp_media :: string

definition nothing :: prepared where
  "nothing = \<lparr>pp_body = None, pp_version = 0, pp_query = [], pp_media = []\<rparr>"

text \<open>What a Run reads of the machine: a file's bytes, the media type of a path's extension
  and its base name.\<close>
record machine =
  ReadFile :: "string \<Rightarrow> string result"
  TypeByExtension :: "string \<Rightarrow> string"
  Base :: "string \<Rightarrow> string"

text \<open>How a leaf ends: it prints the reply under the one status it expects, a download
  shows its headers and may save its bytes, or the directory delete follows its 202.\<close>
datatype ending = Replies nat | Downloads | Deletes

text \<open>A leaf: the number of its arguments, the flags it requires, the groups of which at
  most one is given, its Validate, its request, and its ending.\<close>
record leaf =
  lf_args :: nat
  lf_required :: "string list"
  lf_exclusive :: "(string \<times> string) list"
  lf_validate :: "invocation \<Rightarrow> prepared result"
  lf_request :: "machine \<Rightarrow> invocation \<Rightarrow> prepared \<Rightarrow> request result"
  lf_ending :: ending

text \<open>The usage rules the command library enforces before Validate.\<close>
definition usage_ok :: "leaf \<Rightarrow> invocation \<Rightarrow> bool" where
  "usage_ok l iv =
     (length (iv_args iv) = lf_args l \<and> list_all (iv_changed iv) (lf_required l)
      \<and> list_all (\<lambda>(f, g). \<not> (iv_changed iv f \<and> iv_changed iv g)) (lf_exclusive l))"

text \<open>Validates that are nothing, a query, a body and a guarded body.\<close>
definition no_validate :: "invocation \<Rightarrow> prepared result" where
  "no_validate iv = Inr nothing"

definition query_validate :: "invocation \<Rightarrow> prepared result" where
  "query_validate iv =
     (case Query (iv_changed iv) (iv_read iv) of Inl e \<Rightarrow> Inl e | Inr q \<Rightarrow> Inr (nothing\<lparr>pp_query := q\<rparr>))"

definition body_validate :: "(invocation \<Rightarrow> json result) \<Rightarrow> invocation \<Rightarrow> prepared result" where
  "body_validate from_flags iv =
     (case Body (iv_changed iv ''body'') (iv_text iv ''body'') (from_flags iv) of
        Inl e \<Rightarrow> Inl e
      | Inr b \<Rightarrow> Inr (nothing\<lparr>pp_body := Some b\<rparr>))"

definition guarded_validate :: "(json \<Rightarrow> string) \<Rightarrow> (invocation \<Rightarrow> json result) \<Rightarrow> invocation \<Rightarrow> prepared result" where
  "guarded_validate print from_flags iv =
     (case GuardedBody print (iv_changed iv ''body'') (iv_changed iv ''version'') (iv_text iv ''body'') (iv_parsed iv)
             (iv_number iv ''version'') (from_flags iv) of
        Inl e \<Rightarrow> Inl e
      | Inr (b, v) \<Rightarrow> Inr (nothing\<lparr>pp_body := Some b, pp_version := v\<rparr>))"

text \<open>A field flag path that needs these flags.\<close>
definition with_flags :: "string list \<Rightarrow> string \<Rightarrow> (invocation \<Rightarrow> json) \<Rightarrow> invocation \<Rightarrow> json result" where
  "with_flags flags missing build iv =
     (if list_all (iv_changed iv) flags then Inr (build iv) else Inl (plain missing))"

definition body_of :: "prepared \<Rightarrow> body_sent" where
  "body_of p = the (pp_body p)"

section \<open>The organization commands\<close>

definition optionalParent :: "string \<Rightarrow> json" where
  "optionalParent i = (if i = [] then JNull else JString i)"

definition code_name_missing :: string where
  "code_name_missing = ''--code and --name are required unless --body is given''"

definition create_json :: "invocation \<Rightarrow> json" where
  "create_json iv =
     JObject [(''parent_id'', optionalParent (iv_text iv ''parent-id'')), (''code'', JString (iv_text iv ''code'')),
       (''name'', JString (iv_text iv ''name''))]"

definition edit_json :: "invocation \<Rightarrow> json" where
  "edit_json iv = JObject [(''code'', JString (iv_text iv ''code'')), (''name'', JString (iv_text iv ''name''))]"

definition transfer_json :: "invocation \<Rightarrow> json" where
  "transfer_json iv = JObject [(''parent_id'', optionalParent (iv_text iv ''parent-id''))]"

definition org_listCommand :: leaf where
  "org_listCommand =
     \<lparr>lf_args = 0, lf_required = [], lf_exclusive = [(''page'', ''cursor'')], lf_validate = query_validate,
      lf_request = (\<lambda>m iv p. Inr (client_List (pp_query p))), lf_ending = Replies 200\<rparr>"

definition org_getCommand :: leaf where
  "org_getCommand =
     \<lparr>lf_args = 1, lf_required = [], lf_exclusive = [], lf_validate = no_validate,
      lf_request = (\<lambda>m iv p. Inr (client_Find (arg iv 0))), lf_ending = Replies 200\<rparr>"

definition org_getByPathCommand :: leaf where
  "org_getByPathCommand =
     \<lparr>lf_args = 1, lf_required = [], lf_exclusive = [], lf_validate = no_validate,
      lf_request = (\<lambda>m iv p. Inr (client_FindByPath (arg iv 0))), lf_ending = Replies 200\<rparr>"

definition org_createCommand :: leaf where
  "org_createCommand =
     \<lparr>lf_args = 0, lf_required = [], lf_exclusive = [(''body'', ''code''), (''body'', ''name''), (''body'', ''parent-id'')],
      lf_validate = body_validate (with_flags [''code'', ''name''] code_name_missing create_json),
      lf_request = (\<lambda>m iv p. Inr (client_Create (body_of p))), lf_ending = Replies 201\<rparr>"

definition org_editCommand :: "(json \<Rightarrow> string) \<Rightarrow> leaf" where
  "org_editCommand print =
     \<lparr>lf_args = 1, lf_required = [], lf_exclusive = [(''body'', ''code''), (''body'', ''name'')],
      lf_validate = guarded_validate print (with_flags [''code'', ''name''] code_name_missing edit_json),
      lf_request = (\<lambda>m iv p. Inr (client_Edit (arg iv 0) (pp_version p) (body_of p))), lf_ending = Replies 200\<rparr>"

definition org_transferCommand :: "(json \<Rightarrow> string) \<Rightarrow> leaf" where
  "org_transferCommand print =
     \<lparr>lf_args = 1, lf_required = [], lf_exclusive = [(''body'', ''parent-id'')],
      lf_validate = guarded_validate print
        (with_flags [''parent-id''] ''--parent-id is required unless --body is given; pass --parent-id= to move to the root''
           transfer_json),
      lf_request = (\<lambda>m iv p. Inr (client_Transfer (arg iv 0) (pp_version p) (body_of p))), lf_ending = Replies 200\<rparr>"

definition org_deleteCommand :: leaf where
  "org_deleteCommand =
     \<lparr>lf_args = 1, lf_required = [''version''], lf_exclusive = [], lf_validate = no_validate,
      lf_request = (\<lambda>m iv p. Inr (client_Delete (arg iv 0) (iv_number iv ''version''))), lf_ending = Replies 204\<rparr>"

text \<open>The media type of a logo is resolved in Validate, from the file's name alone; the
  file is read in Run.\<close>
definition logo_media :: "machine \<Rightarrow> invocation \<Rightarrow> prepared result" where
  "logo_media m iv =
     (let named = iv_text iv ''content-type'';
          media = (if named = [] then TypeByExtension m (arg iv 1) else named)
      in if media = [] then Inl (plain (arg iv 1 @ '': no media type for its extension; name one with --content-type''))
         else Inr (nothing\<lparr>pp_media := media\<rparr>))"

definition logoPutCommand :: "machine \<Rightarrow> leaf" where
  "logoPutCommand mach =
     \<lparr>lf_args = 2, lf_required = [], lf_exclusive = [], lf_validate = logo_media mach,
      lf_request = (\<lambda>m iv p. case ReadFile m (arg iv 1) of
         Inl e \<Rightarrow> Inl e
       | Inr bytes \<Rightarrow> Inr (client_PutLogo (arg iv 0) (pp_media p) bytes)), lf_ending = Replies 201\<rparr>"

definition logoGetCommand :: leaf where
  "logoGetCommand =
     \<lparr>lf_args = 1, lf_required = [], lf_exclusive = [], lf_validate = no_validate,
      lf_request = (\<lambda>m iv p. Inr (client_Logo (arg iv 0) (iv_text iv ''if-none-match''))), lf_ending = Downloads\<rparr>"

definition logoDeleteCommand :: leaf where
  "logoDeleteCommand =
     \<lparr>lf_args = 1, lf_required = [], lf_exclusive = [], lf_validate = no_validate,
      lf_request = (\<lambda>m iv p. Inr (client_DeleteLogo (arg iv 0))), lf_ending = Replies 204\<rparr>"

text \<open>The tree of the family, each leaf under its command path.\<close>
definition organization_commands :: "machine \<Rightarrow> (json \<Rightarrow> string) \<Rightarrow> (string \<times> leaf) list" where
  "organization_commands m print =
     [(''org list'', org_listCommand), (''org get'', org_getCommand), (''org get-by-path'', org_getByPathCommand),
      (''org create'', org_createCommand), (''org edit'', org_editCommand print), (''org transfer'', org_transferCommand print),
      (''org delete'', org_deleteCommand), (''org logo put'', logoPutCommand m), (''org logo get'', logoGetCommand),
      (''org logo delete'', logoDeleteCommand)]"

section \<open>The document commands\<close>

definition octetStream :: string where
  "octetStream = ''application/octet-stream''"

definition parent_name_missing :: string where
  "parent_name_missing = ''--parent-id and --name are required unless --body is given''"

text \<open>The bodies of a create and a directory move, one shape.\<close>
definition parent_name_json :: "invocation \<Rightarrow> json" where
  "parent_name_json iv =
     JObject [(''parent_id'', JString (iv_text iv ''parent-id'')), (''name'', JString (iv_text iv ''name''))]"

definition move_file_json :: "invocation \<Rightarrow> json" where
  "move_file_json iv =
     JObject [(''directory_id'', JString (iv_text iv ''directory-id'')), (''name'', JString (iv_text iv ''name''))]"

definition dirsCreateCommand :: leaf where
  "dirsCreateCommand =
     \<lparr>lf_args = 1, lf_required = [], lf_exclusive = [(''body'', ''parent-id''), (''body'', ''name'')],
      lf_validate = body_validate (with_flags [''parent-id'', ''name''] parent_name_missing parent_name_json),
      lf_request = (\<lambda>m iv p. Inr (client_CreateDirectory (arg iv 0) (body_of p))), lf_ending = Replies 201\<rparr>"

definition dirsGetCommand :: leaf where
  "dirsGetCommand =
     \<lparr>lf_args = 2, lf_required = [], lf_exclusive = [], lf_validate = no_validate,
      lf_request = (\<lambda>m iv p. Inr (client_Directory (arg iv 0) (arg iv 1))), lf_ending = Replies 200\<rparr>"

definition dirsListCommand :: leaf where
  "dirsListCommand =
     \<lparr>lf_args = 2, lf_required = [], lf_exclusive = [(''page'', ''cursor'')], lf_validate = query_validate,
      lf_request = (\<lambda>m iv p. Inr (client_ListDirectories (arg iv 0) (arg iv 1) (pp_query p))), lf_ending = Replies 200\<rparr>"

definition dirsMoveCommand :: "(json \<Rightarrow> string) \<Rightarrow> leaf" where
  "dirsMoveCommand print =
     \<lparr>lf_args = 2, lf_required = [], lf_exclusive = [(''body'', ''parent-id''), (''body'', ''name'')],
      lf_validate = guarded_validate print (with_flags [''parent-id'', ''name''] parent_name_missing parent_name_json),
      lf_request = (\<lambda>m iv p. Inr (client_MoveDirectory (arg iv 0) (arg iv 1) (pp_version p) (body_of p))),
      lf_ending = Replies 200\<rparr>"

text \<open>--wait is a duration, which the number of its name holds.\<close>
definition delete_validate :: "(int \<Rightarrow> string) \<Rightarrow> invocation \<Rightarrow> prepared result" where
  "delete_validate show_duration iv =
     (if iv_changed iv ''wait'' \<and> \<not> iv_switch iv ''recursive''
      then Inl (plain ''--wait needs --recursive: only a recursive delete is swept'')
      else if iv_number iv ''wait'' < 0
      then Inl (plain (''--wait '' @ show_duration (iv_number iv ''wait'') @ '': want a positive duration''))
      else Inr nothing)"

definition dirsDeleteCommand :: "(int \<Rightarrow> string) \<Rightarrow> leaf" where
  "dirsDeleteCommand show_duration =
     \<lparr>lf_args = 2, lf_required = [''version''], lf_exclusive = [], lf_validate = delete_validate show_duration,
      lf_request = (\<lambda>m iv p. Inr (client_DeleteDirectory (arg iv 0) (arg iv 1) (iv_number iv ''version'')
         (iv_switch iv ''recursive''))), lf_ending = Deletes\<rparr>"

definition filesListCommand :: leaf where
  "filesListCommand =
     \<lparr>lf_args = 2, lf_required = [], lf_exclusive = [(''page'', ''cursor'')], lf_validate = query_validate,
      lf_request = (\<lambda>m iv p. Inr (client_ListFiles (arg iv 0) (arg iv 1) (pp_query p))), lf_ending = Replies 200\<rparr>"

definition filesPutCommand :: leaf where
  "filesPutCommand =
     \<lparr>lf_args = 3, lf_required = [], lf_exclusive = [], lf_validate = no_validate,
      lf_request = (\<lambda>m iv p.
        let path = arg iv 2
        in case ReadFile m path of
             Inl e \<Rightarrow> Inl e
           | Inr bytes \<Rightarrow>
               (let stored = (if iv_text iv ''name'' = [] then Base m path else iv_text iv ''name'');
                    named = iv_text iv ''content-type'';
                    media = (if named \<noteq> [] then named
                             else if TypeByExtension m path = [] then octetStream else TypeByExtension m path)
                in Inr (client_UploadFile (arg iv 0) (arg iv 1) stored media bytes))),
      lf_ending = Replies 201\<rparr>"

definition filesShowCommand :: leaf where
  "filesShowCommand =
     \<lparr>lf_args = 2, lf_required = [], lf_exclusive = [], lf_validate = no_validate,
      lf_request = (\<lambda>m iv p. Inr (client_File (arg iv 0) (arg iv 1))), lf_ending = Replies 200\<rparr>"

definition filesGetCommand :: leaf where
  "filesGetCommand =
     \<lparr>lf_args = 2, lf_required = [], lf_exclusive = [], lf_validate = no_validate,
      lf_request = (\<lambda>m iv p. Inr (client_Content (arg iv 0) (arg iv 1) (iv_text iv ''if-none-match''))),
      lf_ending = Downloads\<rparr>"

definition filesMoveCommand :: "(json \<Rightarrow> string) \<Rightarrow> leaf" where
  "filesMoveCommand print =
     \<lparr>lf_args = 2, lf_required = [], lf_exclusive = [(''body'', ''directory-id''), (''body'', ''name'')],
      lf_validate = guarded_validate print
        (with_flags [''directory-id'', ''name''] ''--directory-id and --name are required unless --body is given'' move_file_json),
      lf_request = (\<lambda>m iv p. Inr (client_MoveFile (arg iv 0) (arg iv 1) (pp_version p) (body_of p))), lf_ending = Replies 200\<rparr>"

definition filesDeleteCommand :: leaf where
  "filesDeleteCommand =
     \<lparr>lf_args = 2, lf_required = [''version''], lf_exclusive = [], lf_validate = no_validate,
      lf_request = (\<lambda>m iv p. Inr (client_DeleteFile (arg iv 0) (arg iv 1) (iv_number iv ''version''))),
      lf_ending = Replies 204\<rparr>"

definition document_commands :: "(int \<Rightarrow> string) \<Rightarrow> (json \<Rightarrow> string) \<Rightarrow> (string \<times> leaf) list" where
  "document_commands show_duration print =
     [(''docs dirs create'', dirsCreateCommand), (''docs dirs get'', dirsGetCommand), (''docs dirs list'', dirsListCommand),
      (''docs dirs move'', dirsMoveCommand print), (''docs dirs delete'', dirsDeleteCommand show_duration),
      (''docs files list'', filesListCommand), (''docs files put'', filesPutCommand), (''docs files show'', filesShowCommand),
      (''docs files get'', filesGetCommand), (''docs files move'', filesMoveCommand print),
      (''docs files delete'', filesDeleteCommand)]"

section \<open>The administration commands\<close>

definition fixedCommand :: "fixed_call \<Rightarrow> leaf" where
  "fixedCommand op =
     \<lparr>lf_args = 0, lf_required = [], lf_exclusive = [], lf_validate = no_validate,
      lf_request = (\<lambda>m iv p. Inr (client_fixed op)), lf_ending = Replies 200\<rparr>"

definition errSetRequired :: string where
  "errSetRequired = ''--set is required unless --body is given; schema status lists the sets''"

text \<open>Steps is omitted when it is zero.\<close>
definition down_json :: "invocation \<Rightarrow> json" where
  "down_json iv =
     JObject ((''set'', JString (iv_text iv ''set''))
       # (if iv_number iv ''steps'' = 0 then [] else [(''steps'', JNumber (itoa (iv_number iv ''steps'')))]))"

definition steps_json :: "invocation \<Rightarrow> json" where
  "steps_json iv = JObject [(''set'', JString (iv_text iv ''set'')), (''steps'', JNumber (itoa (iv_number iv ''steps'')))]"

definition force_json :: "invocation \<Rightarrow> json" where
  "force_json iv = JObject [(''set'', JString (iv_text iv ''set'')), (''version'', JNumber (itoa (iv_number iv ''version'')))]"

text \<open>The set is asked for first, then the flag of the operation.\<close>
definition set_and :: "string \<Rightarrow> string \<Rightarrow> (invocation \<Rightarrow> json) \<Rightarrow> invocation \<Rightarrow> json result" where
  "set_and flag missing build iv =
     (if \<not> iv_changed iv ''set'' then Inl (plain errSetRequired)
      else if \<not> iv_changed iv flag then Inl (plain missing)
      else Inr (build iv))"

definition downCommand :: leaf where
  "downCommand =
     \<lparr>lf_args = 0, lf_required = [], lf_exclusive = [(''body'', ''set''), (''body'', ''steps'')],
      lf_validate = body_validate (with_flags [''set''] errSetRequired down_json),
      lf_request = (\<lambda>m iv p. Inr (client_body SchemaDown (pp_body p))), lf_ending = Replies 200\<rparr>"

definition stepsCommand :: leaf where
  "stepsCommand =
     \<lparr>lf_args = 0, lf_required = [], lf_exclusive = [(''body'', ''set''), (''body'', ''steps'')],
      lf_validate = body_validate (set_and ''steps'' ''--steps is required unless --body is given'' steps_json),
      lf_request = (\<lambda>m iv p. Inr (client_body SchemaSteps (pp_body p))), lf_ending = Replies 200\<rparr>"

definition forceCommand :: leaf where
  "forceCommand =
     \<lparr>lf_args = 0, lf_required = [], lf_exclusive = [(''body'', ''set''), (''body'', ''version'')],
      lf_validate = body_validate (set_and ''version'' ''--version is required unless --body is given'' force_json),
      lf_request = (\<lambda>m iv p. Inr (client_body SchemaForce (pp_body p))), lf_ending = Replies 200\<rparr>"

definition seed_validate :: "invocation \<Rightarrow> prepared result" where
  "seed_validate iv =
     (if iv_changed iv ''body'' \<or> iv_changed iv ''state''
      then body_validate (\<lambda>iv. Inr (JObject [(''state'', JString (iv_text iv ''state''))])) iv
      else Inr nothing)"

definition seedCommand :: leaf where
  "seedCommand =
     \<lparr>lf_args = 0, lf_required = [], lf_exclusive = [(''body'', ''state'')], lf_validate = seed_validate,
      lf_request = (\<lambda>m iv p. Inr (client_body SeedCall (pp_body p))), lf_ending = Replies 200\<rparr>"

definition reset_json :: "invocation \<Rightarrow> json" where
  "reset_json iv =
     JObject [(''state'', JString (iv_text iv ''state'')), (''confirm'', JBool (iv_switch iv ''confirm''))]"

definition stateCommand :: leaf where
  "stateCommand =
     \<lparr>lf_args = 0, lf_required = [], lf_exclusive = [(''body'', ''state''), (''body'', ''confirm'')],
      lf_validate = body_validate (with_flags [''state''] ''--state is required unless --body is given'' reset_json),
      lf_request = (\<lambda>m iv p. Inr (client_body ResetCall (pp_body p))), lf_ending = Replies 200\<rparr>"

definition schemaCommands :: "(string \<times> leaf) list" where
  "schemaCommands =
     [(''admin database schema status'', fixedCommand SchemaStatus), (''admin database schema verify'', fixedCommand SchemaVerify),
      (''admin database schema up'', fixedCommand SchemaUp), (''admin database schema down'', downCommand),
      (''admin database schema steps'', stepsCommand), (''admin database schema force'', forceCommand)]"

definition database_commands :: "(string \<times> leaf) list" where
  "database_commands =
     schemaCommands
     @ [(''admin database seed'', seedCommand), (''admin database state'', stateCommand),
        (''admin database diagnostics'', fixedCommand Diagnose), (''admin database patterns'', fixedCommand Catalog),
        (''admin database statements'', fixedCommand StatementsCall), (''admin database states'', fixedCommand StatesCall)]"

definition storage_commands :: "(string \<times> leaf) list" where
  "storage_commands =
     [(''admin storage diagnostics'', fixedCommand StorageDiagnostics), (''admin storage container'', fixedCommand StorageContainer)]"

end
