(* ===== verification/SlabRuns.thy ===== *)
theory SlabRuns
  imports SlabCommands
begin

text \<open>
  The Runs of tools/slab's direct commands: a leaf's request sent, its reply checked and
  printed, a download saved, and the directory delete that follows its Location until
  the sweep has removed the branch.
\<close>

section \<open>The run's surroundings\<close>

text \<open>The machine, the client's transport, the file a download is written to, the decoders
  and the printing; and for a poll, what the n-th read of the Location is sent to, what is
  left of the limit and whether the context has ended after it, and the time taken by
  then. A duration is shown by tm_duration.\<close>
record 'v terminal =
  tm_machine :: machine
  tm_send :: "request \<Rightarrow> response_seen result"
  tm_write :: "string \<Rightarrow> string \<Rightarrow> err option"
  tm_media :: "string \<Rightarrow> string result"
  tm_decode :: "string \<Rightarrow> problem_doc result"
  tm_printer :: "'v printer"
  tm_style :: style
  tm_location :: "string \<Rightarrow> (string \<times> string) result"
  tm_poll :: "nat \<Rightarrow> request \<Rightarrow> response_seen result"
  tm_remaining :: "int \<Rightarrow> nat \<Rightarrow> int"
  tm_ended :: "nat \<Rightarrow> err option"
  tm_took :: "nat \<Rightarrow> int"
  tm_duration :: "int \<Rightarrow> string"

text \<open>What a run leaves: the text printed, and the error it returns, if any.\<close>
type_synonym outcome = "string \<times> command_error option"

definition as_outcome :: "command_error + string \<Rightarrow> outcome" where
  "as_outcome x = (case x of Inl e \<Rightarrow> ([], Some e) | Inr out \<Rightarrow> (out, None))"

definition respond_run :: "'v terminal \<Rightarrow> response_seen result \<Rightarrow> nat \<Rightarrow> outcome" where
  "respond_run t got code = as_outcome (Respond (tm_media t) (tm_decode t) (tm_printer t) (tm_style t) got code)"

section \<open>Downloads\<close>

text \<open>The Run of logo get and files get: a 304 prints its headers alone, a 200 is saved when
  a destination is named, and any other status is an error.\<close>
definition download_run :: "'v terminal \<Rightarrow> string \<Rightarrow> response_seen result \<Rightarrow> outcome" where
  "download_run t dest got =
     (case got of
        Inl e \<Rightarrow> ([], Some (Failed e))
      | Inr r \<Rightarrow>
          (case (if rp_status r \<noteq> 304 then output_Expect (tm_media t) (tm_decode t) r 200 else None) of
             Some e \<Rightarrow> ([], Some e)
           | None \<Rightarrow>
               if dest \<noteq> [] \<and> rp_status r = 200
               then (case tm_write t dest (rp_body r) of
                       Some e \<Rightarrow> ([], Some (Failed e))
                     | None \<Rightarrow> (output_Object (tm_style t) r (length (rp_body r)) dest, None))
               else (output_Object (tm_style t) r (length (rp_body r)) [], None)))"

section \<open>Following the sweep\<close>

fun as_err :: "command_error \<Rightarrow> err" where
  "as_err (Failed e) = e"
| "as_err (Report p) = Err Plain (report_Error p) []"

text \<open>One turn of AwaitSweep: a 404 is the sweep done, a 200 the branch still there.\<close>
definition sweep_turn :: "'v terminal \<Rightarrow> string \<Rightarrow> nat \<Rightarrow> int option result" where
  "sweep_turn t location n =
     (case client_DirectoryAt (tm_location t) location of
        Inl e \<Rightarrow> Inl e
      | Inr rq \<Rightarrow>
          (case tm_poll t n rq of
             Inl e \<Rightarrow> Inl e
           | Inr r \<Rightarrow>
               if rp_status r = 404 then Inr (Some (tm_took t n))
               else (case output_Expect (tm_media t) (tm_decode t) r 200 of
                       Some e \<Rightarrow> Inl (as_err e)
                     | None \<Rightarrow> Inr None)))"

definition sweep_poll :: "'v terminal \<Rightarrow> string \<Rightarrow> int \<Rightarrow> int option poll" where
  "sweep_poll t location limit =
     \<lparr>po_query = sweep_turn t location, po_remaining = tm_remaining t limit, po_done = tm_ended t\<rparr>"

definition AwaitSweep :: "'v terminal \<Rightarrow> string \<Rightarrow> int \<Rightarrow> int result option" where
  "AwaitSweep t location limit =
     map_option (map_sum id the)
       (await_from (sweep_poll t location limit) (\<lambda>x. x \<noteq> None)
          (plain (location @ '' still answers 200 after '' @ tm_duration t limit
             @ '': the sweep has not removed the branch yet'')) 0)"

text \<open>Round to the millisecond, of a time in nanoseconds that is not negative.\<close>
definition round_ms :: "int \<Rightarrow> int" where
  "round_ms d = (d + 500000) div 1000000 * 1000000"

text \<open>The Run of dirs delete.\<close>
definition delete_run :: "'v terminal \<Rightarrow> invocation \<Rightarrow> response_seen result \<Rightarrow> outcome option" where
  "delete_run t iv got =
     (if \<not> iv_switch iv ''recursive'' then Some (respond_run t got 204)
      else (case got of
        Inl e \<Rightarrow> Some ([], Some (Failed e))
      | Inr r \<Rightarrow>
          (case output_Expect (tm_media t) (tm_decode t) r 202 of
             Some e \<Rightarrow> Some ([], Some e)
           | None \<Rightarrow>
               (let location = header_get (rp_header r) ''Location'';
                    wait = iv_number iv ''wait'';
                    told = output_Status (tm_style t) (rp_status r)
                      [''Location: '' @ location,
                       ''the branch is deleting; the sweep removes it, and the Location answers 404 once it has'']
                in if location = [] then Some ([], Some (Failed (plain ''the service answered 202 with no Location to follow'')))
                   else if wait = 0 then Some (told, None)
                   else (case AwaitSweep t location wait of
                           None \<Rightarrow> None
                         | Some (Inl e) \<Rightarrow> Some (told, Some (Failed e))
                         | Some (Inr took) \<Rightarrow>
                             Some (told @ output_Status (tm_style t) 404
                                     [''the sweep removed the branch within '' @ tm_duration t (round_ms took)], None))))))"

section \<open>A leaf's run\<close>

definition finish :: "'v terminal \<Rightarrow> leaf \<Rightarrow> invocation \<Rightarrow> response_seen result \<Rightarrow> outcome option" where
  "finish t l iv got =
     (case lf_ending l of
        Replies code \<Rightarrow> Some (respond_run t got code)
      | Downloads \<Rightarrow> Some (download_run t (iv_text iv ''out'') got)
      | Deletes \<Rightarrow> delete_run t iv got)"

text \<open>A leaf that its Validate refuses sends nothing.\<close>
definition run_leaf :: "'v terminal \<Rightarrow> leaf \<Rightarrow> invocation \<Rightarrow> outcome option" where
  "run_leaf t l iv =
     (case lf_validate l iv of
        Inl e \<Rightarrow> Some ([], Some (Failed e))
      | Inr p \<Rightarrow>
          finish t l iv (case lf_request l (tm_machine t) iv p of Inl e \<Rightarrow> Inl e | Inr rq \<Rightarrow> tm_send t rq))"

end
