(* ===== verification/SlabCommandProperties.thy ===== *)
theory SlabCommandProperties
  imports SlabRuns SlabClientProperties SlabProperties
begin

text \<open>
  What the direct commands promise: each expects the status the service's route answers
  on success, and sends what the service's decoder reads; a refused command sends
  nothing, and a followed delete ends.
\<close>

section \<open>The statuses of the routes\<close>

text \<open>Every response a step gives without an error has the status.\<close>
definition succeeds :: "nat \<Rightarrow> ('s, 'w response) step \<Rightarrow> bool" where
  "succeeds code m \<longleftrightarrow> (\<forall>s x s'. m s = (Inr x, s') \<longrightarrow> rs_status x = code)"

definition answers :: "nat \<Rightarrow> ('h \<Rightarrow> ('q, 's, 'w) handler) \<Rightarrow> bool" where
  "answers code route \<longleftrightarrow> (\<forall>h r. succeeds code (route h r))"

named_theorems succeeds_intros

lemma succeeds_basic [succeeds_intros]:
  "rs_status x = code \<Longrightarrow> succeeds code (give x)"
  "succeeds code (refuse e)"
  "(\<And>a. rs_status (g a) = code) \<Longrightarrow> succeeds code (reply m g)"
  by (auto simp: succeeds_def give_iff refuse_iff reply_cases split: sum.split_asm)

lemma succeeds_input [succeeds_intros]: "(\<And>a. succeeds code (k a)) \<Longrightarrow> succeeds code (input r k)"
  by (cases r) (simp_all add: input_simps succeeds_basic)

lemma succeeds_andthen [succeeds_intros]: "(\<And>a. succeeds code (k a)) \<Longrightarrow> succeeds code (andthen m k)"
  by (auto simp: succeeds_def andthen_Inr_iff)

lemma succeeds_cases [succeeds_intros]:
  "succeeds code m \<Longrightarrow> succeeds code m' \<Longrightarrow> succeeds code (if b then m else m')"
  "(\<And>e. succeeds code (f e)) \<Longrightarrow> succeeds code m \<Longrightarrow> succeeds code (case x of None \<Rightarrow> m | Some e \<Rightarrow> f e)"
  "(\<And>a b. succeeds code (g a b)) \<Longrightarrow> succeeds code (case p of (a, b) \<Rightarrow> g a b)"
  by (simp_all split: option.splits prod.splits)

lemma status_of_write [simp]:
  "rs_status (WriteJSON code hs w) = code" "rs_status (WriteHeader code hs) = code"
  by (simp_all add: WriteJSON_def WriteHeader_def)

lemma org_statuses:
  "answers 200 org_list" "answers 200 org_find" "answers 200 org_lookup" "answers 201 org_create"
  "answers 200 org_edit" "answers 200 org_transfer" "answers 204 org_delete" "answers 201 org_putLogo"
  "answers 204 org_deleteLogo"
  unfolding answers_def org_list_def org_find_def org_lookup_def org_create_def org_edit_def org_transfer_def
      org_delete_def org_putLogo_def org_deleteLogo_def Let_def
  by (intro allI succeeds_intros; simp split: prod.splits)+

lemma doc_statuses:
  "answers 201 doc_createDirectory" "answers 200 doc_directory" "answers 200 doc_listDirectories" "answers 200 doc_listFiles"
  "answers 200 doc_moveDirectory" "answers 201 doc_uploadFile" "answers 200 doc_file_read" "answers 204 doc_deleteFile"
  "answers 200 doc_moveFile"
  unfolding answers_def doc_createDirectory_def doc_directory_def doc_listDirectories_def doc_listFiles_def
      doc_moveDirectory_def doc_uploadFile_def doc_file_read_def doc_deleteFile_def doc_moveFile_def Let_def
  by (intro allI succeeds_intros; simp split: prod.splits)+

text \<open>The directory delete answers 202 for a branch and 204 otherwise.\<close>
lemma delete_statuses:
  "succeeds (if recursive_of (query_get (dh_web h) r ''recursive'') = Inr True then 202 else 204) (doc_deleteDirectory h r)"
proof (cases "recursive_of (query_get (dh_web h) r ''recursive'')")
  case (Inl e)
  then show ?thesis by (simp add: doc_deleteDirectory_def input_simps) (intro succeeds_intros)
next
  case (Inr recursive)
  then show ?thesis
    by (cases recursive; simp add: doc_deleteDirectory_def input_simps; intro succeeds_intros; simp)
qed

lemma database_statuses:
  "answers 200 db_diagnostics" "answers 200 db_status" "answers 200 db_patterns" "answers 200 db_statements"
  "answers 200 db_states" "answers 200 db_verify" "answers 200 db_up" "answers 200 db_down" "answers 200 db_steps"
  "answers 200 db_force" "answers 200 db_seed" "answers 200 db_state"
  unfolding answers_def db_diagnostics_def db_status_def db_patterns_def db_statements_def db_states_def db_verify_def
      db_up_def db_down_def db_steps_def db_force_def db_seed_def db_state_def respond_def Let_def
  by (intro allI succeeds_intros; simp split: prod.splits)+

lemma storage_statuses: "answers 200 storage_diagnostics" "answers 200 storage_container"
  by (auto simp: answers_def succeeds_def storage_diagnostics_def storage_container_def WriteJSON_def
      split: prod.split_asm option.split_asm)

section \<open>Each command and its route\<close>

definition wildcards :: "string \<Rightarrow> nat" where
  "wildcards pat = length (filter wild (split_at (CHR ''/'') pat))"

text \<open>The statuses a command takes for success: the one its reply expects; a download's
  200 and, revalidated, its 304; a delete's 202 for a branch and 204 otherwise.\<close>
definition expected :: "ending \<Rightarrow> bool \<Rightarrow> nat set" where
  "expected x recursive =
     (case x of Replies code \<Rightarrow> {code} | Downloads \<Rightarrow> {200, 304} | Deletes \<Rightarrow> {if recursive then 202 else 204})"

text \<open>A Run ends without an error only on a status it expects, and on one it does when
  nothing else fails: its file is written, and a branch's delete has a Location and is
  not waited for.\<close>
lemma output_Expect_None: "output_Expect media decode r code = None \<longleftrightarrow> rp_status r = code"
  by (auto simp: output_Expect_def Expect_def split: sum.splits)

lemma finish_expected:
  "finish t l iv (Inr r) = Some (out, None) \<Longrightarrow> rp_status r \<in> expected (lf_ending l) (iv_switch iv ''recursive'')"
  by (auto simp: finish_def expected_def respond_run_def as_outcome_def Respond_def download_run_def delete_run_def
      output_Expect_None Let_def split: ending.splits option.splits sum.splits if_splits)

definition goes_on :: "'v terminal \<Rightarrow> invocation \<Rightarrow> response_seen \<Rightarrow> bool" where
  "goes_on t iv r \<longleftrightarrow> (\<forall>d b. tm_write t d b = None) \<and> header_get (rp_header r) ''Location'' \<noteq> [] \<and> iv_number iv ''wait'' = 0"

lemma expected_finish:
  assumes "rp_status r \<in> expected (lf_ending l) (iv_switch iv ''recursive'')" "goes_on t iv r"
  shows "\<exists>out. finish t l iv (Inr r) = Some (out, None)"
proof -
  have none: "output_Expect media decode r (rp_status r) = None" for media decode by (simp add: output_Expect_None)
  show ?thesis
    using assms none
    by (cases "lf_ending l") (auto simp: finish_def expected_def goes_on_def respond_run_def as_outcome_def Respond_def
        download_run_def delete_run_def Let_def split: if_splits)
qed

text \<open>The status a route's handler succeeds with, as the command's ending has it: the one
  status; for a download the one the SDK's WriteObject gives an object; for a delete by
  what the request asks. Only a handler with the SDK's reads serves the last two.\<close>
fun answered_as :: "('h \<Rightarrow> 'q web) option \<Rightarrow> ending \<Rightarrow> 'h \<Rightarrow> 'q \<Rightarrow> nat \<Rightarrow> bool" where
  "answered_as web (Replies code) h q got \<longleftrightarrow> got = code"
| "answered_as (Some web) Downloads h q got \<longleftrightarrow> (\<exists>obj. got = object_status (web h) q obj)"
| "answered_as (Some web) Deletes h q got \<longleftrightarrow>
     got \<in> expected Deletes (recursive_of (query_get (web h) q ''recursive'') = Inr True)"
| "answered_as None x h q got \<longleftrightarrow> False"

text \<open>What a delete's request asks, by the service's own reading of its query.\<close>
definition asks_recursive :: "request \<Rightarrow> bool result" where
  "asks_recursive rq = recursive_of (case map_of (parse_query (rq_query rq)) ''recursive'' of Some v \<Rightarrow> v | None \<Rightarrow> [])"

text \<open>A leaf meets its route, given by the verb, the pattern and the handler: the group
  registers it; its handler's successes are answered as the leaf's ending has it; the
  leaf's Run succeeds on exactly the statuses it expects; and every request the leaf
  sends takes that route, its first arguments being the path values, and asks for a
  branch when the flag does. An argument that is empty, a dot segment or lookup is no
  id.\<close>
definition meets ::
    "'v terminal \<Rightarrow> ('h \<Rightarrow> 'q web) option \<Rightarrow> string \<Rightarrow> (string \<times> string \<times> ('h \<Rightarrow> ('q, 's, 'w) handler)) list \<Rightarrow> machine \<Rightarrow> leaf
      \<Rightarrow> string \<times> string \<times> ('h \<Rightarrow> ('q, 's, 'w) handler) \<Rightarrow> bool" where
  "meets t web pfx table m l own \<longleftrightarrow> own \<in> set table \<and>
     (case own of (verb, pat, route) \<Rightarrow>
        (\<forall>h q s y s'. route h q s = (Inr y, s') \<longrightarrow> answered_as web (lf_ending l) h q (rs_status y))
        \<and> (\<forall>iv r. (\<exists>out. finish t l iv (Inr r) = Some (out, None)) \<longrightarrow>
             rp_status r \<in> expected (lf_ending l) (iv_switch iv ''recursive''))
        \<and> (\<forall>iv r. rp_status r \<in> expected (lf_ending l) (iv_switch iv ''recursive'') \<longrightarrow> goes_on t iv r \<longrightarrow>
             (\<exists>out. finish t l iv (Inr r) = Some (out, None)))
        \<and> (\<forall>iv p rq. usage_ok l iv \<longrightarrow> lf_validate l iv = Inr p \<longrightarrow> lf_request l m iv p = Inr rq
             \<longrightarrow> list_all (\<lambda>i. segment i \<and> i \<noteq> ''lookup'') (take (wildcards pat) (iv_args iv))
             \<longrightarrow> rq_verb rq = verb \<and> takes (rq, pfx @ pat, take (wildcards pat) (iv_args iv))
                 \<and> (lf_ending l = Deletes \<longrightarrow> asks_recursive rq = Inr (iv_switch iv ''recursive''))))"

definition expects :: "('h \<Rightarrow> 'q web) option \<Rightarrow> ending \<Rightarrow> ('h \<Rightarrow> ('q, 's, 'w) handler) \<Rightarrow> bool" where
  "expects web x route \<longleftrightarrow> (\<forall>h q s y s'. route h q s = (Inr y, s') \<longrightarrow> answered_as web x h q (rs_status y))"

lemma meetsI:
  assumes "(verb, pat, route) \<in> set table" "expects web (lf_ending l) route"
    and "\<And>iv p rq. length (iv_args iv) = lf_args l \<Longrightarrow> lf_request l m iv p = Inr rq
      \<Longrightarrow> list_all (\<lambda>i. segment i \<and> i \<noteq> ''lookup'') (take (wildcards pat) (iv_args iv))
      \<Longrightarrow> rq_verb rq = verb \<and> takes (rq, pfx @ pat, take (wildcards pat) (iv_args iv))
          \<and> (lf_ending l = Deletes \<longrightarrow> asks_recursive rq = Inr (iv_switch iv ''recursive''))"
  shows "meets t web pfx table m l (verb, pat, route)"
  unfolding meets_def prod.case
  using assms finish_expected expected_finish unfolding expects_def usage_ok_def by blast

lemma expects_Replies: "expects web (Replies code) route \<longleftrightarrow> answers code route"
  by (auto simp: expects_def answers_def succeeds_def)

lemma expects_downloads:
  "expects (Some oh_web) Downloads org_logo" "expects (Some dh_web) Downloads doc_content"
proof -
  note cases = input_cases step_iffs Let_def
  show "expects (Some oh_web) Downloads org_logo"
    by (auto simp: expects_def org_logo_def cases split: option.split_asm sum.split_asm) (rule exI, rule refl)
  show "expects (Some dh_web) Downloads doc_content"
    by (auto simp: expects_def doc_content_def cases split: option.split_asm prod.split_asm sum.split_asm) (rule exI, rule refl)
qed

lemma expects_delete: "expects (Some dh_web) Deletes doc_deleteDirectory"
  using delete_statuses by (fastforce simp: expects_def succeeds_def expected_def)

lemma asked_recursive: "asks_recursive (client_DeleteDirectory org i v recursive) = Inr recursive"
  by (cases recursive) (simp_all add: asks_recursive_def client_DeleteDirectory_def Request_def parse_query_def recursive_of_def ParseBool_def)

lemma org_takes:
  "takes (client_List q, ''/api/organizations'', [])"
  "segment i \<Longrightarrow> i \<noteq> ''lookup'' \<Longrightarrow> takes (client_Find i, ''/api/organizations/{id}'', [i])"
  "takes (client_FindByPath ct, ''/api/organizations/lookup'', [])"
  "segment i \<Longrightarrow> i \<noteq> ''lookup'' \<Longrightarrow> takes (client_PutLogo i ct bytes, ''/api/organizations/{id}/logo'', [i])"
  "segment i \<Longrightarrow> i \<noteq> ''lookup'' \<Longrightarrow> takes (client_Logo i ct, ''/api/organizations/{id}/logo'', [i])"
  "segment i \<Longrightarrow> i \<noteq> ''lookup'' \<Longrightarrow> takes (client_DeleteLogo i, ''/api/organizations/{id}/logo'', [i])"
  "takes (client_Create body, ''/api/organizations'', [])"
  "segment i \<Longrightarrow> i \<noteq> ''lookup'' \<Longrightarrow> takes (client_Edit i v body, ''/api/organizations/{id}'', [i])"
  "segment i \<Longrightarrow> i \<noteq> ''lookup'' \<Longrightarrow> takes (client_Transfer i v body, ''/api/organizations/{id}/transfer'', [i])"
  "segment i \<Longrightarrow> i \<noteq> ''lookup'' \<Longrightarrow> takes (client_Delete i v, ''/api/organizations/{id}'', [i])"
  using organization_requests_take [of i v q ct bytes body] organization_requests_take [of "''o''" v q ct bytes body]
  by (simp_all add: organization_requests_def segment_def)

lemma doc_takes:
  "segment org \<Longrightarrow> takes (client_CreateDirectory org body, ''/api/documents/{org}/directories'', [org])"
  "segment org \<Longrightarrow> segment i \<Longrightarrow> takes (client_Directory org i, ''/api/documents/{org}/directories/{id}'', [org, i])"
  "segment org \<Longrightarrow> segment i
     \<Longrightarrow> takes (client_ListDirectories org i q, ''/api/documents/{org}/directories/{id}/directories'', [org, i])"
  "segment org \<Longrightarrow> segment i \<Longrightarrow> takes (client_ListFiles org i q, ''/api/documents/{org}/directories/{id}/files'', [org, i])"
  "segment org \<Longrightarrow> segment i
     \<Longrightarrow> takes (client_MoveDirectory org i v body, ''/api/documents/{org}/directories/{id}/move'', [org, i])"
  "segment org \<Longrightarrow> segment i
     \<Longrightarrow> takes (client_DeleteDirectory org i v recursive, ''/api/documents/{org}/directories/{id}'', [org, i])"
  "segment org \<Longrightarrow> segment i
     \<Longrightarrow> takes (client_UploadFile org i name ct bytes, ''/api/documents/{org}/directories/{id}/files'', [org, i])"
  "segment org \<Longrightarrow> segment i \<Longrightarrow> takes (client_File org i, ''/api/documents/{org}/files/{id}'', [org, i])"
  "segment org \<Longrightarrow> segment i \<Longrightarrow> takes (client_Content org i ct, ''/api/documents/{org}/files/{id}/content'', [org, i])"
  "segment org \<Longrightarrow> segment i \<Longrightarrow> takes (client_MoveFile org i v body, ''/api/documents/{org}/files/{id}/move'', [org, i])"
  "segment org \<Longrightarrow> segment i \<Longrightarrow> takes (client_DeleteFile org i v, ''/api/documents/{org}/files/{id}'', [org, i])"
  using document_requests_take [of org i v q name ct bytes body recursive]
    document_requests_take [of org "''o''" v q name ct bytes body recursive]
  by (simp_all add: document_requests_def segment_def)

lemmas admin_takes = admin_requests_take [unfolded admin_requests_def list.pred_inject, simplified]

text \<open>The arguments of a leaf, by their number.\<close>
lemma args_of:
  "length xs = Suc 0 \<longleftrightarrow> (\<exists>a. xs = [a])"
  "length xs = 2 \<longleftrightarrow> (\<exists>a b. xs = [a, b])"
  "length xs = 3 \<longleftrightarrow> (\<exists>a b c. xs = [a, b, c])"
  by (auto simp: length_Suc_conv numeral_2_eq_2 numeral_3_eq_3)

lemma wildcards_simps:
  "wildcards [] = 0" "wildcards ''/{id}'' = 1" "wildcards ''/lookup'' = 0" "wildcards ''/{id}/transfer'' = 1"
  "wildcards ''/{id}/logo'' = 1" "wildcards ''/{org}/directories'' = 1" "wildcards ''/{org}/directories/{id}'' = 2"
  "wildcards ''/{org}/directories/{id}/directories'' = 2" "wildcards ''/{org}/directories/{id}/files'' = 2"
  "wildcards ''/{org}/directories/{id}/move'' = 2" "wildcards ''/{org}/files/{id}'' = 2"
  "wildcards ''/{org}/files/{id}/content'' = 2" "wildcards ''/{org}/files/{id}/move'' = 2"
  by (simp_all add: wildcards_def wild_def has_prefix_def)

lemma verb_simps:
  "rq_verb (client_List q) = ''GET''"
  "rq_verb (client_Find i) = ''GET''"
  "rq_verb (client_FindByPath t) = ''GET''"
  "rq_verb (client_PutLogo i ct b) = ''PUT''"
  "rq_verb (client_Logo i e) = ''GET''"
  "rq_verb (client_DeleteLogo i) = ''DELETE''"
  "rq_verb (client_Create bd) = ''POST''"
  "rq_verb (client_Edit i v bd) = ''PUT''"
  "rq_verb (client_Transfer i v bd) = ''POST''"
  "rq_verb (client_Delete i v) = ''DELETE''"
  "rq_verb (client_CreateDirectory org bd) = ''POST''"
  "rq_verb (client_Directory org i) = ''GET''"
  "rq_verb (client_ListDirectories org i q) = ''GET''"
  "rq_verb (client_ListFiles org i q) = ''GET''"
  "rq_verb (client_MoveDirectory org i v bd) = ''POST''"
  "rq_verb (client_DeleteDirectory org i v rec) = ''DELETE''"
  "rq_verb (client_UploadFile org i n ct b) = ''POST''"
  "rq_verb (client_File org i) = ''GET''"
  "rq_verb (client_Content org i e) = ''GET''"
  "rq_verb (client_MoveFile org i v bd) = ''POST''"
  "rq_verb (client_DeleteFile org i v) = ''DELETE''"
  by (simp_all add: client_defs Request_def)

lemma request_verb: "rq_verb (Request v path q b hs) = v"
  by (simp add: Request_def)

text \<open>The facts every leaf's proof uses.\<close>
lemmas meet_simps = expects_Replies expects_downloads expects_delete asked_recursive args_of arg_def wildcards_simps verb_simps request_verb

lemmas organization_leaves = org_listCommand_def org_getCommand_def org_getByPathCommand_def org_createCommand_def
  org_editCommand_def org_transferCommand_def org_deleteCommand_def logoPutCommand_def logoGetCommand_def
  logoDeleteCommand_def

lemma org_meets:
  "meets t (Some oh_web) ''/api/organizations'' org_routes m org_listCommand (''GET'', [], org_list)"
  "meets t (Some oh_web) ''/api/organizations'' org_routes m org_getCommand (''GET'', ''/{id}'', org_find)"
  "meets t (Some oh_web) ''/api/organizations'' org_routes m org_getByPathCommand (''GET'', ''/lookup'', org_lookup)"
  "meets t (Some oh_web) ''/api/organizations'' org_routes m org_createCommand (''POST'', [], org_create)"
  "meets t (Some oh_web) ''/api/organizations'' org_routes m (org_editCommand print) (''PUT'', ''/{id}'', org_edit)"
  "meets t (Some oh_web) ''/api/organizations'' org_routes m (org_transferCommand print) (''POST'', ''/{id}/transfer'', org_transfer)"
  "meets t (Some oh_web) ''/api/organizations'' org_routes m org_deleteCommand (''DELETE'', ''/{id}'', org_delete)"
  "meets t (Some oh_web) ''/api/organizations'' org_routes m (logoPutCommand mach) (''PUT'', ''/{id}/logo'', org_putLogo)"
  "meets t (Some oh_web) ''/api/organizations'' org_routes m logoGetCommand (''GET'', ''/{id}/logo'', org_logo)"
  "meets t (Some oh_web) ''/api/organizations'' org_routes m logoDeleteCommand (''DELETE'', ''/{id}/logo'', org_deleteLogo)"
proof -
  show "meets t (Some oh_web) ''/api/organizations'' org_routes m org_listCommand (''GET'', [], org_list)"
    by (rule meetsI) (auto simp: meet_simps organization_leaves org_routes_def org_statuses org_takes split: sum.split_asm)
  show "meets t (Some oh_web) ''/api/organizations'' org_routes m org_getCommand (''GET'', ''/{id}'', org_find)"
    by (rule meetsI) (auto simp: meet_simps organization_leaves org_routes_def org_statuses org_takes split: sum.split_asm)
  show "meets t (Some oh_web) ''/api/organizations'' org_routes m org_getByPathCommand (''GET'', ''/lookup'', org_lookup)"
    by (rule meetsI) (auto simp: meet_simps organization_leaves org_routes_def org_statuses org_takes split: sum.split_asm)
  show "meets t (Some oh_web) ''/api/organizations'' org_routes m org_createCommand (''POST'', [], org_create)"
    by (rule meetsI) (auto simp: meet_simps organization_leaves org_routes_def org_statuses org_takes split: sum.split_asm)
  show "meets t (Some oh_web) ''/api/organizations'' org_routes m (org_editCommand print) (''PUT'', ''/{id}'', org_edit)"
    by (rule meetsI) (auto simp: meet_simps organization_leaves org_routes_def org_statuses org_takes split: sum.split_asm)
  show "meets t (Some oh_web) ''/api/organizations'' org_routes m (org_transferCommand print) (''POST'', ''/{id}/transfer'', org_transfer)"
    by (rule meetsI) (auto simp: meet_simps organization_leaves org_routes_def org_statuses org_takes split: sum.split_asm)
  show "meets t (Some oh_web) ''/api/organizations'' org_routes m org_deleteCommand (''DELETE'', ''/{id}'', org_delete)"
    by (rule meetsI) (auto simp: meet_simps organization_leaves org_routes_def org_statuses org_takes split: sum.split_asm)
  show "meets t (Some oh_web) ''/api/organizations'' org_routes m (logoPutCommand mach) (''PUT'', ''/{id}/logo'', org_putLogo)"
    by (rule meetsI) (auto simp: meet_simps organization_leaves org_routes_def org_statuses org_takes split: sum.split_asm)
  show "meets t (Some oh_web) ''/api/organizations'' org_routes m logoGetCommand (''GET'', ''/{id}/logo'', org_logo)"
    by (rule meetsI) (auto simp: meet_simps organization_leaves org_routes_def org_statuses org_takes split: sum.split_asm)
  show "meets t (Some oh_web) ''/api/organizations'' org_routes m logoDeleteCommand (''DELETE'', ''/{id}/logo'', org_deleteLogo)"
    by (rule meetsI) (auto simp: meet_simps organization_leaves org_routes_def org_statuses org_takes split: sum.split_asm)
qed

lemmas document_leaves = dirsCreateCommand_def dirsGetCommand_def dirsListCommand_def dirsMoveCommand_def
  dirsDeleteCommand_def filesListCommand_def filesPutCommand_def filesShowCommand_def filesGetCommand_def
  filesMoveCommand_def filesDeleteCommand_def

lemma doc_meets:
  "meets t (Some dh_web) ''/api/documents'' doc_routes m dirsCreateCommand (''POST'', ''/{org}/directories'', doc_createDirectory)"
  "meets t (Some dh_web) ''/api/documents'' doc_routes m dirsGetCommand (''GET'', ''/{org}/directories/{id}'', doc_directory)"
  "meets t (Some dh_web) ''/api/documents'' doc_routes m dirsListCommand (''GET'', ''/{org}/directories/{id}/directories'', doc_listDirectories)"
  "meets t (Some dh_web) ''/api/documents'' doc_routes m (dirsMoveCommand print) (''POST'', ''/{org}/directories/{id}/move'', doc_moveDirectory)"
  "meets t (Some dh_web) ''/api/documents'' doc_routes m (dirsDeleteCommand show_duration) (''DELETE'', ''/{org}/directories/{id}'', doc_deleteDirectory)"
  "meets t (Some dh_web) ''/api/documents'' doc_routes m filesListCommand (''GET'', ''/{org}/directories/{id}/files'', doc_listFiles)"
  "meets t (Some dh_web) ''/api/documents'' doc_routes m filesPutCommand (''POST'', ''/{org}/directories/{id}/files'', doc_uploadFile)"
  "meets t (Some dh_web) ''/api/documents'' doc_routes m filesShowCommand (''GET'', ''/{org}/files/{id}'', doc_file_read)"
  "meets t (Some dh_web) ''/api/documents'' doc_routes m filesGetCommand (''GET'', ''/{org}/files/{id}/content'', doc_content)"
  "meets t (Some dh_web) ''/api/documents'' doc_routes m (filesMoveCommand print) (''POST'', ''/{org}/files/{id}/move'', doc_moveFile)"
  "meets t (Some dh_web) ''/api/documents'' doc_routes m filesDeleteCommand (''DELETE'', ''/{org}/files/{id}'', doc_deleteFile)"
proof -
  show "meets t (Some dh_web) ''/api/documents'' doc_routes m dirsCreateCommand (''POST'', ''/{org}/directories'', doc_createDirectory)"
    by (rule meetsI) (auto simp: meet_simps document_leaves doc_routes_def doc_statuses doc_takes Let_def split: sum.split_asm)
  show "meets t (Some dh_web) ''/api/documents'' doc_routes m dirsGetCommand (''GET'', ''/{org}/directories/{id}'', doc_directory)"
    by (rule meetsI) (auto simp: meet_simps document_leaves doc_routes_def doc_statuses doc_takes Let_def split: sum.split_asm)
  show "meets t (Some dh_web) ''/api/documents'' doc_routes m dirsListCommand (''GET'', ''/{org}/directories/{id}/directories'', doc_listDirectories)"
    by (rule meetsI) (auto simp: meet_simps document_leaves doc_routes_def doc_statuses doc_takes Let_def split: sum.split_asm)
  show "meets t (Some dh_web) ''/api/documents'' doc_routes m (dirsMoveCommand print) (''POST'', ''/{org}/directories/{id}/move'', doc_moveDirectory)"
    by (rule meetsI) (auto simp: meet_simps document_leaves doc_routes_def doc_statuses doc_takes Let_def split: sum.split_asm)
  show "meets t (Some dh_web) ''/api/documents'' doc_routes m (dirsDeleteCommand show_duration) (''DELETE'', ''/{org}/directories/{id}'', doc_deleteDirectory)"
    by (rule meetsI) (auto simp: meet_simps document_leaves doc_routes_def doc_statuses doc_takes Let_def split: sum.split_asm)
  show "meets t (Some dh_web) ''/api/documents'' doc_routes m filesListCommand (''GET'', ''/{org}/directories/{id}/files'', doc_listFiles)"
    by (rule meetsI) (auto simp: meet_simps document_leaves doc_routes_def doc_statuses doc_takes Let_def split: sum.split_asm)
  show "meets t (Some dh_web) ''/api/documents'' doc_routes m filesPutCommand (''POST'', ''/{org}/directories/{id}/files'', doc_uploadFile)"
    by (rule meetsI) (auto simp: meet_simps document_leaves doc_routes_def doc_statuses doc_takes Let_def split: sum.split_asm)
  show "meets t (Some dh_web) ''/api/documents'' doc_routes m filesShowCommand (''GET'', ''/{org}/files/{id}'', doc_file_read)"
    by (rule meetsI) (auto simp: meet_simps document_leaves doc_routes_def doc_statuses doc_takes Let_def split: sum.split_asm)
  show "meets t (Some dh_web) ''/api/documents'' doc_routes m filesGetCommand (''GET'', ''/{org}/files/{id}/content'', doc_content)"
    by (rule meetsI) (auto simp: meet_simps document_leaves doc_routes_def doc_statuses doc_takes Let_def split: sum.split_asm)
  show "meets t (Some dh_web) ''/api/documents'' doc_routes m (filesMoveCommand print) (''POST'', ''/{org}/files/{id}/move'', doc_moveFile)"
    by (rule meetsI) (auto simp: meet_simps document_leaves doc_routes_def doc_statuses doc_takes Let_def split: sum.split_asm)
  show "meets t (Some dh_web) ''/api/documents'' doc_routes m filesDeleteCommand (''DELETE'', ''/{org}/files/{id}'', doc_deleteFile)"
    by (rule meetsI) (auto simp: meet_simps document_leaves doc_routes_def doc_statuses doc_takes Let_def split: sum.split_asm)
qed

lemma zero_wildcards: "CHR ''{'' \<notin> set pat \<Longrightarrow> wildcards pat = 0"
proof -
  assume "CHR ''{'' \<notin> set pat"
  then have "\<not> wild seg" if "seg \<in> set (split_at (CHR ''/'') pat)" for seg
    using that set_split_at [of "CHR ''{''" seg "CHR ''/''" pat] by (cases seg) (auto simp: wild_def has_prefix_def)
  then show ?thesis by (simp add: wildcards_def)
qed

lemmas admin_leaves = fixedCommand_def downCommand_def stepsCommand_def forceCommand_def seedCommand_def stateCommand_def

lemma database_meets:
  "meets t None ''/admin/database'' database_routes m (fixedCommand SchemaStatus) (''GET'', ''/schema'', db_status)"
  "meets t None ''/admin/database'' database_routes m (fixedCommand SchemaVerify) (''POST'', ''/schema/verify'', db_verify)"
  "meets t None ''/admin/database'' database_routes m (fixedCommand SchemaUp) (''POST'', ''/schema/up'', db_up)"
  "meets t None ''/admin/database'' database_routes m downCommand (''POST'', ''/schema/down'', db_down)"
  "meets t None ''/admin/database'' database_routes m stepsCommand (''POST'', ''/schema/steps'', db_steps)"
  "meets t None ''/admin/database'' database_routes m forceCommand (''POST'', ''/schema/force'', db_force)"
  "meets t None ''/admin/database'' database_routes m seedCommand (''POST'', ''/seed'', db_seed)"
  "meets t None ''/admin/database'' database_routes m stateCommand (''POST'', ''/state'', db_state)"
  "meets t None ''/admin/database'' database_routes m (fixedCommand Diagnose) (''GET'', ''/diagnostics'', db_diagnostics)"
  "meets t None ''/admin/database'' database_routes m (fixedCommand Catalog) (''GET'', ''/patterns'', db_patterns)"
  "meets t None ''/admin/database'' database_routes m (fixedCommand StatementsCall) (''GET'', ''/statements'', db_statements)"
  "meets t None ''/admin/database'' database_routes m (fixedCommand StatesCall) (''GET'', ''/states'', db_states)"
proof -
  show "meets t None ''/admin/database'' database_routes m (fixedCommand SchemaStatus) (''GET'', ''/schema'', db_status)"
    by (rule meetsI) (auto simp: meet_simps zero_wildcards admin_leaves database_routes_def database_statuses admin_takes)
  show "meets t None ''/admin/database'' database_routes m (fixedCommand SchemaVerify) (''POST'', ''/schema/verify'', db_verify)"
    by (rule meetsI) (auto simp: meet_simps zero_wildcards admin_leaves database_routes_def database_statuses admin_takes)
  show "meets t None ''/admin/database'' database_routes m (fixedCommand SchemaUp) (''POST'', ''/schema/up'', db_up)"
    by (rule meetsI) (auto simp: meet_simps zero_wildcards admin_leaves database_routes_def database_statuses admin_takes)
  show "meets t None ''/admin/database'' database_routes m downCommand (''POST'', ''/schema/down'', db_down)"
    by (rule meetsI) (auto simp: meet_simps zero_wildcards admin_leaves database_routes_def database_statuses admin_takes)
  show "meets t None ''/admin/database'' database_routes m stepsCommand (''POST'', ''/schema/steps'', db_steps)"
    by (rule meetsI) (auto simp: meet_simps zero_wildcards admin_leaves database_routes_def database_statuses admin_takes)
  show "meets t None ''/admin/database'' database_routes m forceCommand (''POST'', ''/schema/force'', db_force)"
    by (rule meetsI) (auto simp: meet_simps zero_wildcards admin_leaves database_routes_def database_statuses admin_takes)
  show "meets t None ''/admin/database'' database_routes m seedCommand (''POST'', ''/seed'', db_seed)"
    by (rule meetsI) (auto simp: meet_simps zero_wildcards admin_leaves database_routes_def database_statuses admin_takes)
  show "meets t None ''/admin/database'' database_routes m stateCommand (''POST'', ''/state'', db_state)"
    by (rule meetsI) (auto simp: meet_simps zero_wildcards admin_leaves database_routes_def database_statuses admin_takes)
  show "meets t None ''/admin/database'' database_routes m (fixedCommand Diagnose) (''GET'', ''/diagnostics'', db_diagnostics)"
    by (rule meetsI) (auto simp: meet_simps zero_wildcards admin_leaves database_routes_def database_statuses admin_takes)
  show "meets t None ''/admin/database'' database_routes m (fixedCommand Catalog) (''GET'', ''/patterns'', db_patterns)"
    by (rule meetsI) (auto simp: meet_simps zero_wildcards admin_leaves database_routes_def database_statuses admin_takes)
  show "meets t None ''/admin/database'' database_routes m (fixedCommand StatementsCall) (''GET'', ''/statements'', db_statements)"
    by (rule meetsI) (auto simp: meet_simps zero_wildcards admin_leaves database_routes_def database_statuses admin_takes)
  show "meets t None ''/admin/database'' database_routes m (fixedCommand StatesCall) (''GET'', ''/states'', db_states)"
    by (rule meetsI) (auto simp: meet_simps zero_wildcards admin_leaves database_routes_def database_statuses admin_takes)
qed

lemma storage_meets:
  "meets t None ''/admin/storage'' storage_routes m (fixedCommand StorageDiagnostics) (''GET'', ''/diagnostics'', storage_diagnostics)"
  "meets t None ''/admin/storage'' storage_routes m (fixedCommand StorageContainer) (''POST'', ''/container'', storage_container)"
proof -
  show "meets t None ''/admin/storage'' storage_routes m (fixedCommand StorageDiagnostics) (''GET'', ''/diagnostics'', storage_diagnostics)"
    by (rule meetsI) (auto simp: meet_simps zero_wildcards admin_leaves storage_routes_def storage_statuses admin_takes)
  show "meets t None ''/admin/storage'' storage_routes m (fixedCommand StorageContainer) (''POST'', ''/container'', storage_container)"
    by (rule meetsI) (auto simp: meet_simps zero_wildcards admin_leaves storage_routes_def storage_statuses admin_takes)
qed

text \<open>Each command and its own route: the verb, the pattern under the group, the handler.\<close>
definition organization_own :: "(string \<times> string \<times> string \<times> ('q, 'f) org_route) list" where
  "organization_own =
     [(''org list'', ''GET'', [], org_list),
      (''org get'', ''GET'', ''/{id}'', org_find),
      (''org get-by-path'', ''GET'', ''/lookup'', org_lookup),
      (''org create'', ''POST'', [], org_create),
      (''org edit'', ''PUT'', ''/{id}'', org_edit),
      (''org transfer'', ''POST'', ''/{id}/transfer'', org_transfer),
      (''org delete'', ''DELETE'', ''/{id}'', org_delete),
      (''org logo put'', ''PUT'', ''/{id}/logo'', org_putLogo),
      (''org logo get'', ''GET'', ''/{id}/logo'', org_logo),
      (''org logo delete'', ''DELETE'', ''/{id}/logo'', org_deleteLogo)]"

definition document_own :: "(string \<times> string \<times> string \<times> ('q, 'f) doc_route) list" where
  "document_own =
     [(''docs dirs create'', ''POST'', ''/{org}/directories'', doc_createDirectory),
      (''docs dirs get'', ''GET'', ''/{org}/directories/{id}'', doc_directory),
      (''docs dirs list'', ''GET'', ''/{org}/directories/{id}/directories'', doc_listDirectories),
      (''docs dirs move'', ''POST'', ''/{org}/directories/{id}/move'', doc_moveDirectory),
      (''docs dirs delete'', ''DELETE'', ''/{org}/directories/{id}'', doc_deleteDirectory),
      (''docs files list'', ''GET'', ''/{org}/directories/{id}/files'', doc_listFiles),
      (''docs files put'', ''POST'', ''/{org}/directories/{id}/files'', doc_uploadFile),
      (''docs files show'', ''GET'', ''/{org}/files/{id}'', doc_file_read),
      (''docs files get'', ''GET'', ''/{org}/files/{id}/content'', doc_content),
      (''docs files move'', ''POST'', ''/{org}/files/{id}/move'', doc_moveFile),
      (''docs files delete'', ''DELETE'', ''/{org}/files/{id}'', doc_deleteFile)]"

definition database_own :: "(string \<times> string \<times> string \<times> ('q, 's, 'w) database_route) list" where
  "database_own =
     [(''admin database schema status'', ''GET'', ''/schema'', db_status),
      (''admin database schema verify'', ''POST'', ''/schema/verify'', db_verify),
      (''admin database schema up'', ''POST'', ''/schema/up'', db_up),
      (''admin database schema down'', ''POST'', ''/schema/down'', db_down),
      (''admin database schema steps'', ''POST'', ''/schema/steps'', db_steps),
      (''admin database schema force'', ''POST'', ''/schema/force'', db_force),
      (''admin database seed'', ''POST'', ''/seed'', db_seed),
      (''admin database state'', ''POST'', ''/state'', db_state),
      (''admin database diagnostics'', ''GET'', ''/diagnostics'', db_diagnostics),
      (''admin database patterns'', ''GET'', ''/patterns'', db_patterns),
      (''admin database statements'', ''GET'', ''/statements'', db_statements),
      (''admin database states'', ''GET'', ''/states'', db_states)]"

definition storage_own :: "(string \<times> string \<times> string \<times> ('s admin_store \<Rightarrow> ('q, 's, diagnostics) handler)) list" where
  "storage_own =
     [(''admin storage diagnostics'', ''GET'', ''/diagnostics'', storage_diagnostics),
      (''admin storage container'', ''POST'', ''/container'', storage_container)]"

text \<open>The commands of a family, each meeting its own route.\<close>
definition met ::
    "'v terminal \<Rightarrow> ('h \<Rightarrow> 'q web) option \<Rightarrow> string \<Rightarrow> (string \<times> string \<times> ('h \<Rightarrow> ('q, 's, 'w) handler)) list \<Rightarrow> machine
      \<Rightarrow> (string \<times> leaf) list \<Rightarrow> (string \<times> string \<times> string \<times> ('h \<Rightarrow> ('q, 's, 'w) handler)) list \<Rightarrow> bool" where
  "met t web pfx table m =
     list_all2 (\<lambda>(name, l) (name', own). name = name' \<and> meets t web pfx table m l own)"

text \<open>C39. The tool and the service agree: every direct command of the organization, document
  and administration families has its own route, named here by verb, pattern and handler,
  which its service's group registers and which each request the command sends takes,
  with the command's arguments as its path values; and on every input and from every
  state the handler succeeds with a status the command's Run takes for success: the one
  status of a reply, 202 for a branch's delete and 204 for a directory's, as the request
  asks, and for a download the status the SDK's WriteObject gives, of which the Run takes
  200 and 304 and no other.\<close>
theorem commands_meet_routes:
  "met t (Some oh_web) ''/api/organizations'' org_routes m (organization_commands m print) organization_own
   \<and> met t (Some dh_web) ''/api/documents'' doc_routes m (document_commands show_duration print) document_own
   \<and> met t None ''/admin/database'' database_routes m database_commands database_own
   \<and> met t None ''/admin/storage'' storage_routes m storage_commands storage_own"
  by (simp add: met_def organization_commands_def document_commands_def database_commands_def schemaCommands_def
      storage_commands_def organization_own_def document_own_def database_own_def storage_own_def
      org_meets doc_meets database_meets storage_meets)

section \<open>What a command sends\<close>

text \<open>A transfer built from its flags arrives: the body the command sends decodes, by the
  service's own decoder, to the parent the flag named, the root for an empty one, with the
  key present; its precondition is the version given; and without either flag nothing is
  sent.\<close>
theorem transfer_flags_arrive:
  assumes "lf_validate (org_transferCommand print) iv = Inr p" "\<not> iv_changed iv ''body''"
  shows "\<exists>j. pp_body p = Some (Marshalled j)
    \<and> transfer_UnmarshalJSON j = Inr \<lparr>t_parent = (case iv_text iv ''parent-id'' of [] \<Rightarrow> None | _ \<Rightarrow> Some (iv_text iv ''parent-id'')),
                                      t_present = True\<rparr>
    \<and> pp_version p = iv_number iv ''version'' \<and> iv_changed iv ''version'' \<and> iv_changed iv ''parent-id''"
  using assms
  by (auto simp: org_transferCommand_def guarded_validate_def GuardedBody_def with_flags_def transfer_json_def optionalParent_def
      transfer_UnmarshalJSON_def nothing_def split: if_splits list.splits)

definition demo_transfer :: invocation where
  "demo_transfer = \<lparr>iv_args = [''o1''], iv_changed = (\<lambda>f. f \<in> {''parent-id'', ''version''}), iv_text = (\<lambda>_. []),
     iv_number = (\<lambda>f. if f = ''version'' then 3 else 0), iv_switch = (\<lambda>_. False),
     iv_read = \<lparr>rf_page = 0, rf_size = 0, rf_sort = [], rf_cursor = [], rf_filters = []\<rparr>, iv_parsed = Inl (plain [])\<rparr>"

theorem transfer_flags_arrive_witness:
  "\<exists>p j. lf_validate (org_transferCommand (\<lambda>_. [])) demo_transfer = Inr p \<and> pp_body p = Some (Marshalled j)
     \<and> transfer_UnmarshalJSON j = Inr \<lparr>t_parent = None, t_present = True\<rparr> \<and> pp_version p = 3"
proof -
  have v: "lf_validate (org_transferCommand (\<lambda>_. [])) demo_transfer
      = Inr (nothing\<lparr>pp_body := Some (Marshalled (JObject [(''parent_id'', JNull)])), pp_version := 3\<rparr>)"
    by (simp add: org_transferCommand_def guarded_validate_def GuardedBody_def with_flags_def transfer_json_def
        optionalParent_def demo_transfer_def)
  have "\<not> iv_changed demo_transfer ''body''" by (simp add: demo_transfer_def)
  from transfer_flags_arrive [OF v this] have
    "transfer_UnmarshalJSON (JObject [(''parent_id'', JNull)]) = Inr \<lparr>t_parent = None, t_present = True\<rparr>"
    by (simp add: demo_transfer_def)
  with v show ?thesis by auto
qed

section \<open>A followed delete\<close>

lemma AwaitSweep_ends:
  assumes "tm_remaining t limit N \<le> 0"
  shows "\<exists>r. AwaitSweep t location limit = Some r
    \<and> (case r of Inl _ \<Rightarrow> True | Inr took \<Rightarrow> \<exists>m \<le> N. sweep_turn t location m = Inr (Some took)
          \<and> (\<forall>k < m. sweep_turn t location k = Inr None))"
proof -
  let ?p = "sweep_poll t location limit"
  let ?e = "plain (location @ '' still answers 200 after '' @ tm_duration t limit @ '': the sweep has not removed the branch yet'')"
  have N: "po_remaining ?p N \<le> 0" using assms by (simp add: sweep_poll_def)
  with await_from_returns [of ?p 0 N "\<lambda>x. x \<noteq> None" ?e]
  obtain r where r: "await_from ?p (\<lambda>x. x \<noteq> None) ?e 0 = Some r" by auto
  show ?thesis
  proof (cases r)
    case (Inl e)
    with r show ?thesis by (simp add: AwaitSweep_def)
  next
    case (Inr x)
    with r await_from_met [of ?p "\<lambda>x. x \<noteq> None" ?e 0 x N] N show ?thesis
      by (fastforce simp: AwaitSweep_def sweep_poll_def)
  qed
qed

lemma sweep_turn_gone:
  "sweep_turn t location n = Inr (Some took) \<Longrightarrow>
     \<exists>rq res. client_DirectoryAt (tm_location t) location = Inr rq \<and> tm_poll t n rq = Inr res \<and> rp_status res = 404
       \<and> took = tm_took t n"
  by (auto simp: sweep_turn_def split: sum.splits if_splits option.splits)

text \<open>C40. A followed delete ends and does not claim too much: once a turn's reading of the
  clock is past the limit --wait gave, dirs delete has returned; and it returns without an
  error, having said the sweep removed the branch, only after a read of the Location its
  202 named answered 404.\<close>
theorem followed_delete_ends:
  assumes "tm_remaining t (iv_number iv ''wait'') N \<le> 0" "iv_switch iv ''recursive''" "iv_number iv ''wait'' \<noteq> 0"
  shows "\<exists>out x. delete_run t iv got = Some (out, x)
    \<and> (x = None \<longrightarrow> (\<exists>r m rq res. got = Inr r \<and> rp_status r = 202 \<and> m \<le> N
         \<and> client_DirectoryAt (tm_location t) (header_get (rp_header r) ''Location'') = Inr rq
         \<and> tm_poll t m rq = Inr res \<and> rp_status res = 404))"
proof (cases got)
  case (Inl e)
  with assms(2) show ?thesis by (simp add: delete_run_def)
next
  case (Inr r)
  let ?loc = "header_get (rp_header r) ''Location''"
  from AwaitSweep_ends [OF assms(1), of ?loc] obtain w where w: "AwaitSweep t ?loc (iv_number iv ''wait'') = Some w"
    "case w of Inl _ \<Rightarrow> True | Inr took \<Rightarrow> \<exists>m \<le> N. sweep_turn t ?loc m = Inr (Some took) \<and> (\<forall>k < m. sweep_turn t ?loc k = Inr None)"
    by blast
  have "output_Expect (tm_media t) (tm_decode t) r 202 = None \<Longrightarrow> rp_status r = 202"
    by (auto simp: output_Expect_def Expect_def split: if_splits sum.splits)
  with Inr assms w show ?thesis
    by (cases w) (auto simp: delete_run_def Let_def split: option.splits dest!: sweep_turn_gone)
qed

definition demo_terminal :: "unit terminal" where
  "demo_terminal = \<lparr>tm_machine = \<lparr>ReadFile = (\<lambda>_. Inr []), TypeByExtension = (\<lambda>_. []), Base = id\<rparr>,
     tm_send = (\<lambda>_. Inl (plain [])), tm_write = (\<lambda>_ _. None), tm_media = Inr, tm_decode = (\<lambda>_. Inl (plain [])),
     tm_printer = \<lparr>pr_indent = (\<lambda>_. None), pr_tokens = (\<lambda>_. ([], True)), pr_encode = (\<lambda>_. Inr [])\<rparr>,
     tm_style = \<lparr>st_on = False\<rparr>, tm_location = (\<lambda>l. Inr (l, [])),
     tm_poll = (\<lambda>n _. Inr \<lparr>rp_status = (if n < 2 then 200 else 404), rp_header = Map.empty, rp_body = []\<rparr>),
     tm_remaining = (\<lambda>limit n. limit - 250 * int n), tm_ended = (\<lambda>_. None), tm_took = (\<lambda>n. 250 * int n),
     tm_duration = itoa\<rparr>"

definition demo_followed :: invocation where
  "demo_followed = demo_transfer\<lparr>iv_switch := (\<lambda>f. f = ''recursive''), iv_number := (\<lambda>f. if f = ''wait'' then 1000 else 0)\<rparr>"

definition demo_accepted :: response_seen where
  "demo_accepted = \<lparr>rp_status = 202, rp_header = header_set Map.empty (''Location'', ''/d''), rp_body = []\<rparr>"

theorem followed_delete_ends_witness:
  "\<exists>out x. delete_run demo_terminal demo_followed (Inr demo_accepted) = Some (out, x)"
  using followed_delete_ends [of demo_terminal demo_followed 4 "Inr demo_accepted"]
  by (simp add: demo_terminal_def demo_followed_def) blast

end
