(* ===== verification/SlabEvents.thy ===== *)
theory SlabEvents
  imports SlabRuns
begin

text \<open>
  tools/slab/events: the broker the watch reads through, the watch of a stream's
  messages, and an event as it prints. NATS and the event codec are parameters.
\<close>

section \<open>An event's block\<close>

text \<open>An event as go-core's codec reads it; a zero time is none.\<close>
record event =
  ev_type :: string
  ev_id :: string
  ev_subject :: string
  ev_time :: "string option"
  ev_media :: string
  ev_data :: string

definition event_rows :: "event \<Rightarrow> (string \<times> string) list" where
  "event_rows e =
     [(''id'', ev_id e)]
     @ (if ev_subject e \<noteq> [] then [(''subject'', ev_subject e)] else [])
     @ (case ev_time e of None \<Rightarrow> [] | Some t \<Rightarrow> [(''time'', t)])"

text \<open>The data: JSON indented, other text as it came, and bytes by their size. utf8 is
  utf8.Valid.\<close>
definition printData :: "'v printer \<Rightarrow> (string \<Rightarrow> bool) \<Rightarrow> style \<Rightarrow> event \<Rightarrow> string" where
  "printData p utf8 st e =
     (let data = trim_chars white_space (ev_data e)
      in if data = [] then []
         else (case pr_indent p data of
                 Some pretty \<Rightarrow> line (print_JSON p st pretty)
               | None \<Rightarrow>
                   if utf8 data then line data
                   else (let media = (if ev_media e = [] then ''no media type'' else ev_media e)
                         in line (decimal (length (ev_data e)) @ '' bytes of data ('' @ media @ '')''))))"

definition render_event :: "'v printer \<Rightarrow> (string \<Rightarrow> bool) \<Rightarrow> style \<Rightarrow> event \<Rightarrow> string" where
  "render_event p utf8 st e =
     line (StatusLine st (ev_type e)) @ Table st (event_rows e) @ printData p utf8 st e @ line []"

section \<open>The broker\<close>

record broker =
  bk_url :: string
  bk_stream :: string
  bk_prefix :: string

definition ErrNoServers :: ekind where
  "ErrNoServers = OtherKind ''nats.ErrNoServers''"
definition ErrStreamNotFound :: ekind where
  "ErrStreamNotFound = OtherKind ''jetstream.ErrStreamNotFound''"
definition ErrConsumerNotFound :: ekind where
  "ErrConsumerNotFound = OtherKind ''jetstream.ErrConsumerNotFound''"

text \<open>Start, over the connection's error and the run context's.\<close>
definition broker_Start :: "broker \<Rightarrow> err option \<Rightarrow> err option \<Rightarrow> err option" where
  "broker_Start b connected ended =
     (case connected of
        None \<Rightarrow> None
      | Some e \<Rightarrow>
          (case ended of
             Some c \<Rightarrow> Some c
           | None \<Rightarrow>
               if errors_is ErrNoServers e
               then Some (wrapf (''nothing answers at '' @ bk_url b @ '' (start the stack with: mise run db:up)'') e)
               else if errors_is ErrStreamNotFound e
               then Some (wrapf (''NATS at '' @ bk_url b @ '' has no stream '' @ bk_stream b
                      @ '', which the service creates when it starts (start the service with: mise run serve)'') e)
               else Some e))"

definition broker_Filter :: "broker \<Rightarrow> string" where
  "broker_Filter b = bk_prefix b @ ''.>''"

section \<open>The watch\<close>

definition commandPath :: string where
  "commandPath = ''slab events watch''"

definition announce :: "broker \<Rightarrow> bool \<Rightarrow> string" where
  "announce b fromStart =
     line (commandPath @ '': watching stream '' @ bk_stream b @ '' on '' @ broker_Filter b @ '' for ''
       @ (if fromStart then ''every event the stream holds, then each new one'' else ''events published from now on'')
       @ '' (interrupt to stop)'')"

text \<open>What the consumer's one goroutine is handed: a message, with its subject and what it
  decodes to, or an error the consumer survives.\<close>
datatype delivery = Message string "event result" | Trouble err

datatype watched = Shown event | Reported err

fun watch_one :: "delivery \<Rightarrow> watched" where
  "watch_one (Message subject (Inr e)) = Shown e"
| "watch_one (Message subject (Inl e)) = Reported (wrapf (''message on '' @ subject) e)"
| "watch_one (Trouble e) = Reported e"

text \<open>The delivery policy: all the stream holds and then what arrives, or what arrives.\<close>
definition deliveries :: "bool \<Rightarrow> delivery list \<Rightarrow> delivery list \<Rightarrow> delivery list" where
  "deliveries fromStart held arriving = (if fromStart then held @ arriving else arriving)"

text \<open>stop: the consumer removed, unless it is unknown or gone.\<close>
definition stop_watch :: "(string \<Rightarrow> err option) \<Rightarrow> string option \<Rightarrow> err option" where
  "stop_watch delete info =
     (case info of
        None \<Rightarrow> None
      | Some name \<Rightarrow>
          (case delete name of
             None \<Rightarrow> None
           | Some e \<Rightarrow> if errors_is ErrConsumerNotFound e then None else Some (wrapf (''nats: delete consumer '' @ name) e)))"

text \<open>Watch: the errors of its set-up, then every delivery until the context ends.\<close>
definition Watch ::
    "broker \<Rightarrow> bool \<Rightarrow> err option \<Rightarrow> err option \<Rightarrow> err option \<Rightarrow> delivery list \<Rightarrow> delivery list \<Rightarrow> (string \<Rightarrow> err option)
     \<Rightarrow> string option \<Rightarrow> watched list \<times> err option" where
  "Watch b fromStart js consumer consume held arriving delete info =
     (case js of
        Some e \<Rightarrow> ([], Some (wrapf ''nats'' e))
      | None \<Rightarrow>
          (case present [consumer, consume] of
             e # _ \<Rightarrow> ([], Some (wrapf (''nats: watch stream '' @ bk_stream b) e))
           | [] \<Rightarrow> (map watch_one (deliveries fromStart held arriving), stop_watch delete info)))"

text \<open>The watch command's Run: what it prints on the two streams, a failed write of a block
  being reported as any other error.\<close>
definition watch_stderr :: "broker \<Rightarrow> bool \<Rightarrow> watched list \<Rightarrow> string" where
  "watch_stderr b fromStart ws =
     announce b fromStart
     @ concat (map (\<lambda>w. case w of Shown _ \<Rightarrow> [] | Reported e \<Rightarrow> line (commandPath @ '': '' @ error_text e)) ws)"

definition watch_stdout :: "'v printer \<Rightarrow> (string \<Rightarrow> bool) \<Rightarrow> style \<Rightarrow> watched list \<Rightarrow> string" where
  "watch_stdout p utf8 st ws =
     concat (map (\<lambda>w. case w of Shown e \<Rightarrow> render_event p utf8 st e | Reported _ \<Rightarrow> []) ws)"

section \<open>A watch hides nothing\<close>

text \<open>Every delivery shows or is reported, in order, and a watch that ends cleanly returns
  no error.\<close>
lemma watch_complete:
  "Watch b True None None None held arriving delete info = (ws, x) \<Longrightarrow>
     map (\<lambda>w. case w of Shown e \<Rightarrow> Some e | Reported _ \<Rightarrow> None) ws
       = map (\<lambda>d. case d of Message _ (Inr e) \<Rightarrow> Some e | _ \<Rightarrow> None) (held @ arriving)"
  by (auto simp: Watch_def deliveries_def split: delivery.splits sum.splits)

end
