(* ===== verification/SlabApp.thy ===== *)
theory SlabApp
  imports SlabEvents
begin

text \<open>
  tools/slab/internal/app: the settings and the nodes of the tool's graph, what each
  command declares, the command tree, and the need nodes' starts (tools/slab/scenarios/
  stack.go). go-core's graph and lifecycle and the command library are parameters.
\<close>

section \<open>The run's settings\<close>

definition envPrefix :: string where
  "envPrefix = ''SLAB''"

definition defaultBase :: string where
  "defaultBase = ''http://127.0.0.1:8080''"
definition defaultGrafana :: string where
  "defaultGrafana = ''http://127.0.0.1:3000''"
definition defaultNATS :: string where
  "defaultNATS = ''nats://127.0.0.1:4222''"
definition defaultNATSStream :: string where
  "defaultNATSStream = ''WEB_SERVICE''"
definition defaultNATSPrefix :: string where
  "defaultNATSPrefix = ''web-service''"

text \<open>What a setting is read from: the environment, the names of its variables, and the
  root flags the dispatch set, with their values.\<close>
record surroundings =
  su_getenv :: "string \<Rightarrow> string"
  su_env_name :: "string \<Rightarrow> string \<Rightarrow> string"
  su_changed :: "string \<Rightarrow> bool"
  su_text :: "string \<Rightarrow> string"
  su_switch :: "string \<Rightarrow> bool"

definition root_flags :: "string list" where
  "root_flags = [''base'', ''grafana'', ''repo'', ''nats'', ''nats-stream'', ''nats-prefix'', ''no-color'']"

text \<open>preRun records which of the root's flags were set; value reads one of them.\<close>
definition preRun :: "surroundings \<Rightarrow> string \<Rightarrow> bool" where
  "preRun su name = (name \<in> set root_flags \<and> su_changed su name)"

definition flag_value :: "surroundings \<Rightarrow> (surroundings \<Rightarrow> string \<Rightarrow> 'a) \<Rightarrow> string \<Rightarrow> 'a option" where
  "flag_value su get name = (if preRun su name then Some (get su name) else None)"

definition newSetting ::
    "surroundings \<Rightarrow> (surroundings \<Rightarrow> string \<Rightarrow> 'a) \<Rightarrow> string \<Rightarrow> 'a \<Rightarrow> (string \<Rightarrow> 'a result) \<Rightarrow> 'a result" where
  "newSetting su get name def parse =
     (let variable = su_env_name su envPrefix name;
          s = su_getenv su variable
      in case (if s \<noteq> [] then parse s else Inr def) of
           Inl e \<Rightarrow> Inl (wrapf variable e)
         | Inr v \<Rightarrow> Inr (case flag_value su get name of Some given \<Rightarrow> given | None \<Rightarrow> v))"

definition parseString :: "string \<Rightarrow> string result" where
  "parseString s = Inr s"

definition parse_switch :: "string \<Rightarrow> bool result" where
  "parse_switch s =
     (case ParseBool s of
        Some b \<Rightarrow> Inr b
      | None \<Rightarrow> Inl (plain (''strconv.ParseBool: parsing '' @ quoted s @ '': invalid syntax'')))"

definition text_setting :: "surroundings \<Rightarrow> string \<Rightarrow> string \<Rightarrow> string result" where
  "text_setting su name def = newSetting su su_text name def parseString"

definition base_setting :: "surroundings \<Rightarrow> string result" where
  "base_setting su = text_setting su ''base'' defaultBase"
definition grafana_setting :: "surroundings \<Rightarrow> string result" where
  "grafana_setting su = text_setting su ''grafana'' defaultGrafana"
definition repo_setting :: "surroundings \<Rightarrow> string result" where
  "repo_setting su = text_setting su ''repo'' []"
definition nats_setting :: "surroundings \<Rightarrow> string result" where
  "nats_setting su = text_setting su ''nats'' defaultNATS"
definition stream_setting :: "surroundings \<Rightarrow> string result" where
  "stream_setting su = text_setting su ''nats-stream'' defaultNATSStream"
definition prefix_setting :: "surroundings \<Rightarrow> string result" where
  "prefix_setting su = text_setting su ''nats-prefix'' defaultNATSPrefix"
definition no_color_setting :: "surroundings \<Rightarrow> bool result" where
  "no_color_setting su = newSetting su su_switch ''no-color'' False parse_switch"

text \<open>The style a run's output has: the no color node, the variable NO_COLOR and the stream.\<close>
definition output_style :: "surroundings \<Rightarrow> bool \<Rightarrow> bool \<Rightarrow> style" where
  "output_style su no_color terminal = \<lparr>st_on = ColorEnabled no_color (su_getenv su ''NO_COLOR'') terminal\<rparr>"

definition moduleVersion :: "string option \<Rightarrow> string" where
  "moduleVersion info = (case info of None \<Rightarrow> ''(devel)'' | Some v \<Rightarrow> if v = [] then ''(devel)'' else v)"

definition versionCommand :: "string option \<Rightarrow> string" where
  "versionCommand info = line (moduleVersion info)"

section \<open>The nodes\<close>

datatype slab_node =
    LifecycleConfigS | BaseS | GrafanaS | RepoS | NoColorS | NATSS | NATSStreamS | NATSPrefixS
  | ClientS | BrokerS | ServiceS | GrafanaUpS

text \<open>The nodes each constructor uses, and those it only orders itself after.\<close>
fun slab_uses :: "slab_node \<Rightarrow> slab_node list" where
  "slab_uses ClientS = [BaseS]"
| "slab_uses BrokerS = [NATSS, NATSStreamS, NATSPrefixS]"
| "slab_uses ServiceS = [BaseS, ClientS]"
| "slab_uses GrafanaUpS = [GrafanaS]"
| "slab_uses _ = []"

definition slab_afters :: "slab_node \<Rightarrow> slab_node list" where
  "slab_afters n = (if n = GrafanaUpS then [ServiceS] else [])"

text \<open>The Starters among them, which the lifecycle starts before a command runs.\<close>
definition slab_starters :: "slab_node list" where
  "slab_starters = [BrokerS, ServiceS, GrafanaUpS]"

section \<open>The command tree\<close>

text \<open>A command's kind: a leaf of the direct commands, or one of the others.\<close>
datatype slab_command = Direct leaf | Version | WatchEvents | RunScenario string

text \<open>The scenarios, in their order, with the nodes each declares.\<close>
definition All :: "(string \<times> slab_node list) list" where
  "All =
     [(''sqlate'', [RepoS, NoColorS]), (''domain'', [ServiceS, GrafanaUpS, RepoS, NoColorS]),
      (''problems'', [ServiceS, GrafanaUpS, RepoS, NoColorS]), (''storage'', [ServiceS, RepoS, NoColorS]),
      (''events'', [ServiceS, RepoS, NoColorS]), (''sweeper'', [ServiceS, GrafanaUpS, RepoS, NoColorS])]"

definition direct_nodes :: "slab_node list" where
  "direct_nodes = [NoColorS, ClientS]"

definition as_direct :: "(string \<times> leaf) list \<Rightarrow> (string \<times> slab_node list \<times> slab_command) list" where
  "as_direct ls = map (\<lambda>(name, l). (name, direct_nodes, Direct l)) ls"

definition mountDomain ::
    "machine \<Rightarrow> (int \<Rightarrow> string) \<Rightarrow> (json \<Rightarrow> string) \<Rightarrow> (string \<times> slab_node list \<times> slab_command) list" where
  "mountDomain m show_duration print = as_direct (organization_commands m print) @ as_direct (document_commands show_duration print)"

definition slab_mountAdmin :: "(string \<times> slab_node list \<times> slab_command) list" where
  "slab_mountAdmin = as_direct database_commands @ as_direct storage_commands"

definition mountEvents :: "(string \<times> slab_node list \<times> slab_command) list" where
  "mountEvents = [(''events watch'', [NoColorS, BrokerS], WatchEvents)]"

definition mountScenarios :: "(string \<times> slab_node list \<times> slab_command) list" where
  "mountScenarios = map (\<lambda>(name, ns). (''scenario '' @ name, ns, RunScenario name)) All"

text \<open>New's tree: every command by its path, with the nodes it declares.\<close>
definition slab_New ::
    "machine \<Rightarrow> (int \<Rightarrow> string) \<Rightarrow> (json \<Rightarrow> string) \<Rightarrow> (string \<times> slab_node list \<times> slab_command) list" where
  "slab_New m show_duration print =
     (''version'', [], Version) # mountDomain m show_duration print @ slab_mountAdmin @ mountEvents @ mountScenarios"

section \<open>The need nodes\<close>

text \<open>ended: a start whose context ended returns the context's error. probed is the probe's
  answer: the status of another answer than 200, or the transport's error.\<close>
datatype probed = Up | AnsweredStatus nat err | NoAnswer err

fun probe_error :: "probed \<Rightarrow> err option" where
  "probe_error Up = None"
| "probe_error (AnsweredStatus code e) = Some e"
| "probe_error (NoAnswer e) = Some e"

definition service_Start :: "string \<Rightarrow> probed \<Rightarrow> err option \<Rightarrow> err option" where
  "service_Start url probed ended =
     (case probe_error probed of
        None \<Rightarrow> None
      | Some e \<Rightarrow>
          (case ended of
             Some c \<Rightarrow> Some c
           | None \<Rightarrow>
               (case probed of
                  AnsweredStatus code _ \<Rightarrow>
                    if code = 503
                    then Some (wrapf (url @ '' answers but is not ready, its database or storage is down (start them with: mise run db:up)'') e)
                    else Some (wrapf (url @ '' answers but is not ready'') e)
                | _ \<Rightarrow> Some (wrapf (''nothing answers at '' @ url @ '' (start the service with: mise run serve)'') e))))"

definition grafana_Start :: "string \<Rightarrow> probed \<Rightarrow> err option \<Rightarrow> err option" where
  "grafana_Start url probed ended =
     (case probe_error probed of
        None \<Rightarrow> None
      | Some e \<Rightarrow>
          (case ended of
             Some c \<Rightarrow> Some c
           | None \<Rightarrow> Some (wrapf (''Grafana is not up at '' @ url @ '' (start it with: mise run otel:up)'') e)))"

section \<open>What a command builds\<close>

text \<open>No two commands share a path, so a command line names at most one.\<close>
lemma command_paths_distinct: "distinct (map fst (slab_New m show_duration print))"
  by (simp add: slab_New_def mountDomain_def as_direct_def organization_commands_def document_commands_def
      slab_mountAdmin_def database_commands_def schemaCommands_def storage_commands_def mountEvents_def mountScenarios_def All_def)

text \<open>The settings: a flag wins over its variable, the variable over the default; a variable
  that does not parse is an error, the flag given or not.\<close>
lemma setting_order:
  "newSetting su get name def parse =
     (case su_getenv su (su_env_name su envPrefix name) of
        [] \<Rightarrow> Inr (if preRun su name then get su name else def)
      | s \<Rightarrow> (case parse (su_getenv su (su_env_name su envPrefix name)) of
                Inl e \<Rightarrow> Inl (wrapf (su_env_name su envPrefix name) e)
              | Inr v \<Rightarrow> Inr (if preRun su name then get su name else v)))"
  by (auto simp: newSetting_def flag_value_def Let_def split: list.splits sum.splits)

end
