(* ===== verification/SlabStage.thy ===== *)
theory SlabStage
  imports SlabApp
begin

text \<open>
  tools/slab/scenarios: what the scenarios' steps share (scenarios.go, calls.go). A step
  acts on the reporter, the client and the clock; its run is a step from the trace of
  what was told, shown, sent and waited for to a value or an error and the trace after.
  The service behind the client is any function of that trace. A note is kept as the
  values it states; its prose is not modelled.
\<close>

section \<open>The stage\<close>

text \<open>One moment of a run: a note, a block, a request with the status it was answered, a
  wait for the sweep, or a wait for a metric.\<close>
datatype moment =
    Told "string list"
  | Displayed string
  | Exchanged string string "(string \<times> string) list" "json body_arg" "nat option"
  | Waited string
  | Awaited string

type_synonym trace = "moment list"

text \<open>What a step reads of its surroundings: the client's base, its transport and encoder,
  the reporter's stream, the clock in Unix nanoseconds, the printing, the repository, the
  decoders, the terminal a wait for the sweep polls through, and a duration as it prints.\<close>
record stage =
  sg_base :: string
  sg_transport :: "trace \<Rightarrow> string \<Rightarrow> string \<Rightarrow> string option \<Rightarrow> header_map \<Rightarrow> exchange"
  sg_encode :: "json \<Rightarrow> string result"
  sg_display :: "trace \<Rightarrow> string \<Rightarrow> err option"
  sg_now :: "trace \<Rightarrow> int"
  sg_printer :: "json printer"
  sg_style :: style
  sg_grafana :: string
  sg_repo :: string
  sg_go_mod :: "string list \<Rightarrow> go_mod"
  sg_absolute :: "string \<Rightarrow> string list result"
  sg_wd :: "string list result"
  sg_read :: "string list \<Rightarrow> string \<Rightarrow> string result"
  sg_media :: "string \<Rightarrow> string result"
  sg_problem :: "string \<Rightarrow> problem_doc result"
  sg_sweep :: "trace \<Rightarrow> json terminal"
  sg_duration :: "int \<Rightarrow> string"

text \<open>A run that never returns is None.\<close>
type_synonym 'a play = "trace \<Rightarrow> ('a result \<times> trace) option"

definition done_with :: "'a \<Rightarrow> 'a play" where
  "done_with x t = Some (Inr x, t)"

definition failing :: "err \<Rightarrow> 'a play" where
  "failing e t = Some (Inl e, t)"

definition chain :: "'a play \<Rightarrow> ('a \<Rightarrow> 'b play) \<Rightarrow> 'b play" where
  "chain m f t =
     (case m t of
        None \<Rightarrow> None
      | Some (Inl e, u) \<Rightarrow> Some (Inl e, u)
      | Some (Inr x, u) \<Rightarrow> f x u)"

definition taking :: "'a result \<Rightarrow> 'a play" where
  "taking r = (case r of Inl e \<Rightarrow> failing e | Inr x \<Rightarrow> done_with x)"

definition check_err :: "err option \<Rightarrow> unit play" where
  "check_err e = (case e of None \<Rightarrow> done_with () | Some x \<Rightarrow> failing x)"

definition wrapping :: "string \<Rightarrow> 'a result \<Rightarrow> 'a result" where
  "wrapping s r = map_sum (wrapf s) id r"

definition Note :: "string list \<Rightarrow> unit play" where
  "Note vs t = Some (Inr (), t @ [Told vs])"

definition Show :: "stage \<Rightarrow> string \<Rightarrow> unit play" where
  "Show sg block t =
     (case sg_display sg t block of
        Some e \<Rightarrow> Some (Inl e, t)
      | None \<Rightarrow> Some (Inr (), t @ [Displayed block]))"

definition clock_now :: "stage \<Rightarrow> int play" where
  "clock_now sg t = Some (Inr (sg_now sg t), t)"

text \<open>The client's Do: the request is sent, and its answer's status joins the trace.\<close>
definition Do :: "stage \<Rightarrow> string \<Rightarrow> string \<Rightarrow> (string \<times> string) list \<Rightarrow> json body_arg \<Rightarrow> response_seen play" where
  "Do sg verb path hs b t =
     (let got = Client_Do (sg_encode sg) (sg_transport sg t) (sg_base sg) verb path b hs
      in Some (got, t @ [Exchanged verb path hs b (case got of Inl _ \<Rightarrow> None | Inr r \<Rightarrow> Some (rp_status r))]))"

definition Get :: "stage \<Rightarrow> string \<Rightarrow> response_seen play" where
  "Get sg path = Do sg ''GET'' path [] NilBody"

text \<open>Response.JSON over a decoder of the value's type.\<close>
definition JSON_of :: "(string \<Rightarrow> 'a result) \<Rightarrow> response_seen \<Rightarrow> 'a result" where
  "JSON_of decode r =
     (case decode (rp_body r) of
        Inl e \<Rightarrow> Inl (Err Wrapped (''decode body: '' @ error_text e @ ''; body: '' @ rp_body r) [e])
      | Inr v \<Rightarrow> Inr v)"

text \<open>The checks a step ends a call with.\<close>
definition expecting :: "nat \<Rightarrow> response_seen \<Rightarrow> unit play" where
  "expecting code r = check_err (Expect r code)"

definition refused :: "stage \<Rightarrow> nat \<Rightarrow> response_seen \<Rightarrow> problem_doc play" where
  "refused sg code r = taking (Problem (sg_media sg) (sg_problem sg) r code)"

section \<open>Showing\<close>

definition service_name :: string where
  "service_name = ''go-web-service''"

definition caption_note :: "string \<Rightarrow> unit play" where
  "caption_note caption = (if caption \<noteq> [] then Note [caption] else done_with ())"

definition showing :: "stage \<Rightarrow> string \<Rightarrow> string \<Rightarrow> unit play" where
  "showing sg caption block =
     chain (Note []) (\<lambda>_. chain (Note [caption]) (\<lambda>_. chain (Show sg block) (\<lambda>_. Note [])))"

definition showApart :: "stage \<Rightarrow> string \<Rightarrow> string \<Rightarrow> unit play" where
  "showApart sg caption block =
     chain (Note []) (\<lambda>_. chain (caption_note caption) (\<lambda>_. Show sg block))"

definition call :: "stage \<Rightarrow> string \<Rightarrow> string \<Rightarrow> (string \<times> string) list \<Rightarrow> json body_arg \<Rightarrow> response_seen play" where
  "call sg verb path hs b =
     chain (showApart sg [] (render_Request (sg_printer sg) (sg_style sg) verb path hs b)) (\<lambda>_.
     chain (Do sg verb path hs b) (\<lambda>r.
     chain (showApart sg [] (render_Response (sg_printer sg) (sg_style sg) r)) (\<lambda>_. done_with r)))"

definition showTrace :: "stage \<Rightarrow> response_seen \<Rightarrow> unit play" where
  "showTrace sg r =
     chain (taking (TraceID r)) (\<lambda>i.
       showApart sg ''Observability'' (Trace (sg_style sg) (sg_grafana sg) service_name i))"

section \<open>The rows a scenario reads\<close>

text \<open>Organization, Identity, Directory and File as the responses decode to; the two
  Identity types have the same members.\<close>
record org_seen =
  os_id :: string
  os_parent :: "string option"
  os_code :: string
  os_name :: string
  os_version :: int
  os_path :: string

record identity_seen =
  is_id :: string
  is_version :: int

record directory_seen =
  ds_id :: string
  ds_parent :: "string option"
  ds_name :: string
  ds_status :: string
  ds_version :: int

record file_seen =
  fs_id :: string
  fs_directory :: string
  fs_name :: string
  fs_status :: string
  fs_version :: int

record 'a page_seen =
  pg_items :: "'a list"
  pg_size :: int
  pg_total :: "int option"
  pg_more :: bool
  pg_next :: string

text \<open>The decoders of the responses' bodies.\<close>
record decoders =
  dc_org :: "string \<Rightarrow> org_seen result"
  dc_orgs :: "string \<Rightarrow> org_seen page_seen result"
  dc_identity :: "string \<Rightarrow> identity_seen result"
  dc_directory :: "string \<Rightarrow> directory_seen result"
  dc_directories :: "string \<Rightarrow> directory_seen page_seen result"
  dc_file :: "string \<Rightarrow> file_seen result"
  dc_files :: "string \<Rightarrow> file_seen page_seen result"

definition decoded :: "(string \<Rightarrow> 'a result) \<Rightarrow> response_seen \<Rightarrow> 'a play" where
  "decoded decode r = taking (JSON_of decode r)"

section \<open>The shared calls\<close>

definition seedState :: string where
  "seedState = ''default''"
definition seedsDir :: string where
  "seedsDir = ''data/seeds''"
definition fixturesDir :: string where
  "fixturesDir = seedsDir @ ''/fixtures''"

text \<open>sweepLimit, in nanoseconds.\<close>
definition sweepLimit :: int where
  "sweepLimit = 45 * 1000000000"

definition stateRoute :: string where
  "stateRoute = DatabaseRoute @ ''/state''"

type_synonym tree = "string \<Rightarrow> org_seen option"

definition treeOf :: "org_seen page_seen \<Rightarrow> tree" where
  "treeOf p = foldl (\<lambda>t x. t(os_code x \<mapsto> x)) Map.empty (pg_items p)"

definition tree_get :: "tree \<Rightarrow> string \<Rightarrow> org_seen result" where
  "tree_get t code =
     (case t code of
        None \<Rightarrow> Inl (plain (''the seeded tree has no organization with code '' @ quoted code))
      | Some x \<Rightarrow> Inr x)"

text \<open>repo.FS over the override, and a read of one of its files.\<close>
definition repo_FS :: "stage \<Rightarrow> string list result" where
  "repo_FS sg = repo_Root (sg_go_mod sg) (sg_absolute sg) (sg_wd sg) (sg_repo sg)"

definition read_repo :: "stage \<Rightarrow> string \<Rightarrow> string result" where
  "read_repo sg path = (case repo_FS sg of Inl e \<Rightarrow> Inl e | Inr root \<Rightarrow> sg_read sg root path)"

definition seed_path :: string where
  "seed_path = seedsDir @ ''/'' @ seedState @ ''.json''"

definition reset_body_json :: json where
  "reset_body_json = JObject [(''state'', JString seedState), (''confirm'', JBool True)]"

definition reset :: "stage \<Rightarrow> unit play" where
  "reset sg =
     chain (Note [seedState, stateRoute]) (\<lambda>_.
     chain (taking (read_repo sg seed_path)) (\<lambda>txt.
     chain (showing sg seed_path (render_JSON (sg_printer sg) (sg_style sg) txt)) (\<lambda>_.
     chain (call sg ''POST'' stateRoute [] (ValueBody reset_body_json)) (\<lambda>r. expecting 200 r))))"

definition lookup :: "stage \<Rightarrow> decoders \<Rightarrow> string \<Rightarrow> org_seen play" where
  "lookup sg dc orgPath =
     chain (Get sg (Organizations @ ''/lookup?'' @ RawQuery [(''path'', orgPath)])) (\<lambda>r.
     chain (taking (wrapping (''lookup '' @ orgPath) (case Expect r 200 of None \<Rightarrow> Inr () | Some e \<Rightarrow> Inl e))) (\<lambda>_.
       decoded (dc_org dc) r))"

definition logoRoute :: "string \<Rightarrow> string" where
  "logoRoute org = Organizations @ ''/'' @ org @ ''/logo''"

definition documentsRoute :: "string \<Rightarrow> string" where
  "documentsRoute org = Documents @ ''/'' @ org"

definition directoryRoute :: "string \<Rightarrow> string \<Rightarrow> string" where
  "directoryRoute org i = documentsRoute org @ ''/directories/'' @ i"

definition fileRoute :: "string \<Rightarrow> string \<Rightarrow> string" where
  "fileRoute org i = documentsRoute org @ ''/files/'' @ i"

definition parent_name_value :: "string \<Rightarrow> string \<Rightarrow> json" where
  "parent_name_value p n = JObject [(''parent_id'', JString p), (''name'', JString n)]"

definition slab_createDirectory :: "stage \<Rightarrow> decoders \<Rightarrow> string \<Rightarrow> string \<Rightarrow> string \<Rightarrow> identity_seen play" where
  "slab_createDirectory sg dc route p n =
     chain (call sg ''POST'' route [] (ValueBody (parent_name_value p n))) (\<lambda>r.
     chain (expecting 201 r) (\<lambda>_. decoded (dc_identity dc) r))"

text \<open>The raw list (list, domain.go), identityOf and expectVersion.\<close>
definition list_orgs :: "stage \<Rightarrow> decoders \<Rightarrow> org_seen page_seen play" where
  "list_orgs sg dc =
     chain (call sg ''GET'' Organizations [] NilBody) (\<lambda>r.
     chain (expecting 200 r) (\<lambda>_. decoded (dc_orgs dc) r))"

definition identityOf :: "decoders \<Rightarrow> response_seen \<Rightarrow> string \<Rightarrow> identity_seen play" where
  "identityOf dc r want =
     chain (decoded (dc_identity dc) r) (\<lambda>i.
       if is_id i \<noteq> want then failing (plain (''the response names id '' @ is_id i @ '', want '' @ want))
       else done_with i)"

definition expectVersion :: "identity_seen \<Rightarrow> int \<Rightarrow> unit play" where
  "expectVersion i want =
     (if is_version i \<noteq> want
      then failing (plain (''the row is at version '' @ itoa (is_version i) @ '', want '' @ itoa want))
      else done_with ())"

text \<open>strconv.FormatInt in base 36: the stamp of a run.\<close>
definition digit36 :: "nat \<Rightarrow> char" where
  "digit36 n = char_of (if n < 10 then 48 + n else 87 + n)"

fun base36 :: "nat \<Rightarrow> string" where
  "base36 n = (if n < 36 then [digit36 n] else base36 (n div 36) @ [digit36 (n mod 36)])"
declare base36.simps [simp del]

definition FormatInt36 :: "int \<Rightarrow> string" where
  "FormatInt36 v = (if v < 0 then CHR ''-'' # base36 (nat (- v)) else base36 (nat v))"

definition json_valid :: "stage \<Rightarrow> string \<Rightarrow> bool" where
  "json_valid sg body = (pr_indent (sg_printer sg) body \<noteq> None)"

text \<open>The wait for the sweep, as the trace stands when it starts.\<close>
definition await_sweep :: "stage \<Rightarrow> string \<Rightarrow> int play" where
  "await_sweep sg location t =
     (case AwaitSweep (sg_sweep sg t) location sweepLimit of
        None \<Rightarrow> None
      | Some (Inl e) \<Rightarrow> Some (Inl e, t @ [Waited location])
      | Some (Inr took) \<Rightarrow> Some (Inr took, t @ [Waited location]))"

section \<open>A play that completes\<close>

text \<open>The runs that return a value, by their value and the trace after.\<close>
definition completes :: "'a play \<Rightarrow> trace \<Rightarrow> 'a \<Rightarrow> trace \<Rightarrow> bool" where
  "completes m t x u \<longleftrightarrow> m t = Some (Inr x, u)"

named_theorems completes_simps

lemma completes_done [completes_simps]: "completes (done_with y) t x u \<longleftrightarrow> x = y \<and> u = t"
  by (auto simp: completes_def done_with_def)

lemma completes_failing [completes_simps]: "\<not> completes (failing e) t x u"
  by (simp add: completes_def failing_def)

lemma completes_chain [completes_simps]:
  "completes (chain m f) t x u \<longleftrightarrow> (\<exists>y v. completes m t y v \<and> completes (f y) v x u)"
  by (auto simp: completes_def chain_def split: option.splits sum.splits)

lemma completes_taking [completes_simps]: "completes (taking r) t x u \<longleftrightarrow> r = Inr x \<and> u = t"
  by (auto simp: taking_def completes_simps split: sum.splits)

lemma completes_checking [completes_simps]: "completes (check_err e) t x u \<longleftrightarrow> e = None \<and> u = t"
  by (auto simp: check_err_def completes_simps split: option.splits)

lemma completes_if [completes_simps]:
  "completes (if b then m else n) t x u \<longleftrightarrow> (if b then completes m t x u else completes n t x u)"
  by simp

lemma completes_Note [completes_simps]: "completes (Note vs) t x u \<longleftrightarrow> u = t @ [Told vs]"
  by (auto simp: completes_def Note_def)

lemma completes_Show [completes_simps]:
  "completes (Show sg b) t x u \<longleftrightarrow> sg_display sg t b = None \<and> u = t @ [Displayed b]"
  by (auto simp: completes_def Show_def split: option.splits)

lemma completes_clock [completes_simps]: "completes (clock_now sg) t x u \<longleftrightarrow> x = sg_now sg t \<and> u = t"
  by (auto simp: completes_def clock_now_def)

lemma completes_expecting [completes_simps]:
  "completes (expecting code r) t x u \<longleftrightarrow> rp_status r = code \<and> u = t"
  by (auto simp: expecting_def Expect_def completes_simps)

section \<open>The exchanges of a run\<close>

text \<open>The requests of a trace with the statuses they were answered, its told and shown
  moments apart.\<close>
fun exchange_of :: "moment \<Rightarrow> (string \<times> string \<times> (string \<times> string) list \<times> nat option) list" where
  "exchange_of (Exchanged verb path hs b code) = [(verb, path, hs, code)]"
| "exchange_of _ = []"

definition exchanges :: "trace \<Rightarrow> (string \<times> string \<times> (string \<times> string) list \<times> nat option) list" where
  "exchanges t = concat (map exchange_of t)"

lemma exchanges_append [simp]: "exchanges (t @ u) = exchanges t @ exchanges u"
  by (simp add: exchanges_def)

lemma exchanges_moments [simp]: "exchanges [] = []" "exchanges (m # t) = exchange_of m @ exchanges t"
  by (simp_all add: exchanges_def)

lemma showing_exchanges: "completes (showing sg c b) t x u \<Longrightarrow> exchanges u = exchanges t"
  by (auto simp: showing_def completes_simps)

lemma showApart_exchanges: "completes (showApart sg c b) t x u \<Longrightarrow> exchanges u = exchanges t"
  by (auto simp: showApart_def caption_note_def completes_simps split: if_splits)

lemma Do_exchanges:
  "completes (Do sg verb path hs b) t r u \<Longrightarrow> exchanges u = exchanges t @ [(verb, path, hs, Some (rp_status r))]"
  by (auto simp: Do_def completes_def Let_def)

lemma call_exchanges:
  "completes (call sg verb path hs b) t r u \<Longrightarrow> exchanges u = exchanges t @ [(verb, path, hs, Some (rp_status r))]"
  by (auto simp: call_def completes_simps dest!: showApart_exchanges Do_exchanges)

lemma showTrace_exchanges: "completes (showTrace sg r) t x u \<Longrightarrow> exchanges u = exchanges t"
  by (auto simp: showTrace_def completes_simps dest: showApart_exchanges)

lemma refused_status: "completes (refused sg code r) t p u \<Longrightarrow> rp_status r = code \<and> u = t"
  by (auto simp: refused_def completes_simps Problem_def Expect_def split: option.splits if_splits)

lemma decoded_trace [completes_simps]: "completes (decoded d r) t x u \<longleftrightarrow> JSON_of d r = Inr x \<and> u = t"
  by (simp add: decoded_def completes_simps)

lemma reset_exchanges:
  "completes (reset sg) t x u \<Longrightarrow> exchanges u = exchanges t @ [(''POST'', stateRoute, [], Some 200)]"
  by (auto simp: reset_def completes_simps dest!: showing_exchanges call_exchanges)

lemma lookup_exchanges:
  "completes (lookup sg dc p) t x u \<Longrightarrow>
     exchanges u = exchanges t @ [(''GET'', Organizations @ ''/lookup?'' @ RawQuery [(''path'', p)], [], Some 200)]"
  by (auto simp: lookup_def completes_simps Get_def wrapping_def Expect_def dest!: Do_exchanges split: if_splits option.splits)

lemma createDirectory_exchanges:
  "completes (slab_createDirectory sg dc route p n) t x u \<Longrightarrow> exchanges u = exchanges t @ [(''POST'', route, [], Some 201)]"
  by (auto simp: slab_createDirectory_def completes_simps dest!: call_exchanges)

lemma list_exchanges:
  "completes (list_orgs sg dc) t p u \<Longrightarrow> exchanges u = exchanges t @ [(''GET'', Organizations, [], Some 200)]"
  by (auto simp: list_orgs_def completes_simps dest!: call_exchanges)

lemma identityOf_completes [completes_simps]:
  "completes (identityOf dc r want) t i u \<longleftrightarrow> JSON_of (dc_identity dc) r = Inr i \<and> is_id i = want \<and> u = t"
  by (auto simp: identityOf_def completes_simps)

lemma expectVersion_completes [completes_simps]:
  "completes (expectVersion i v) t x u \<longleftrightarrow> is_version i = v \<and> u = t"
  by (auto simp: expectVersion_def completes_simps)

lemma await_exchanges: "completes (await_sweep sg l) t x u \<Longrightarrow> exchanges u = exchanges t"
  by (auto simp: await_sweep_def completes_def split: option.splits sum.splits)

end
