(* ===== verification/SlabDomain.thy ===== *)
theory SlabDomain
  imports SlabStage
begin

text \<open>
  tools/slab/scenarios/domain.go and problems.go: the organization domain's commands one
  after another, and the service's error conditions one request each.
\<close>

section \<open>Steps\<close>

text \<open>A scenario's steps over its own state, and a run of them: in order, up to the first
  that fails, as the scenario library performs them.\<close>
type_synonym 's steps = "(string \<times> ('s \<Rightarrow> 's play)) list"

fun play_steps :: "'s steps \<Rightarrow> 's \<Rightarrow> 's play" where
  "play_steps [] s = done_with s"
| "play_steps ((intent, act) # as) s = chain (act s) (play_steps as)"

definition keeping :: "'s \<Rightarrow> 'a play \<Rightarrow> 's play" where
  "keeping s m = chain m (\<lambda>_. done_with s)"

lemma completes_keeping [completes_simps]: "completes (keeping s m) t x u \<longleftrightarrow> x = s \<and> (\<exists>y. completes m t y u)"
  by (auto simp: keeping_def completes_simps)

lemma completes_steps [completes_simps]:
  "completes (play_steps [] s) t x u \<longleftrightarrow> x = s \<and> u = t"
  "completes (play_steps ((i, act) # as) s) t x u \<longleftrightarrow>
     (\<exists>y v. completes (act s) t y v \<and> completes (play_steps as y) v x u)"
  by (simp_all add: completes_simps)

text \<open>The bodies of the organization commands.\<close>
definition parent_value :: "string option \<Rightarrow> json" where
  "parent_value p = (case p of None \<Rightarrow> JNull | Some i \<Rightarrow> JString i)"

definition create_value :: "string option \<Rightarrow> string \<Rightarrow> string \<Rightarrow> json" where
  "create_value p code name = JObject [(''parent_id'', parent_value p), (''code'', JString code), (''name'', JString name)]"

definition edit_value :: "string \<Rightarrow> string \<Rightarrow> json" where
  "edit_value code name = JObject [(''code'', JString code), (''name'', JString name)]"

definition transfer_value :: "string option \<Rightarrow> json" where
  "transfer_value p = JObject [(''parent_id'', parent_value p)]"

definition org_route :: "string \<Rightarrow> string" where
  "org_route i = Organizations @ ''/'' @ i"

section \<open>The domain scenario\<close>

definition createdCode :: string where "createdCode = ''sales''"
definition createdName :: string where "createdName = ''Sales''"
definition editedCode :: string where "editedCode = ''finance''"
definition editedName :: string where "editedName = ''Finance and Accounting''"
definition movedCode :: string where "movedCode = ''logistics''"
definition newParentCode :: string where "newParentCode = ''engineering''"

record domain_state =
  dm_tree :: tree
  dm_created :: identity_seen

definition domain_initialization :: "stage \<Rightarrow> domain_state \<Rightarrow> domain_state play" where
  "domain_initialization sg s = keeping s (reset sg)"

definition rawList :: "stage \<Rightarrow> decoders \<Rightarrow> domain_state \<Rightarrow> domain_state play" where
  "rawList sg dc s =
     chain (Note [itoa DefaultPageSize]) (\<lambda>_.
     chain (list_orgs sg dc) (\<lambda>p.
       if pg_size p \<noteq> DefaultPageSize
       then failing (plain (''the default page size is '' @ itoa (pg_size p) @ '', not the '' @ itoa DefaultPageSize
              @ '' the narration states''))
       else done_with (s\<lparr>dm_tree := treeOf p\<rparr>)))"

definition queriedList :: "stage \<Rightarrow> domain_state \<Rightarrow> domain_state play" where
  "queriedList sg s =
     chain (Note []) (\<lambda>_.
     chain (call sg ''GET'' (Organizations @ ''?''
              @ RawQuery [(''code[like]'', ''%o%''), (''size'', ''2''), (''page'', ''1'')]) [] NilBody) (\<lambda>r.
       keeping s (expecting 200 r)))"

definition domain_find :: "stage \<Rightarrow> domain_state \<Rightarrow> domain_state play" where
  "domain_find sg s =
     chain (taking (tree_get (dm_tree s) ''acme'')) (\<lambda>acme.
     chain (call sg ''GET'' (org_route (os_id acme)) [] NilBody) (\<lambda>r. keeping s (expecting 200 r)))"

definition findByPath :: "stage \<Rightarrow> domain_state \<Rightarrow> domain_state play" where
  "findByPath sg s =
     chain (call sg ''GET'' (Organizations @ ''/lookup?path=/acme/engineering/platform'') [] NilBody) (\<lambda>r.
       keeping s (expecting 200 r))"

definition domain_create :: "stage \<Rightarrow> decoders \<Rightarrow> domain_state \<Rightarrow> domain_state play" where
  "domain_create sg dc s =
     chain (taking (tree_get (dm_tree s) ''acme'')) (\<lambda>acme.
     chain (Note [createdCode]) (\<lambda>_.
     chain (call sg ''POST'' Organizations [] (ValueBody (create_value (Some (os_id acme)) createdCode createdName))) (\<lambda>r.
     chain (expecting 201 r) (\<lambda>_.
     chain (decoded (dc_identity dc) r) (\<lambda>i.
       keeping (s\<lparr>dm_created := i\<rparr>) (showTrace sg r))))))"

definition domain_edit :: "stage \<Rightarrow> decoders \<Rightarrow> domain_state \<Rightarrow> domain_state play" where
  "domain_edit sg dc s =
     chain (taking (tree_get (dm_tree s) editedCode)) (\<lambda>x.
     chain (Note [os_code x, editedName]) (\<lambda>_.
     chain (call sg ''PUT'' (org_route (os_id x)) [IfMatchHeader (os_version x)]
              (ValueBody (edit_value (os_code x) editedName))) (\<lambda>r.
     chain (expecting 200 r) (\<lambda>_.
     chain (identityOf dc r (os_id x)) (\<lambda>i. keeping s (expectVersion i (os_version x + 1)))))))"

definition domain_transfer :: "stage \<Rightarrow> decoders \<Rightarrow> domain_state \<Rightarrow> domain_state play" where
  "domain_transfer sg dc s =
     chain (taking (tree_get (dm_tree s) movedCode)) (\<lambda>x.
     chain (taking (tree_get (dm_tree s) newParentCode)) (\<lambda>p.
     chain (Note [os_code x, os_code p, os_code x, itoa (os_version x)]) (\<lambda>_.
     chain (call sg ''POST'' (org_route (os_id x) @ ''/transfer'') [IfMatchHeader (os_version x)]
              (ValueBody (transfer_value (Some (os_id p))))) (\<lambda>r.
     chain (expecting 200 r) (\<lambda>_.
     chain (identityOf dc r (os_id x)) (\<lambda>i. keeping s (expectVersion i (os_version x + 1))))))))"

text \<open>results: a code the tree lacks reads as an organization of empty members.\<close>
definition member_or :: "'a \<Rightarrow> (org_seen \<Rightarrow> 'a) \<Rightarrow> tree \<Rightarrow> string \<Rightarrow> 'a" where
  "member_or zero get t code = (case t code of None \<Rightarrow> zero | Some x \<Rightarrow> get x)"

definition results :: "stage \<Rightarrow> decoders \<Rightarrow> domain_state \<Rightarrow> domain_state play" where
  "results sg dc s =
     chain (Note []) (\<lambda>_.
     chain (list_orgs sg dc) (\<lambda>p.
       (let after = treeOf p
        in if map_option os_id (after createdCode) \<noteq> Some (is_id (dm_created s))
           then failing (plain (''the list does not show the created row '' @ createdCode @ '' as id '' @ is_id (dm_created s)))
           else if member_or [] os_name after editedCode \<noteq> editedName
           then failing (plain (''the list shows '' @ editedCode @ '' named '' @ quoted (member_or [] os_name after editedCode)
                  @ '', want '' @ quoted editedName))
           else if member_or None os_parent after movedCode \<noteq> Some (member_or [] os_id (dm_tree s) newParentCode)
           then failing (plain (''the list does not show '' @ movedCode @ '' under '' @ newParentCode))
           else done_with s)))"

definition domain_delete :: "stage \<Rightarrow> domain_state \<Rightarrow> domain_state play" where
  "domain_delete sg s =
     chain (Note [createdCode]) (\<lambda>_.
     chain (call sg ''DELETE'' (org_route (is_id (dm_created s))) [IfMatchHeader (is_version (dm_created s))] NilBody) (\<lambda>r.
       keeping s (expecting 204 r)))"

definition Domain :: "stage \<Rightarrow> decoders \<Rightarrow> domain_state steps" where
  "Domain sg dc =
     [(''Initialization'', domain_initialization sg), (''Raw List'', rawList sg dc), (''Queried List'', queriedList sg),
      (''Find'', domain_find sg), (''Find by Path'', findByPath sg), (''Create'', domain_create sg dc),
      (''Edit'', domain_edit sg dc), (''Transfer'', domain_transfer sg dc), (''Results'', results sg dc),
      (''Delete'', domain_delete sg)]"

section \<open>The problems scenario\<close>

definition absentID :: string where
  "absentID = ''00000000-0000-7000-8000-000000000000''"

definition slab_maxCommandBody :: nat where
  "slab_maxCommandBody = 65536"

definition invalidCode :: string where
  "invalidCode = ''Sales Team''"

definition malformed_body :: string where
  \<open>malformed_body = ''{"parent_id": null, "code": "sales", "name": "Sales"''\<close>

definition renamedName :: string where
  "renamedName = ''Acme Corporation, Inc.''"

type_synonym problems_state = tree

text \<open>answered and observe.\<close>
definition answered :: "stage \<Rightarrow> response_seen \<Rightarrow> nat \<Rightarrow> unit play" where
  "answered sg r code = chain (refused sg code r) (\<lambda>_. showTrace sg r)"

definition observe_call ::
    "stage \<Rightarrow> string \<Rightarrow> string \<Rightarrow> (string \<times> string) list \<Rightarrow> json body_arg \<Rightarrow> nat \<Rightarrow> unit play" where
  "observe_call sg verb path hs b code = chain (call sg verb path hs b) (\<lambda>r. answered sg r code)"

definition problems_list :: "stage \<Rightarrow> decoders \<Rightarrow> org_seen page_seen play" where
  "problems_list sg dc =
     chain (Get sg Organizations) (\<lambda>r. chain (expecting 200 r) (\<lambda>_. decoded (dc_orgs dc) r))"

definition problems_initialization :: "stage \<Rightarrow> decoders \<Rightarrow> problems_state \<Rightarrow> problems_state play" where
  "problems_initialization sg dc s =
     chain (reset sg) (\<lambda>_. chain (problems_list sg dc) (\<lambda>p. done_with (treeOf p)))"

definition malformedIdentifier :: "stage \<Rightarrow> problems_state \<Rightarrow> problems_state play" where
  "malformedIdentifier sg s =
     chain (Note []) (\<lambda>_. keeping s (observe_call sg ''GET'' (Organizations @ ''/not-a-uuid'') [] NilBody 400))"

definition malformedQuery :: "stage \<Rightarrow> problems_state \<Rightarrow> problems_state play" where
  "malformedQuery sg s =
     chain (Note []) (\<lambda>_.
       keeping s (observe_call sg ''GET'' (Organizations @ ''?'' @ RawQuery [(''page'', ''0'')]) [] NilBody 400))"

definition malformedBody :: "stage \<Rightarrow> problems_state \<Rightarrow> problems_state play" where
  "malformedBody sg s =
     chain (Note []) (\<lambda>_. keeping s (observe_call sg ''POST'' Organizations [] (StringBody malformed_body) 400))"

definition oversized_payload :: string where
  \<open>oversized_payload = ''{"code":"'' @ replicate (slab_maxCommandBody + 1) (CHR ''a'') @ ''"}''\<close>

definition oversized_printable :: string where
  \<open>oversized_printable = ''{"code":"<'' @ decimal (slab_maxCommandBody + 1) @ '' bytes>"}''\<close>

definition oversizedBody :: "stage \<Rightarrow> problems_state \<Rightarrow> problems_state play" where
  "oversizedBody sg s =
     chain (Note [decimal slab_maxCommandBody, decimal (slab_maxCommandBody + 1)]) (\<lambda>_.
     chain (showApart sg [] (render_Request (sg_printer sg) (sg_style sg) ''POST'' Organizations []
              (StringBody oversized_printable))) (\<lambda>_.
     chain (Do sg ''POST'' Organizations [] (BytesBody oversized_payload)) (\<lambda>r.
     chain (showApart sg [] (render_Response (sg_printer sg) (sg_style sg) r)) (\<lambda>_.
       keeping s (answered sg r 413)))))"

definition domainValidation :: "stage \<Rightarrow> problems_state \<Rightarrow> problems_state play" where
  "domainValidation sg s =
     chain (taking (tree_get s ''acme'')) (\<lambda>acme.
     chain (Note [invalidCode]) (\<lambda>_.
       keeping s (observe_call sg ''POST'' Organizations []
         (ValueBody (create_value (Some (os_id acme)) invalidCode ''Sales Team'')) 400)))"

definition org_missingIfMatch :: "stage \<Rightarrow> problems_state \<Rightarrow> problems_state play" where
  "org_missingIfMatch sg s =
     chain (taking (tree_get s ''acme'')) (\<lambda>acme.
     chain (Note []) (\<lambda>_.
       keeping s (observe_call sg ''PUT'' (org_route (os_id acme)) []
         (ValueBody (edit_value (os_code acme) renamedName)) 428)))"

definition weak_tag :: "int \<Rightarrow> string" where
  \<open>weak_tag v = ''W/"'' @ itoa v @ ''"''\<close>

definition malformedIfMatch :: "stage \<Rightarrow> problems_state \<Rightarrow> problems_state play" where
  "malformedIfMatch sg s =
     chain (taking (tree_get s ''acme'')) (\<lambda>acme.
     chain (Note [itoa (os_version acme), itoa (os_version acme)]) (\<lambda>_.
       keeping s (observe_call sg ''PUT'' (org_route (os_id acme)) [(''If-Match'', weak_tag (os_version acme))]
         (ValueBody (edit_value (os_code acme) renamedName)) 400)))"

definition staleVersion :: "stage \<Rightarrow> problems_state \<Rightarrow> problems_state play" where
  "staleVersion sg s =
     chain (taking (tree_get s ''acme'')) (\<lambda>acme.
     chain (Note []) (\<lambda>_.
       keeping s (observe_call sg ''PUT'' (org_route (os_id acme)) [IfMatchHeader (os_version acme + 1)]
         (ValueBody (edit_value (os_code acme) renamedName)) 412)))"

definition notFound :: "stage \<Rightarrow> problems_state \<Rightarrow> problems_state play" where
  "notFound sg s =
     chain (Note []) (\<lambda>_. keeping s (observe_call sg ''GET'' (org_route absentID) [] NilBody 404))"

definition duplicateCode :: "stage \<Rightarrow> problems_state \<Rightarrow> problems_state play" where
  "duplicateCode sg s =
     chain (taking (tree_get s ''acme'')) (\<lambda>acme.
     chain (Note [os_code acme, os_code acme]) (\<lambda>_.
       keeping s (observe_call sg ''POST'' Organizations []
         (ValueBody (create_value None (os_code acme) (os_name acme))) 409)))"

definition transferCycle :: "stage \<Rightarrow> problems_state \<Rightarrow> problems_state play" where
  "transferCycle sg s =
     chain (taking (tree_get s ''acme'')) (\<lambda>acme.
     chain (taking (tree_get s ''platform'')) (\<lambda>platform.
     chain (Note []) (\<lambda>_.
       keeping s (observe_call sg ''POST'' (org_route (os_id acme) @ ''/transfer'') [IfMatchHeader (os_version acme)]
         (ValueBody (transfer_value (Some (os_id platform)))) 409))))"

definition Problems_conditions :: "stage \<Rightarrow> problems_state steps" where
  "Problems_conditions sg =
     [(''Malformed Identifier'', malformedIdentifier sg), (''Malformed Query'', malformedQuery sg),
      (''Malformed Body'', malformedBody sg), (''Oversized Body'', oversizedBody sg),
      (''Domain Validation'', domainValidation sg), (''Missing If-Match'', org_missingIfMatch sg),
      (''Malformed If-Match'', malformedIfMatch sg), (''Stale Version'', staleVersion sg), (''Not Found'', notFound sg),
      (''Duplicate Code'', duplicateCode sg), (''Transfer Cycle'', transferCycle sg)]"

definition Problems :: "stage \<Rightarrow> decoders \<Rightarrow> problems_state steps" where
  "Problems sg dc = (''Initialization'', problems_initialization sg dc) # Problems_conditions sg"

section \<open>What the calls exchange\<close>

lemma observe_exchanges:
  "completes (observe_call sg verb path hs b code) t x u \<Longrightarrow> exchanges u = exchanges t @ [(verb, path, hs, Some code)]"
  by (auto simp: observe_call_def answered_def completes_simps dest!: call_exchanges refused_status showTrace_exchanges)

lemma oversized_exchanges:
  "completes (oversizedBody sg s) t x u \<Longrightarrow> x = s \<and> exchanges u = exchanges t @ [(''POST'', Organizations, [], Some 413)]"
  by (auto simp: oversizedBody_def answered_def completes_simps
      dest!: Do_exchanges refused_status showTrace_exchanges showApart_exchanges)

lemma problems_list_exchanges:
  "completes (problems_list sg dc) t p u \<Longrightarrow> exchanges u = exchanges t @ [(''GET'', Organizations, [], Some 200)]"
  by (auto simp: problems_list_def completes_simps Get_def dest!: Do_exchanges)

lemma treeOf_from: "foldl (\<lambda>t x. t(os_code x \<mapsto> x)) m xs code = Some x \<Longrightarrow> m code = Some x \<or> x \<in> set xs \<and> os_code x = code"
proof (induction xs arbitrary: m)
  case (Cons y ys)
  then have "(m(os_code y \<mapsto> y)) code = Some x \<or> x \<in> set ys \<and> os_code x = code" by (intro Cons.IH) simp
  then show ?case by (auto split: if_splits)
qed simp

lemma treeOf_code: "treeOf p code = Some x \<Longrightarrow> x \<in> set (pg_items p) \<and> os_code x = code"
  using treeOf_from [of Map.empty "pg_items p"] by (auto simp: treeOf_def)

end
