(* ===== verification/SlabStorage.thy ===== *)
theory SlabStorage
  imports SlabDomain "HOL-Library.Sublist"
begin

text \<open>
  tools/slab/scenarios/storage.go: the migration sets, a logo's replace cycle, the
  document tree and a cursor walk, the scoped refusals, a recursive delete swept to 404,
  and a reset, with the seed file they check against.
\<close>

section \<open>The seed file\<close>

definition storageOrgPath :: string where "storageOrgPath = ''/acme''"
definition otherOrgPath :: string where "otherOrgPath = ''/acme/finance''"
definition guardedFilePath :: string where "guardedFilePath = ''/README.txt''"
definition takenDirPath :: string where "takenDirPath = ''/engineering''"
definition replacementFixture :: string where "replacementFixture = ''engineering.png''"
definition cursorPageSize :: nat where "cursorPageSize = 1"
definition slab_detailNameTaken :: string where
  "slab_detailNameTaken = ''an entry with that name already exists''"
definition schemaRoute :: string where "schemaRoute = DatabaseRoute @ ''/schema''"
definition seedRoute :: string where "seedRoute = DatabaseRoute @ ''/seed''"
definition declaredSets :: "string list" where "declaredSets = [''blobfs'', ''app'']"

datatype slab_entry = Entry (en_id: string) (en_name: string) (en_type: string) (en_entries: "slab_entry list")

record seed_tree =
  tr_organization :: string
  tr_root :: string
  tr_entries :: "slab_entry list"

text \<open>seedFile: the organizations and the logos are only counted.\<close>
record seed_file =
  sf_organizations :: nat
  sf_logos :: nat
  sf_documents :: "seed_tree list"

record seeded =
  sd_documents :: int
  sd_logos :: int
  sd_organizations :: int

fun entry_count :: "slab_entry \<Rightarrow> nat" where
  "entry_count (Entry i n c es) = Suc (sum_list (map entry_count es))"

definition seedCounts :: "seed_file \<Rightarrow> seeded" where
  "seedCounts s =
     \<lparr>sd_documents = int (sum_list (map (\<lambda>t. sum_list (map entry_count (tr_entries t))) (sf_documents s))),
      sd_logos = int (sf_logos s), sd_organizations = int (sf_organizations s)\<rparr>"

definition seed_tree_of :: "seed_file \<Rightarrow> string \<Rightarrow> seed_tree result" where
  "seed_tree_of s orgPath =
     (case List.find (\<lambda>t. tr_organization t = orgPath) (sf_documents s) of
        Some t \<Rightarrow> Inr t
      | None \<Rightarrow> Inl (plain (''the seed has no document tree for '' @ orgPath)))"

text \<open>paths: the entries by their path, in the order they are written to the map.\<close>
fun entry_paths :: "string \<Rightarrow> slab_entry \<Rightarrow> (string \<times> string) list" where
  "entry_paths pre (Entry i n c es) =
     (if c = [] then (pre @ n @ ''/'', i) # concat (map (entry_paths (pre @ n @ ''/'')) es)
      else [(pre @ n, i)])"

definition path_list :: "seed_tree \<Rightarrow> (string \<times> string) list" where
  "path_list t = concat (map (entry_paths ''/'') (tr_entries t))"

definition last_of :: "(string \<times> string) list \<Rightarrow> string \<Rightarrow> string option" where
  "last_of ps k = map_of (rev ps) k"

section \<open>The stage and the state\<close>

record set_status =
  se_name :: string
  se_version :: int
  se_latest :: int
  se_dirty :: bool

record schema_seen =
  sc_ready :: bool
  sc_sets :: "set_status list"

text \<open>The decoders of this scenario, and what url.Parse and RequestURI read of a Location.\<close>
record storage_lib =
  sb_seed :: "string \<Rightarrow> seed_file result"
  sb_schema :: "string \<Rightarrow> schema_seen result"
  sb_seeded :: "string \<Rightarrow> seeded result"
  sb_reset :: "string \<Rightarrow> seeded result"
  sb_object :: "string \<Rightarrow> (string \<times> json) list result"
  sb_uri :: "string \<Rightarrow> string result"

record storage_state =
  st_seed :: seed_file
  st_paths :: "(string \<times> string) list"
  st_root :: string
  st_acme :: org_seen
  st_other :: org_seen
  st_etag :: string
  st_guarded :: file_seen
  st_branch :: directory_seen
  st_location :: string

definition loadSeed :: "stage \<Rightarrow> storage_lib \<Rightarrow> seed_file result" where
  "loadSeed sg L =
     (case read_repo sg seed_path of
        Inl e \<Rightarrow> Inl e
      | Inr raw \<Rightarrow> wrapping seed_path (sb_seed L raw))"

section \<open>The schema and the seed\<close>

definition print_bool :: "bool \<Rightarrow> string" where
  "print_bool b = (if b then ''true'' else ''false'')"

fun set_rows :: "string \<Rightarrow> set_status list \<Rightarrow> (string \<times> string) list result" where
  "set_rows want [] = Inr []"
| "set_rows want (x # xs) =
     (if se_name x \<noteq> want then set_rows want xs
      else if se_dirty x \<or> se_version x \<noteq> se_latest x
      then Inl (plain (''the '' @ se_name x @ '' set is at version '' @ itoa (se_version x) @ '' of '' @ itoa (se_latest x)
             @ '' (dirty '' @ print_bool (se_dirty x) @ ''), want it at its latest and clean''))
      else (case set_rows want xs of
              Inl e \<Rightarrow> Inl e
            | Inr rows \<Rightarrow> Inr ((se_name x, ''version '' @ itoa (se_version x) @ '' of '' @ itoa (se_latest x)) # rows)))"

fun all_set_rows :: "string list \<Rightarrow> set_status list \<Rightarrow> (string \<times> string) list result" where
  "all_set_rows [] xs = Inr []"
| "all_set_rows (want # wants) xs =
     (case set_rows want xs of
        Inl e \<Rightarrow> Inl e
      | Inr rows \<Rightarrow>
          if rows = [] then Inl (plain (''the schema status lists no '' @ want @ '' set''))
          else (case all_set_rows wants xs of Inl e \<Rightarrow> Inl e | Inr others \<Rightarrow> Inr (rows @ others)))"

definition migrationSets :: "stage \<Rightarrow> storage_lib \<Rightarrow> storage_state \<Rightarrow> storage_state play" where
  "migrationSets sg L s =
     chain (Note []) (\<lambda>_.
     chain (call sg ''GET'' schemaRoute [] NilBody) (\<lambda>r.
     chain (expecting 200 r) (\<lambda>_.
     chain (decoded (sb_schema L) r) (\<lambda>status.
       if \<not> sc_ready status then failing (plain ''the schema status is not ready'')
       else chain (taking (all_set_rows declaredSets (sc_sets status))) (\<lambda>rows.
              keeping s (showing sg ''Migration sets'' (Table (sg_style sg) rows)))))))"

definition additiveSeed :: "stage \<Rightarrow> decoders \<Rightarrow> storage_lib \<Rightarrow> storage_state \<Rightarrow> storage_state play" where
  "additiveSeed sg dc L s =
     chain (taking (loadSeed sg L)) (\<lambda>seed.
     chain (taking (seed_tree_of seed storageOrgPath)) (\<lambda>t.
     chain (Note [seedState]) (\<lambda>_.
     chain (call sg ''POST'' seedRoute [] (ValueBody (JObject [(''state'', JString seedState)]))) (\<lambda>r.
     chain (expecting 200 r) (\<lambda>_.
     chain (decoded (sb_seeded L) r) (\<lambda>_.
     chain (lookup sg dc storageOrgPath) (\<lambda>acme.
     chain (lookup sg dc otherOrgPath) (\<lambda>other.
       done_with (s\<lparr>st_seed := seed, st_paths := path_list t, st_root := tr_root t, st_acme := acme,
                    st_other := other\<rparr>)))))))))"

section \<open>The logo\<close>

text \<open>summarized: a body that is not JSON, by its length and type.\<close>
definition summarized :: "stage \<Rightarrow> response_seen \<Rightarrow> response_seen" where
  "summarized sg r =
     (if rp_body r = [] \<or> json_valid sg (rp_body r) then r
      else r\<lparr>rp_body := ''('' @ decimal (length (rp_body r)) @ '' bytes of '' @ header_get (rp_header r) ''Content-Type'' @ '')''\<rparr>)"

definition acme_logo :: "storage_state \<Rightarrow> string" where
  "acme_logo s = logoRoute (os_id (st_acme s))"

definition getLogo :: "stage \<Rightarrow> storage_state \<Rightarrow> response_seen play" where
  "getLogo sg s =
     chain (showApart sg [] (render_Request (sg_printer sg) (sg_style sg) ''GET'' (acme_logo s) [] NilBody)) (\<lambda>_.
     chain (Get sg (acme_logo s)) (\<lambda>r.
     chain (showApart sg [] (render_Response (sg_printer sg) (sg_style sg) (summarized sg r))) (\<lambda>_. done_with r)))"

definition readLogo :: "stage \<Rightarrow> storage_state \<Rightarrow> storage_state play" where
  "readLogo sg s =
     chain (Note []) (\<lambda>_.
     chain (getLogo sg s) (\<lambda>r.
     chain (expecting 200 r) (\<lambda>_.
       (let etag = header_get (rp_header r) ''ETag''
        in if etag = [] then failing (plain ''the logo carries no ETag'') else done_with (s\<lparr>st_etag := etag\<rparr>)))))"

definition revalidateLogo :: "stage \<Rightarrow> storage_state \<Rightarrow> storage_state play" where
  "revalidateLogo sg s =
     chain (Note []) (\<lambda>_.
     chain (call sg ''GET'' (acme_logo s) [(''If-None-Match'', st_etag s)] NilBody) (\<lambda>r.
       keeping s (expecting 304 r)))"

text \<open>A PUT of a fixture narrated with its body summarized.\<close>
definition png_header :: "(string \<times> string) list" where
  "png_header = [(''Content-Type'', ''image/png'')]"

definition put_fixture :: "stage \<Rightarrow> string \<Rightarrow> string \<Rightarrow> string \<Rightarrow> response_seen play" where
  "put_fixture sg route name png =
     chain (showApart sg [] (render_Request (sg_printer sg) (sg_style sg) ''PUT'' route png_header
              (StringBody (''('' @ decimal (length png) @ '' bytes of '' @ name @ '')'')))) (\<lambda>_.
     chain (Do sg ''PUT'' route png_header (BytesBody png)) (\<lambda>r.
     chain (showApart sg [] (render_Response (sg_printer sg) (sg_style sg) r)) (\<lambda>_. done_with r)))"

definition text_member :: "(string \<times> json) list \<Rightarrow> string \<Rightarrow> string" where
  "text_member ms k = (case member_of ms k of Some (JString v) \<Rightarrow> v | _ \<Rightarrow> [])"

definition replaceLogo :: "stage \<Rightarrow> storage_lib \<Rightarrow> storage_state \<Rightarrow> storage_state play" where
  "replaceLogo sg L s =
     (let name = fixturesDir @ ''/'' @ replacementFixture in
      chain (taking (read_repo sg name)) (\<lambda>png.
      chain (Note [replacementFixture]) (\<lambda>_.
      chain (put_fixture sg (acme_logo s) name png) (\<lambda>r.
      chain (expecting 201 r) (\<lambda>_.
      chain (decoded (sb_object L) r) (\<lambda>created.
        if text_member created ''id'' = [] then failing (plain (''the logo PUT names no id; body: '' @ rp_body r))
        else if member_of created ''version'' \<noteq> None
        then failing (plain (''the logo PUT names a version, which a logo does not take; body: '' @ rp_body r))
        else chain (getLogo sg s) (\<lambda>g.
             chain (expecting 200 g) (\<lambda>_.
               (let etag = header_get (rp_header g) ''ETag''
                in if rp_body g \<noteq> png
                   then failing (plain (''the logo read back '' @ decimal (length (rp_body g)) @ '' bytes that are not the ''
                          @ decimal (length png) @ '' uploaded''))
                   else if etag = [] \<or> etag = st_etag s
                   then failing (plain (''the replaced logo's ETag is '' @ quoted etag @ '', want a new tag, not the seeded logo's ''
                          @ quoted (st_etag s)))
                   else done_with s)))))))))"

definition storage_deleteLogo :: "stage \<Rightarrow> storage_state \<Rightarrow> storage_state play" where
  "storage_deleteLogo sg s =
     chain (Note []) (\<lambda>_.
     chain (call sg ''DELETE'' (acme_logo s) [] NilBody) (\<lambda>r.
     chain (expecting 204 r) (\<lambda>_.
     chain (call sg ''GET'' (acme_logo s) [] NilBody) (\<lambda>g. keeping s (refused sg 404 g)))))"

section \<open>The document tree\<close>

text \<open>get and getQuiet.\<close>
definition storage_get :: "stage \<Rightarrow> (string \<Rightarrow> 'a result) \<Rightarrow> string \<Rightarrow> 'a play" where
  "storage_get sg decode p =
     chain (call sg ''GET'' p [] NilBody) (\<lambda>r. chain (expecting 200 r) (\<lambda>_. decoded decode r))"

definition getQuiet :: "stage \<Rightarrow> (string \<Rightarrow> 'a result) \<Rightarrow> string \<Rightarrow> 'a play" where
  "getQuiet sg decode p =
     chain (Get sg p) (\<lambda>r.
     chain (taking (wrapping (''GET '' @ p) (case Expect r 200 of None \<Rightarrow> Inr () | Some e \<Rightarrow> Inl e))) (\<lambda>_. decoded decode r))"

definition by_name :: string where
  "by_name = RawQuery [(''sort'', ''name'')]"

definition list_dirs :: "string \<Rightarrow> string \<Rightarrow> string" where
  "list_dirs org i = directoryRoute org i @ ''/directories?'' @ by_name"

definition list_files :: "string \<Rightarrow> string \<Rightarrow> string" where
  "list_files org i = directoryRoute org i @ ''/files?'' @ by_name"

definition file_rows :: "string \<Rightarrow> file_seen list \<Rightarrow> (string \<times> string) list" where
  "file_rows pre fs = map (\<lambda>f. (pre @ fs_name f, fs_id f)) fs"

definition two_listings :: "stage \<Rightarrow> decoders \<Rightarrow> string \<Rightarrow> string \<Rightarrow> (directory_seen list \<times> file_seen list) play" where
  "two_listings sg dc org i =
     chain (getQuiet sg (dc_directories dc) (list_dirs org i)) (\<lambda>ds.
     chain (getQuiet sg (dc_files dc) (list_files org i)) (\<lambda>fs. done_with (pg_items ds, pg_items fs)))"

text \<open>walk, as a stack of directories still to visit with the prefix of each: a directory's
  row, its files' rows, then its directories, before its siblings. It follows whatever
  the service answers, so it need not end.\<close>
partial_function (option) walk_dirs ::
    "stage \<Rightarrow> decoders \<Rightarrow> string \<Rightarrow> (string \<times> directory_seen) list \<Rightarrow> (string \<times> string) list \<Rightarrow> trace
     \<Rightarrow> ((string \<times> string) list result \<times> trace) option" where
  "walk_dirs sg dc org work rows t =
     (case work of
        [] \<Rightarrow> Some (Inr rows, t)
      | w # rest \<Rightarrow>
          (case two_listings sg dc org (ds_id (snd w)) t of
             None \<Rightarrow> None
           | Some got \<Rightarrow>
               (case fst got of
                  Inl e \<Rightarrow> Some (Inl e, snd got)
                | Inr listed \<Rightarrow>
                    walk_dirs sg dc org (map (Pair (fst w @ ds_name (snd w) @ ''/'')) (fst listed) @ rest)
                      (rows @ (fst w @ ds_name (snd w) @ ''/'', ds_id (snd w))
                         # file_rows (fst w @ ds_name (snd w) @ ''/'') (snd listed))
                      (snd got))))"

definition walk :: "stage \<Rightarrow> decoders \<Rightarrow> string \<Rightarrow> directory_seen list \<Rightarrow> file_seen list \<Rightarrow> (string \<times> string) list play" where
  "walk sg dc org ds fs = walk_dirs sg dc org (map (Pair ''/'') ds) (file_rows ''/'' fs)"

text \<open>The checks of the walk's rows against the seed's, in the seed file's order, where Go
  ranges over a map in none.\<close>
definition found_at :: "(string \<times> string) list \<Rightarrow> string \<Rightarrow> string" where
  "found_at rows p = (case last_of rows p of None \<Rightarrow> [] | Some i \<Rightarrow> i)"

definition tree_check :: "(string \<times> string) list \<Rightarrow> (string \<times> string) list \<Rightarrow> err option" where
  "tree_check seed rows =
     (case List.find (\<lambda>(p, _). found_at rows p \<noteq> found_at seed p) seed of
        None \<Rightarrow> None
      | Some (p, _) \<Rightarrow>
          Some (plain (''the tree has '' @ p @ '' at id '' @ quoted (found_at rows p) @ '', want the seeded id '' @ found_at seed p)))"

definition parent_check :: "string \<Rightarrow> directory_seen list \<Rightarrow> err option" where
  "parent_check root ds =
     (case List.find (\<lambda>d. ds_parent d \<noteq> Some root) ds of
        None \<Rightarrow> None
      | Some d \<Rightarrow> Some (plain (''the root's listing shows '' @ ds_name d @ '' under a parent other than the seeded root '' @ root)))"

definition documentTree :: "stage \<Rightarrow> decoders \<Rightarrow> storage_state \<Rightarrow> storage_state play" where
  "documentTree sg dc s =
     (let org = os_id (st_acme s) in
      chain (Note [RootAlias]) (\<lambda>_.
      chain (storage_get sg (dc_directories dc) (list_dirs org RootAlias)) (\<lambda>ds.
      chain (storage_get sg (dc_files dc) (list_files org RootAlias)) (\<lambda>fs.
      chain (walk sg dc org (pg_items ds) (pg_items fs)) (\<lambda>rows.
      chain (showing sg ''acme's document tree'' (Table (sg_style sg) rows)) (\<lambda>_.
      chain (check_err (tree_check (st_paths s) rows)) (\<lambda>_.
        keeping s (check_err (parent_check (st_root s) (pg_items ds)))))))))) "

section \<open>The cursor walk\<close>

definition cursor_query :: "string \<Rightarrow> (string \<times> string) list" where
  "cursor_query cursor =
     [(''size'', decimal cursorPageSize), (''sort'', ''name'')] @ (if cursor \<noteq> [] then [(''cursor'', cursor)] else [])"

text \<open>The loop, with the pages it may still ask for: from 101, so it stops past 100.\<close>
fun cursor_pages ::
    "stage \<Rightarrow> decoders \<Rightarrow> string \<Rightarrow> nat \<Rightarrow> string list \<Rightarrow> int \<Rightarrow> string \<Rightarrow> (string list \<times> int) play" where
  "cursor_pages sg dc base 0 names tot cursor = failing (plain ''the cursor walk passed 100 pages without an end'')"
| "cursor_pages sg dc base (Suc left) names tot cursor =
     chain (storage_get sg (dc_directories dc) (base @ RawQuery (cursor_query cursor))) (\<lambda>p.
       (let all = names @ map ds_name (pg_items p);
            sum = (case pg_total p of Some n \<Rightarrow> if tot < 0 then n else tot | None \<Rightarrow> tot)
        in if \<not> pg_more p \<or> pg_next p = [] then done_with (all, sum)
           else cursor_pages sg dc base left all sum (pg_next p)))"
declare cursor_pages.simps [simp del]

definition inOrder :: "string list \<Rightarrow> string list \<Rightarrow> bool" where
  "inOrder got want =
     (foldl (\<lambda>i g. if i < length want \<and> g = want ! i then i + 1 else i) 0 got = length want)"

definition print_names :: "string list \<Rightarrow> string" where
  "print_names ns = ''['' @ join_with '' '' ns @ '']''"

definition seeded_names :: "seed_tree \<Rightarrow> string list" where
  "seeded_names t = map en_name (filter (\<lambda>e. en_type e = []) (tr_entries t))"

definition cursorWalk :: "stage \<Rightarrow> decoders \<Rightarrow> storage_state \<Rightarrow> storage_state play" where
  "cursorWalk sg dc s =
     chain (Note [decimal cursorPageSize]) (\<lambda>_.
     chain (cursor_pages sg dc (directoryRoute (os_id (st_acme s)) RootAlias @ ''/directories?'') 101 [] (- 1) []) (\<lambda>w.
       if snd w \<ge> 0 \<and> int (length (fst w)) \<noteq> snd w
       then failing (plain (''the walk visited '' @ decimal (length (fst w)) @ '' directories, but the first page's total is ''
              @ itoa (snd w)))
       else chain (taking (seed_tree_of (st_seed s) storageOrgPath)) (\<lambda>t.
              if \<not> inOrder (fst w) (seeded_names t)
              then failing (plain (''the walk visited '' @ print_names (fst w) @ '', want the seeded ''
                     @ print_names (seeded_names t) @ '' among them in name order''))
              else done_with s)))"

section \<open>The refusals\<close>

definition seededID :: "storage_state \<Rightarrow> string \<Rightarrow> string result" where
  "seededID s p =
     (case last_of (st_paths s) p of
        None \<Rightarrow> Inl (plain (''the seed has no entry at '' @ p))
      | Some i \<Rightarrow> Inr i)"

definition doc_missingIfMatch :: "stage \<Rightarrow> decoders \<Rightarrow> storage_state \<Rightarrow> storage_state play" where
  "doc_missingIfMatch sg dc s =
     chain (taking (seededID s guardedFilePath)) (\<lambda>i.
     chain (Note [tl guardedFilePath]) (\<lambda>_.
     chain (storage_get sg (dc_file dc) (fileRoute (os_id (st_acme s)) i)) (\<lambda>f.
     chain (call sg ''DELETE'' (fileRoute (os_id (st_acme s)) i) [] NilBody) (\<lambda>r.
       keeping (s\<lparr>st_guarded := f\<rparr>) (refused sg 428 r)))))"

definition stale_version :: "int \<Rightarrow> int" where
  "stale_version v = (if v - 1 < 1 then v + 1 else v - 1)"

definition staleIfMatch :: "stage \<Rightarrow> storage_state \<Rightarrow> storage_state play" where
  "staleIfMatch sg s =
     (let v = fs_version (st_guarded s) in
      chain (Note [itoa (stale_version v), itoa v]) (\<lambda>_.
      chain (call sg ''DELETE'' (fileRoute (os_id (st_acme s)) (fs_id (st_guarded s))) [IfMatchHeader (stale_version v)] NilBody) (\<lambda>r.
        keeping s (refused sg 412 r))))"

definition takenName :: "stage \<Rightarrow> storage_state \<Rightarrow> storage_state play" where
  "takenName sg s =
     (let name = tl takenDirPath in
      chain (Note [name, slab_detailNameTaken]) (\<lambda>_.
      chain (call sg ''POST'' (documentsRoute (os_id (st_acme s)) @ ''/directories'') []
               (ValueBody (parent_name_value RootAlias name))) (\<lambda>r.
      chain (refused sg 409 r) (\<lambda>p.
        if pd_detail p \<noteq> slab_detailNameTaken
        then failing (plain (''the conflict's detail is '' @ quoted (pd_detail p) @ '', want '' @ quoted slab_detailNameTaken))
        else done_with s))))"

definition anotherOrganization :: "stage \<Rightarrow> decoders \<Rightarrow> storage_state \<Rightarrow> storage_state play" where
  "anotherOrganization sg dc s =
     chain (taking (seededID s (takenDirPath @ ''/''))) (\<lambda>i.
     chain (Note [tl takenDirPath]) (\<lambda>_.
     chain (storage_get sg (dc_directory dc) (directoryRoute (os_id (st_acme s)) i)) (\<lambda>_.
     chain (call sg ''GET'' (directoryRoute (os_id (st_other s)) i) [] NilBody) (\<lambda>r.
       keeping s (refused sg 404 r)))))"

section \<open>The branch\<close>

definition DirectoryActive :: string where "DirectoryActive = ''active''"
definition DirectoryDeleting :: string where "DirectoryDeleting = ''deleting''"
definition textPlain :: string where "textPlain = ''text/plain; charset=utf-8''"

definition storage_createBranch :: "stage \<Rightarrow> decoders \<Rightarrow> storage_state \<Rightarrow> storage_state play" where
  "storage_createBranch sg dc s =
     chain (clock_now sg) (\<lambda>now.
       (let name = ''storage-demo-'' @ FormatInt36 now;
            org = os_id (st_acme s);
            route = documentsRoute org @ ''/directories''
        in
     chain (Note [name]) (\<lambda>_.
     chain (slab_createDirectory sg dc route RootAlias name) (\<lambda>top.
     chain (slab_createDirectory sg dc route (is_id top) ''drafts'') (\<lambda>sub.
     chain (call sg ''POST'' (directoryRoute org (is_id sub) @ ''/files?name=notes.txt'') [(''Content-Type'', textPlain)]
              (StringBody (''Draft notes, removed with their branch.'' @ [CHR 0x0A]))) (\<lambda>r.
     chain (expecting 201 r) (\<lambda>_.
     chain (storage_get sg (dc_directory dc) (directoryRoute org (is_id top))) (\<lambda>d.
       if ds_status d \<noteq> DirectoryActive
       then failing (plain (''the new directory's status is '' @ quoted (ds_status d) @ '', want '' @ quoted DirectoryActive))
       else done_with (s\<lparr>st_branch := d\<rparr>)))))))))"

text \<open>The read of the marked directory.\<close>
definition marked_read :: "stage \<Rightarrow> decoders \<Rightarrow> response_seen \<Rightarrow> unit play" where
  "marked_read sg dc r =
     (if rp_status r = 200
      then chain (decoded (dc_directory dc) r) (\<lambda>d.
             if ds_status d \<noteq> DirectoryDeleting
             then failing (plain (''the marked directory's status is '' @ quoted (ds_status d) @ '', want '' @ quoted DirectoryDeleting))
             else done_with ())
      else if rp_status r = 404 then Note []
      else expecting 200 r)"

definition no_location :: err where
  "no_location = plain ''the service answered 202 with no Location to follow''"

definition recursiveDelete :: "stage \<Rightarrow> decoders \<Rightarrow> storage_lib \<Rightarrow> storage_state \<Rightarrow> storage_state play" where
  "recursiveDelete sg dc L s =
     chain (Note []) (\<lambda>_.
     chain (call sg ''DELETE'' (directoryRoute (os_id (st_acme s)) (ds_id (st_branch s)) @ ''?recursive=true'')
              [IfMatchHeader (ds_version (st_branch s))] NilBody) (\<lambda>r.
     chain (expecting 202 r) (\<lambda>_.
       (let location = header_get (rp_header r) ''Location'' in
        if location = [] then failing no_location
        else chain (taking (wrapping (''location '' @ quoted location) (sb_uri L location))) (\<lambda>uri.
             chain (call sg ''GET'' uri [] NilBody) (\<lambda>g.
             chain (marked_read sg dc g) (\<lambda>_.
             chain (call sg ''GET'' (uri @ ''/directories'') [] NilBody) (\<lambda>l.
               keeping (s\<lparr>st_location := uri\<rparr>) (refused sg 404 l)))))))))"

definition storage_sweep :: "stage \<Rightarrow> storage_state \<Rightarrow> storage_state play" where
  "storage_sweep sg s =
     chain (Note [sg_duration sg sweepLimit]) (\<lambda>_.
     chain (await_sweep sg (st_location s)) (\<lambda>took.
     chain (Note [sg_duration sg (round_ms took)]) (\<lambda>_.
     chain (call sg ''GET'' (st_location s) [] NilBody) (\<lambda>r. keeping s (refused sg 404 r)))))"

definition print_seeded :: "seeded \<Rightarrow> string" where
  "print_seeded x =
     ''{Documents:'' @ itoa (sd_documents x) @ '' Logos:'' @ itoa (sd_logos x) @ '' Organizations:''
       @ itoa (sd_organizations x) @ ''}''"

definition storage_reset :: "stage \<Rightarrow> storage_lib \<Rightarrow> storage_state \<Rightarrow> storage_state play" where
  "storage_reset sg L s =
     chain (Note [seedState]) (\<lambda>_.
     chain (call sg ''POST'' stateRoute [] (ValueBody reset_body_json)) (\<lambda>r.
     chain (expecting 200 r) (\<lambda>_.
     chain (decoded (sb_reset L) r) (\<lambda>x.
     chain (showing sg ''Seeded'' (Table (sg_style sg)
              [(''organizations'', itoa (sd_organizations x)), (''logos'', itoa (sd_logos x)), (''documents'', itoa (sd_documents x))])) (\<lambda>_.
       if x \<noteq> seedCounts (st_seed s)
       then failing (plain (''the reset seeded '' @ print_seeded x @ '', want the seed file's '' @ print_seeded (seedCounts (st_seed s))))
       else done_with s)))))"

definition Storage :: "stage \<Rightarrow> decoders \<Rightarrow> storage_lib \<Rightarrow> storage_state steps" where
  "Storage sg dc L =
     [(''Migration Sets'', migrationSets sg L), (''Additive Seed'', additiveSeed sg dc L), (''Logo Read'', readLogo sg),
      (''Logo Revalidation'', revalidateLogo sg), (''Logo Replacement'', replaceLogo sg L), (''Logo Delete'', storage_deleteLogo sg),
      (''Document Tree'', documentTree sg dc), (''Cursor Walk'', cursorWalk sg dc), (''Missing If-Match'', doc_missingIfMatch sg dc),
      (''Stale If-Match'', staleIfMatch sg), (''Taken Name'', takenName sg), (''Another Organization'', anotherOrganization sg dc),
      (''Branch Creation'', storage_createBranch sg dc), (''Recursive Delete'', recursiveDelete sg dc L), (''Sweep'', storage_sweep sg),
      (''Reset'', storage_reset sg L)]"

end
