(* ===== verification/SlabScenarioProperties.thy ===== *)
theory SlabScenarioProperties
  imports SlabStorage
begin

text \<open>
  What the scenarios of tools/slab show when they complete: the requests they made with
  the answers they accepted, and that their checks and their walks say what they mean.
\<close>

section \<open>A scripted service\<close>

text \<open>For the examples: a service that answers the n-th request with the n-th status of a
  script and a body that is its number, which the decoders look up in lists; every
  response carries a request id, a Location and a problem document's content type.\<close>
definition scripted_header :: header_map where
  "scripted_header = [''content-type'' \<mapsto> ProblemMediaType, ''x-request-id'' \<mapsto> replicate 32 (CHR ''a''),
     ''location'' \<mapsto> ''/l'', ''etag'' \<mapsto> ''t'']"

definition scripted_answer :: "(nat \<times> nat) list \<Rightarrow> nat \<Rightarrow> response_seen" where
  "scripted_answer script k =
     \<lparr>rp_status = fst (script ! k), rp_header = scripted_header, rp_body = decimal (snd (script ! k))\<rparr>"

definition looked_up :: "'a list \<Rightarrow> string \<Rightarrow> 'a result" where
  "looked_up xs body = (if digits_value body < length xs then Inr (xs ! digits_value body) else Inl (plain ''no such value''))"

definition scripted_terminal :: "json terminal" where
  "scripted_terminal =
     \<lparr>tm_machine = \<lparr>ReadFile = \<lambda>_. Inr [], TypeByExtension = \<lambda>_. [], Base = \<lambda>p. p\<rparr>,
      tm_send = \<lambda>_. Inl (plain ''unused''), tm_write = \<lambda>_ _. None, tm_media = Inr,
      tm_decode = \<lambda>_. Inl (plain ''unused''), tm_printer = \<lparr>pr_indent = \<lambda>_. None, pr_tokens = \<lambda>_. ([], True), pr_encode = \<lambda>_. Inr []\<rparr>,
      tm_style = \<lparr>st_on = False\<rparr>, tm_location = \<lambda>l. Inr (l, []),
      tm_poll = \<lambda>_ _. Inr \<lparr>rp_status = 404, rp_header = scripted_header, rp_body = []\<rparr>,
      tm_remaining = \<lambda>_ _. 1, tm_ended = \<lambda>_. None, tm_took = \<lambda>_. 1, tm_duration = itoa\<rparr>"

definition scripted :: "(nat \<times> nat) list \<Rightarrow> stage" where
  "scripted script =
     \<lparr>sg_base = [], sg_transport = \<lambda>t _ _ _ _. Answered (scripted_answer script (length (exchanges t))), sg_encode = \<lambda>_. Inr ''{}'',
      sg_display = \<lambda>_ _. None, sg_now = \<lambda>_. 0, sg_printer = tm_printer scripted_terminal, sg_style = \<lparr>st_on = False\<rparr>,
      sg_grafana = [], sg_repo = [], sg_go_mod = \<lambda>_. Lines [''module '' @ Module] None, sg_absolute = \<lambda>_. Inr [], sg_wd = Inr [],
      sg_read = \<lambda>_ _. Inr ''{}'', sg_media = Inr,
      sg_problem = \<lambda>b. Inr \<lparr>pd_status = digits_value b, pd_title = [], pd_detail = slab_detailNameTaken, pd_instance = [], pd_type = [],
         pd_extras = []\<rparr>,
      sg_sweep = \<lambda>_. scripted_terminal, sg_duration = itoa\<rparr>"

definition scripted_decoders :: "org_seen page_seen list \<Rightarrow> org_seen list \<Rightarrow> identity_seen list \<Rightarrow> directory_seen list
    \<Rightarrow> directory_seen page_seen list \<Rightarrow> decoders" where
  "scripted_decoders pages found ids dirs dpages =
     \<lparr>dc_org = looked_up found, dc_orgs = looked_up pages, dc_identity = looked_up ids, dc_directory = looked_up dirs,
      dc_directories = looked_up dpages, dc_file = \<lambda>_. Inl (plain ''unused''), dc_files = \<lambda>_. Inl (plain ''unused'')\<rparr>"

lemma completes_Do:
  "completes (Do sg verb path hs b) t r u \<longleftrightarrow> Client_Do (sg_encode sg) (sg_transport sg t) (sg_base sg) verb path b hs = Inr r
     \<and> u = t @ [Exchanged verb path hs b (Some (rp_status r))]"
  by (auto simp: Do_def completes_def Let_def)

text \<open>A play that returns x from every trace of n exchanges, leaving one of k.\<close>
definition yields :: "'a play \<Rightarrow> nat \<Rightarrow> 'a \<Rightarrow> nat \<Rightarrow> bool" where
  "yields m n x k \<longleftrightarrow> (\<forall>t. length (exchanges t) = n \<longrightarrow> (\<exists>u. completes m t x u \<and> length (exchanges u) = k))"

named_theorems yields_intros

lemma yields_chain [yields_intros]: "yields m n x k \<Longrightarrow> yields (f x) k y l \<Longrightarrow> yields (chain m f) n y l"
  unfolding yields_def completes_chain by metis

lemma yields_basic [yields_intros]: "yields (done_with x) n x n" "yields (Note vs) n () n"
    "yields (play_steps [] s) n s n"
  by (auto simp: yields_def completes_simps)

lemma yields_taking [yields_intros]: "r = Inr x \<Longrightarrow> yields (taking r) n x n" "e = None \<Longrightarrow> yields (check_err e) n () n"
  by (auto simp: yields_def completes_simps)

lemma yields_steps [yields_intros]:
  "yields (act s) n y k \<Longrightarrow> yields (play_steps as y) k x l \<Longrightarrow> yields (play_steps ((i, act) # as) s) n x l"
  by (simp add: yields_chain)

lemma yields_keeping [yields_intros]: "yields m n y k \<Longrightarrow> yields (keeping s m) n s k"
  unfolding keeping_def by (rule yields_chain) (auto intro: yields_basic)

lemma scripted_display [simp]: "sg_display (scripted script) t b = None"
  by (simp add: scripted_def)

lemma yields_show [yields_intros]: "yields (Show (scripted script) b) n () n"
  by (auto simp: yields_def completes_simps)

lemma yields_showApart [yields_intros]: "yields (showApart (scripted script) c b) n () n"
  by (auto simp: showApart_def caption_note_def intro!: yields_intros)

lemma yields_showing [yields_intros]: "yields (showing (scripted script) c b) n () n"
  by (auto simp: showing_def intro!: yields_intros)

lemma yields_Do [yields_intros]: "yields (Do (scripted script) verb path hs b) n (scripted_answer script n) (Suc n)"
  by (cases b) (auto simp: yields_def Do_def completes_def scripted_def Client_Do_def Let_def)

lemma yields_call [yields_intros]: "yields (call (scripted script) verb path hs b) n (scripted_answer script n) (Suc n)"
  unfolding call_def by (rule yields_intros)+

lemma scripted_response [simp]:
  "rp_status (scripted_answer script k) = fst (script ! k)" "rp_header (scripted_answer script k) = scripted_header"
  "rp_body (scripted_answer script k) = decimal (snd (script ! k))"
  by (simp_all add: scripted_answer_def)

lemma yields_expecting [yields_intros]:
  "fst (script ! k) = code \<Longrightarrow> yields (expecting code (scripted_answer script k)) n () n"
  by (auto simp: expecting_def Expect_def check_err_def intro: yields_intros)

lemma looked_up_decimal [simp]: "looked_up xs (decimal n) = (if n < length xs then Inr (xs ! n) else Inl (plain ''no such value''))"
  using decimal_digits [of n] by (simp add: looked_up_def)

lemma yields_decoded [yields_intros]:
  "d = looked_up xs \<Longrightarrow> snd (script ! k) < length xs \<Longrightarrow> xs ! snd (script ! k) = x
     \<Longrightarrow> yields (decoded d (scripted_answer script k)) n x n"
  by (auto simp: decoded_def JSON_of_def intro: yields_intros)

lemma lower_names [simp]: "lower ''Content-Type'' = ''content-type''" "lower ''X-Request-Id'' = ''x-request-id''"
    "lower ''Location'' = ''location''" "lower ''ETag'' = ''etag''"
  by code_simp+

lemma scripted_trace: "TraceID (scripted_answer script k) = Inr (replicate 32 (CHR ''a''))"
  by (simp add: TraceID_def scripted_header_def header_get_def trace_id_char_def Let_def list_all_iff)

lemma yields_showTrace [yields_intros]: "yields (showTrace (scripted script) (scripted_answer script k)) n () n"
  unfolding showTrace_def by (rule yields_intros | rule scripted_trace)+

lemma yields_refused [yields_intros]:
  "script ! k = (code, code) \<Longrightarrow> yields (refused (scripted script) code (scripted_answer script k)) n
     \<lparr>pd_status = code, pd_title = [], pd_detail = slab_detailNameTaken, pd_instance = [], pd_type = [], pd_extras = []\<rparr> n"
  unfolding refused_def using decimal_digits [of code]
  by (intro yields_intros) (simp add: Problem_def Expect_def scripted_def scripted_header_def header_get_def)

lemma yields_answered [yields_intros]:
  "script ! k = (code, code) \<Longrightarrow> yields (answered (scripted script) (scripted_answer script k) code) n () n"
  unfolding answered_def by (rule yields_intros | assumption)+

lemma yields_observe [yields_intros]:
  "script ! n = (code, code) \<Longrightarrow> yields (observe_call (scripted script) verb path hs b code) n () (Suc n)"
  unfolding observe_call_def by (rule yields_intros | assumption)+

lemma yields_completes: "\<exists>k. yields m 0 x k \<Longrightarrow> \<exists>u. completes m [] x u"
  unfolding yields_def by (metis exchanges_moments(1) list.size(3))

section \<open>The problems scenario\<close>

lemma condition_exchanges:
  "completes (malformedIdentifier sg s) t x u \<Longrightarrow> x = s \<and> exchanges u = exchanges t @ [(''GET'', Organizations @ ''/not-a-uuid'', [], Some 400)]"
  "completes (malformedQuery sg s) t x u \<Longrightarrow> x = s \<and> exchanges u = exchanges t
     @ [(''GET'', Organizations @ ''?'' @ RawQuery [(''page'', ''0'')], [], Some 400)]"
  "completes (malformedBody sg s) t x u \<Longrightarrow> x = s \<and> exchanges u = exchanges t @ [(''POST'', Organizations, [], Some 400)]"
  "completes (domainValidation sg s) t x u \<Longrightarrow> x = s \<and> exchanges u = exchanges t @ [(''POST'', Organizations, [], Some 400)]"
  "completes (notFound sg s) t x u \<Longrightarrow> x = s \<and> exchanges u = exchanges t @ [(''GET'', org_route absentID, [], Some 404)]"
  "completes (duplicateCode sg s) t x u \<Longrightarrow> x = s \<and> exchanges u = exchanges t @ [(''POST'', Organizations, [], Some 409)]"
  by (auto simp: malformedIdentifier_def malformedQuery_def malformedBody_def domainValidation_def notFound_def
      duplicateCode_def completes_simps dest!: observe_exchanges)

lemma guarded_exchanges:
  assumes "tree_get s ''acme'' = Inr acme"
  shows
  "completes (org_missingIfMatch sg s) t x u \<Longrightarrow> x = s \<and> exchanges u = exchanges t @ [(''PUT'', org_route (os_id acme), [], Some 428)]"
  "completes (malformedIfMatch sg s) t x u \<Longrightarrow> x = s \<and> exchanges u = exchanges t
     @ [(''PUT'', org_route (os_id acme), [(''If-Match'', weak_tag (os_version acme))], Some 400)]"
  "completes (staleVersion sg s) t x u \<Longrightarrow> x = s \<and> exchanges u = exchanges t
     @ [(''PUT'', org_route (os_id acme), [IfMatchHeader (os_version acme + 1)], Some 412)]"
  "completes (transferCycle sg s) t x u \<Longrightarrow> x = s \<and> exchanges u = exchanges t
     @ [(''POST'', org_route (os_id acme) @ ''/transfer'', [IfMatchHeader (os_version acme)], Some 409)]"
  using assms by (auto simp: org_missingIfMatch_def malformedIfMatch_def staleVersion_def transferCycle_def completes_simps
      dest!: observe_exchanges)

text \<open>C32. A problems run that completes wrote nothing after its reset: every write it sent was
  answered with the refusal it names, and no request but the reset's was answered with a
  success.\<close>
theorem problems_write_nothing:
  assumes "completes (play_steps (Problems_conditions sg) s) t x u"
  shows "x = s \<and> (\<exists>acme. s ''acme'' = Some acme \<and> exchanges u = exchanges t @
     [(''GET'', Organizations @ ''/not-a-uuid'', [], Some 400),
      (''GET'', Organizations @ ''?'' @ RawQuery [(''page'', ''0'')], [], Some 400),
      (''POST'', Organizations, [], Some 400), (''POST'', Organizations, [], Some 413), (''POST'', Organizations, [], Some 400),
      (''PUT'', org_route (os_id acme), [], Some 428),
      (''PUT'', org_route (os_id acme), [(''If-Match'', weak_tag (os_version acme))], Some 400),
      (''PUT'', org_route (os_id acme), [IfMatchHeader (os_version acme + 1)], Some 412),
      (''GET'', org_route absentID, [], Some 404), (''POST'', Organizations, [], Some 409),
      (''POST'', org_route (os_id acme) @ ''/transfer'', [IfMatchHeader (os_version acme)], Some 409)])"
proof -
  have "\<exists>acme. tree_get s ''acme'' = Inr acme"
    using assms by (auto simp: Problems_conditions_def completes_simps domainValidation_def
        dest!: condition_exchanges(1,2,3) oversized_exchanges)
  then obtain acme where a: "tree_get s ''acme'' = Inr acme" by blast
  have "s ''acme'' = Some acme" using a by (auto simp: tree_get_def split: option.splits)
  with assms show ?thesis
    by (auto simp: Problems_conditions_def completes_simps
        dest!: condition_exchanges oversized_exchanges guarded_exchanges [OF a])
qed

definition problems_script :: "(nat \<times> nat) list" where
  "problems_script = map (\<lambda>n. (n, n)) [400, 400, 400, 413, 400, 428, 400, 412, 404, 409, 409]"

definition seeded_org :: "string \<Rightarrow> string \<Rightarrow> string option \<Rightarrow> org_seen" where
  "seeded_org i code p = \<lparr>os_id = i, os_parent = p, os_code = code, os_name = code, os_version = 1, os_path = ''/'' @ code\<rparr>"

definition scripted_tree :: tree where
  "scripted_tree = [''acme'' \<mapsto> seeded_org ''a'' ''acme'' None, ''platform'' \<mapsto> seeded_org ''p'' ''platform'' (Some ''e'')]"

lemmas condition_defs = malformedIdentifier_def malformedQuery_def malformedBody_def oversizedBody_def domainValidation_def
  org_missingIfMatch_def malformedIfMatch_def staleVersion_def notFound_def duplicateCode_def transferCycle_def

lemma tree_get_Some: "t c = Some x \<Longrightarrow> tree_get t c = Inr x"
  by (simp add: tree_get_def)

lemma scripted_tree_codes:
  "scripted_tree ''acme'' = Some (seeded_org ''a'' ''acme'' None)" "scripted_tree ''platform'' = Some (seeded_org ''p'' ''platform'' (Some ''e''))"
  by (simp_all add: scripted_tree_def)

lemma problems_run: "\<exists>k. yields (play_steps (Problems_conditions (scripted problems_script)) scripted_tree) 0 scripted_tree k"
  unfolding Problems_conditions_def condition_defs
  by (rule exI) ((rule yields_intros tree_get_Some scripted_tree_codes | simp add: problems_script_def)+)

lemma problems_write_nothing_witness:
  "\<exists>u acme. completes (play_steps (Problems_conditions (scripted problems_script)) scripted_tree) [] scripted_tree u
     \<and> scripted_tree ''acme'' = Some acme
     \<and> exchanges u ! 7 = (''PUT'', org_route (os_id acme), [IfMatchHeader (os_version acme + 1)], Some 412)"
proof -
  obtain u where u: "completes (play_steps (Problems_conditions (scripted problems_script)) scripted_tree) [] scripted_tree u"
    using yields_completes [OF problems_run] by blast
  with problems_write_nothing [OF u] show ?thesis by auto
qed

section \<open>The domain scenario\<close>

lemma tree_get_Inr [completes_simps]: "tree_get t c = Inr x \<longleftrightarrow> t c = Some x"
  by (auto simp: tree_get_def split: option.splits)

text \<open>A call made after these exchanges that returned the value.\<close>
definition returned :: "'a play \<Rightarrow> (string \<times> string \<times> (string \<times> string) list \<times> nat option) list \<Rightarrow> 'a \<Rightarrow> bool" where
  "returned m es x \<longleftrightarrow> (\<exists>v w. completes m v x w \<and> exchanges v = es)"

lemma returnedI: "completes m v x w \<Longrightarrow> exchanges v = es \<Longrightarrow> returned m es x"
  by (auto simp: returned_def)

lemma domain_reads:
  "completes (domain_initialization sg s) t x u \<Longrightarrow> x = s \<and> exchanges u = exchanges t @ [(''POST'', stateRoute, [], Some 200)]"
  "completes (queriedList sg s) t x u \<Longrightarrow> x = s \<and> exchanges u = exchanges t
     @ [(''GET'', Organizations @ ''?'' @ RawQuery [(''code[like]'', ''%o%''), (''size'', ''2''), (''page'', ''1'')], [], Some 200)]"
  "completes (domain_find sg s) t x u \<Longrightarrow> x = s \<and> (\<exists>acme. dm_tree s ''acme'' = Some acme
     \<and> exchanges u = exchanges t @ [(''GET'', org_route (os_id acme), [], Some 200)])"
  "completes (findByPath sg s) t x u \<Longrightarrow> x = s \<and> exchanges u = exchanges t
     @ [(''GET'', Organizations @ ''/lookup?path=/acme/engineering/platform'', [], Some 200)]"
  by (auto simp: domain_initialization_def queriedList_def domain_find_def findByPath_def completes_simps
      dest!: reset_exchanges call_exchanges)

lemma domain_lists:
  "completes (rawList sg dc s) t x u \<Longrightarrow> \<exists>p. x = s\<lparr>dm_tree := treeOf p\<rparr> \<and> pg_size p = DefaultPageSize
     \<and> returned (list_orgs sg dc) (exchanges t) p \<and> exchanges u = exchanges t @ [(''GET'', Organizations, [], Some 200)]"
proof -
  assume "completes (rawList sg dc s) t x u"
  then obtain p v where p: "completes (list_orgs sg dc) v p u" "exchanges v = exchanges t" "pg_size p = DefaultPageSize"
      "x = s\<lparr>dm_tree := treeOf p\<rparr>"
    by (auto simp: rawList_def completes_simps split: if_splits)
  with list_exchanges [OF p(1)] show ?thesis by (auto intro: returnedI)
qed

lemma domain_writes:
  "completes (domain_create sg dc s) t x u \<Longrightarrow> \<exists>i r acme. x = s\<lparr>dm_created := i\<rparr>
     \<and> dm_tree s ''acme'' = Some acme \<and> JSON_of (dc_identity dc) r = Inr i
     \<and> returned (call sg ''POST'' Organizations [] (ValueBody (create_value (Some (os_id acme)) createdCode createdName)))
         (exchanges t) r
     \<and> exchanges u = exchanges t @ [(''POST'', Organizations, [], Some 201)]"
  "completes (domain_edit sg dc s) t x u \<Longrightarrow> x = s \<and> (\<exists>e. dm_tree s editedCode = Some e
     \<and> exchanges u = exchanges t @ [(''PUT'', org_route (os_id e), [IfMatchHeader (os_version e)], Some 200)])"
  "completes (domain_transfer sg dc s) t x u \<Longrightarrow> x = s \<and> (\<exists>m p. dm_tree s movedCode = Some m \<and> dm_tree s newParentCode = Some p
     \<and> exchanges u = exchanges t @ [(''POST'', org_route (os_id m) @ ''/transfer'', [IfMatchHeader (os_version m)], Some 200)])"
  "completes (domain_delete sg s) t x u \<Longrightarrow> x = s \<and> exchanges u = exchanges t
     @ [(''DELETE'', org_route (is_id (dm_created s)), [IfMatchHeader (is_version (dm_created s))], Some 204)]"
  by (fastforce simp: domain_create_def domain_edit_def domain_transfer_def domain_delete_def completes_simps
      intro: returnedI dest: call_exchanges showTrace_exchanges)+

lemma results_shown:
  "completes (results sg dc s) t x u \<Longrightarrow> x = s \<and> exchanges u = exchanges t @ [(''GET'', Organizations, [], Some 200)]
     \<and> (\<exists>p c. returned (list_orgs sg dc) (exchanges t) p \<and> treeOf p createdCode = Some c \<and> os_id c = is_id (dm_created s)
        \<and> (\<exists>e. treeOf p editedCode = Some e \<and> os_name e = editedName)
        \<and> (\<exists>m. treeOf p movedCode = Some m \<and> os_parent m = Some (member_or [] os_id (dm_tree s) newParentCode)))"
  by (fastforce simp: results_def completes_simps Let_def member_or_def editedName_def
      intro: returnedI dest: list_exchanges split: if_splits option.splits)

text \<open>C33. A domain run that completes made its ten requests in order, each guarded write under
  the version its row was last seen at: the edited and the moved rows at the version the
  first list showed them at, the created one at the version its create returned; each of
  the three rows was written once, and the list before the delete showed all three as
  the writes left them.\<close>
theorem domain_guarded_writes:
  assumes "completes (play_steps (Domain sg dc) s) t x u"
  shows "\<exists>p q (i :: identity_seen) r acme e m n c e1 m1 es. exchanges u = exchanges t @ es
    \<and> returned (list_orgs sg dc) (exchanges t @ take 1 es) p \<and> pg_size p = DefaultPageSize
    \<and> treeOf p ''acme'' = Some acme \<and> treeOf p editedCode = Some e \<and> treeOf p movedCode = Some m \<and> treeOf p newParentCode = Some n
    \<and> returned (call sg ''POST'' Organizations [] (ValueBody (create_value (Some (os_id acme)) createdCode createdName)))
        (exchanges t @ take 5 es) r \<and> JSON_of (dc_identity dc) r = Inr i
    \<and> returned (list_orgs sg dc) (exchanges t @ take 8 es) q
    \<and> treeOf q createdCode = Some c \<and> os_id c = is_id i \<and> treeOf q editedCode = Some e1 \<and> os_name e1 = editedName
    \<and> treeOf q movedCode = Some m1 \<and> os_parent m1 = Some (os_id n)
    \<and> es =
       [(''POST'', stateRoute, [], Some 200), (''GET'', Organizations, [], Some 200),
        (''GET'', Organizations @ ''?'' @ RawQuery [(''code[like]'', ''%o%''), (''size'', ''2''), (''page'', ''1'')], [], Some 200),
        (''GET'', org_route (os_id acme), [], Some 200),
        (''GET'', Organizations @ ''/lookup?path=/acme/engineering/platform'', [], Some 200),
        (''POST'', Organizations, [], Some 201), (''PUT'', org_route (os_id e), [IfMatchHeader (os_version e)], Some 200),
        (''POST'', org_route (os_id m) @ ''/transfer'', [IfMatchHeader (os_version m)], Some 200),
        (''GET'', Organizations, [], Some 200), (''DELETE'', org_route (is_id i), [IfMatchHeader (is_version i)], Some 204)]"
  using assms
  by (auto simp: Domain_def completes_simps member_or_def dest!: domain_reads domain_lists domain_writes results_shown) blast

lemma scripted_repo: "read_repo (scripted script) p = Inr ''{}''"
proof -
  have "declares (Lines [''module '' @ Module] None) = Inr True" by code_simp
  then show ?thesis by (simp add: read_repo_def repo_FS_def repo_Root_def repo_Find_def scripted_def)
qed

lemma yields_reset [yields_intros]: "script ! n = (200, m) \<Longrightarrow> yields (reset (scripted script)) n () (Suc n)"
  unfolding reset_def by (rule yields_intros scripted_repo | simp)+

lemma yields_list_orgs [yields_intros]:
  "script ! n = (200, k) \<Longrightarrow> dc_orgs dc = looked_up xs \<Longrightarrow> k < length xs \<Longrightarrow> xs ! k = p
     \<Longrightarrow> yields (list_orgs (scripted script) dc) n p (Suc n)"
  unfolding list_orgs_def by (rule yields_intros | simp)+

lemma yields_identityOf [yields_intros]:
  "dc_identity dc = looked_up xs \<Longrightarrow> snd (script ! k) < length xs \<Longrightarrow> xs ! snd (script ! k) = i \<Longrightarrow> is_id i = want
     \<Longrightarrow> yields (identityOf dc (scripted_answer script k) want) n i n"
  unfolding identityOf_def by (rule yields_intros | simp)+

lemma yields_expectVersion [yields_intros]: "is_version i = v \<Longrightarrow> yields (expectVersion i v) n () n"
  by (simp add: expectVersion_def yields_intros)

definition domain_script :: "(nat \<times> nat) list" where
  "domain_script = [(200, 0), (200, 0), (200, 0), (200, 0), (200, 0), (201, 0), (200, 1), (200, 2), (200, 1), (204, 0)]"

definition domain_page :: "org_seen list \<Rightarrow> org_seen page_seen" where
  "domain_page xs = \<lparr>pg_items = xs, pg_size = 20, pg_total = Some (int (length xs)), pg_more = False, pg_next = []\<rparr>"

definition domain_before :: "org_seen list" where
  "domain_before = [seeded_org ''a'' ''acme'' None, seeded_org ''f'' editedCode (Some ''a''), seeded_org ''e'' newParentCode (Some ''a''),
     seeded_org ''l'' movedCode (Some ''o'')]"

definition domain_after :: "org_seen list" where
  "domain_after = [seeded_org ''s'' createdCode (Some ''a''), seeded_org ''f'' editedCode (Some ''a'')\<lparr>os_name := editedName\<rparr>,
     seeded_org ''l'' movedCode (Some ''e'')]"

definition domain_decoders :: decoders where
  "domain_decoders = scripted_decoders [domain_page domain_before, domain_page domain_after] []
     [\<lparr>is_id = ''s'', is_version = 1\<rparr>, \<lparr>is_id = ''f'', is_version = 2\<rparr>, \<lparr>is_id = ''l'', is_version = 2\<rparr>] [] []"

definition domain_start :: domain_state where
  "domain_start = \<lparr>dm_tree = Map.empty, dm_created = \<lparr>is_id = [], is_version = 0\<rparr>\<rparr>"

lemma seeded_org_fields [simp]: "os_id (seeded_org i c p) = i" "os_code (seeded_org i c p) = c" "os_version (seeded_org i c p) = 1"
    "os_parent (seeded_org i c p) = p"
  by (simp_all add: seeded_org_def)

lemma domain_trees:
  "treeOf (domain_page domain_before) ''acme'' = Some (seeded_org ''a'' ''acme'' None)"
  "treeOf (domain_page domain_before) editedCode = Some (seeded_org ''f'' editedCode (Some ''a''))"
  "treeOf (domain_page domain_before) movedCode = Some (seeded_org ''l'' movedCode (Some ''o''))"
  "treeOf (domain_page domain_before) newParentCode = Some (seeded_org ''e'' newParentCode (Some ''a''))"
  "treeOf (domain_page domain_after) createdCode = Some (seeded_org ''s'' createdCode (Some ''a''))"
  "treeOf (domain_page domain_after) editedCode = Some (seeded_org ''f'' editedCode (Some ''a'')\<lparr>os_name := editedName\<rparr>)"
  "treeOf (domain_page domain_after) movedCode = Some (seeded_org ''l'' movedCode (Some ''e''))"
  by (simp_all add: treeOf_def domain_page_def domain_before_def domain_after_def editedCode_def movedCode_def newParentCode_def
      createdCode_def)

lemma domain_decoders_simps:
  "dc_orgs domain_decoders = looked_up [domain_page domain_before, domain_page domain_after]"
  "dc_identity domain_decoders = looked_up [\<lparr>is_id = ''s'', is_version = 1\<rparr>, \<lparr>is_id = ''f'', is_version = 2\<rparr>, \<lparr>is_id = ''l'', is_version = 2\<rparr>]"
  "pg_size (domain_page xs) = DefaultPageSize"
  by (simp_all add: domain_decoders_def scripted_decoders_def domain_page_def DefaultPageSize_def)

lemma domain_run: "\<exists>x k. yields (play_steps (Domain (scripted domain_script) domain_decoders) domain_start) 0 x k"
  unfolding Domain_def domain_initialization_def rawList_def queriedList_def domain_find_def findByPath_def domain_create_def
    domain_edit_def domain_transfer_def results_def domain_delete_def Let_def
  by (rule exI, rule exI) ((rule yields_intros tree_get_Some domain_decoders_simps
      | simp add: domain_script_def domain_trees domain_decoders_simps member_or_def)+)

lemma domain_guarded_writes_witness:
  "\<exists>x u. completes (play_steps (Domain (scripted domain_script) domain_decoders) domain_start) [] x u
     \<and> length (exchanges u) = 10 \<and> fst (last (exchanges u)) = ''DELETE''"
proof -
  obtain x u where u: "completes (play_steps (Domain (scripted domain_script) domain_decoders) domain_start) [] x u"
    using yields_completes domain_run by metis
  have "length (exchanges u) = 10 \<and> fst (last (exchanges u)) = ''DELETE''"
    using domain_guarded_writes [OF u] by auto
  with u show ?thesis by blast
qed

end
