(* ===== verification/SlabStorageProperties.thy ===== *)
theory SlabStorageProperties
  imports SlabScenarioProperties
begin

text \<open>
  The storage scenario's checks: the order check and the cursor walk, the walk of the
  document tree against a served tree, and the seed file's counts and paths.
\<close>

section \<open>The cursor walk\<close>

text \<open>The index inOrder holds after a walk is how far a greedy match got.\<close>
lemma greedy_index:
  "foldl (\<lambda>i g. if i < length want \<and> g = want ! i then i + 1 else i) n got = length want \<longleftrightarrow>
     n \<le> length want \<and> subseq (drop n want) got" if "n \<le> length want"
  using that
proof (induction got arbitrary: n)
  case (Cons g gs)
  show ?case
  proof (cases "n < length want")
    case True
    then have "drop n want = want ! n # drop (Suc n) want" by (simp add: Cons_nth_drop_Suc)
    with True Cons.IH [of n] Cons.IH [of "Suc n"] show ?thesis by (auto simp: subseq_Cons2_iff)
  next
    case False
    with Cons show ?thesis by simp
  qed
next
  case Nil
  then show ?case by (cases "drop n want") (auto simp: drop_eq_Nil)
qed

text \<open>The order check of the cursor walk is the subsequence relation: it holds exactly
  when the wanted names appear among those visited in their order.\<close>
theorem inOrder_subseq: "inOrder got want = subseq want got"
  using greedy_index [of 0 want got] by (simp add: inOrder_def)

text \<open>A play that returns, whatever is answered, having sent at most n requests.\<close>
definition sends_at_most :: "nat \<Rightarrow> 'a play \<Rightarrow> bool" where
  "sends_at_most n m \<longleftrightarrow> (\<forall>t. \<exists>r u. m t = Some (r, u) \<and> length (exchanges u) \<le> length (exchanges t) + n)"

named_theorems sends_intros

lemma sends_chain: "sends_at_most a m \<Longrightarrow> (\<And>x. sends_at_most b (f x)) \<Longrightarrow> sends_at_most (a + b) (chain m f)"
proof (unfold sends_at_most_def, intro allI)
  fix t
  assume m: "\<forall>t. \<exists>r u. m t = Some (r, u) \<and> length (exchanges u) \<le> length (exchanges t) + a"
    and f: "\<And>x. \<forall>t. \<exists>r u. f x t = Some (r, u) \<and> length (exchanges u) \<le> length (exchanges t) + b"
  obtain r u where u: "m t = Some (r, u)" "length (exchanges u) \<le> length (exchanges t) + a" using m by blast
  show "\<exists>r u. chain m f t = Some (r, u) \<and> length (exchanges u) \<le> length (exchanges t) + (a + b)"
  proof (cases r)
    case (Inl e)
    with u show ?thesis by (auto simp: chain_def)
  next
    case (Inr x)
    with f [of x] u obtain r' u' where "f x u = Some (r', u')" "length (exchanges u') \<le> length (exchanges u) + b" by blast
    with Inr u show ?thesis by (auto simp: chain_def)
  qed
qed

lemma sends_more: "sends_at_most a m \<Longrightarrow> a \<le> b \<Longrightarrow> sends_at_most b m"
  unfolding sends_at_most_def by (meson add_left_mono order_trans)

lemma sends_done: "sends_at_most 0 (done_with x)" "sends_at_most 0 (failing e)" "sends_at_most 0 (Note vs)"
    "sends_at_most 0 (Show sg b)" "sends_at_most 1 (Do sg verb path hs bd)"
  by (auto simp: sends_at_most_def done_with_def failing_def Note_def Show_def Do_def Let_def split: option.splits)

lemma sends_taking: "sends_at_most 0 (taking r)" "sends_at_most 0 (check_err e)"
  by (auto simp: taking_def check_err_def sends_done split: sum.splits option.splits)

lemma sends_showApart: "sends_at_most 0 (showApart sg c b)"
proof -
  have "sends_at_most 0 (caption_note c)" by (simp add: caption_note_def sends_done)
  from sends_chain [OF sends_done(3) sends_chain [OF this sends_done(4)]]
  show ?thesis by (simp add: showApart_def)
qed

lemma sends_call: "sends_at_most 1 (call sg verb path hs bd)"
  unfolding call_def
  using sends_chain [OF sends_showApart sends_chain [OF sends_done(5) sends_chain [OF sends_showApart sends_done(1)]]] by simp

lemma sends_get: "sends_at_most 1 (storage_get sg d p)"
  unfolding storage_get_def expecting_def decoded_def
  using sends_chain [OF sends_call sends_chain [OF sends_taking(2) sends_taking(1)]] by simp

lemma sends_pages: "sends_at_most left (cursor_pages sg dc base left names n cursor)"
proof (induction left arbitrary: names n cursor)
  case (Suc left)
  have "sends_at_most (1 + left) (cursor_pages sg dc base (Suc left) names n cursor)"
    unfolding cursor_pages.simps Let_def
    by (rule sends_chain [OF sends_get]) (auto intro: Suc.IH sends_more [OF sends_done(1)])
  then show ?case by simp
qed (simp add: sends_done cursor_pages.simps)

text \<open>C16. The cursor walk ends: whatever the service answers, cursors that never run out
  included, it returns having sent at most 101 requests. When it completes, the names it
  visited are as many as the total it was told, if it was told one, and the seeded
  names are among them in the seed's order.\<close>
theorem cursor_walk_ends:
  "(\<exists>r u. cursorWalk sg dc s t = Some (r, u) \<and> length (exchanges u) \<le> length (exchanges t) + 101)
   \<and> (completes (cursorWalk sg dc s) t x u \<longrightarrow> x = s \<and> (\<exists>names n w tr.
        completes (cursor_pages sg dc (directoryRoute (os_id (st_acme s)) RootAlias @ ''/directories?'') 101 [] (- 1) [])
          (t @ [Told [decimal cursorPageSize]]) (names, n) w
        \<and> (n \<ge> 0 \<longrightarrow> int (length names) = n)
        \<and> seed_tree_of (st_seed s) storageOrgPath = Inr tr \<and> subseq (seeded_names tr) names))"
proof
  have "sends_at_most (0 + (101 + (0 + 0))) (cursorWalk sg dc s)"
    unfolding cursorWalk_def
    by (rule sends_chain [OF sends_done(3) sends_chain [OF sends_pages]])
      (auto intro!: sends_chain [OF sends_taking(1), of 0, simplified] simp: sends_done)
  then show "\<exists>r u. cursorWalk sg dc s t = Some (r, u) \<and> length (exchanges u) \<le> length (exchanges t) + 101"
    by (auto simp: sends_at_most_def)
  show "completes (cursorWalk sg dc s) t x u \<longrightarrow> x = s \<and> (\<exists>names n w tr.
        completes (cursor_pages sg dc (directoryRoute (os_id (st_acme s)) RootAlias @ ''/directories?'') 101 [] (- 1) [])
          (t @ [Told [decimal cursorPageSize]]) (names, n) w
        \<and> (n \<ge> 0 \<longrightarrow> int (length names) = n)
        \<and> seed_tree_of (st_seed s) storageOrgPath = Inr tr \<and> subseq (seeded_names tr) names)"
    using greedy_index [of 0]
    by (auto simp: cursorWalk_def completes_simps inOrder_def split: if_splits) blast+
qed

section \<open>A cursor walk of two pages\<close>

definition cursor_script :: "(nat \<times> nat) list" where
  "cursor_script = [(200, 0), (200, 1)]"

definition seen_dir :: "string \<Rightarrow> string \<Rightarrow> string \<Rightarrow> directory_seen" where
  "seen_dir i name p = \<lparr>ds_id = i, ds_parent = Some p, ds_name = name, ds_status = DirectoryActive, ds_version = 1\<rparr>"

definition cursor_decoders :: decoders where
  "cursor_decoders = scripted_decoders [] [] [] []
     [\<lparr>pg_items = [seen_dir ''1'' ''a'' ''r''], pg_size = 1, pg_total = Some 2, pg_more = True, pg_next = ''n''\<rparr>,
      \<lparr>pg_items = [seen_dir ''2'' ''b'' ''r''], pg_size = 1, pg_total = None, pg_more = False, pg_next = []\<rparr>]"

definition seed_demo :: seed_file where
  "seed_demo = \<lparr>sf_organizations = 1, sf_logos = 0,
     sf_documents = [\<lparr>tr_organization = storageOrgPath, tr_root = ''r'', tr_entries = [Entry ''2'' ''b'' [] [Entry ''3'' ''f'' ''t'' []]]\<rparr>]\<rparr>"

definition storage_demo :: storage_state where
  "storage_demo = \<lparr>st_seed = seed_demo, st_paths = [], st_root = ''r'', st_acme = seeded_org ''o'' ''acme'' None,
     st_other = seeded_org ''p'' ''finance'' None, st_etag = [],
     st_guarded = \<lparr>fs_id = [], fs_directory = [], fs_name = [], fs_status = [], fs_version = 0\<rparr>, st_branch = seen_dir [] [] [],
     st_location = []\<rparr>"

lemma yields_get: "script ! n = (200, k) \<Longrightarrow> d = looked_up xs \<Longrightarrow> k < length xs \<Longrightarrow> xs ! k = p
    \<Longrightarrow> yields (storage_get (scripted script) d path) n p (Suc n)"
  unfolding storage_get_def by (rule yields_intros | simp)+

definition told_total :: "directory_seen page_seen \<Rightarrow> int \<Rightarrow> int" where
  "told_total p tot = (case pg_total p of Some m \<Rightarrow> if tot < 0 then m else tot | None \<Rightarrow> tot)"

lemma yields_page_more:
  "yields (storage_get sg (dc_directories dc) (base @ RawQuery (cursor_query cursor))) n p k \<Longrightarrow>
     pg_more p \<and> pg_next p \<noteq> [] \<Longrightarrow>
     yields (cursor_pages sg dc base left (names @ map ds_name (pg_items p)) (told_total p tot) (pg_next p)) k x l \<Longrightarrow>
     yields (cursor_pages sg dc base (Suc left) names tot cursor) n x l"
  unfolding cursor_pages.simps by (erule yields_chain) (simp add: Let_def told_total_def)

lemma yields_page_last:
  "yields (storage_get sg (dc_directories dc) (base @ RawQuery (cursor_query cursor))) n p k \<Longrightarrow>
     \<not> (pg_more p \<and> pg_next p \<noteq> []) \<Longrightarrow>
     yields (cursor_pages sg dc base (Suc left) names tot cursor) n (names @ map ds_name (pg_items p), told_total p tot) k"
  unfolding cursor_pages.simps by (erule yields_chain) (auto simp: Let_def told_total_def intro: yields_basic)

lemma cursor_decoders_pages: "dc_directories cursor_decoders = looked_up
    [\<lparr>pg_items = [seen_dir ''1'' ''a'' ''r''], pg_size = 1, pg_total = Some 2, pg_more = True, pg_next = ''n''\<rparr>,
     \<lparr>pg_items = [seen_dir ''2'' ''b'' ''r''], pg_size = 1, pg_total = None, pg_more = False, pg_next = []\<rparr>]"
  by (simp add: cursor_decoders_def scripted_decoders_def)

lemma cursor_run: "yields (cursor_pages (scripted cursor_script) cursor_decoders base (Suc (Suc left)) [] (- 1) []) 0 ([''a'', ''b''], 2) 2"
proof -
  have p: "yields (storage_get (scripted cursor_script) (dc_directories cursor_decoders) path) 0
      \<lparr>pg_items = [seen_dir ''1'' ''a'' ''r''], pg_size = 1, pg_total = Some 2, pg_more = True, pg_next = ''n''\<rparr> (Suc 0)" for path
    by (rule yields_get [OF _ cursor_decoders_pages]) (auto simp: cursor_script_def)
  have q: "yields (storage_get (scripted cursor_script) (dc_directories cursor_decoders) path) (Suc 0)
      \<lparr>pg_items = [seen_dir ''2'' ''b'' ''r''], pg_size = 1, pg_total = None, pg_more = False, pg_next = []\<rparr> (Suc (Suc 0))" for path
    by (rule yields_get [OF _ cursor_decoders_pages]) (auto simp: cursor_script_def)
  show ?thesis
    using yields_page_more [OF p _ yields_page_last [OF q, where left = left], where base = base and cursor = "[]" and names = "[]" and tot = "- 1"]
    by (simp add: told_total_def seen_dir_def numeral_2_eq_2)
qed

lemma cursor_walk_ends_witness:
  "\<exists>u. completes (cursorWalk (scripted cursor_script) cursor_decoders storage_demo) [] storage_demo u
     \<and> subseq [''b''] [''a'', ''b'']"
proof -
  have t: "seed_tree_of (st_seed storage_demo) storageOrgPath
      = Inr \<lparr>tr_organization = storageOrgPath, tr_root = ''r'', tr_entries = [Entry ''2'' ''b'' [] [Entry ''3'' ''f'' ''t'' []]]\<rparr>"
    by (simp add: storage_demo_def seed_demo_def seed_tree_of_def)
  have c: "yields (cursor_pages (scripted cursor_script) cursor_decoders base 101 [] (- 1) []) 0 ([''a'', ''b''], 2) 2" for base
    using cursor_run [where left = 99] by (simp add: numeral_eq_Suc)
  have "yields (cursorWalk (scripted cursor_script) cursor_decoders storage_demo) 0 storage_demo 2"
    unfolding cursorWalk_def
    by (rule yields_intros c t | simp add: seeded_names_def inOrder_def)+
  from yields_completes [OF exI, OF this] obtain u
    where u: "completes (cursorWalk (scripted cursor_script) cursor_decoders storage_demo) [] storage_demo u" by blast
  with cursor_walk_ends [of "scripted cursor_script" cursor_decoders storage_demo "[]" storage_demo u]
  show ?thesis by auto
qed

section \<open>The document tree\<close>

text \<open>A served tree: a directory with its files and its directories.\<close>
datatype shelf = Shelf (sh_dir: directory_seen) (sh_files: "file_seen list") (sh_subs: "shelf list")

fun nodes :: "shelf \<Rightarrow> nat" where
  "nodes (Shelf d fs ss) = Suc (sum_list (map nodes ss))"

text \<open>Its rows, as a recursive walk lists them.\<close>
fun shelf_rows :: "string \<Rightarrow> shelf \<Rightarrow> (string \<times> string) list" where
  "shelf_rows pre (Shelf d fs ss) =
     (pre @ ds_name d @ ''/'', ds_id d) # file_rows (pre @ ds_name d @ ''/'') fs
       @ concat (map (shelf_rows (pre @ ds_name d @ ''/'')) ss)"

text \<open>The service answers the two listings of each directory with its children, whenever
  they are asked for.\<close>
fun serves :: "stage \<Rightarrow> decoders \<Rightarrow> string \<Rightarrow> shelf \<Rightarrow> bool" where
  "serves sg dc org (Shelf d fs ss) \<longleftrightarrow>
     (\<forall>t. \<exists>u. completes (two_listings sg dc org (ds_id d)) t (map sh_dir ss, fs) u) \<and> (\<forall>s\<in>set ss. serves sg dc org s)"

lemma walk_dirs_served:
  "\<forall>w\<in>set work. serves sg dc org (snd w) \<Longrightarrow>
    \<exists>u. walk_dirs sg dc org (map (map_prod id sh_dir) work) rows t
      = Some (Inr (rows @ concat (map (\<lambda>w. shelf_rows (fst w) (snd w)) work)), u)"
proof (induction work arbitrary: rows t rule: measure_induct_rule [where f = "\<lambda>work. sum_list (map (nodes \<circ> snd) work)"])
  case (less work)
  show ?case
  proof (cases work)
    case Nil
    then show ?thesis by (simp add: walk_dirs.simps)
  next
    case (Cons w rest)
    obtain pre d fs ss where w: "w = (pre, Shelf d fs ss)" by (metis shelf.exhaust surj_pair)
    with less.prems Cons obtain v where v: "completes (two_listings sg dc org (ds_id d)) t (map sh_dir ss, fs) v" by fastforce
    let ?p = "pre @ ds_name d @ ''/''"
    have "\<exists>u. walk_dirs sg dc org (map (map_prod id sh_dir) (map (Pair ?p) ss @ rest)) (rows @ (?p, ds_id d) # file_rows ?p fs) v
        = Some (Inr ((rows @ (?p, ds_id d) # file_rows ?p fs)
            @ concat (map (\<lambda>w. shelf_rows (fst w) (snd w)) (map (Pair ?p) ss @ rest))), u)"
      by (rule less.IH) (use less.prems Cons w in \<open>auto simp: comp_def\<close>)
    with v show ?thesis
      by (subst walk_dirs.simps) (simp add: Cons w completes_def comp_def)
  qed
qed

text \<open>C34. The walk of the document tree ends on every tree the service serves, listing each
  directory and each file of it once, in the order of a recursive walk; and the check
  that follows passes exactly when every seeded path was listed under its seeded id.\<close>
theorem document_tree_walked:
  assumes "\<forall>s\<in>set ss. serves sg dc org s"
  shows "(\<exists>u. completes (walk sg dc org (map sh_dir ss) fs) t (file_rows ''/'' fs @ concat (map (shelf_rows ''/'') ss)) u)
    \<and> (tree_check seed rows = None \<longleftrightarrow> (\<forall>p i. last_of seed p = Some i \<longrightarrow> found_at rows p = i))"
proof
  show "\<exists>u. completes (walk sg dc org (map sh_dir ss) fs) t (file_rows ''/'' fs @ concat (map (shelf_rows ''/'') ss)) u"
    using walk_dirs_served [of "map (Pair ''/'') ss" sg dc org "file_rows ''/'' fs" t] assms
    by (simp add: walk_def completes_def comp_def)
  have k: "p \<in> fst ` set seed \<longleftrightarrow> last_of seed p \<noteq> None" for p
    by (simp add: last_of_def map_of_eq_None_iff)
  have f: "last_of seed p = Some i \<Longrightarrow> found_at seed p = i" for p i by (simp add: found_at_def)
  have "tree_check seed rows = None \<longleftrightarrow> List.find (\<lambda>(p, _). found_at rows p \<noteq> found_at seed p) seed = None"
    by (cases "List.find (\<lambda>(p, _). found_at rows p \<noteq> found_at seed p) seed") (auto simp: tree_check_def)
  also have "\<dots> \<longleftrightarrow> (\<forall>x\<in>set seed. found_at rows (fst x) = found_at seed (fst x))"
    by (auto simp: find_None_iff)
  also have "\<dots> \<longleftrightarrow> (\<forall>p. last_of seed p \<noteq> None \<longrightarrow> found_at rows p = found_at seed p)"
    unfolding k [symmetric] by blast
  also have "\<dots> \<longleftrightarrow> (\<forall>p i. last_of seed p = Some i \<longrightarrow> found_at rows p = i)"
    using f by (metis option.exhaust option.simps(3))
  finally show "tree_check seed rows = None \<longleftrightarrow> (\<forall>p i. last_of seed p = Some i \<longrightarrow> found_at rows p = i)" .
qed

definition tree_stage :: stage where
  "tree_stage = (scripted [])\<lparr>sg_transport := \<lambda>_ _ _ _ _. Answered \<lparr>rp_status = 200, rp_header = scripted_header, rp_body = decimal 0\<rparr>\<rparr>"

definition tree_decoders :: decoders where
  "tree_decoders = (scripted_decoders [] [] [] [] [\<lparr>pg_items = [], pg_size = 20, pg_total = Some 0, pg_more = False, pg_next = []\<rparr>])
     \<lparr>dc_files := looked_up [\<lparr>pg_items = [\<lparr>fs_id = ''3'', fs_directory = ''2'', fs_name = ''f'', fs_status = [], fs_version = 1\<rparr>],
        pg_size = 20, pg_total = Some 1, pg_more = False, pg_next = []\<rparr>]\<rparr>"

lemma tree_listed:
  "completes (two_listings tree_stage tree_decoders org i) t
     ([], [\<lparr>fs_id = ''3'', fs_directory = ''2'', fs_name = ''f'', fs_status = [], fs_version = 1\<rparr>])
     (t @ [Exchanged ''GET'' (list_dirs org i) [] NilBody (Some 200), Exchanged ''GET'' (list_files org i) [] NilBody (Some 200)])"
  by (simp add: two_listings_def getQuiet_def completes_simps Get_def completes_Do Client_Do_def tree_stage_def scripted_def
        tree_decoders_def scripted_decoders_def JSON_of_def Expect_def wrapping_def)

lemma document_tree_walked_witness:
  "\<exists>u. completes (walk tree_stage tree_decoders ''o'' [seen_dir ''2'' ''b'' ''r''] []) [] [(''/b/'', ''2''), (''/b/f'', ''3'')] u"
proof -
  have "\<forall>s\<in>set [Shelf (seen_dir ''2'' ''b'' ''r'') [\<lparr>fs_id = ''3'', fs_directory = ''2'', fs_name = ''f'', fs_status = [], fs_version = 1\<rparr>] []].
      serves tree_stage tree_decoders ''o'' s"
    using tree_listed by auto
  from document_tree_walked [OF this, of "[]" "[]"] show ?thesis
    by (simp add: seen_dir_def file_rows_def)
qed

section \<open>The seed file\<close>

text \<open>A seed whose files hold no entries counts one document for each of its paths.\<close>
fun leafy :: "slab_entry \<Rightarrow> bool" where
  "leafy (Entry i n c es) \<longleftrightarrow> (c \<noteq> [] \<longrightarrow> es = []) \<and> (\<forall>e\<in>set es. leafy e)"

lemma paths_counted: "leafy e \<Longrightarrow> length (entry_paths pre e) = entry_count e"
proof (induction pre e rule: entry_paths.induct)
  case (1 pre i n c es)
  then have "c = [] \<Longrightarrow> map (\<lambda>e. length (entry_paths (pre @ n @ ''/'') e)) es = map entry_count es" by auto
  with 1 show ?case by (cases "c = []") (auto simp: length_concat comp_def simp del: map_eq_conv)
qed

lemma seed_counts_paths:
  "\<forall>t\<in>set (sf_documents s). \<forall>e\<in>set (tr_entries t). leafy e \<Longrightarrow>
     sd_documents (seedCounts s) = int (sum_list (map (length \<circ> path_list) (sf_documents s)))"
proof -
  assume l: "\<forall>t\<in>set (sf_documents s). \<forall>e\<in>set (tr_entries t). leafy e"
  have "length (path_list t) = sum_list (map entry_count (tr_entries t))" if "t \<in> set (sf_documents s)" for t
  proof -
    have "map (\<lambda>e. length (entry_paths ''/'' e)) (tr_entries t) = map entry_count (tr_entries t)"
      using l that by (auto simp: paths_counted)
    then show ?thesis by (simp add: path_list_def length_concat comp_def del: map_eq_conv)
  qed
  then have "map (\<lambda>t. sum_list (map entry_count (tr_entries t))) (sf_documents s) = map (length \<circ> path_list) (sf_documents s)"
    by simp
  then show ?thesis by (simp add: seedCounts_def del: map_eq_conv)
qed

end
