(* ===== verification/SlabScenarios.thy ===== *)
theory SlabScenarios
  imports SlabStorage
begin

text \<open>
  tools/slab/scenarios/events.go and sqlate.go: one command for each event the service
  publishes, and the compilation of a pattern and a statement. The statement library is
  a parameter.
\<close>

section \<open>The events scenario\<close>

definition watchCommand :: string where "watchCommand = ''mise run slab -- events watch''"
definition eventsParentPath :: string where "eventsParentPath = ''/acme''"
definition firstLogoFixture :: string where "firstLogoFixture = ''operations.png''"
definition secondLogoFixture :: string where "secondLogoFixture = ''product.png''"
definition reportsDir :: string where "reportsDir = ''reports''"
definition scratchDir :: string where "scratchDir = ''scratch''"
definition emptyDir :: string where "emptyDir = ''empty''"
definition archiveDir :: string where "archiveDir = ''archive''"
definition reportsFile :: string where "reportsFile = ''summary.txt''"
definition movedFile :: string where "movedFile = ''summary-final.txt''"
definition scratchFile :: string where "scratchFile = ''notes.txt''"
definition reportsContent :: string where "reportsContent = ''The quarter in one line.'' @ [CHR 0x0A]"
definition scratchContent :: string where "scratchContent = ''Scratch notes, swept with their directory.'' @ [CHR 0x0A]"
definition eventsTotal :: int where "eventsTotal = 19"
definition organizationEvents :: int where "organizationEvents = 7"

record events_state =
  es_stamp :: string
  es_org :: identity_seen
  es_reports :: identity_seen
  es_scratch :: identity_seen
  es_empty :: identity_seen
  es_file :: identity_seen

definition es_org_id :: "events_state \<Rightarrow> string" where
  "es_org_id s = is_id (es_org s)"

definition createOrganization :: "stage \<Rightarrow> decoders \<Rightarrow> events_state \<Rightarrow> events_state play" where
  "createOrganization sg dc s =
     chain (clock_now sg) (\<lambda>now.
       (let stamp = FormatInt36 now; code = ''events-'' @ stamp in
     chain (Note [watchCommand]) (\<lambda>_.
     chain (lookup sg dc eventsParentPath) (\<lambda>p.
     chain (Note [code]) (\<lambda>_.
     chain (call sg ''POST'' Organizations [] (ValueBody (create_value (Some (os_id p)) code (''Events '' @ stamp)))) (\<lambda>r.
     chain (expecting 201 r) (\<lambda>_.
     chain (decoded (dc_identity dc) r) (\<lambda>i. done_with (s\<lparr>es_stamp := stamp, es_org := i\<rparr>)))))))))"

text \<open>writeOrganization: a guarded command at the version last written.\<close>
definition writeOrganization ::
    "stage \<Rightarrow> decoders \<Rightarrow> events_state \<Rightarrow> string \<Rightarrow> string \<Rightarrow> json \<Rightarrow> events_state play" where
  "writeOrganization sg dc s verb route body =
     chain (call sg verb route [IfMatchHeader (is_version (es_org s))] (ValueBody body)) (\<lambda>r.
     chain (expecting 200 r) (\<lambda>_.
     chain (identityOf dc r (es_org_id s)) (\<lambda>i.
     chain (expectVersion i (is_version (es_org s) + 1)) (\<lambda>_. done_with (s\<lparr>es_org := i\<rparr>)))))"

definition editOrganization :: "stage \<Rightarrow> decoders \<Rightarrow> events_state \<Rightarrow> events_state play" where
  "editOrganization sg dc s =
     chain (Note []) (\<lambda>_.
       writeOrganization sg dc s ''PUT'' (org_route (es_org_id s))
         (edit_value (''events-'' @ es_stamp s) (''Events '' @ es_stamp s @ '' (edited)'')))"

definition transferOrganization :: "stage \<Rightarrow> decoders \<Rightarrow> events_state \<Rightarrow> events_state play" where
  "transferOrganization sg dc s =
     chain (Note []) (\<lambda>_.
       writeOrganization sg dc s ''POST'' (org_route (es_org_id s) @ ''/transfer'') (transfer_value None))"

definition events_putLogo :: "stage \<Rightarrow> events_state \<Rightarrow> string \<Rightarrow> events_state play" where
  "events_putLogo sg s name =
     (let path = fixturesDir @ ''/'' @ name in
      chain (taking (read_repo sg path)) (\<lambda>png.
      chain (put_fixture sg (logoRoute (es_org_id s)) path png) (\<lambda>r. keeping s (expecting 201 r))))"

definition uploadLogo :: "stage \<Rightarrow> events_state \<Rightarrow> events_state play" where
  "uploadLogo sg s = chain (Note [firstLogoFixture]) (\<lambda>_. events_putLogo sg s firstLogoFixture)"

definition events_replaceLogo :: "stage \<Rightarrow> events_state \<Rightarrow> events_state play" where
  "events_replaceLogo sg s = chain (Note [secondLogoFixture]) (\<lambda>_. events_putLogo sg s secondLogoFixture)"

definition events_deleteLogo :: "stage \<Rightarrow> events_state \<Rightarrow> events_state play" where
  "events_deleteLogo sg s =
     chain (Note []) (\<lambda>_.
     chain (call sg ''DELETE'' (logoRoute (es_org_id s)) [] NilBody) (\<lambda>r. keeping s (expecting 204 r)))"

definition events_createDirectory :: "stage \<Rightarrow> decoders \<Rightarrow> events_state \<Rightarrow> string \<Rightarrow> string \<Rightarrow> identity_seen play" where
  "events_createDirectory sg dc s p n =
     slab_createDirectory sg dc (documentsRoute (es_org_id s) @ ''/directories'') p n"

definition firstDirectory :: "stage \<Rightarrow> decoders \<Rightarrow> events_state \<Rightarrow> events_state play" where
  "firstDirectory sg dc s =
     chain (Note [reportsDir, reportsDir]) (\<lambda>_.
     chain (events_createDirectory sg dc s RootAlias reportsDir) (\<lambda>i. done_with (s\<lparr>es_reports := i\<rparr>)))"

definition moreDirectories :: "stage \<Rightarrow> decoders \<Rightarrow> events_state \<Rightarrow> events_state play" where
  "moreDirectories sg dc s =
     chain (Note [scratchDir, emptyDir]) (\<lambda>_.
     chain (events_createDirectory sg dc s RootAlias scratchDir) (\<lambda>i.
     chain (events_createDirectory sg dc s RootAlias emptyDir) (\<lambda>j.
       done_with (s\<lparr>es_scratch := i, es_empty := j\<rparr>))))"

definition events_upload ::
    "stage \<Rightarrow> decoders \<Rightarrow> events_state \<Rightarrow> string \<Rightarrow> string \<Rightarrow> string \<Rightarrow> identity_seen play" where
  "events_upload sg dc s dir name content =
     chain (call sg ''POST'' (directoryRoute (es_org_id s) dir @ ''/files?name='' @ QueryEscape name)
              [(''Content-Type'', textPlain)] (StringBody content)) (\<lambda>r.
     chain (expecting 201 r) (\<lambda>_. decoded (dc_identity dc) r))"

definition uploadFiles :: "stage \<Rightarrow> decoders \<Rightarrow> events_state \<Rightarrow> events_state play" where
  "uploadFiles sg dc s =
     chain (Note [reportsDir, scratchDir]) (\<lambda>_.
     chain (events_upload sg dc s (is_id (es_reports s)) reportsFile reportsContent) (\<lambda>f.
     chain (events_upload sg dc s (is_id (es_scratch s)) scratchFile scratchContent) (\<lambda>_.
       done_with (s\<lparr>es_file := f\<rparr>))))"

definition events_move :: "stage \<Rightarrow> decoders \<Rightarrow> string \<Rightarrow> identity_seen \<Rightarrow> json \<Rightarrow> identity_seen play" where
  "events_move sg dc route target body =
     chain (call sg ''POST'' route [IfMatchHeader (is_version target)] (ValueBody body)) (\<lambda>r.
     chain (expecting 200 r) (\<lambda>_.
     chain (decoded (dc_identity dc) r) (\<lambda>i.
       if is_id i \<noteq> is_id target
       then failing (plain (''the move names id '' @ is_id i @ '', want '' @ is_id target))
       else done_with i)))"

definition events_moveDirectory :: "stage \<Rightarrow> decoders \<Rightarrow> events_state \<Rightarrow> events_state play" where
  "events_moveDirectory sg dc s =
     chain (Note [emptyDir, reportsDir, archiveDir]) (\<lambda>_.
     chain (events_move sg dc (directoryRoute (es_org_id s) (is_id (es_empty s)) @ ''/move'') (es_empty s)
              (parent_name_value (is_id (es_reports s)) archiveDir)) (\<lambda>i. done_with (s\<lparr>es_empty := i\<rparr>)))"

definition move_file_value :: "string \<Rightarrow> string \<Rightarrow> json" where
  "move_file_value d n = JObject [(''directory_id'', JString d), (''name'', JString n)]"

definition events_moveFile :: "stage \<Rightarrow> decoders \<Rightarrow> events_state \<Rightarrow> events_state play" where
  "events_moveFile sg dc s =
     chain (Note [reportsFile, reportsDir, movedFile]) (\<lambda>_.
     chain (events_move sg dc (fileRoute (es_org_id s) (is_id (es_file s)) @ ''/move'') (es_file s)
              (move_file_value (is_id (es_reports s)) movedFile)) (\<lambda>i. done_with (s\<lparr>es_file := i\<rparr>)))"

definition events_deleteFile :: "stage \<Rightarrow> events_state \<Rightarrow> events_state play" where
  "events_deleteFile sg s =
     chain (Note [movedFile]) (\<lambda>_.
     chain (call sg ''DELETE'' (fileRoute (es_org_id s) (is_id (es_file s))) [IfMatchHeader (is_version (es_file s))] NilBody) (\<lambda>r.
       keeping s (expecting 204 r)))"

definition deleteEmptyDirectory :: "stage \<Rightarrow> events_state \<Rightarrow> events_state play" where
  "deleteEmptyDirectory sg s =
     chain (Note [archiveDir]) (\<lambda>_.
     chain (call sg ''DELETE'' (directoryRoute (es_org_id s) (is_id (es_empty s)))
              [IfMatchHeader (is_version (es_empty s))] NilBody) (\<lambda>r. keeping s (expecting 204 r)))"

text \<open>deleteRecursively: the version read, the delete, and the wait for the sweep.\<close>
definition events_deleteRecursively :: "stage \<Rightarrow> decoders \<Rightarrow> events_state \<Rightarrow> string \<Rightarrow> events_state play" where
  "events_deleteRecursively sg dc s i =
     chain (Get sg (directoryRoute (es_org_id s) i)) (\<lambda>g.
     chain (expecting 200 g) (\<lambda>_.
     chain (decoded (dc_directory dc) g) (\<lambda>d.
     chain (call sg ''DELETE'' (directoryRoute (es_org_id s) i @ ''?recursive=true'') [IfMatchHeader (ds_version d)] NilBody) (\<lambda>r.
     chain (expecting 202 r) (\<lambda>_.
       (let location = header_get (rp_header r) ''Location'' in
        if location = [] then failing no_location
        else chain (await_sweep sg location) (\<lambda>took.
               keeping s (Note [sg_duration sg (round_ms took)]))))))))"

definition deleteBranch :: "stage \<Rightarrow> decoders \<Rightarrow> events_state \<Rightarrow> events_state play" where
  "deleteBranch sg dc s =
     chain (Note [scratchDir, scratchFile]) (\<lambda>_. events_deleteRecursively sg dc s (is_id (es_scratch s)))"

definition deleteDocumentRoot :: "stage \<Rightarrow> decoders \<Rightarrow> events_state \<Rightarrow> events_state play" where
  "deleteDocumentRoot sg dc s =
     chain (Note [RootAlias, reportsDir]) (\<lambda>_. events_deleteRecursively sg dc s RootAlias)"

definition events_find :: "stage \<Rightarrow> decoders \<Rightarrow> events_state \<Rightarrow> org_seen play" where
  "events_find sg dc s =
     chain (Get sg (org_route (es_org_id s))) (\<lambda>r. chain (expecting 200 r) (\<lambda>_. decoded (dc_org dc) r))"

definition deleteOrganization :: "stage \<Rightarrow> decoders \<Rightarrow> events_state \<Rightarrow> events_state play" where
  "deleteOrganization sg dc s =
     chain (events_find sg dc s) (\<lambda>x.
     chain (Note []) (\<lambda>_.
     chain (call sg ''DELETE'' (org_route (os_id x)) [IfMatchHeader (os_version x)] NilBody) (\<lambda>r.
     chain (expecting 204 r) (\<lambda>_.
       keeping s (Note [itoa eventsTotal, itoa organizationEvents, itoa (eventsTotal - organizationEvents)])))))"

definition Events :: "stage \<Rightarrow> decoders \<Rightarrow> events_state steps" where
  "Events sg dc =
     [(''Organization Creation'', createOrganization sg dc), (''Organization Edit'', editOrganization sg dc),
      (''Organization Transfer'', transferOrganization sg dc), (''Logo Upload'', uploadLogo sg),
      (''Logo Replacement'', events_replaceLogo sg), (''Logo Delete'', events_deleteLogo sg),
      (''First Directory'', firstDirectory sg dc), (''More Directories'', moreDirectories sg dc),
      (''File Uploads'', uploadFiles sg dc), (''Directory Move'', events_moveDirectory sg dc),
      (''File Move'', events_moveFile sg dc), (''File Delete'', events_deleteFile sg),
      (''Empty Directory Delete'', deleteEmptyDirectory sg), (''Branch Delete'', deleteBranch sg dc),
      (''Document Root Delete'', deleteDocumentRoot sg dc), (''Organization Delete'', deleteOrganization sg dc)]"

section \<open>The sqlate scenario\<close>

definition appNamespace :: string where "appNamespace = ''app''"
definition patternsDir :: string where "patternsDir = ''data/patterns''"
definition identity_pattern :: string where "identity_pattern = ''identity''"
definition statementsDir :: string where "statementsDir = ''domain/organization/statements''"
definition statementName :: string where "statementName = ''create''"

text \<open>The statement library: a catalog over its own patterns, blobfs's and those published
  under a namespace from a directory of a repository; the statements of a directory
  compiled with it, each by its name, with its text and its parameters; and the
  placeholder of a position.\<close>
record 'c sqlate_lib =
  sq_catalog :: "string list \<Rightarrow> string \<Rightarrow> string \<Rightarrow> 'c result"
  sq_compile :: "'c \<Rightarrow> string list \<Rightarrow> string \<Rightarrow> (string \<times> string \<times> string list) list result"
  sq_placeholder :: "nat \<Rightarrow> string"

record sqlate_state =
  ql_root :: "string list"
  ql_stmts :: "(string \<times> string \<times> string list) list"

definition pattern_path :: string where
  "pattern_path = patternsDir @ ''/'' @ identity_pattern @ ''.sql''"

definition statement_path :: string where
  "statement_path = statementsDir @ ''/'' @ statementName @ ''.sql''"

definition show_SQL :: "stage \<Rightarrow> string \<Rightarrow> string \<Rightarrow> unit play" where
  "show_SQL sg caption txt = showing sg caption (render_SQL (sg_style sg) txt)"

definition writePattern :: "stage \<Rightarrow> sqlate_state \<Rightarrow> sqlate_state play" where
  "writePattern sg s =
     chain (taking (repo_FS sg)) (\<lambda>root.
     chain (taking (sg_read sg root pattern_path)) (\<lambda>txt.
     chain (show_SQL sg pattern_path txt) (\<lambda>_.
     chain (show_SQL sg ''An embed directive over an embed.FS variable''
              (''//go:embed patterns/*.sql'' @ [CHR 0x0A] @ ''var patterns embed.FS'')) (\<lambda>_.
       keeping (s\<lparr>ql_root := root\<rparr>) (Note [])))))"

definition writeStatement :: "stage \<Rightarrow> sqlate_state \<Rightarrow> sqlate_state play" where
  "writeStatement sg s =
     chain (taking (sg_read sg (ql_root s) statement_path)) (\<lambda>txt.
     chain (show_SQL sg statement_path txt) (\<lambda>_.
     chain (Note [identity_pattern]) (\<lambda>_.
     chain (show_SQL sg ''An embed directive over an embed.FS variable''
              (''//go:embed statements/*.sql'' @ [CHR 0x0A] @ ''var statements embed.FS'')) (\<lambda>_.
       keeping s (Note [])))))"

definition registerCatalog :: "stage \<Rightarrow> 'c sqlate_lib \<Rightarrow> sqlate_state \<Rightarrow> sqlate_state play" where
  "registerCatalog sg L s =
     chain (show_SQL sg ''fsys, the filesystem both calls below read from'' ''fsys, err := repo.FS(override)'') (\<lambda>_.
     chain (Note []) (\<lambda>_.
     chain (show_SQL sg (''The pattern registered under the '' @ quoted appNamespace @ '' namespace, beside blobfs's published namespace'')
              (''query.NewCatalog(query.Patterns(), bfdata.Patterns(), query.Publish('' @ quoted appNamespace @ '', fsys, ''
                 @ quoted patternsDir @ ''))'')) (\<lambda>_.
     chain (taking (sq_catalog L (ql_root s) appNamespace patternsDir)) (\<lambda>c.
     chain (show_SQL sg ''A directory of statements, compiled against the postgres dialect''
              (''catalog.Compile(fsys, '' @ quoted statementsDir @ '', postgres.Dialect{})'')) (\<lambda>_.
     chain (taking (sq_compile L c (ql_root s) statementsDir)) (\<lambda>stmts.
       keeping (s\<lparr>ql_stmts := stmts\<rparr>) (Note [])))))))"

definition marker :: string where
  "marker = ''{{''"

definition showCompiled :: "stage \<Rightarrow> 'c sqlate_lib \<Rightarrow> sqlate_state \<Rightarrow> sqlate_state play" where
  "showCompiled sg L s =
     (case find_statement (ql_stmts s) statementName of
        Inl e \<Rightarrow> failing (Err Wrapped (error_text e @ '' from '' @ statementsDir) [e])
      | Inr (name, txt, params) \<Rightarrow>
          if sublist marker txt
          then failing (plain (statementName @ '': a {{ marker survived compilation:'' @ [CHR 0x0A] @ txt))
          else chain (show_SQL sg (statementName @ '', compiled for execution by postgres'') txt) (\<lambda>_.
               chain (showing sg ''Placeholders, in position order''
                        (Table (sg_style sg) (Placeholders (sq_placeholder L) params))) (\<lambda>_.
                 keeping s (Note []))))"

definition Sqlate :: "stage \<Rightarrow> 'c sqlate_lib \<Rightarrow> sqlate_state steps" where
  "Sqlate sg L =
     [(''Write a pattern'', writePattern sg), (''Write a statement'', writeStatement sg),
      (''Catalog registration'', registerCatalog sg L), (''Show the compiled output'', showCompiled sg L)]"

end
