(* ===== verification/SlabSweeper.thy ===== *)
theory SlabSweeper
  imports SlabScenarios "HOL-Library.AList"
begin

text \<open>
  tools/slab/scenarios/sweeper.go: the general sweeper's reclaimers read through their
  metrics, around a recursive delete that nudges one of them. A sample's value is
  abstract, with the conversions of a float64 the code makes; times and durations are in
  nanoseconds, and a count of passes is an integer.
\<close>

section \<open>What is read\<close>

definition slab_reclaimers :: "string list" where
  "slab_reclaimers = [''files'', ''outbox'', ''inbox'']"
definition outcomes :: "string list" where
  "outcomes = [''drained'', ''more'', ''error'']"

definition jobMatcher :: string where
  \<open>jobMatcher = ''job="'' @ service_name @ ''"''\<close>
definition passesQuery :: string where
  "passesQuery = ''sum by (sweep_reclaimer, sweep_outcome) (sweep_passes_total{'' @ jobMatcher @ ''})''"
definition backlogQuery :: string where
  "backlogQuery = ''max by (sweep_reclaimer) (sweep_backlogged_ratio{'' @ jobMatcher @ ''})''"
definition exportedQuery :: string where
  \<open>exportedQuery = ''max(timestamp(sweep_passes_total{'' @ jobMatcher @ '',sweep_reclaimer="files"}))''\<close>

definition mimirName :: string where "mimirName = ''Mimir''"
definition sweeperOrgPath :: string where "sweeperOrgPath = ''/acme''"

definition second :: int where "second = 1000000000"
definition exportInterval :: int where "exportInterval = 60 * second"
definition exportLimit :: int where "exportLimit = 2 * exportInterval + 30 * second"
definition exportPoll :: int where "exportPoll = 2 * second"

definition baseConfig :: string where "baseConfig = ''config.json''"
definition localConfig :: string where "localConfig = ''config.local.json''"

text \<open>The metrics store, as the trace stands and at the n-th read of a poll; a poll's clock;
  and int64(v), int64(v * 1000), the text of %g and the zero of a value.\<close>
record 'v metrics =
  me_get :: "trace \<Rightarrow> nat \<Rightarrow> string \<Rightarrow> response_seen result"
  me_vector :: "string \<Rightarrow> 'v sample list result"
  me_remaining :: "trace \<Rightarrow> int \<Rightarrow> nat \<Rightarrow> int"
  me_ended :: "trace \<Rightarrow> nat \<Rightarrow> err option"
  me_int64 :: "'v \<Rightarrow> int"
  me_millis :: "'v \<Rightarrow> int"
  me_g :: "'v \<Rightarrow> string"
  me_zero :: 'v
  me_clock :: "int \<Rightarrow> string"

definition query_metrics :: "'v metrics \<Rightarrow> string \<Rightarrow> 'v sample list play" where
  "query_metrics M promql t = Some (mimir_Query (me_get M t 0) (me_vector M) promql, t @ [Awaited promql])"

definition metric_poll :: "'v metrics \<Rightarrow> trace \<Rightarrow> string \<Rightarrow> 'v sample list poll" where
  "metric_poll M t promql =
     \<lparr>po_query = (\<lambda>n. mimir_Query (me_get M t n) (me_vector M) promql),
      po_remaining = me_remaining M t exportLimit, po_done = me_ended M t\<rparr>"

definition await_metrics :: "stage \<Rightarrow> 'v metrics \<Rightarrow> string \<Rightarrow> ('v sample list \<Rightarrow> bool) \<Rightarrow> 'v sample list play" where
  "await_metrics sg M promql until t =
     (case Await (metric_poll M t promql) promql (sg_duration sg exportLimit) until of
        None \<Rightarrow> None
      | Some r \<Rightarrow> Some (r, t @ [Awaited promql]))"

section \<open>Counts and times\<close>

text \<open>passCounts: a count by reclaimer and outcome, absent when it has no series.\<close>
type_synonym pass_counts = "((string \<times> string) \<times> int) list"

definition label :: "'v sample \<Rightarrow> string \<Rightarrow> string option" where
  "label sm k = map_of (sa_labels sm) k"

definition label_text :: "'v sample \<Rightarrow> string \<Rightarrow> string" where
  "label_text sm k = (case label sm k of None \<Rightarrow> [] | Some v \<Rightarrow> v)"

definition countsOf :: "'v metrics \<Rightarrow> 'v sample list \<Rightarrow> pass_counts" where
  "countsOf M samples =
     foldl (\<lambda>c sm. AList.update (label_text sm ''sweep_reclaimer'', label_text sm ''sweep_outcome'') (me_int64 M (sa_value sm)) c)
       [] samples"

definition count_at :: "pass_counts \<Rightarrow> string \<Rightarrow> string \<Rightarrow> int" where
  "count_at c rec out = (case map_of c (rec, out) of None \<Rightarrow> 0 | Some n \<Rightarrow> n)"

definition count_total :: "pass_counts \<Rightarrow> string \<Rightarrow> int" where
  "count_total c rec = sum_list (map snd (filter (\<lambda>x. fst (fst x) = rec) c))"

definition byReclaimer :: "'v sample list \<Rightarrow> (string \<times> 'v) list" where
  "byReclaimer samples =
     foldl (\<lambda>m sm. case label sm ''sweep_reclaimer'' of None \<Rightarrow> m | Some rec \<Rightarrow> AList.update rec (sa_value sm) m) [] samples"

text \<open>The zero time, UnixMilli, Sub and Round to the second; a duration is an int64.\<close>
definition zero_time :: int where
  "zero_time = - 62135596800 * second"

definition exportTime :: "'v metrics \<Rightarrow> 'v sample list \<Rightarrow> int" where
  "exportTime M samples = (case samples of [] \<Rightarrow> zero_time | sm # _ \<Rightarrow> me_millis M (sa_value sm) * 1000000)"

definition time_Sub :: "int \<Rightarrow> int \<Rightarrow> int" where
  "time_Sub a b = max (- (2 ^ 63)) (min (2 ^ 63 - 1) (a - b))"

definition round_second :: "int \<Rightarrow> int" where
  "round_second d =
     (let r = \<bar>d\<bar> mod second
      in if d < 0
         then (if r + r < second then d + r else max (- (2 ^ 63)) (d - (second - r)))
         else (if r + r < second then d - r else min (2 ^ 63 - 1) (d + (second - r))))"

definition movement :: "pass_counts \<Rightarrow> pass_counts \<Rightarrow> string \<Rightarrow> int" where
  "movement before after rec =
     (if rec \<in> set slab_reclaimers then count_total after rec - count_total before rec else 0)"

definition plural :: "int \<Rightarrow> string \<Rightarrow> string" where
  "plural n noun = (if n = 1 then ''1 '' @ noun else itoa n @ '' '' @ noun @ ''es'')"

definition narrateMovement :: "(int \<Rightarrow> string) \<Rightarrow> (string \<Rightarrow> int) \<Rightarrow> string \<Rightarrow> int \<Rightarrow> string" where
  "narrateMovement duration moved interval window =
     (let ran = moved ''files''; out = moved ''outbox''; inb = moved ''inbox'' in
      ''Over the '' @ duration window @ '' between the two exports files ran '' @ plural ran ''pass''
      @ '', the nudged one among them. ''
      @ (if out = 0 \<and> inb = 0
         then ''outbox and inbox ran none: no command names them, and their '' @ interval
                @ '' interval did not come round in the window.''
         else ''outbox ran '' @ plural out ''pass'' @ '' and inbox '' @ plural inb ''pass''
                @ '': no command names them, so they ran on their '' @ interval
                @ '' interval, at its ticks, or at the delivery the nudge earned when they were within half an interval of due, since the sweeper runs every reclaimer due at each delivery.'')
      @ (if ran > max out inb
         then '' files' '' @ plural (ran - max out inb) ''pass'' @ '' over the most either of them ran is the nudge's.''
         else '' files ran no more than they did, so the counts alone do not single out the nudged pass in this window: a nudge restarts files' interval, so the next tick can pass files by, and its delivery can run the other two early. The branch's 404 above is the nudged pass's work.''))"

section \<open>The tables\<close>

text \<open>A left-justified width counts runes: the bytes that continue none.\<close>
definition runes :: "string \<Rightarrow> nat" where
  "runes s = length (filter (\<lambda>c. (of_char c :: nat) div 64 \<noteq> 2) s)"

definition pad :: "nat \<Rightarrow> string \<Rightarrow> string" where
  "pad w s = s @ replicate (w - runes s) (CHR '' '')"

definition arrow :: string where
  "arrow = [CHR 0xE2, CHR 0x86, CHR 0x92]"

definition backlog_cell :: "'v metrics \<Rightarrow> (string \<times> 'v) list \<Rightarrow> string \<Rightarrow> string" where
  "backlog_cell M backlog rec =
     ''backlogged '' @ me_g M (case map_of backlog rec of None \<Rightarrow> me_zero M | Some v \<Rightarrow> v)"

definition countRowsOf ::
    "'v metrics \<Rightarrow> string list \<Rightarrow> pass_counts \<Rightarrow> (string \<times> 'v) list \<Rightarrow> (string \<times> string) list" where
  "countRowsOf M names c backlog =
     map (\<lambda>rec. (rec, join_with '' '' (map (\<lambda>out. out @ '' '' @ pad 6 (itoa (count_at c rec out))) outcomes
       @ [backlog_cell M backlog rec]))) names"

definition countRows :: "'v metrics \<Rightarrow> pass_counts \<Rightarrow> (string \<times> 'v) list \<Rightarrow> (string \<times> string) list" where
  "countRows M c backlog = countRowsOf M slab_reclaimers c backlog"

definition delta_cell :: "pass_counts \<Rightarrow> pass_counts \<Rightarrow> string \<Rightarrow> string \<Rightarrow> string" where
  "delta_cell before after rec out =
     (let was = count_at before rec out; is = count_at after rec out
      in pad 14 (if is \<noteq> was then out @ '' '' @ itoa was @ arrow @ itoa is else out @ '' '' @ itoa is))"

definition deltaRows ::
    "'v metrics \<Rightarrow> pass_counts \<Rightarrow> pass_counts \<Rightarrow> (string \<times> 'v) list \<Rightarrow> (string \<times> string) list" where
  "deltaRows M before after backlog =
     map (\<lambda>rec. (rec, join_with '' ''
       ((''+'' @ pad 3 (itoa (count_total after rec - count_total before rec)))
        # map (delta_cell before after rec) outcomes @ [backlog_cell M backlog rec]))) slab_reclaimers"

section \<open>The sweep block\<close>

record setting_seen =
  sv_value :: string
  sv_from :: string

record sweep_file =
  wf_interval :: string
  wf_batch :: string
  wf_stale :: string
  wf_outbox :: string
  wf_inbox :: string

record sweep_block =
  wb_interval :: setting_seen
  wb_batch :: setting_seen
  wb_stale :: setting_seen
  wb_outbox :: setting_seen
  wb_inbox :: setting_seen
  wb_base_outbox :: string
  wb_base_inbox :: string

definition pick :: "string \<Rightarrow> string \<Rightarrow> setting_seen" where
  "pick b l = (if l \<noteq> [] then \<lparr>sv_value = l, sv_from = localConfig\<rparr> else \<lparr>sv_value = b, sv_from = baseConfig\<rparr>)"

definition merge_blocks :: "sweep_file \<Rightarrow> sweep_file \<Rightarrow> sweep_block" where
  "merge_blocks b l =
     \<lparr>wb_interval = pick (wf_interval b) (wf_interval l), wb_batch = pick (wf_batch b) (wf_batch l),
      wb_stale = pick (wf_stale b) (wf_stale l), wb_outbox = pick (wf_outbox b) (wf_outbox l),
      wb_inbox = pick (wf_inbox b) (wf_inbox l), wb_base_outbox = wf_outbox b, wb_base_inbox = wf_inbox b\<rparr>"

text \<open>One file's block; decode is json.Unmarshal into a file's sweep block.\<close>
definition load_file :: "stage \<Rightarrow> string list \<Rightarrow> (string \<Rightarrow> sweep_file result) \<Rightarrow> string \<Rightarrow> sweep_file result" where
  "load_file sg root decode name =
     (case sg_read sg root name of Inl e \<Rightarrow> Inl e | Inr raw \<Rightarrow> wrapping name (decode raw))"

definition loadSweepBlock :: "stage \<Rightarrow> (string \<Rightarrow> sweep_file result) \<Rightarrow> sweep_block result" where
  "loadSweepBlock sg decode =
     (case repo_FS sg of
        Inl e \<Rightarrow> Inl e
      | Inr root \<Rightarrow>
          (case load_file sg root decode baseConfig of
             Inl e \<Rightarrow> Inl e
           | Inr b \<Rightarrow>
               (case load_file sg root decode localConfig of
                  Inl e \<Rightarrow> Inl e
                | Inr l \<Rightarrow> Inr (merge_blocks b l))))"

definition block_rows :: "sweep_block \<Rightarrow> (string \<times> string) list" where
  "block_rows b =
     map (\<lambda>(key, v). (key, pad 6 (sv_value v) @ '' ('' @ sv_from v @ '')''))
       [(''interval'', wb_interval b), (''batch'', wb_batch b), (''stale_age'', wb_stale b), (''outbox_age'', wb_outbox b),
        (''inbox_age'', wb_inbox b)]"

section \<open>The steps\<close>

record sweeper_state =
  ws_stamp :: string
  ws_policy :: sweep_block
  ws_before :: pass_counts
  ws_before_at :: int
  ws_after :: pass_counts
  ws_org :: string
  ws_branch :: identity_seen
  ws_swept :: int

definition exportedAt :: "'v metrics \<Rightarrow> int play" where
  "exportedAt M = chain (query_metrics M exportedQuery) (\<lambda>samples. done_with (exportTime M samples))"

text \<open>read: the time first, then the counts.\<close>
definition read_counts :: "'v metrics \<Rightarrow> (int \<times> pass_counts) play" where
  "read_counts M =
     chain (exportedAt M) (\<lambda>at.
     chain (query_metrics M passesQuery) (\<lambda>samples. done_with (at, countsOf M samples)))"

definition read_backlog :: "'v metrics \<Rightarrow> (string \<times> 'v) list play" where
  "read_backlog M = chain (query_metrics M backlogQuery) (\<lambda>samples. done_with (byReclaimer samples))"

text \<open>A wait whose error is wrapped.\<close>
definition wrapping_play :: "string \<Rightarrow> 'a play \<Rightarrow> 'a play" where
  "wrapping_play s m t = map_option (map_prod (wrapping s) id) (m t)"

definition awaitFirstExport :: "stage \<Rightarrow> 'v metrics \<Rightarrow> 'v sample list play" where
  "awaitFirstExport sg M =
     wrapping_play (''waiting for the service's first export of sweep_backlogged_ratio for '' @ join_with '', '' slab_reclaimers
         @ '' (is mise run serve streaming to the observability profile?)'')
       (await_metrics sg M backlogQuery (\<lambda>samples. length (byReclaimer samples) = length slab_reclaimers))"

definition step_passCounts ::
    "stage \<Rightarrow> 'v metrics \<Rightarrow> (string \<Rightarrow> sweep_file result) \<Rightarrow> sweeper_state \<Rightarrow> sweeper_state play" where
  "step_passCounts sg M decode s =
     chain (clock_now sg) (\<lambda>now.
     chain (Note [localConfig, baseConfig]) (\<lambda>_.
     chain (taking (loadSweepBlock sg decode)) (\<lambda>b.
     chain (showing sg ''Sweep block'' (Table (sg_style sg) (block_rows b))) (\<lambda>_.
     chain (Note [sg_duration sg exportInterval]) (\<lambda>_.
     chain (awaitFirstExport sg M) (\<lambda>_.
     chain (read_counts M) (\<lambda>x.
     chain (read_backlog M) (\<lambda>backlog.
       keeping (s\<lparr>ws_stamp := FormatInt36 now, ws_policy := b, ws_before := snd x, ws_before_at := fst x\<rparr>)
         (showing sg (''Passes by outcome, exported at '' @ me_clock M (fst x))
            (Table (sg_style sg) (countRows M (snd x) backlog)))))))))))"

definition sweeper_createBranch :: "stage \<Rightarrow> decoders \<Rightarrow> sweeper_state \<Rightarrow> sweeper_state play" where
  "sweeper_createBranch sg dc s =
     chain (lookup sg dc sweeperOrgPath) (\<lambda>acme.
       (let name = ''sweeper-'' @ ws_stamp s; org = os_id acme in
     chain (Note [name]) (\<lambda>_.
     chain (slab_createDirectory sg dc (documentsRoute org @ ''/directories'') RootAlias name) (\<lambda>i.
     chain (call sg ''POST'' (directoryRoute org (is_id i) @ ''/files?name='' @ QueryEscape ''notes.txt'')
              [(''Content-Type'', textPlain)]
              (StringBody (''Notes the files reclaimer removes with their branch.'' @ [CHR 0x0A]))) (\<lambda>r.
       keeping (s\<lparr>ws_org := org, ws_branch := i\<rparr>) (expecting 201 r))))))"

definition sweeper_delete :: "stage \<Rightarrow> 'v metrics \<Rightarrow> decoders \<Rightarrow> sweeper_state \<Rightarrow> sweeper_state play" where
  "sweeper_delete sg M dc s =
     (let route = directoryRoute (ws_org s) (is_id (ws_branch s)) in
      chain (Get sg route) (\<lambda>g.
      chain (expecting 200 g) (\<lambda>_.
      chain (decoded (dc_directory dc) g) (\<lambda>d.
      chain (Note [sg_duration sg sweepLimit]) (\<lambda>_.
      chain (call sg ''DELETE'' (route @ ''?recursive=true'') [IfMatchHeader (ds_version d)] NilBody) (\<lambda>r.
      chain (expecting 202 r) (\<lambda>_.
        (let location = header_get (rp_header r) ''Location'' in
         if location = [] then failing no_location
         else chain (await_sweep sg location) (\<lambda>took.
              chain (clock_now sg) (\<lambda>now.
                keeping (s\<lparr>ws_swept := now\<rparr>) (Note [sg_duration sg (round_ms took), me_clock M now])))))))))))"

definition nextExport :: "stage \<Rightarrow> 'v metrics \<Rightarrow> sweeper_state \<Rightarrow> sweeper_state play" where
  "nextExport sg M s =
     chain (Note [sg_duration sg exportInterval, sg_duration sg exportPoll, sg_duration sg exportLimit]) (\<lambda>_.
     chain (wrapping_play (''waiting for an export of sweep_passes_total after the sweep at '' @ me_clock M (ws_swept s))
              (await_metrics sg M exportedQuery (\<lambda>samples. exportTime M samples > ws_swept s))) (\<lambda>_.
     chain (read_counts M) (\<lambda>x.
     chain (read_backlog M) (\<lambda>backlog.
       (let at = fst x; after = snd x;
            window = round_second (time_Sub at (ws_before_at s));
            moved = movement (ws_before s) after
        in chain (showing sg (''Passes by outcome, exported at '' @ me_clock M at @ '', '' @ sg_duration sg window
                     @ '' after the first step's'') (Table (sg_style sg) (deltaRows M (ws_before s) after backlog))) (\<lambda>_.
           if moved ''files'' < 1
           then failing (plain (''the export at '' @ me_clock M at @ '', after the sweep, counts files at ''
                  @ itoa (count_total after ''files'') @ '' passes, as the first step's did: the nudged pass is missing''))
           else keeping (s\<lparr>ws_after := after\<rparr>)
                  (Note [narrateMovement (sg_duration sg) moved (sv_value (wb_interval (ws_policy s))) window])))))))"

definition outboxRetention :: "stage \<Rightarrow> 'v metrics \<Rightarrow> sweeper_state \<Rightarrow> sweeper_state play" where
  "outboxRetention sg M s =
     (let age = wb_outbox (ws_policy s); b = ws_policy s in
      chain (Note []) (\<lambda>_.
      chain (if sv_from age = localConfig
             then Note [localConfig, sv_value age, sv_value (wb_inbox b), baseConfig, wb_base_outbox b, wb_base_inbox b, sv_value age]
             else Note [localConfig, baseConfig, sv_value age]) (\<lambda>_.
      chain (Note [sv_value (wb_batch b)]) (\<lambda>_.
      chain (read_backlog M) (\<lambda>backlog.
        keeping s (showing sg ''The outbox's passes''
          (Table (sg_style sg) (countRowsOf M [''outbox''] (ws_after s) backlog))))))))"

definition grafanaView :: "stage \<Rightarrow> sweeper_state \<Rightarrow> sweeper_state play" where
  "grafanaView sg s =
     chain (Note [mimirName]) (\<lambda>_.
       keeping s (showApart sg ''Observability'' (Metrics (sg_style sg) (sg_grafana sg) mimirName passesQuery)))"

definition Sweeper ::
    "stage \<Rightarrow> 'v metrics \<Rightarrow> decoders \<Rightarrow> (string \<Rightarrow> sweep_file result) \<Rightarrow> sweeper_state steps" where
  "Sweeper sg M dc decode =
     [(''Pass Counts'', step_passCounts sg M decode), (''Branch Creation'', sweeper_createBranch sg dc),
      (''Recursive Delete'', sweeper_delete sg M dc), (''Next Export'', nextExport sg M),
      (''Outbox Retention'', outboxRetention sg M), (''Grafana View'', grafanaView sg)]"

end
