(* ===== verification/SlabRunProperties.thy ===== *)
theory SlabRunProperties
  imports SlabScenarioProperties SlabSweeper ReactorProperties ConfigProperties
begin

text \<open>
  What the events scenario sends when it completes, and what the sweeper scenario's tables
  and its sweep block say of the service's own metrics and configuration.
\<close>

section \<open>The events scenario\<close>

lemma put_fixture_exchanges:
  "completes (put_fixture sg route name png) t r u \<Longrightarrow> exchanges u = exchanges t @ [(''PUT'', route, png_header, Some (rp_status r))]"
  by (auto simp: put_fixture_def completes_simps dest!: showApart_exchanges Do_exchanges)

lemma write_organization:
  "completes (writeOrganization sg dc s verb route body) t x u \<Longrightarrow> \<exists>i. x = s\<lparr>es_org := i\<rparr> \<and> is_id i = is_id (es_org s)
     \<and> is_version i = is_version (es_org s) + 1
     \<and> exchanges u = exchanges t @ [(verb, route, [IfMatchHeader (is_version (es_org s))], Some 200)]"
  by (auto simp: writeOrganization_def es_org_id_def completes_simps dest!: call_exchanges)

lemma events_organization:
  "completes (createOrganization sg dc s) t x u \<Longrightarrow> \<exists>k i. x = s\<lparr>es_stamp := k, es_org := i\<rparr> \<and> exchanges u = exchanges t
     @ [(''GET'', Organizations @ ''/lookup?'' @ RawQuery [(''path'', eventsParentPath)], [], Some 200),
        (''POST'', Organizations, [], Some 201)]"
  "completes (editOrganization sg dc s) t x u \<Longrightarrow> \<exists>i. x = s\<lparr>es_org := i\<rparr> \<and> is_id i = is_id (es_org s)
     \<and> is_version i = is_version (es_org s) + 1
     \<and> exchanges u = exchanges t @ [(''PUT'', org_route (is_id (es_org s)), [IfMatchHeader (is_version (es_org s))], Some 200)]"
  "completes (transferOrganization sg dc s) t x u \<Longrightarrow> \<exists>i. x = s\<lparr>es_org := i\<rparr> \<and> is_id i = is_id (es_org s)
     \<and> is_version i = is_version (es_org s) + 1 \<and> exchanges u = exchanges t
     @ [(''POST'', org_route (is_id (es_org s)) @ ''/transfer'', [IfMatchHeader (is_version (es_org s))], Some 200)]"
  "completes (deleteOrganization sg dc s) t x u \<Longrightarrow> x = s \<and> (\<exists>o1 :: org_seen. exchanges u = exchanges t
     @ [(''GET'', org_route (is_id (es_org s)), [], Some 200),
        (''DELETE'', org_route (os_id o1), [IfMatchHeader (os_version o1)], Some 204)])"
  by (auto simp: createOrganization_def editOrganization_def transferOrganization_def deleteOrganization_def events_find_def Get_def
      es_org_id_def completes_simps Let_def dest!: lookup_exchanges call_exchanges Do_exchanges write_organization)

lemma events_logo:
  "completes (uploadLogo sg s) t x u \<Longrightarrow> x = s \<and> exchanges u = exchanges t
     @ [(''PUT'', logoRoute (is_id (es_org s)), png_header, Some 201)]"
  "completes (events_replaceLogo sg s) t x u \<Longrightarrow> x = s \<and> exchanges u = exchanges t
     @ [(''PUT'', logoRoute (is_id (es_org s)), png_header, Some 201)]"
  "completes (events_deleteLogo sg s) t x u \<Longrightarrow> x = s \<and> exchanges u = exchanges t
     @ [(''DELETE'', logoRoute (is_id (es_org s)), [], Some 204)]"
  by (auto simp: uploadLogo_def events_replaceLogo_def events_deleteLogo_def events_putLogo_def es_org_id_def completes_simps Let_def
      dest!: put_fixture_exchanges call_exchanges)

abbreviation dirs_of :: "events_state \<Rightarrow> string" where
  "dirs_of s \<equiv> documentsRoute (is_id (es_org s)) @ ''/directories''"

lemma events_directories:
  "completes (firstDirectory sg dc s) t x u \<Longrightarrow> \<exists>i. x = s\<lparr>es_reports := i\<rparr> \<and> exchanges u = exchanges t
     @ [(''POST'', dirs_of s, [], Some 201)]"
  "completes (moreDirectories sg dc s) t x u \<Longrightarrow> \<exists>i j. x = s\<lparr>es_scratch := i, es_empty := j\<rparr> \<and> exchanges u = exchanges t
     @ [(''POST'', dirs_of s, [], Some 201), (''POST'', dirs_of s, [], Some 201)]"
  by (auto simp: firstDirectory_def moreDirectories_def events_createDirectory_def es_org_id_def completes_simps
      dest!: createDirectory_exchanges)

definition upload_route :: "events_state \<Rightarrow> string \<Rightarrow> string \<Rightarrow> string" where
  "upload_route s dir name = directoryRoute (is_id (es_org s)) dir @ ''/files?name='' @ QueryEscape name"

lemma events_upload_exchanges:
  "completes (events_upload sg dc s dir name content) t i u \<Longrightarrow> exchanges u = exchanges t
     @ [(''POST'', upload_route s dir name, [(''Content-Type'', textPlain)], Some 201)]"
  by (auto simp: events_upload_def upload_route_def es_org_id_def completes_simps dest!: call_exchanges)

lemma events_move_exchanges:
  "completes (events_move sg dc route target body) t i u \<Longrightarrow> is_id i = is_id target \<and> exchanges u = exchanges t
     @ [(''POST'', route, [IfMatchHeader (is_version target)], Some 200)]"
  by (auto simp: events_move_def completes_simps dest!: call_exchanges split: if_splits)

lemma events_files:
  "completes (uploadFiles sg dc s) t x u \<Longrightarrow> \<exists>f. x = s\<lparr>es_file := f\<rparr> \<and> exchanges u = exchanges t
     @ [(''POST'', upload_route s (is_id (es_reports s)) reportsFile, [(''Content-Type'', textPlain)], Some 201),
        (''POST'', upload_route s (is_id (es_scratch s)) scratchFile, [(''Content-Type'', textPlain)], Some 201)]"
  "completes (events_moveDirectory sg dc s) t x u \<Longrightarrow> \<exists>i. x = s\<lparr>es_empty := i\<rparr> \<and> is_id i = is_id (es_empty s)
     \<and> exchanges u = exchanges t @ [(''POST'', directoryRoute (is_id (es_org s)) (is_id (es_empty s)) @ ''/move'',
         [IfMatchHeader (is_version (es_empty s))], Some 200)]"
  "completes (events_moveFile sg dc s) t x u \<Longrightarrow> \<exists>i. x = s\<lparr>es_file := i\<rparr> \<and> is_id i = is_id (es_file s)
     \<and> exchanges u = exchanges t @ [(''POST'', fileRoute (is_id (es_org s)) (is_id (es_file s)) @ ''/move'',
         [IfMatchHeader (is_version (es_file s))], Some 200)]"
  "completes (events_deleteFile sg s) t x u \<Longrightarrow> x = s \<and> exchanges u = exchanges t
     @ [(''DELETE'', fileRoute (is_id (es_org s)) (is_id (es_file s)), [IfMatchHeader (is_version (es_file s))], Some 204)]"
  "completes (deleteEmptyDirectory sg s) t x u \<Longrightarrow> x = s \<and> exchanges u = exchanges t
     @ [(''DELETE'', directoryRoute (is_id (es_org s)) (is_id (es_empty s)), [IfMatchHeader (is_version (es_empty s))], Some 204)]"
  by (auto simp: uploadFiles_def events_moveDirectory_def events_moveFile_def events_deleteFile_def deleteEmptyDirectory_def
      es_org_id_def completes_simps dest!: events_upload_exchanges events_move_exchanges call_exchanges)

lemma events_branch:
  "completes (events_deleteRecursively sg dc s i) t x u \<Longrightarrow> x = s \<and> (\<exists>v. exchanges u = exchanges t
     @ [(''GET'', directoryRoute (is_id (es_org s)) i, [], Some 200),
        (''DELETE'', directoryRoute (is_id (es_org s)) i @ ''?recursive=true'', [IfMatchHeader v], Some 202)])"
  by (auto simp: events_deleteRecursively_def es_org_id_def completes_simps Let_def Get_def
      dest!: Do_exchanges call_exchanges await_exchanges split: if_splits)

lemma events_branches:
  "completes (deleteBranch sg dc s) t x u \<Longrightarrow> x = s \<and> (\<exists>v. exchanges u = exchanges t
     @ [(''GET'', directoryRoute (is_id (es_org s)) (is_id (es_scratch s)), [], Some 200),
        (''DELETE'', directoryRoute (is_id (es_org s)) (is_id (es_scratch s)) @ ''?recursive=true'', [IfMatchHeader v], Some 202)])"
  "completes (deleteDocumentRoot sg dc s) t x u \<Longrightarrow> x = s \<and> (\<exists>v. exchanges u = exchanges t
     @ [(''GET'', directoryRoute (is_id (es_org s)) RootAlias, [], Some 200),
        (''DELETE'', directoryRoute (is_id (es_org s)) RootAlias @ ''?recursive=true'', [IfMatchHeader v], Some 202)])"
  by (auto simp: deleteBranch_def deleteDocumentRoot_def completes_simps dest!: events_branch)

text \<open>The writes of a list of exchanges, and those on a route of the organizations.\<close>
definition writes :: "(string \<times> string \<times> (string \<times> string) list \<times> nat option) list \<Rightarrow> (string \<times> string \<times> nat option) list" where
  "writes xs = map (\<lambda>(verb, path, hs, code). (verb, path, code)) (filter (\<lambda>(verb, path, hs, code). verb \<noteq> ''GET'') xs)"

definition on_organizations :: "string \<times> string \<times> nat option \<Rightarrow> bool" where
  "on_organizations w = has_prefix Organizations (fst (snd w))"

lemma org_prefixes:
  "has_prefix Organizations Organizations" "has_prefix Organizations (org_route i)" "has_prefix Organizations (org_route i @ r)"
  "has_prefix Organizations (logoRoute i)" "\<not> has_prefix Organizations (documentsRoute i @ r)"
  "\<not> has_prefix Organizations (directoryRoute i d)" "\<not> has_prefix Organizations (directoryRoute i d @ r)"
  "\<not> has_prefix Organizations (fileRoute i d)" "\<not> has_prefix Organizations (fileRoute i d @ r)"
  by (simp_all add: has_prefix_def Organizations_def Documents_def org_route_def logoRoute_def documentsRoute_def directoryRoute_def
      fileRoute_def)

lemma events_exchanges:
  assumes "completes (play_steps (Events sg dc) s) t x u"
  shows "\<exists>(i :: identity_seen) (r :: identity_seen) (d :: identity_seen) (e :: identity_seen) (f :: identity_seen) e1 f1 v1 v2 (o1 :: org_seen).
    exchanges u = exchanges t @
    [(''GET'', Organizations @ ''/lookup?'' @ RawQuery [(''path'', eventsParentPath)], [], Some 200),
     (''POST'', Organizations, [], Some 201), (''PUT'', org_route (is_id i), [IfMatchHeader (is_version i)], Some 200),
     (''POST'', org_route (is_id i) @ ''/transfer'', [IfMatchHeader (is_version i + 1)], Some 200),
     (''PUT'', logoRoute (is_id i), png_header, Some 201), (''PUT'', logoRoute (is_id i), png_header, Some 201),
     (''DELETE'', logoRoute (is_id i), [], Some 204), (''POST'', documentsRoute (is_id i) @ ''/directories'', [], Some 201),
     (''POST'', documentsRoute (is_id i) @ ''/directories'', [], Some 201),
     (''POST'', documentsRoute (is_id i) @ ''/directories'', [], Some 201),
     (''POST'', directoryRoute (is_id i) (is_id r) @ ''/files?name='' @ QueryEscape reportsFile, [(''Content-Type'', textPlain)], Some 201),
     (''POST'', directoryRoute (is_id i) (is_id d) @ ''/files?name='' @ QueryEscape scratchFile, [(''Content-Type'', textPlain)], Some 201),
     (''POST'', directoryRoute (is_id i) (is_id e) @ ''/move'', [IfMatchHeader (is_version e)], Some 200),
     (''POST'', fileRoute (is_id i) (is_id f) @ ''/move'', [IfMatchHeader (is_version f)], Some 200),
     (''DELETE'', fileRoute (is_id i) (is_id f), [IfMatchHeader f1], Some 204),
     (''DELETE'', directoryRoute (is_id i) (is_id e), [IfMatchHeader e1], Some 204),
     (''GET'', directoryRoute (is_id i) (is_id d), [], Some 200),
     (''DELETE'', directoryRoute (is_id i) (is_id d) @ ''?recursive=true'', [IfMatchHeader v1], Some 202),
     (''GET'', directoryRoute (is_id i) RootAlias, [], Some 200),
     (''DELETE'', directoryRoute (is_id i) RootAlias @ ''?recursive=true'', [IfMatchHeader v2], Some 202),
     (''GET'', org_route (is_id i), [], Some 200), (''DELETE'', org_route (os_id o1), [IfMatchHeader (os_version o1)], Some 204)]"
  using assms
  by (auto simp: Events_def completes_simps upload_route_def
      dest!: events_organization events_logo events_directories events_files events_branches) blast

text \<open>C35. An events run that completes sent the eighteen writes its notes announce, in order, each
  answered with the success it expects, the organization's edit and transfer under the
  version the write before returned; with the document root, which the first directory
  creates, they make the count of events the closing note states, and those on the
  organizations' routes the organization domain's share of it.\<close>
theorem events_writes:
  assumes "completes (play_steps (Events sg dc) s) t x u"
  shows "\<exists>new i v r d e f (o1 :: org_seen). exchanges u = exchanges t @ new
    \<and> (''PUT'', org_route i, [IfMatchHeader v], Some 200) \<in> set new
    \<and> (''POST'', org_route i @ ''/transfer'', [IfMatchHeader (v + 1)], Some 200) \<in> set new
    \<and> writes new =
       [(''POST'', Organizations, Some 201), (''PUT'', org_route i, Some 200), (''POST'', org_route i @ ''/transfer'', Some 200),
        (''PUT'', logoRoute i, Some 201), (''PUT'', logoRoute i, Some 201), (''DELETE'', logoRoute i, Some 204),
        (''POST'', documentsRoute i @ ''/directories'', Some 201), (''POST'', documentsRoute i @ ''/directories'', Some 201),
        (''POST'', documentsRoute i @ ''/directories'', Some 201),
        (''POST'', directoryRoute i r @ ''/files?name='' @ QueryEscape reportsFile, Some 201),
        (''POST'', directoryRoute i d @ ''/files?name='' @ QueryEscape scratchFile, Some 201),
        (''POST'', directoryRoute i e @ ''/move'', Some 200), (''POST'', fileRoute i f @ ''/move'', Some 200),
        (''DELETE'', fileRoute i f, Some 204), (''DELETE'', directoryRoute i e, Some 204),
        (''DELETE'', directoryRoute i d @ ''?recursive=true'', Some 202),
        (''DELETE'', directoryRoute i RootAlias @ ''?recursive=true'', Some 202), (''DELETE'', org_route (os_id o1), Some 204)]
    \<and> int (length (writes new)) + 1 = eventsTotal
    \<and> int (length (filter on_organizations (writes new))) = organizationEvents"
  using events_exchanges [OF assms]
  by (elim exE) (auto simp: writes_def on_organizations_def org_prefixes eventsTotal_def organizationEvents_def; blast)

lemma scripted_await: "AwaitSweep scripted_terminal l limit = Some (Inr 1)"
  by (simp add: AwaitSweep_def await_from.simps sweep_poll_def sweep_turn_def scripted_terminal_def client_DirectoryAt_def)

lemma yields_await [yields_intros]: "yields (await_sweep (scripted script) l) n 1 n"
  by (auto simp: yields_def await_sweep_def completes_def scripted_await, simp add: scripted_def scripted_await)

lemma yields_clock [yields_intros]: "yields (clock_now (scripted script)) n 0 n"
  by (auto simp: yields_def completes_simps scripted_def)

lemma yields_get_plain [yields_intros]: "yields (Get (scripted script) p) n (scripted_answer script n) (Suc n)"
  unfolding Get_def by (rule yields_intros)

lemma yields_lookup [yields_intros]:
  "script ! n = (200, k) \<Longrightarrow> dc_org dc = looked_up xs \<Longrightarrow> k < length xs \<Longrightarrow> xs ! k = o1
     \<Longrightarrow> yields (lookup (scripted script) dc p) n o1 (Suc n)"
  unfolding lookup_def by (rule yields_intros | simp add: wrapping_def Expect_def)+

definition events_script :: "(nat \<times> nat) list" where
  "events_script = [(200, 0), (201, 0), (200, 1), (200, 2), (201, 0), (201, 0), (204, 0), (201, 3), (201, 4), (201, 5), (201, 6), (201, 7),
     (200, 5), (200, 6), (204, 0), (204, 0), (200, 0), (202, 0), (200, 0), (202, 0), (200, 1), (204, 0)]"

definition numbered :: "string \<Rightarrow> int \<Rightarrow> identity_seen" where
  "numbered i v = \<lparr>is_id = i, is_version = v\<rparr>"

definition events_decoders :: decoders where
  "events_decoders = scripted_decoders [] [seeded_org ''a'' ''acme'' None, seeded_org ''i'' ''events-0'' None]
     [numbered ''i'' 1, numbered ''i'' 2, numbered ''i'' 3, numbered ''r'' 1, numbered ''d'' 1, numbered ''e'' 1, numbered ''f'' 1, numbered ''g'' 1]
     [\<lparr>ds_id = ''d'', ds_parent = None, ds_name = ''d'', ds_status = ''active'', ds_version = 1\<rparr>] []"

definition events_start :: events_state where
  "events_start = \<lparr>es_stamp = [], es_org = numbered [] 0, es_reports = numbered [] 0, es_scratch = numbered [] 0, es_empty = numbered [] 0,
     es_file = numbered [] 0\<rparr>"

lemma events_decoders_simps:
  "dc_org events_decoders = looked_up [seeded_org ''a'' ''acme'' None, seeded_org ''i'' ''events-0'' None]"
  "dc_identity events_decoders = looked_up [numbered ''i'' 1, numbered ''i'' 2, numbered ''i'' 3, numbered ''r'' 1, numbered ''d'' 1,
     numbered ''e'' 1, numbered ''f'' 1, numbered ''g'' 1]"
  "dc_directory events_decoders = looked_up [\<lparr>ds_id = ''d'', ds_parent = None, ds_name = ''d'', ds_status = ''active'', ds_version = 1\<rparr>]"
  by (simp_all add: events_decoders_def scripted_decoders_def)

lemma numbered_simps [simp]: "is_id (numbered i v) = i" "is_version (numbered i v) = v"
  by (simp_all add: numbered_def)

lemma header_location [simp]: "header_get scripted_header ''Location'' = ''/l''"
  by (simp add: header_get_def scripted_header_def)

lemmas events_defs = createOrganization_def editOrganization_def transferOrganization_def uploadLogo_def events_replaceLogo_def
  events_deleteLogo_def firstDirectory_def moreDirectories_def uploadFiles_def events_moveDirectory_def events_moveFile_def
  events_deleteFile_def deleteEmptyDirectory_def deleteBranch_def deleteDocumentRoot_def deleteOrganization_def
  writeOrganization_def events_putLogo_def put_fixture_def events_createDirectory_def slab_createDirectory_def events_upload_def
  events_move_def events_deleteRecursively_def events_find_def

lemma events_run: "\<exists>x k. yields (play_steps (Events (scripted events_script) events_decoders) events_start) 0 x k"
  unfolding Events_def events_defs Let_def
  by (rule exI, rule exI) ((rule yields_intros scripted_repo events_decoders_simps
      | simp add: events_script_def events_decoders_simps es_org_id_def events_start_def)+)

lemma events_writes_witness:
  "\<exists>x u new. completes (play_steps (Events (scripted events_script) events_decoders) events_start) [] x u
     \<and> exchanges u = new \<and> length (writes new) = 18 \<and> length (filter on_organizations (writes new)) = 7"
proof -
  obtain x u where u: "completes (play_steps (Events (scripted events_script) events_decoders) events_start) [] x u"
    using yields_completes events_run by metis
  have "length (writes (exchanges u)) = 18 \<and> length (filter on_organizations (writes (exchanges u))) = 7"
    using events_writes [OF u] by (auto simp: eventsTotal_def organizationEvents_def)
  with u show ?thesis by blast
qed

section \<open>The sweeper's counts\<close>

text \<open>The samples of an export of the service's counter: one series for each name and outcome
  counted, each by its own labels, its value the count.\<close>
definition series_of :: "'v sample \<Rightarrow> string \<times> string" where
  "series_of sm = (label_text sm ''sweep_reclaimer'', label_text sm ''sweep_outcome'')"

definition exports :: "'v metrics \<Rightarrow> sweep_metrics \<Rightarrow> 'v sample list \<Rightarrow> bool" where
  "exports M m samples \<longleftrightarrow> distinct (map series_of samples)
     \<and> (\<forall>sm\<in>set samples. me_int64 M (sa_value sm) = int (sm_passes m (series_of sm)))
     \<and> (\<forall>k. sm_passes m k \<noteq> 0 \<longrightarrow> k \<in> series_of ` set samples)"

lemma countsOf_distinct:
  assumes "distinct (map series_of samples)"
  shows "countsOf M samples = map (\<lambda>sm. (series_of sm, me_int64 M (sa_value sm))) samples"
proof -
  have "distinct (map fst c @ map series_of samples) \<Longrightarrow>
      foldl (\<lambda>c sm. AList.update (label_text sm ''sweep_reclaimer'', label_text sm ''sweep_outcome'') (me_int64 M (sa_value sm)) c) c samples
        = c @ map (\<lambda>sm. (series_of sm, me_int64 M (sa_value sm))) samples" for c
  proof (induction samples arbitrary: c)
    case (Cons sm ss)
    have "k \<notin> fst ` set c \<Longrightarrow> AList.update k (v :: int) c = c @ [(k, v)]" for k :: "string \<times> string" and v
      by (induction c) auto
    with Cons show ?case by (simp add: series_of_def)
  qed simp
  from this [of "[]"] assms show ?thesis by (simp add: countsOf_def)
qed

lemma count_total_exported:
  assumes "exports M m samples"
  shows "count_total (countsOf M samples) rec = int (sum (\<lambda>k. sm_passes m k) {k \<in> series_of ` set samples. fst k = rec})"
proof -
  let ?s = "filter (\<lambda>sm. fst (series_of sm) = rec) samples"
  have d: "distinct (map series_of ?s)" using assms by (auto simp: exports_def intro: distinct_map_filter)
  have "count_total (countsOf M samples) rec = sum_list (map (\<lambda>sm. int (sm_passes m (series_of sm))) ?s)"
    using assms by (auto simp: exports_def count_total_def countsOf_distinct filter_map comp_def intro!: arg_cong [where f = sum_list])
  also have "\<dots> = sum_list (map (\<lambda>k. int (sm_passes m k)) (map series_of ?s))" by (simp add: comp_def)
  also have "\<dots> = sum (\<lambda>k. int (sm_passes m k)) (set (map series_of ?s))" using d by (rule sum_list_distinct_conv_sum_set)
  also have "set (map series_of ?s) = {k \<in> series_of ` set samples. fst k = rec}" by auto
  finally show ?thesis by simp
qed

lemma passes_total:
  assumes "finite K" and "\<forall>k. sm_passes (foldl metrics_pass newSweepMetrics ps) k \<noteq> 0 \<longrightarrow> k \<in> K"
  shows "sum (\<lambda>k. sm_passes (foldl metrics_pass newSweepMetrics ps) k) {k \<in> K. fst k = rec} = length (filter (\<lambda>p. ps_name p = rec) ps)"
proof -
  let ?m = "foldl metrics_pass newSweepMetrics ps"
  let ?O = "{outcomeError, outcomeMore, outcomeDrained}"
  have z: "sm_passes ?m (rec, out) = 0" if "out \<notin> ?O" for out
    using that by (auto simp: metrics_count outcome_def filter_empty_conv)
  have c: "k \<in> Pair rec ` ?O" if "fst k = rec" "sm_passes ?m k \<noteq> 0" for k
    using z [of "snd k"] that by (cases k) auto
  have "sum (sm_passes ?m) {k \<in> K. fst k = rec} = sum (sm_passes ?m) (Pair rec ` ?O)"
    using assms c by (intro sum.mono_neutral_cong) auto
  also have "\<dots> = sm_passes ?m (rec, outcomeError) + sm_passes ?m (rec, outcomeMore) + sm_passes ?m (rec, outcomeDrained)"
    by (simp add: outcomeError_def outcomeMore_def outcomeDrained_def)
  also have "\<dots> = length (filter (\<lambda>p. ps_name p = rec) ps)"
    using outcomes_total [of rec ps] by (simp add: metrics_count)
  finally show ?thesis .
qed

lemma count_total_history:
  "exports M (foldl metrics_pass newSweepMetrics ps) samples \<Longrightarrow>
     count_total (countsOf M samples) rec = int (length (filter (\<lambda>p. ps_name p = rec) ps))"
  using count_total_exported [of M "foldl metrics_pass newSweepMetrics ps" samples rec]
    passes_total [of "series_of ` set samples" ps rec]
  by (simp add: exports_def)

text \<open>C15. The passes the sweeper scenario says a reclaimer ran between two exports of the
  service's counter are the passes the service counted between them, whatever their
  outcomes.\<close>
theorem movement_counts_passes:
  assumes "exports M (foldl metrics_pass newSweepMetrics ps) before"
    and "exports M (foldl metrics_pass newSweepMetrics (ps @ qs)) after"
    and "rec \<in> set slab_reclaimers"
  shows "movement (countsOf M before) (countsOf M after) rec = int (length (filter (\<lambda>p. ps_name p = rec) qs))"
  using assms(3) count_total_history [OF assms(1)] count_total_history [OF assms(2)] by (simp add: movement_def)

definition demo_metrics :: "int metrics" where
  "demo_metrics = \<lparr>me_get = \<lambda>_ _ _. Inl (plain ''unused''), me_vector = \<lambda>_. Inr [], me_remaining = \<lambda>_ _ _. 0, me_ended = \<lambda>_ _. None,
     me_int64 = id, me_millis = id, me_g = itoa, me_zero = 0, me_clock = itoa\<rparr>"

definition files_pass :: sweep_pass where
  "files_pass = \<lparr>ps_name = ''files'', ps_more = False, ps_err = None\<rparr>"

definition files_sample :: "int \<Rightarrow> int sample" where
  "files_sample n = \<lparr>sa_labels = [(''sweep_reclaimer'', ''files''), (''sweep_outcome'', ''drained'')], sa_time = 0, sa_value = n\<rparr>"

lemma movement_counts_passes_witness:
  "movement (countsOf demo_metrics []) (countsOf demo_metrics [files_sample 1]) ''files'' = 1"
proof -
  have "exports demo_metrics (foldl metrics_pass newSweepMetrics []) []" by (simp add: exports_def newSweepMetrics_def)
  moreover have "exports demo_metrics (foldl metrics_pass newSweepMetrics ([] @ [files_pass])) [files_sample 1]"
    by (auto simp: exports_def newSweepMetrics_def metrics_pass_def files_pass_def files_sample_def series_of_def label_text_def label_def
        demo_metrics_def outcome_def outcomeDrained_def)
  ultimately show ?thesis
    using movement_counts_passes [of demo_metrics "[]" "[]" "[files_pass]" "[files_sample 1]" "''files''"]
    by (simp add: slab_reclaimers_def files_pass_def)
qed

section \<open>The sweep block\<close>

text \<open>A file's block as the service decodes it: a text it does not have is a zero duration
  and no batch.\<close>
definition block_config :: "(string \<Rightarrow> int) \<Rightarrow> (string \<Rightarrow> int option) \<Rightarrow> sweep_file \<Rightarrow> sweep_config" where
  "block_config dur num f =
     \<lparr>Interval = dur (wf_interval f), Batch = num (wf_batch f), StaleAge = dur (wf_stale f), OutboxAge = dur (wf_outbox f),
      InboxAge = dur (wf_inbox f)\<rparr>"

text \<open>The sweep block the scenario shows against the one the service merges from the same
  two files: a value shown is the value in effect unless the local file writes a zero
  duration, or a null batch, over a value of the base file, which the service takes as
  unset and the scenario shows.\<close>
theorem sweep_block_in_effect:
  assumes "dur [] = 0" and "num [] = None"
  shows "let merged = sweep_Merge (block_config dur num b) (Some (block_config dur num l)); shown = merge_blocks b l in
    (Interval merged = dur (sv_value (wb_interval shown)) \<longleftrightarrow> \<not> (wf_interval l \<noteq> [] \<and> dur (wf_interval l) = 0 \<and> dur (wf_interval b) \<noteq> 0))
    \<and> (Batch merged = num (sv_value (wb_batch shown)) \<longleftrightarrow> \<not> (wf_batch l \<noteq> [] \<and> num (wf_batch l) = None \<and> num (wf_batch b) \<noteq> None))
    \<and> (StaleAge merged = dur (sv_value (wb_stale shown)) \<longleftrightarrow> \<not> (wf_stale l \<noteq> [] \<and> dur (wf_stale l) = 0 \<and> dur (wf_stale b) \<noteq> 0))
    \<and> (OutboxAge merged = dur (sv_value (wb_outbox shown)) \<longleftrightarrow> \<not> (wf_outbox l \<noteq> [] \<and> dur (wf_outbox l) = 0 \<and> dur (wf_outbox b) \<noteq> 0))
    \<and> (InboxAge merged = dur (sv_value (wb_inbox shown)) \<longleftrightarrow> \<not> (wf_inbox l \<noteq> [] \<and> dur (wf_inbox l) = 0 \<and> dur (wf_inbox b) \<noteq> 0))"
  using assms
  by (auto simp: Let_def sweep_Merge_def block_config_def merge_blocks_def pick_def overlay_nonzero_def overlay_def split: option.splits)

definition demo_duration :: "string \<Rightarrow> int" where
  "demo_duration s = (if s = ''30s'' then 30 * second else 0)"

text \<open>A local interval of zero is shown, and the base file's stays in effect.\<close>
lemma sweep_block_in_effect_witness:
  "Interval (sweep_Merge (block_config demo_duration (\<lambda>_. None) \<lparr>wf_interval = ''30s'', wf_batch = [], wf_stale = [], wf_outbox = [], wf_inbox = []\<rparr>)
      (Some (block_config demo_duration (\<lambda>_. None) \<lparr>wf_interval = ''0s'', wf_batch = [], wf_stale = [], wf_outbox = [], wf_inbox = []\<rparr>)))
    \<noteq> demo_duration (sv_value (wb_interval (merge_blocks
        \<lparr>wf_interval = ''30s'', wf_batch = [], wf_stale = [], wf_outbox = [], wf_inbox = []\<rparr>
        \<lparr>wf_interval = ''0s'', wf_batch = [], wf_stale = [], wf_outbox = [], wf_inbox = []\<rparr>)))"
  using sweep_block_in_effect [of demo_duration "\<lambda>_. None"
      "\<lparr>wf_interval = ''30s'', wf_batch = [], wf_stale = [], wf_outbox = [], wf_inbox = []\<rparr>"
      "\<lparr>wf_interval = ''0s'', wf_batch = [], wf_stale = [], wf_outbox = [], wf_inbox = []\<rparr>"]
  by (simp add: Let_def demo_duration_def second_def)

text \<open>What the tool restates of the service agrees with it.\<close>
lemma restated_constants:
  "slab_reclaimers = reclaimers" "set outcomes = {outcomeDrained, outcomeMore, outcomeError}" "service_name = serviceName"
  by (auto simp: slab_reclaimers_def reclaimer_names outcomes_def outcomeDrained_def outcomeMore_def outcomeError_def service_name_def
      serviceName_def)

end
