(* ===== verification/SlabConditions.thy ===== *)
theory SlabConditions
  imports SlabScenarioProperties OrgHandlerProperties
begin

text \<open>
  The conditions of the problems scenario against the service's own handlers: what a
  completed step sent, and the status it accepted, is what the handler of that route
  refuses the request with. The conditions here are the five the handlers' rules and
  tables decide; the others, a malformed id, query, body or tag and a missing tag, are
  refused by the SDK's reads. Between the two is the wire: how the server's reads see
  what the client sent, a parameter with the reads it is relied on for.
\<close>

section \<open>Refusals\<close>

text \<open>A handler's run that refuses with a status, and leaves the state as it was.\<close>
definition refuses :: "nat \<Rightarrow> ('s, 'a) step \<Rightarrow> 's \<Rightarrow> bool" where
  "refuses code m s \<longleftrightarrow> (\<exists>e. m s = (Inl e, s) \<and> map_option p_status (org_answer e) = Some code)"

lemma refuses_reply: "refuses code m s \<Longrightarrow> refuses code (reply m g) s"
  by (auto simp: refuses_def reply_cases)

lemma refuses_command:
  assumes "lib_ok l" "calm l" and "body s = (Inl e, s1)" and "map_option p_status (org_answer e) = Some code"
  shows "refuses code (transact l (emit l body)) s"
  using command_body_Inl [where body = body, OF assms(1,3)] assms(2,4) by (auto simp: refuses_def calm_def)

lemma stale_edit_refused:
  assumes "lib_ok l" "calm l" "exact_errors l" and "find_row (orgs s) i = Some r" "r_version r \<noteq> v" and "edit_Validate e = None"
  shows "refuses 412 (Edit l i v e) s"
proof -
  have "edit_body l i v e s = (Inl (mismatch l), s)"
    using assms(4,5) by (simp add: edit_body_def andthen_def edit_row_def guarded_def)
  from refuses_command [where body = "edit_body l i v e", OF assms(1,2) this] assms(6) show ?thesis
    by (simp add: Edit_def store_edit_def org_answer_exact [OF assms(3)] no_detail_def)
qed

lemma missing_find_refused:
  assumes "exact_errors l" "orgs_ok (orgs s)" "find_row (orgs s) i = None"
  shows "refuses 404 (reading (Find l i)) s"
proof -
  have "List.find (\<lambda>x. o_id x = i) (organization_view (orgs s)) = None"
    using organization_view_members [OF assms(2)] assms(3)
    by (fastforce simp: find_None_iff organization_of_def find_row_def)
  then show ?thesis
    by (simp add: refuses_def reading_def Find_def view_one_def org_answer_exact [OF assms(1)] no_detail_def)
qed

lemma cycle_transfer_refused:
  assumes l: "lib_ok l" "calm l" "exact_errors l" and ok: "orgs_ok (orgs s)"
    and below: "OrgTable.chain (orgs s) p rs" "i \<in> r_id ` set rs" "u p"
  shows "refuses 409 (Transfer u l i v \<lparr>t_parent = Some p, t_present = True\<rparr>) s"
proof -
  let ?t = "\<lparr>t_parent = Some p, t_present = True\<rparr>"
  have "transfer_answer (orgs s) i v (t_parent ?t) = 409"
    using below(1,2) by (auto simp: transfer_answer_def in_own_subtree_def)
  with transfer_body_refused [OF l(2) ok _ l(3), of i v ?t] obtain e
    where e: "run_script l (transfer_body l i v ?t) s = (Inl e, s)" "map_option p_status (org_answer e) = Some 409" by auto
  from refuses_command [where body = "run_script l (transfer_body l i v ?t)", OF l(1,2) e] show ?thesis
    by (simp add: Transfer_def transfer_Validate_def validParent_def below(3) store_transfer_def)
qed

lemma taken_code_refused:
  assumes l: "lib_ok l" "calm l" "exact_errors l" and ok: "orgs_ok (orgs s)" and row: "find_row (orgs s) i = Some r" "r_parent r = None"
  shows "refuses 409 (Create u l \<lparr>c_parent = None, c_code = r_code r, c_name = r_name r\<rparr>) s"
proof -
  have r: "r \<in> set (orgs s)" "match_code False (r_code r)" "r_name r \<noteq> []"
    using find_row_Some [OF row(1)] ok by (auto simp: orgs_ok_def)
  let ?c = "\<lparr>c_parent = None, c_code = r_code r, c_name = r_name r\<rparr>"
  have "\<exists>n. create_row l ?c s = (Inl (violation l UniqueViolation n), s)"
    using r row(2) by (auto simp: create_row_def row_violation_def Let_def list_ex_iff)
  then obtain n where "create_body l ?c s = (Inl (violation l UniqueViolation n), s)"
    by (auto simp: create_body_def andthen_def)
  from refuses_command [where body = "create_body l ?c", OF l(1,2) this] r show ?thesis
    by (simp add: Create_def create_Validate_def validCode_def validName_def validParent_def store_create_def org_answer_exact [OF l(3)]
        Conflict_def)
qed

lemma invalid_code_refused: "refuses 400 (Create u l \<lparr>c_parent = p, c_code = invalidCode, c_name = n\<rparr>) s"
proof -
  have bad: "validCode invalidCode = Some (wrap_reason OrgErrValidation ''code must be lowercase words joined by single hyphens'')"
    by (simp add: validCode_def) code_simp
  then obtain e where e: "create_Validate u \<lparr>c_parent = p, c_code = invalidCode, c_name = n\<rparr> = Some e"
    by (cases "create_Validate u \<lparr>c_parent = p, c_code = invalidCode, c_name = n\<rparr>")
      (auto simp: create_Validate_def errors_join_None_iff)
  then have "errors_is OrgValidation e"
    using errors_is_join [of _ e OrgValidation] bad by (auto simp: create_Validate_def OrgErrValidation_def)
  with e show ?thesis by (simp add: refuses_def Create_def refuse_def org_answer_def org_status_def no_detail_def)
qed

section \<open>What a condition sent\<close>

text \<open>The requests of a trace, whole, with the statuses they were answered.\<close>
type_synonym sent_request = "string \<times> string \<times> (string \<times> string) list \<times> json body_arg \<times> nat option"

fun sent_of :: "moment \<Rightarrow> sent_request list" where
  "sent_of (Exchanged verb path hs b code) = [(verb, path, hs, b, code)]"
| "sent_of _ = []"

definition sent :: "trace \<Rightarrow> sent_request list" where
  "sent t = concat (map sent_of t)"

lemma sent_append [simp]: "sent (t @ u) = sent t @ sent u" "sent [] = []" "sent (m # t) = sent_of m @ sent t"
  by (simp_all add: sent_def)

lemma showApart_sent: "completes (showApart sg c b) t x u \<Longrightarrow> sent u = sent t"
  by (auto simp: showApart_def caption_note_def completes_simps split: if_splits)

lemma showTrace_sent: "completes (showTrace sg r) t x u \<Longrightarrow> sent u = sent t"
  by (auto simp: showTrace_def completes_simps dest: showApart_sent)

lemma call_sent:
  "completes (call sg verb path hs b) t r u \<Longrightarrow> sent u = sent t @ [(verb, path, hs, b, Some (rp_status r))]"
  by (auto simp: call_def completes_simps completes_Do dest!: showApart_sent)

lemma observe_sent:
  "completes (observe_call sg verb path hs b code) t x u \<Longrightarrow> sent u = sent t @ [(verb, path, hs, b, Some code)]"
  by (auto simp: observe_call_def answered_def completes_simps dest!: call_sent refused_status showTrace_sent)

section \<open>The wire\<close>

text \<open>How the server reads what the client sent: a request it makes of a verb, a path,
  headers and a body.\<close>
type_synonym 'q link = "string \<Rightarrow> string \<Rightarrow> (string \<times> string) list \<Rightarrow> json body_arg \<Rightarrow> 'q"

text \<open>The SDK's reads, on what the client sends: a path's id when it is a UUID, the
  version of an If-Match, and a command's body by its fields.\<close>
definition reads_link :: "('q, 'f) org_handler \<Rightarrow> 'q link \<Rightarrow> bool" where
  "reads_link h link \<longleftrightarrow>
     (\<forall>i. oh_uuid h i \<longrightarrow> PathUUID (oh_web h) (link ''GET'' (org_route i) [] NilBody) ''id'' = Inr i) \<and>
     (\<forall>i v c n. oh_uuid h i \<longrightarrow> 0 \<le> v \<longrightarrow> v < 2 ^ 63 \<longrightarrow>
        Command (oh_web h) (oh_edit h) maxCommandBody
          (link ''PUT'' (org_route i) [IfMatchHeader v] (ValueBody (edit_value c n))) = Inr (i, v, \<lparr>e_code = c, e_name = n\<rparr>)) \<and>
     (\<forall>i v p. oh_uuid h i \<longrightarrow> 0 \<le> v \<longrightarrow> v < 2 ^ 63 \<longrightarrow>
        Command (oh_web h) (oh_transfer h) maxCommandBody
          (link ''POST'' (org_route i @ ''/transfer'') [IfMatchHeader v] (ValueBody (transfer_value p)))
        = Inr (i, v, \<lparr>t_parent = p, t_present = True\<rparr>)) \<and>
     (\<forall>p c n. oh_create h maxCommandBody (link ''POST'' Organizations [] (ValueBody (create_value p c n)))
        = Inr \<lparr>c_parent = p, c_code = c, c_name = n\<rparr>)"

lemma reads_linkD:
  assumes "reads_link h link"
  shows "oh_uuid h i \<Longrightarrow> PathUUID (oh_web h) (link ''GET'' (org_route i) [] NilBody) ''id'' = Inr i"
    and "oh_uuid h i \<Longrightarrow> 0 \<le> v \<Longrightarrow> v < 2 ^ 63 \<Longrightarrow> Command (oh_web h) (oh_edit h) maxCommandBody
      (link ''PUT'' (org_route i) [IfMatchHeader v] (ValueBody (edit_value c n))) = Inr (i, v, \<lparr>e_code = c, e_name = n\<rparr>)"
    and "oh_uuid h i \<Longrightarrow> 0 \<le> v \<Longrightarrow> v < 2 ^ 63 \<Longrightarrow> Command (oh_web h) (oh_transfer h) maxCommandBody
      (link ''POST'' (org_route i @ ''/transfer'') [IfMatchHeader v] (ValueBody (transfer_value p)))
      = Inr (i, v, \<lparr>t_parent = p, t_present = True\<rparr>)"
    and "oh_create h maxCommandBody (link ''POST'' Organizations [] (ValueBody (create_value p c n)))
      = Inr \<lparr>c_parent = p, c_code = c, c_name = n\<rparr>"
  using assms unfolding reads_link_def by blast+

text \<open>A step of the scenario and a handler of the service: whenever the step completes it
  has sent one request, and the handler refuses that request, as the server reads it,
  with the status the step accepted, the state left as it was.\<close>
definition expects_refusal ::
    "(problems_state \<Rightarrow> problems_state play) \<Rightarrow> problems_state \<Rightarrow> ('q, 'f) org_route \<Rightarrow> ('q, 'f) org_handler \<Rightarrow> 'q link \<Rightarrow> 'f db \<Rightarrow> bool" where
  "expects_refusal step st route h link s \<longleftrightarrow>
     (\<forall>t x u. completes (step st) t x u \<longrightarrow>
        (\<exists>verb path hs b code. sent u = sent t @ [(verb, path, hs, b, Some code)]
           \<and> refuses code (route h (link verb path hs b)) s))"

lemma expects_refusalI:
  assumes "\<And>t x u. completes (step st) t x u \<Longrightarrow> sent u = sent t @ [(verb, path, hs, b, Some code)]"
    and "refuses code (route h (link verb path hs b)) s"
  shows "expects_refusal step st route h link s"
  using assms unfolding expects_refusal_def by blast

text \<open>C14. The problems scenario expects what the service answers. On a database that
  answers and holds the seeded tree the scenario read, the request each of these steps
  sends is refused by the route's own handler with the very status the step accepts,
  and nothing is changed: the stale version by the edit, the id no row has by the read,
  the second organization of a root's code and the code with a capital by the create,
  the transfer under an own descendant by the transfer.\<close>
theorem problem_conditions_answered:
  assumes l: "lib_ok (oh_lib h)" "calm (oh_lib h)" "exact_errors (oh_lib h)" and ok: "orgs_ok (orgs s)"
    and link: "reads_link h link" "oh_uuid h absentID" "oh_uuid h (os_id top_org)" "oh_uuid h (os_id low_org)"
    and seen: "st ''acme'' = Some top_org" "st ''platform'' = Some low_org"
    and row: "find_row (orgs s) (os_id top_org) = Some row" "r_parent row = None" "os_code top_org = r_code row"
      "os_name top_org = r_name row" "os_version top_org = r_version row" "0 < r_version row" "r_version row + 1 < 2 ^ 63"
    and below: "OrgTable.chain (orgs s) (os_id low_org) rs" "os_id top_org \<in> r_id ` set rs"
    and absent: "find_row (orgs s) absentID = None"
  shows "expects_refusal (staleVersion sg) st org_edit h link s \<and> expects_refusal (notFound sg) st org_find h link s
    \<and> expects_refusal (duplicateCode sg) st org_create h link s \<and> expects_refusal (domainValidation sg) st org_create h link s
    \<and> expects_refusal (transferCycle sg) st org_transfer h link s"
proof (intro conjI)
  note reads = reads_linkD [OF link(1)]
  note steps = completes_simps tree_get_Inr seen
  have v: "0 \<le> os_version top_org" "os_version top_org < 2 ^ 63" "0 \<le> os_version top_org + 1" "os_version top_org + 1 < 2 ^ 63"
      "r_version row \<noteq> os_version top_org + 1"
    using row(5,6,7) by simp_all
  have "edit_Validate \<lparr>e_code = os_code top_org, e_name = renamedName\<rparr> = None"
    using find_row_Some [OF row(1)] ok row(3)
    by (auto simp: edit_Validate_def validCode_def validName_def renamedName_def orgs_ok_def)
  note stale = stale_edit_refused [OF l row(1) v(5) this]
  have cycle: "refuses 409 (Transfer (oh_uuid h) (oh_lib h) (os_id top_org) (os_version top_org)
      \<lparr>t_parent = Some (os_id low_org), t_present = True\<rparr>) s"
    by (rule cycle_transfer_refused [OF l ok below]) (rule link(4))
  show "expects_refusal (staleVersion sg) st org_edit h link s"
    by (rule expects_refusalI [where verb = "''PUT''" and path = "org_route (os_id top_org)" and hs = "[IfMatchHeader (os_version top_org + 1)]"
          and b = "ValueBody (edit_value (os_code top_org) renamedName)" and code = 412])
      (auto simp: staleVersion_def steps org_edit_def reads(2) [OF link(3) v(3,4)] handler_simps stale intro!: refuses_reply dest!: observe_sent)
  show "expects_refusal (notFound sg) st org_find h link s"
    by (rule expects_refusalI [where verb = "''GET''" and path = "org_route absentID" and hs = "[]" and b = NilBody and code = 404])
      (auto simp: notFound_def steps org_find_def reads(1) [OF link(2)] handler_simps missing_find_refused l ok absent
        intro!: refuses_reply dest!: observe_sent)
  show "expects_refusal (duplicateCode sg) st org_create h link s"
    by (rule expects_refusalI [where verb = "''POST''" and path = Organizations and hs = "[]"
          and b = "ValueBody (create_value None (os_code top_org) (os_name top_org))" and code = 409])
      (auto simp: duplicateCode_def steps org_create_def reads(4) handler_simps row(3,4) taken_code_refused [OF l ok row(1,2)]
        intro!: refuses_reply dest!: observe_sent)
  show "expects_refusal (domainValidation sg) st org_create h link s"
    by (rule expects_refusalI [where verb = "''POST''" and path = Organizations and hs = "[]"
          and b = "ValueBody (create_value (Some (os_id top_org)) invalidCode ''Sales Team'')" and code = 400])
      (auto simp: domainValidation_def steps org_create_def reads(4) handler_simps invalid_code_refused
        intro!: refuses_reply dest!: observe_sent)
  show "expects_refusal (transferCycle sg) st org_transfer h link s"
    by (rule expects_refusalI [where verb = "''POST''" and path = "org_route (os_id top_org) @ ''/transfer''"
          and hs = "[IfMatchHeader (os_version top_org)]" and b = "ValueBody (transfer_value (Some (os_id low_org)))" and code = 409])
      (auto simp: transferCycle_def steps org_transfer_def reads(3) [OF link(3) v(1,2)] handler_simps
        cycle intro!: refuses_reply dest!: observe_sent)
qed

section \<open>An instance\<close>

text \<open>The request as it was sent, and a handler whose reads decode it.\<close>
type_synonym plain_request = "string \<times> string \<times> (string \<times> string) list \<times> json body_arg"

definition plain_link :: "plain_request link" where
  "plain_link verb path hs b = (verb, path, hs, b)"

fun read_id :: "plain_request \<Rightarrow> string" where
  "read_id (verb, path, hs, b) = takeWhile (\<lambda>c. c \<noteq> CHR ''/'') (drop (length (Organizations @ ''/'')) path)"

fun read_version :: "plain_request \<Rightarrow> int result" where
  "read_version (verb, path, [(n, v)], b) =
     (case parse_int64 (butlast (tl v)) of None \<Rightarrow> Inl (plain ''not a version'') | Some i \<Rightarrow> Inr i)"
| "read_version _ = Inl (plain ''not one tag'')"

fun read_parent :: "json \<Rightarrow> string option" where
  "read_parent (JString p) = Some p"
| "read_parent _ = None"

fun read_create :: "plain_request \<Rightarrow> create_organization result" where
  "read_create (verb, path, hs, ValueBody (JObject [(_, p), (_, JString c), (_, JString n)])) =
     Inr \<lparr>c_parent = read_parent p, c_code = c, c_name = n\<rparr>"
| "read_create _ = Inl (plain ''not a create'')"

fun read_edit :: "plain_request \<Rightarrow> edit_organization result" where
  "read_edit (verb, path, hs, ValueBody (JObject [(_, JString c), (_, JString n)])) = Inr \<lparr>e_code = c, e_name = n\<rparr>"
| "read_edit _ = Inl (plain ''not an edit'')"

fun read_transfer :: "plain_request \<Rightarrow> transfer_organization result" where
  "read_transfer (verb, path, hs, ValueBody (JObject [(_, p)])) = Inr \<lparr>t_parent = read_parent p, t_present = True\<rparr>"
| "read_transfer _ = Inl (plain ''not a transfer'')"

definition plain_handler :: "(plain_request, unit) org_handler" where
  "plain_handler = \<lparr>oh_web = \<lparr>url_path = \<lambda>_. [], query_get = \<lambda>_ _. [], path_value = \<lambda>_ _. [],
       PathUUID = \<lambda>r _. Inr (read_id r), IfMatch = read_version,
       ParseQuery = \<lambda>_ _. Inr sample_query, ReadUpload = \<lambda>_ _. Inr png, WidenUpload = \<lambda>_ _. None, WidenDownload = \<lambda>_ _. None,
       object_status = \<lambda>_ _. 200, Attachment = \<lambda>n. n\<rparr>,
     oh_lib = plain_lib, oh_blobs = undefined, oh_uuid = \<lambda>i. CHR ''/'' \<notin> set i, oh_ops = sample_ops, oh_view = undefined,
     oh_limits = (20, 100), oh_create = \<lambda>_. read_create, oh_edit = \<lambda>_. read_edit, oh_transfer = \<lambda>_. read_transfer\<rparr>"

lemma read_id_route: "CHR ''/'' \<notin> set i \<Longrightarrow> read_id (verb, org_route i, hs, b) = i"
    "CHR ''/'' \<notin> set i \<Longrightarrow> read_id (verb, org_route i @ ''/transfer'', hs, b) = i"
proof -
  assume i: "CHR ''/'' \<notin> set i"
  then have "takeWhile (\<lambda>c. c \<noteq> CHR ''/'') (i @ xs) = i @ takeWhile (\<lambda>c. c \<noteq> CHR ''/'') xs" for xs
    by (intro takeWhile_append2) auto
  from this [of "[]"] this [of "''/transfer''"]
  have "takeWhile (\<lambda>c. c \<noteq> CHR ''/'') i = i" "takeWhile (\<lambda>c. c \<noteq> CHR ''/'') (i @ ''/transfer'') = i" by simp_all
  then show "read_id (verb, org_route i, hs, b) = i" "read_id (verb, org_route i @ ''/transfer'', hs, b) = i"
    by (simp_all add: org_route_def)
qed

lemma read_version_tag: "0 \<le> v \<Longrightarrow> v < 2 ^ 63 \<Longrightarrow> read_version (verb, path, [IfMatchHeader v], b) = Inr v"
  using parse_int64_itoa [of v] by (simp add: IfMatchHeader_def)

lemma plain_reads: "reads_link plain_handler plain_link"
  by (auto simp: reads_link_def plain_handler_def plain_link_def Command_def read_id_route read_version_tag
      edit_value_def create_value_def transfer_value_def parent_value_def split: option.splits
      simp del: read_id.simps read_version.simps)

definition seen_org :: "org_row \<Rightarrow> org_seen" where
  "seen_org r = \<lparr>os_id = r_id r, os_parent = r_parent r, os_code = r_code r, os_name = r_name r, os_version = r_version r,
     os_path = ''/'' @ r_code r\<rparr>"

definition demo_tree_seen :: tree where
  "demo_tree_seen = [''acme'' \<mapsto> seen_org acme_row, ''platform'' \<mapsto> seen_org labs_row]"

lemma demo_found: "find_row (orgs demo_db) ''x'' = Some acme_row" "find_row (orgs demo_db) absentID = None"
  by (simp_all add: demo_db_def find_row_def acme_row_def labs_row_def absentID_def)

lemma demo_chain: "OrgTable.chain (orgs demo_db) ''y'' [labs_row, acme_row]"
  by (auto simp: demo_db_def find_row_def acme_row_def labs_row_def intro!: OrgTable.chain.intros)

lemma stale_run: "\<exists>k. yields (staleVersion (scripted [(412, 412)]) demo_tree_seen) 0 demo_tree_seen k"
  unfolding staleVersion_def
  by (rule exI) (rule yields_intros tree_get_Some | simp add: demo_tree_seen_def)+

lemma problem_conditions_answered_witness:
  "\<exists>u verb path hs b. sent u = [(verb, path, hs, b, Some 412)]
     \<and> completes (staleVersion (scripted [(412, 412)]) demo_tree_seen) [] demo_tree_seen u
     \<and> refuses 412 (org_edit plain_handler (plain_link verb path hs b)) demo_db"
proof -
  obtain u where u: "completes (staleVersion (scripted [(412, 412)]) demo_tree_seen) [] demo_tree_seen u"
    using yields_completes [OF stale_run] by blast
  have handler: "oh_lib plain_handler = plain_lib" "oh_uuid plain_handler i \<longleftrightarrow> CHR ''/'' \<notin> set i" for i
    by (simp_all add: plain_handler_def)
  have rows: "os_id (seen_org acme_row) = ''x''" "os_id (seen_org labs_row) = ''y''"
    by (simp_all add: seen_org_def acme_row_def labs_row_def)
  have "expects_refusal (staleVersion (scripted [(412, 412)])) demo_tree_seen org_edit plain_handler plain_link demo_db"
    by (rule problem_conditions_answered [where top_org = "seen_org acme_row" and low_org = "seen_org labs_row" and row = acme_row
          and rs = "[labs_row, acme_row]" and st = demo_tree_seen, THEN conjunct1])
      (simp_all add: handler rows plain_reads plain_lib_ok plain_lib_calm plain_lib_exact demo_ok demo_found demo_chain,
        simp_all add: demo_tree_seen_def seen_org_def acme_row_def labs_row_def absentID_def)
  with u obtain verb path hs b code where sent: "sent u = [(verb, path, hs, b, Some code)]"
      "refuses code (org_edit plain_handler (plain_link verb path hs b)) demo_db"
    unfolding expects_refusal_def by (metis sent_append(2) append_Nil)
  have "code = 412" using u sent(1) by (auto simp: staleVersion_def completes_simps dest!: observe_sent)
  with u sent show ?thesis by blast
qed

end
