(* ===== verification/Stores.thy ===== *)
theory Stores
  imports SeedProperties "HOL-Library.Monad_Syntax" "HOL-Library.Multiset"
begin

text \<open>
  The stores' construction over the registry: the newStore of domain/organization and of
  domain/document, data.New and NewStorage, and the stores internal/app wires. A compile
  or a lookup that panics is None; a compiled statement is abstract. The statement files
  are the names under each package's statements directory, as its embed names them.
\<close>

section \<open>Statements\<close>

text \<open>query.Statements: the statements of a directory, by their files' names.\<close>
type_synonym 'q compiled = "(string \<times> 'q) list"

definition Statement :: "'q compiled \<Rightarrow> string \<Rightarrow> 'q option" where
  "Statement stmts name = map_of stmts name"

text \<open>A guarded write, with the statement that checks the version and its column.\<close>
record 'q guarded_write =
  gw_write :: 'q
  gw_check :: 'q
  gw_column :: string

definition Guarded :: "'q \<Rightarrow> string \<Rightarrow> 'q \<Rightarrow> 'q guarded_write" where
  "Guarded check column write = \<lparr>gw_write = write, gw_check = check, gw_column = column\<rparr>"

definition data_files :: "string list" where
  "data_files = [''lock'']"

definition organization_files :: "string list" where
  "organization_files =
     [''active_logo'', ''attach_image'', ''create'', ''delete'', ''detach_image'', ''edit'', ''find_seeded'', ''in_subtree'',
      ''organization_view'', ''seed'', ''stored'', ''transfer'', ''version'']"

definition document_files :: "string list" where
  "document_files = [''bind_root'', ''document_root'', ''organization_exists'', ''seed_organization'']"

section \<open>What a store registers\<close>

text \<open>A store as query.Verify checks it: its statements, and the organization's projection
  over them; or a library's.\<close>
datatype 'q verifier =
    Statements "'q compiled"
  | StatementsAndView "'q compiled" 'q
  | LibraryStore string

fun checks :: "'q verifier \<Rightarrow> 'q list" where
  "checks (Statements stmts) = map snd stmts"
| "checks (StatementsAndView stmts v) = map snd stmts @ [v]"
| "checks (LibraryStore _) = []"

type_synonym 'q wired = "('q compiled, 'q verifier) wiring"

text \<open>data.New: the package's own statements and the lock; New registers them.\<close>
definition data_New :: "(string list \<Rightarrow> 'q compiled option) \<Rightarrow> ('q \<times> ('q compiled, 'q verifier) database) option" where
  "data_New compile = do {
     stmts \<leftarrow> compile data_files;
     lock \<leftarrow> Statement stmts ''lock'';
     d \<leftarrow> New stmts (Statements stmts);
     Some (lock, d) }"

definition NewStorage :: "'q wired" where
  "NewStorage = Records (LibraryStore ''blobfs'')"

record 'q organization_store =
  on_view :: 'q
  on_createRows :: 'q
  on_storedRows :: 'q
  on_inSubtree :: 'q
  on_editGuard :: "'q guarded_write"
  on_transferGuard :: "'q guarded_write"
  on_deleteGuard :: "'q guarded_write"
  on_versionRows :: 'q
  on_activeLogoRows :: 'q
  on_attachImage :: 'q
  on_detachImage :: 'q
  on_seedRows :: 'q
  on_findSeededRows :: 'q

text \<open>The organization's newStore: the store it binds, and what it registers.\<close>
definition organization_newStore :: "(string list \<Rightarrow> 'q compiled option) \<Rightarrow> ('q organization_store \<times> 'q wired) option" where
  "organization_newStore compile = do {
     stmts \<leftarrow> compile organization_files;
     check \<leftarrow> Statement stmts ''version'';
     view \<leftarrow> Statement stmts ''organization_view'';
     create \<leftarrow> Statement stmts ''create'';
     stored \<leftarrow> Statement stmts ''stored'';
     subtree \<leftarrow> Statement stmts ''in_subtree'';
     edit \<leftarrow> Statement stmts ''edit'';
     transfer \<leftarrow> Statement stmts ''transfer'';
     delete \<leftarrow> Statement stmts ''delete'';
     logo \<leftarrow> Statement stmts ''active_logo'';
     attach \<leftarrow> Statement stmts ''attach_image'';
     detach \<leftarrow> Statement stmts ''detach_image'';
     seed \<leftarrow> Statement stmts ''seed'';
     seeded \<leftarrow> Statement stmts ''find_seeded'';
     Some (\<lparr>on_view = view, on_createRows = create, on_storedRows = stored, on_inSubtree = subtree,
            on_editGuard = Guarded check ''version'' edit, on_transferGuard = Guarded check ''version'' transfer,
            on_deleteGuard = Guarded check ''version'' delete, on_versionRows = check, on_activeLogoRows = logo,
            on_attachImage = attach, on_detachImage = detach, on_seedRows = seed, on_findSeededRows = seeded\<rparr>,
           Registers ''organization'' stmts (StatementsAndView stmts view)) }"

record 'q document_store =
  dn_documentRootRows :: 'q
  dn_organizationRows :: 'q
  dn_bindRoot :: 'q
  dn_seedOrgRows :: 'q

definition document_newStore :: "(string list \<Rightarrow> 'q compiled option) \<Rightarrow> ('q document_store \<times> 'q wired) option" where
  "document_newStore compile = do {
     stmts \<leftarrow> compile document_files;
     root \<leftarrow> Statement stmts ''document_root'';
     organization \<leftarrow> Statement stmts ''organization_exists'';
     bind \<leftarrow> Statement stmts ''bind_root'';
     seed \<leftarrow> Statement stmts ''seed_organization'';
     Some (\<lparr>dn_documentRootRows = root, dn_organizationRows = organization, dn_bindRoot = bind, dn_seedOrgRows = seed\<rparr>,
           Registers ''document'' stmts (Statements stmts)) }"

text \<open>What newSchema records of go-messaging, and the contributions it seeds with.\<close>
definition messaging_verifier :: "'q wired" where
  "messaging_verifier = Records (LibraryStore ''messaging'')"

definition seed_contributions ::
    "('r, 's) contribute \<Rightarrow> ('r, 's) contribute \<Rightarrow> ('r, 's) contribute \<Rightarrow> ('r, 's) contribution list" where
  "seed_contributions organizations logos documents =
     [RowSeed ''organizations'' organizations, FileSeed ''logos'' logos, FileSeed ''documents'' documents]"

section \<open>The statements a store binds\<close>

definition organization_bound :: "'q organization_store \<Rightarrow> 'q list" where
  "organization_bound s =
     [on_view s, on_createRows s, on_storedRows s, on_inSubtree s, gw_write (on_editGuard s), gw_write (on_transferGuard s),
      gw_write (on_deleteGuard s), on_versionRows s, on_activeLogoRows s, on_attachImage s, on_detachImage s, on_seedRows s,
      on_findSeededRows s]"

definition document_bound :: "'q document_store \<Rightarrow> 'q list" where
  "document_bound s = [dn_documentRootRows s, dn_organizationRows s, dn_bindRoot s, dn_seedOrgRows s]"

lemma compiled_by_name:
  assumes "map fst stmts = fs" "distinct fs"
  obtains f where "\<And>n. n \<in> set fs \<Longrightarrow> Statement stmts n = Some (f n)" "map snd stmts = map f fs"
proof -
  have d: "distinct (map fst stmts)" using assms by simp
  have at: "map_of stmts (fst x) = Some (snd x)" if "x \<in> set stmts" for x
    using map_of_is_SomeI [OF d, of "fst x" "snd x"] that by simp
  let ?f = "\<lambda>n. the (map_of stmts n)"
  have "Statement stmts n = Some (?f n)" if "n \<in> set fs" for n
    using that at unfolding assms(1) [symmetric] by (auto simp: Statement_def)
  moreover have "map snd stmts = map ?f fs"
    unfolding assms(1) [symmetric] using at by simp
  ultimately show thesis by (rule that)
qed

lemma files_distinct: "distinct data_files" "distinct organization_files" "distinct document_files"
  by (simp_all add: data_files_def organization_files_def document_files_def)

text \<open>A store binds every statement of its directory, and no other; the organization's
  three guarded writes share the version statement as their check.\<close>
lemma organization_newStore_binds:
  assumes "compile organization_files = Some stmts" "map fst stmts = organization_files"
  obtains s where "organization_newStore compile = Some (s, Registers ''organization'' stmts (StatementsAndView stmts (on_view s)))"
    "set (organization_bound s) = set (map snd stmts)"
    "\<forall>g\<in>{on_editGuard s, on_transferGuard s, on_deleteGuard s}. gw_check g = on_versionRows s \<and> gw_column g = ''version''"
proof -
  obtain f where f: "\<And>n. n \<in> set organization_files \<Longrightarrow> Statement stmts n = Some (f n)" "map snd stmts = map f organization_files"
    using compiled_by_name [OF assms(2) files_distinct(2)] by metis
  note at = f(1) [unfolded organization_files_def]
  let ?s = "fst (the (organization_newStore compile))"
  show thesis
    by (rule that [of ?s]) (simp_all add: organization_newStore_def assms(1) at organization_bound_def Guarded_def f(2),
      auto simp: organization_files_def)
qed

lemma document_newStore_binds:
  assumes "compile document_files = Some stmts" "map fst stmts = document_files"
  obtains s where "document_newStore compile = Some (s, Registers ''document'' stmts (Statements stmts))"
    "set (document_bound s) = set (map snd stmts)"
proof -
  obtain f where f: "\<And>n. n \<in> set document_files \<Longrightarrow> Statement stmts n = Some (f n)" "map snd stmts = map f document_files"
    using compiled_by_name [OF assms(2) files_distinct(3)] by metis
  note at = f(1) [unfolded document_files_def]
  let ?s = "fst (the (document_newStore compile))"
  show thesis
    by (rule that [of ?s]) (simp_all add: document_newStore_def assms(1) at document_bound_def f(2),
      auto simp: document_files_def)
qed

section \<open>The wiring\<close>

lemma data_New_registers:
  assumes "compile data_files = Some stmts" "map fst stmts = data_files"
  obtains lock where "data_New compile = map_option (Pair lock) (New stmts (Statements stmts))"
    "New stmts (Statements stmts) \<noteq> None" "set (map snd stmts) = {lock}"
proof -
  obtain f where f: "\<And>n. n \<in> set data_files \<Longrightarrow> Statement stmts n = Some (f n)" "map snd stmts = map f data_files"
    using compiled_by_name [OF assms(2) files_distinct(1)] by metis
  have at: "Statement stmts ''lock'' = Some (f ''lock'')" by (rule f(1)) (simp add: data_files_def)
  show thesis
    by (rule that [of "f ''lock''"]) (simp_all add: data_New_def assms(1) at f(2) New_def Register_def, simp add: data_files_def)
qed

lemma sorted_three:
  fixes xs :: "string list"
  assumes "sorted xs" "distinct xs" "set xs = {''data'', ''organization'', ''document''}"
  shows "xs = [''data'', ''document'', ''organization'']"
proof (rule sorted_distinct_set_unique [OF assms(1,2)])
  show "sorted [''data'', ''document'', ''organization'']" by code_simp
  show "distinct [''data'', ''document'', ''organization'']" by simp
  show "set xs = set [''data'', ''document'', ''organization'']" using assms(3) by auto
qed

lemma four_wirings:
  assumes "set ws = {Records u, Registers m a b, Registers n c d, Records v}" "distinct ws" "u \<noteq> v" "m \<noteq> n"
  shows "length ws = 4" "mset (concat (map wiring_name ws)) = mset [m, n]"
proof -
  have ws: "mset ws = {#Records u, Registers m a b, Registers n c d, Records v#}"
    using mset_set_set [OF assms(2)] assms(3,4) unfolding assms(1) by simp
  from size_mset [of ws] show "length ws = 4" by (simp add: ws)
  have "mset (concat (map wiring_name ws)) = sum_mset (image_mset (mset \<circ> wiring_name) (mset ws))"
    by (simp add: mset_concat sum_mset_sum_list [symmetric] comp_def)
  then show "mset (concat (map wiring_name ws)) = mset [m, n]" by (simp add: ws wiring_name_def)
qed

lemma contributions_taken:
  "NewSeeder (seed_contributions rows logos documents) = Some (seed_contributions rows logos documents)"
  by (simp add: NewSeeder_def seed_contributions_def)

text \<open>C36. The wiring of the stores, in whatever order the graph runs their constructors: no
  constructor panics, neither on a statement it has no file for nor on a name registered
  twice; the registry lists the data package's, the document's and the organization's
  statements in name order; every statement a store binds, and every one its directory
  holds, is among those the startup check prepares, with the organization's projection
  and the two libraries' stores.\<close>
theorem stores_wired:
  assumes "compile data_files = Some ds" "map fst ds = data_files"
    and "compile organization_files = Some os" "map fst os = organization_files"
    and "compile document_files = Some cs" "map fst cs = document_files"
  shows "\<exists>lock d0 o1 wo c1 wc. data_New compile = Some (lock, d0) \<and> organization_newStore compile = Some (o1, wo)
    \<and> document_newStore compile = Some (c1, wc)
    \<and> (\<forall>ws. set ws = {NewStorage, wo, wc, messaging_verifier} \<and> distinct ws \<longrightarrow>
         (\<exists>d. wire ws d0 = Some d \<and> map fst (Registry d) = [''data'', ''document'', ''organization'']
            \<and> set (concat (map checks (recorded d)))
                = {lock} \<union> set (organization_bound o1) \<union> set (document_bound c1)
            \<and> {LibraryStore ''blobfs'', LibraryStore ''messaging'', StatementsAndView os (on_view o1)} \<subseteq> set (recorded d)
            \<and> length (recorded d) = 5))"
proof -
  obtain lock where l: "data_New compile = map_option (Pair lock) (New ds (Statements ds))"
      "New ds (Statements ds) \<noteq> None" "set (map snd ds) = {lock}"
    by (rule data_New_registers [where compile = compile, OF assms(1,2)]) (rule that)
  then obtain d0 where d0: "New ds (Statements ds) = Some d0" by auto
  obtain s where s: "organization_newStore compile = Some (s, Registers ''organization'' os (StatementsAndView os (on_view s)))"
      "set (organization_bound s) = set (map snd os)"
    by (rule organization_newStore_binds [where compile = compile, OF assms(3,4)]) (rule that)
  obtain c where c: "document_newStore compile = Some (c, Registers ''document'' cs (Statements cs))"
      "set (document_bound c) = set (map snd cs)"
    by (rule document_newStore_binds [where compile = compile, OF assms(5,6)]) (rule that)
  let ?wo = "Registers ''organization'' os (StatementsAndView os (on_view s))" and ?wc = "Registers ''document'' cs (Statements cs)"
  have "on_view s \<in> set (organization_bound s)" by (simp add: organization_bound_def)
  then have view: "on_view s \<in> set (map snd os)" by (simp only: s(2))
  let ?wired = "\<lambda>d0 lock o1 c1 ws. \<exists>d. wire ws d0 = Some d \<and> map fst (Registry d) = [''data'', ''document'', ''organization'']
      \<and> set (concat (map checks (recorded d))) = {lock} \<union> set (organization_bound o1) \<union> set (document_bound c1)
      \<and> {LibraryStore ''blobfs'', LibraryStore ''messaging'', StatementsAndView os (on_view o1)} \<subseteq> set (recorded d)
      \<and> length (recorded d) = 5"
  have "?wired d0 lock s c ws"
    if ws: "set ws = {NewStorage, ?wo, ?wc, messaging_verifier}" "distinct ws" for ws
  proof -
    have len: "length ws = 4" and ns: "mset (concat (map wiring_name ws)) = mset [''organization'', ''document'']"
      by (rule four_wirings [OF ws(1) [unfolded NewStorage_def messaging_verifier_def] ws(2)]; simp)+
    have names: "distinct (''data'' # concat (map wiring_name ws))" "set (concat (map wiring_name ws)) = {''organization'', ''document''}"
      using mset_eq_imp_distinct_iff [OF ns] mset_eq_setD [OF ns] by simp_all
    from registry_complete [where stmts = ds and v = "Statements ds" and ws = ws] names(1) obtain d where d: "wire ws d0 = Some d"
        "sorted (map fst (Registry d))" "distinct (map fst (Registry d))"
        "set (map fst (Registry d)) = set (''data'' # concat (map wiring_name ws))" "recorded d = Statements ds # map wiring_verifier ws"
      by (auto simp: d0 simp del: distinct.simps split: option.splits)
    have "map fst (Registry d) = [''data'', ''document'', ''organization'']"
      using d(2,3) by (rule sorted_three) (use d(4) names(2) in auto)
    moreover have "set (concat (map checks (recorded d))) = {lock} \<union> set (organization_bound s) \<union> set (document_bound c)"
      unfolding l(3) [symmetric] s(2) c(2)
      using view by (auto simp: d(5) ws(1) NewStorage_def messaging_verifier_def wiring_verifier_def)
    ultimately show ?thesis using d(1) len
      by (simp add: d(5) ws(1) NewStorage_def messaging_verifier_def wiring_verifier_def)
  qed
  then have "\<forall>ws. set ws = {NewStorage, ?wo, ?wc, messaging_verifier} \<and> distinct ws \<longrightarrow> ?wired d0 lock s c ws" by blast
  moreover have "data_New compile = Some (lock, d0)" by (simp add: l(1) d0)
  ultimately show ?thesis using s(1) c(1) by blast
qed

text \<open>A catalog whose statements are their own names.\<close>
definition by_file :: "string list \<Rightarrow> string compiled option" where
  "by_file fs = Some (map (\<lambda>n. (n, n)) fs)"

lemma stores_wired_witness:
  "\<exists>lock d0 o1 wo c1 wc d. data_New by_file = Some (lock, d0) \<and> organization_newStore by_file = Some (o1, wo)
    \<and> document_newStore by_file = Some (c1, wc) \<and> wire [messaging_verifier, wc, NewStorage, wo] d0 = Some d
    \<and> map fst (Registry d) = [''data'', ''document'', ''organization''] \<and> ''in_subtree'' \<in> set (concat (map checks (recorded d)))"
proof -
  have org: "\<exists>o1 ss v. organization_newStore by_file = Some (o1, Registers ''organization'' ss v) \<and> ''in_subtree'' \<in> set (organization_bound o1)"
    by (simp add: organization_newStore_def by_file_def organization_files_def Statement_def organization_bound_def)
  have doc: "\<exists>c1 ss v. document_newStore by_file = Some (c1, Registers ''document'' ss v)"
    by (simp add: document_newStore_def by_file_def document_files_def Statement_def)
  have at: "by_file fs = Some (map (\<lambda>n. (n, n)) fs)" "map fst (map (\<lambda>n. (n, n)) fs) = fs" for fs
    by (simp_all add: by_file_def comp_def)
  note W = stores_wired [where compile = by_file and ds = "map (\<lambda>n. (n, n)) data_files"
      and os = "map (\<lambda>n. (n, n)) organization_files" and cs = "map (\<lambda>n. (n, n)) document_files", OF at at at]
  from W obtain lock d0 o1 wo c1 wc where w: "data_New by_file = Some (lock, d0)"
      "organization_newStore by_file = Some (o1, wo)" "document_newStore by_file = Some (c1, wc)"
    and d: "\<And>ws. set ws = {NewStorage, wo, wc, messaging_verifier} \<Longrightarrow> distinct ws \<Longrightarrow>
      \<exists>d. wire ws d0 = Some d \<and> map fst (Registry d) = [''data'', ''document'', ''organization'']
        \<and> set (concat (map checks (recorded d))) = {lock} \<union> set (organization_bound o1) \<union> set (document_bound c1)"
    by (elim exE conjE) (rule that, assumption+, drule spec, drule mp, erule (1) conjI, elim exE conjE, intro exI conjI)
  have bound: "''in_subtree'' \<in> set (organization_bound o1)" using org w(2) by auto
  have order: "set [messaging_verifier, wc, NewStorage, wo] = {NewStorage, wo, wc, messaging_verifier}"
      "distinct [messaging_verifier, wc, NewStorage, wo]"
    using org doc w(2,3) by (auto simp: NewStorage_def messaging_verifier_def)
  from d [OF order] obtain d1 where "wire [messaging_verifier, wc, NewStorage, wo] d0 = Some d1"
      "map fst (Registry d1) = [''data'', ''document'', ''organization'']"
      and c: "set (concat (map checks (recorded d1))) = {lock} \<union> set (organization_bound o1) \<union> set (document_bound c1)"
    by (elim exE conjE)
  moreover have "''in_subtree'' \<in> set (concat (map checks (recorded d1)))" unfolding c using bound by (intro UnI1 UnI2)
  ultimately show ?thesis using w by (intro exI conjI)
qed

end
