(* ===== verification/Integrity.thy ===== *)
theory Integrity
  imports OrgLogoProperties DocSeedProperties Stores
begin

text \<open>
  The database's typing: the keys and the foreign keys of the three tables the domains
  own, kept by every operation the service and the seeder run. The locale is a
  preservation calculus over the steps' combinators, for any property of the tables
  that the outbox and the library's own writes leave alone; the tables' typing
  interprets it.
\<close>

section \<open>Preservation\<close>

text \<open>A step that leaves a property wherever it held, whatever it answers.\<close>
definition kept :: "('s \<Rightarrow> bool) \<Rightarrow> ('s \<Rightarrow> 'r \<times> 's) \<Rightarrow> bool" where
  "kept ok m \<longleftrightarrow> (\<forall>s. ok s \<longrightarrow> ok (snd (m s)))"

lemma keptI: "(\<And>s r s'. ok s \<Longrightarrow> m s = (r, s') \<Longrightarrow> ok s') \<Longrightarrow> kept ok m"
  unfolding kept_def by (metis prod.collapse)

lemma keptD: "kept ok m \<Longrightarrow> m s = (r, s') \<Longrightarrow> ok s \<Longrightarrow> ok s'"
  unfolding kept_def by (metis snd_conv)

lemma kept_andthen: "kept ok m \<Longrightarrow> (\<And>a. kept ok (k a)) \<Longrightarrow> kept ok (andthen m k)"
  by (rule keptI) (auto simp: andthen_def split: prod.splits sum.splits dest: keptD)

lemma kept_reading: "kept ok (reading f)"
  by (simp add: kept_def reading_def)

lemma kept_give: "kept ok (give a)"
  by (simp add: kept_def give_def)

lemma kept_refuse: "kept ok (refuse e)"
  by (simp add: kept_def refuse_def)

lemma kept_if: "kept ok m \<Longrightarrow> kept ok k \<Longrightarrow> kept ok (if c then m else k)"
  by simp

lemma kept_prod: "(\<And>x y. kept ok (k x y)) \<Longrightarrow> kept ok (case p of (x, y) \<Rightarrow> k x y)"
  by (simp split: prod.split)

lemma kept_sum: "(\<And>e. kept ok (f e)) \<Longrightarrow> (\<And>a. kept ok (g a)) \<Longrightarrow> kept ok (case r of Inl e \<Rightarrow> f e | Inr a \<Rightarrow> g a)"
  by (simp split: sum.split)

lemma kept_answer: "kept ok m \<Longrightarrow> kept ok (answer g m)"
  by (rule keptI) (auto simp: answer_def split: prod.splits sum.splits dest: keptD)

lemma kept_forget: "kept ok m \<Longrightarrow> kept ok (forget m)"
  by (rule keptI) (auto simp: forget_def split: prod.splits sum.splits dest: keptD)

lemma kept_validated: "kept ok m \<Longrightarrow> kept ok (validated v m)"
  by (simp add: validated_def kept_refuse split: option.split)

text \<open>A contribution that keeps a property, whatever rows it reads.\<close>
fun contribution_kept :: "('s \<Rightarrow> bool) \<Rightarrow> ('r, 's) contribution \<Rightarrow> bool" where
  "contribution_kept ok (RowSeed k app) \<longleftrightarrow> (\<forall>rows. kept ok (app rows))"
| "contribution_kept ok (FileSeed k app) \<longleftrightarrow> (\<forall>rows. kept ok (app rows))"

section \<open>The calculus\<close>

locale kept_tables =
  fixes ok :: "'f db \<Rightarrow> bool"
  assumes queued: "ok s \<Longrightarrow> ok (s\<lparr>outbox := outbox s @ q\<rparr>)"
    and beside: "ok s \<Longrightarrow> blob_frame s s' \<Longrightarrow> ok s'"
begin

lemma framed: "step_framed m \<Longrightarrow> kept ok m"
  by (rule keptI) (blast intro: beside dest: step_framedD)

lemma transacted: "lib_ok l \<Longrightarrow> kept ok body \<Longrightarrow> kept ok (transact l body)"
  by (rule keptI, rename_tac s r s', case_tac r) (auto dest: transact_Inl transact_Inr keptD)

lemma emitted:
  assumes "lib_ok l" "kept ok body"
  shows "kept ok (emit l body)"
proof (rule keptI)
  fix s :: "'f db" and r :: "'a result" and s'
  assume s: "ok s" and run: "emit l body s = (r, s')"
  obtain t s1 where body: "body s = (t, s1)" by fastforce
  from keptD [OF assms(2) body s] have s1: "ok s1" .
  show "ok s'"
  proof (cases t)
    case (Inl e)
    with run body s1 show ?thesis by (simp add: emit_def)
  next
    case (Inr aq)
    obtain a q where "aq = (a, q)" by fastforce
    with run body Inr lib_okD(5) [OF assms(1), of q s1] queued [OF s1] s1 show ?thesis
      by (auto simp: emit_def)
  qed
qed

lemma commanded: "lib_ok l \<Longrightarrow> kept ok body \<Longrightarrow> kept ok (transact l (emit l body))"
  by (rule transacted) (auto intro: emitted)

lemma written:
  assumes w: "write_contract b" and cb: "kept ok cb" and hook: "\<And>f. kept ok (hook f)"
  shows "kept ok (write_file b body len cb hook)"
proof (rule keptI)
  fix s r s'
  assume s: "ok s" and run: "write_file b body len cb hook s = (r, s')"
  note c = w [unfolded write_contract_def, THEN spec [of _ body], THEN spec [of _ len], THEN spec [of _ cb],
    THEN spec [of _ hook], THEN spec [of _ s], unfolded run]
  show "ok s'"
  proof (cases r)
    case (Inl e)
    with c have "s' = s \<or> (\<exists>f s1. cb s = (f, s1) \<and> blob_frame s1 s')" by auto
    with s show ?thesis by (auto intro: beside dest: keptD [OF cb])
  next
    case (Inr f)
    with c obtain f0 s1 s2 s3 where *: "cb s = (Inr f0, s1)" "blob_frame s1 s2" "hook f s2 = (Inr (), s3)"
      "blob_frame s3 s'" by auto
    from keptD [OF hook *(3) beside [OF keptD [OF cb *(1) s] *(2)]] *(4) show ?thesis by (rule beside)
  qed
qed

lemma ensured:
  assumes w: "ensure_contract b" and cb: "kept ok cb" and hook: "\<And>f. kept ok (hook f)"
  shows "kept ok (ensure_file b i content len cb hook)"
proof (rule keptI)
  fix s r s'
  assume s: "ok s" and run: "ensure_file b i content len cb hook s = (r, s')"
  note c = w [unfolded ensure_contract_def, THEN spec [of _ i], THEN spec [of _ content], THEN spec [of _ len],
    THEN spec [of _ cb], THEN spec [of _ hook], THEN spec [of _ s], unfolded run]
  show "ok s'"
  proof (cases r)
    case (Inl e)
    with c have "s' = s \<or> (\<exists>f s1. cb s = (f, s1) \<and> blob_frame s1 s')" by auto
    with s show ?thesis by (auto intro: beside dest: keptD [OF cb])
  next
    case (Inr fs)
    obtain f stored where "fs = (f, stored)" by fastforce
    with Inr c obtain x s1 s2 where *: "cb s = (Inr x, s1)" "blob_frame s1 s2"
      "(\<exists>s3. hook f s2 = (Inr (), s3) \<and> blob_frame s3 s') \<or> blob_frame s2 s'"
      by (auto split: if_splits)
    from beside [OF keptD [OF cb *(1) s] *(2)] *(3) show ?thesis by (auto intro: beside dest: keptD [OF hook])
  qed
qed

lemma removed:
  assumes w: "remove_contract b" and cb: "kept ok cb" and hook: "\<And>f. kept ok (hook f)"
  shows "kept ok (remove_file b cb v hook)"
proof (rule keptI)
  fix s r s'
  assume s: "ok s" and run: "remove_file b cb v hook s = (r, s')"
  note c = w [unfolded remove_contract_def, THEN spec [of _ cb], THEN spec [of _ v], THEN spec [of _ hook],
    THEN spec [of _ s], unfolded run]
  have "s' = s \<or> (\<exists>i s1. cb s = (i, s1) \<and> (blob_frame s1 s' \<or>
      (\<exists>f s2 s3. blob_frame s1 s2 \<and> hook f s2 = (Inr (), s3) \<and> blob_frame s3 s')))"
    using c by (cases r) (auto intro: blob_frame_trans)
  with s show "ok s'" by (auto intro: beside dest: keptD [OF cb] keptD [OF hook])
qed

lemma rows_kept: "list_all (contribution_kept ok) cs \<Longrightarrow> run_rows st cs n s = (x, s') \<Longrightarrow> ok s \<Longrightarrow> ok s'"
  by (induction st cs n s rule: run_rows.induct)
    (auto split: option.splits prod.splits dest: keptD, (metis keptD)+)

lemma files_kept: "list_all (contribution_kept ok) cs \<Longrightarrow> run_files st cs n s = (x, s') \<Longrightarrow> ok s \<Longrightarrow> ok s'"
  by (induction st cs n s rule: run_files.induct)
    (auto split: option.splits prod.splits dest: keptD, (metis keptD)+)

lemma seeded:
  assumes l: "lib_ok l" and cs: "list_all (contribution_kept ok) cs"
  shows "kept ok (Seed l readSeed cs name)"
proof (rule keptI)
  fix s r s'
  assume s: "ok s" and run: "Seed l readSeed cs name s = (r, s')"
  have rows: "kept ok (transact l (run_rows st cs n))" for st n
    by (rule transacted [OF l keptI]) (rule rows_kept [OF cs])
  from run s show "ok s'"
    by (auto simp: Seed_def split: sum.splits list.splits prod.splits dest: keptD [OF rows] files_kept [OF cs])
qed

end

section \<open>The tables' typing\<close>

text \<open>What the schema's keys say of the three tables together: migration 0001's of the
  organizations, whose parents lead to a root; 0002's of the images, a file bound once
  and one active image to an organization; 0003's of the owner rows, one root to an
  organization and one organization to a root; and no image or root without its
  organization.\<close>
definition tables_ok :: "'f db \<Rightarrow> bool" where
  "tables_ok s \<longleftrightarrow> orgs_ok (orgs s) \<and> images_ok (images s) \<and> owners_ok s
     \<and> im_org ` set (images s) \<subseteq> r_id ` set (orgs s)"

lemma owners_ok_queued: "owners_ok (s\<lparr>outbox := q\<rparr>) = owners_ok s"
  by (simp add: owners_ok_def)

interpretation typed: kept_tables tables_ok
proof unfold_locales
  fix s s' :: "'f db" and q
  assume ok: "tables_ok s"
  then show "tables_ok (s\<lparr>outbox := outbox s @ q\<rparr>)"
    by (simp add: tables_ok_def owners_ok_queued)
  assume f: "blob_frame s s'"
  from ok owners_ok_frame [OF blob_doc_frame [OF f]] f show "tables_ok s'"
    by (simp add: tables_ok_def blob_frame_def)
qed

text \<open>A table of organizations written anew beside the other two.\<close>
lemma tables_ok_orgs:
  assumes "tables_ok s" "orgs_ok os" "r_id ` set (orgs s) - gone \<subseteq> r_id ` set os"
    "\<forall>i\<in>gone. i \<notin> im_org ` set (images s) \<and> i \<notin> ow_org ` set (owners s)"
  shows "tables_ok (s\<lparr>orgs := os, outbox := q\<rparr>)"
proof -
  from assms(1) have sub: "im_org ` set (images s) \<subseteq> r_id ` set (orgs s)" "ow_org ` set (owners s) \<subseteq> r_id ` set (orgs s)"
    by (simp_all add: tables_ok_def owners_ok_def)
  have "im_org ` set (images s) \<subseteq> r_id ` set os" using sub(1) assms(3,4) by blast
  moreover have "ow_org ` set (owners s) \<subseteq> r_id ` set os" using sub(2) assms(3,4) by blast
  ultimately show ?thesis using assms(1,2) by (simp add: tables_ok_def owners_ok_def)
qed

section \<open>The organizations\<close>

lemma put_ids: "r_id ` set (put_row r os) = r_id ` set os"
  using put_row_ids [of r os] by (metis list.set_map)

lemma kept_create: "lib_ok l \<Longrightarrow> kept tables_ok (Create is_uuid l c)"
proof (rule keptI)
  fix s r s'
  assume l: "lib_ok l" and s: "tables_ok s" and run: "Create is_uuid l c s = (r, s')"
  from s have o: "orgs_ok (orgs s)" by (simp add: tables_ok_def)
  from create_forest [OF l o run] have o': "orgs_ok (orgs s')" .
  show "tables_ok s'"
  proof (cases r)
    case (Inl e)
    with run s show ?thesis by (auto dest: service_Inl(1) [OF l])
  next
    case (Inr ident)
    with run have "store_create l c s = (Inr ident, s')" by (simp add: service_Inr)
    then show ?thesis
      by (rule store_create_Inr [OF l]) (use o' s in \<open>auto intro!: tables_ok_orgs [where gone = "{}"]\<close>)
  qed
qed

lemma kept_guarded: "lib_ok l \<Longrightarrow> kept tables_ok (run_guarded is_uuid l c i v)"
proof (rule keptI)
  fix s r s'
  assume l: "lib_ok l" and s: "tables_ok s" and run: "run_guarded is_uuid l c i v s = (r, s')"
  from s have o: "orgs_ok (orgs s)" by (simp add: tables_ok_def)
  from guarded_forest [OF l o run] have o': "orgs_ok (orgs s')" .
  show "tables_ok s'"
  proof (cases r)
    case (Inl e)
    with run s run_guarded_Inl [OF l] show ?thesis by blast
  next
    case (Inr u)
    show ?thesis
    proof (cases c)
      case (EditC e)
      with run Inr obtain ident where "store_edit l i v e s = (Inr ident, s')" by (auto simp: forget_Inr service_Inr)
      then show ?thesis
        by (rule store_edit_Inr [OF l]) (use o' s in \<open>auto simp: put_ids intro!: tables_ok_orgs [where gone = "{}"]\<close>)
    next
      case (TransferC t)
      with run Inr obtain ident where "store_transfer l i v t s = (Inr ident, s')" by (auto simp: forget_Inr service_Inr)
      then show ?thesis
        by (rule store_transfer_Inr [OF l]) (use o' s in \<open>auto simp: put_ids intro!: tables_ok_orgs [where gone = "{}"]\<close>)
    next
      case DeleteC
      with run Inr have "store_delete l i v s = (Inr (), s')" by (auto simp: forget_Inr service_Inr)
      then show ?thesis
        by (rule store_delete_Inr [OF l])
          (use o' s in \<open>auto simp: other_rows_def intro!: tables_ok_orgs [where gone = "{i}"]\<close>)
    qed
  qed
qed

lemma kept_org: "lib_ok l \<Longrightarrow> kept tables_ok (run_org is_uuid l c)"
  by (cases c) (auto intro!: kept_forget kept_create kept_guarded)

lemma kept_seedOne: "lib_ok l \<Longrightarrow> kept tables_ok (seedOne l parent row)"
proof (unfold seedOne_def, rule typed.emitted, assumption, rule keptI)
  fix s r s'
  assume l: "lib_ok l" and s: "tables_ok s" and run: "seedOne_body l parent row s = (r, s')"
  obtain x s1 where ins: "seed_row_insert l parent row s = (x, s1)" by fastforce
  have "tables_ok s1"
  proof (cases x)
    case (Inl e)
    with ins have "s1 = s" by (auto simp: seed_row_insert_def Let_def split: if_splits option.splits)
    with s show ?thesis by simp
  next
    case (Inr i)
    with ins have "seed_row_insert l parent row s = (Inr i, s1)" by simp
    then show ?thesis
    proof (rule seed_row_insert_Inr [OF l])
      fix r
      assume r: "row_violation l (orgs s) r = None" "s1 = s\<lparr>orgs := orgs s @ [r]\<rparr>"
      from s have "orgs_ok (orgs s @ [r])" by (intro orgs_ok_insert [OF _ r(1)]) (simp add: tables_ok_def)
      from tables_ok_orgs [OF s this, of "{}" "outbox s"] r(2) show ?thesis by auto
    qed
  qed
  moreover have "s' = s1"
    using run ins by (auto simp: seedOne_body_def split: sum.splits option.splits if_splits)
  ultimately show "tables_ok s'" by simp
qed

lemma kept_apply_rows: "lib_ok l \<Longrightarrow> apply_rows l rows ids n s = (r, s') \<Longrightarrow> tables_ok s \<Longrightarrow> tables_ok s'"
  by (induction l rows ids n s rule: apply_rows.induct)
    (auto split: if_splits sum.splits prod.splits dest: keptD [OF kept_seedOne])

lemma kept_org_Apply: "lib_ok l \<Longrightarrow> kept tables_ok (org_Apply l decoded)"
  by (rule keptI) (auto simp: org_Apply_def split: sum.splits dest: kept_apply_rows)

section \<open>The logos\<close>

lemma kept_attach: "kept tables_ok (attach l b org file)"
proof (rule keptI)
  fix s r s'
  assume s: "tables_ok s" and run: "attach l b org file s = (r, s')"
  show "tables_ok s'"
  proof (cases r)
    case (Inl e)
    with run have "s' = s" by (auto simp: attach_def split: if_splits)
    with s show ?thesis by simp
  next
    case (Inr u)
    note a = attach_Inr [OF run [unfolded Inr]]
    from s have ims: "images_ok (images s)" by (simp add: tables_ok_def)
    have "org \<notin> im_org ` set (images s)"
      using a ims by (auto simp: active_image_def find_None_iff images_ok_def)
    with a s ims show ?thesis
      by (auto simp: tables_ok_def images_ok_def owners_ok_def find_row_None)
  qed
qed

lemma kept_detach: "kept tables_ok (detach file)"
  by (rule keptI) (auto simp: detach_def tables_ok_def images_ok_def owners_ok_def distinct_map_filter)

lemma kept_release: "steps_framed b \<Longrightarrow> kept tables_ok (release b file)"
  unfolding release_def by (intro kept_andthen kept_detach typed.framed steps_framedD(11))

lemma kept_activate: "steps_framed b \<Longrightarrow> kept tables_ok (activate_body l b org file)"
proof -
  assume b: "steps_framed b"
  have choose: "kept tables_ok (\<lambda>s. case activeLogo l b org s of
      Inr cur \<Rightarrow> andthen (release b (bf_id cur)) (\<lambda>f. give (Some f)) s
    | Inl e \<Rightarrow> if errors_is NoRows e then (Inr None, s) else (Inl e, s))"
    by (rule keptI) (auto split: sum.splits if_splits dest: keptD [OF kept_andthen [OF kept_release [OF b] kept_give]])
  show ?thesis
    unfolding activate_body_def
    by (intro kept_andthen choose kept_attach kept_reading kept_give typed.framed steps_framedD(9) [OF b])
qed

lemma kept_purge: "steps_framed b \<Longrightarrow> kept tables_ok (purge b f)"
  by (rule keptI) (auto simp: purge_def split: prod.splits sum.splits
      dest: keptD [OF typed.framed [OF steps_framedD(13)]])

lemma kept_putLogo:
  assumes l: "lib_ok l" and b: "steps_framed b" "write_contract b"
  shows "kept tables_ok (putLogo l b org u ext)"
proof -
  have cb: "kept tables_ok (andthen (reading (org_exists l org)) (\<lambda>_. file_create b d n t i))" for d n t i
    by (intro kept_andthen kept_reading typed.framed steps_framedD(7) [OF b(1)])
  have hook: "kept tables_ok (no_hook f)" for f :: bfile
    by (simp add: kept_def no_hook_def)
  note steps = keptD [OF typed.framed [OF steps_framedD(1) [OF b(1)]]] keptD [OF typed.written [OF b(2) cb hook]]
    keptD [OF typed.commanded [OF l kept_activate [OF b(1)]]] keptD [OF kept_purge [OF b(1)]]
    keptD [OF typed.framed [OF steps_framedD(12) [OF b(1)]]]
  show ?thesis
    by (rule keptI) (auto simp: putLogo_def Let_def split: prod.splits sum.splits option.splits dest!: steps)
qed

lemma kept_deleteLogo:
  assumes l: "lib_ok l" and b: "steps_framed b"
  shows "kept tables_ok (deleteLogo l b org)"
proof -
  have "kept tables_ok (delete_logo_body l b org)"
    unfolding delete_logo_body_def by (intro kept_andthen kept_reading kept_give kept_release [OF b])
  note steps = keptD [OF typed.commanded [OF l this]] keptD [OF kept_purge [OF b]]
  show ?thesis
    by (rule keptI) (auto simp: deleteLogo_def split: prod.splits sum.splits dest!: steps)
qed

lemma kept_retire: "steps_framed b \<Longrightarrow> kept tables_ok (retire b file stored e)"
  by (rule keptI) (auto simp: retire_def split: if_splits prod.splits
      dest: keptD [OF typed.framed [OF steps_framedD(12)]])

lemma kept_seed_activate:
  assumes l: "lib_ok l" and b: "steps_framed b"
  shows "kept tables_ok (seed_activate l b org file stored)"
proof -
  have choose: "kept tables_ok (\<lambda>s. case activeLogo l b org s of
      Inr cur \<Rightarrow> (Inr ((bf_id cur, False), []), s)
    | Inl e \<Rightarrow> if \<not> errors_is NoRows e then (Inl e, s)
        else andthen (attach l b org (bf_id file)) (\<lambda>_. andthen (reading (\<lambda>_. raiseUploaded org file)) (\<lambda>q.
          give ((bf_id file, True), q))) s)"
    by (rule keptI) (auto split: sum.splits if_splits
        dest: keptD [OF kept_andthen [OF kept_attach kept_andthen [OF kept_reading kept_give]]])
  have "kept tables_ok (seed_activate_body l b org file)"
    unfolding seed_activate_body_def by (intro kept_andthen choose typed.framed steps_framedD(9) [OF b])
  note steps = keptD [OF typed.commanded [OF l this]] keptD [OF kept_retire [OF b]]
  show ?thesis
    by (rule keptI) (auto simp: seed_activate_def split: prod.splits sum.splits if_splits dest!: steps)
qed

lemma kept_seedLogo:
  assumes l: "lib_ok l" and b: "steps_framed b" "ensure_contract b"
  shows "kept tables_ok (seedLogo l b fixtures detect row)"
proof -
  have hook: "kept tables_ok (no_hook f)" for f :: bfile
    by (simp add: kept_def no_hook_def)
  note steps = keptD [OF typed.framed [OF steps_framedD(1) [OF b(1)]]]
    keptD [OF typed.ensured [OF b(2) typed.framed [OF steps_framedD(8) [OF b(1)]] hook]]
    keptD [OF kept_seed_activate [OF l b(1)]]
  show ?thesis
    by (rule keptI) (auto simp: seedLogo_def split: prod.splits sum.splits if_splits dest!: steps)
qed

lemma kept_logo_Write:
  assumes "lib_ok l" "steps_framed b" "ensure_contract b"
  shows "kept tables_ok (logo_Write l b fixtures detect decoded)"
proof -
  have "write_logos l b fixtures detect rows n s = (r, s') \<Longrightarrow> tables_ok s \<Longrightarrow> tables_ok s'" for rows n s r s'
    by (induction rows arbitrary: n s)
      (auto split: prod.splits sum.splits if_splits dest: keptD [OF kept_seedLogo [OF assms]])
  then show ?thesis
    by (intro keptI) (auto simp: logo_Write_def split: sum.splits)
qed

section \<open>The documents\<close>

lemma kept_bind_root: "kept tables_ok (bind_root l org dir)"
proof (rule keptI)
  fix s r s'
  assume s: "tables_ok s" and run: "bind_root l org dir s = (r, s')"
  show "tables_ok s'"
  proof (cases r)
    case (Inl e)
    with run s show ?thesis by (auto dest: bind_root_Inl)
  next
    case (Inr u)
    note bound = bind_root_Inr [OF run [unfolded Inr]]
    from s bound(1,3) show ?thesis by (simp add: tables_ok_def)
  qed
qed

lemma kept_ensureRoot:
  assumes l: "lib_ok l" and b: "steps_framed b"
  shows "kept tables_ok (ensureRoot l b org opt)"
proof -
  have "kept tables_ok (ensure_root_body l b org opt)"
    unfolding ensure_root_body_def
    by (intro kept_andthen kept_reading kept_give kept_prod kept_bind_root typed.framed steps_framedD(1) [OF b])
  note steps = keptD [OF typed.commanded [OF l this]]
  show ?thesis
    by (rule keptI) (auto simp: ensureRoot_def ensure_try_def split: prod.splits sum.splits if_splits dest!: steps)
qed

lemma kept_writable: "lib_ok l \<Longrightarrow> steps_framed b \<Longrightarrow> kept tables_ok (writable l b org i)"
  by (simp add: writable_def kept_give kept_ensureRoot)

lemma kept_hook: "lib_ok l \<Longrightarrow> kept tables_ok (hook_emit l q)"
  unfolding hook_emit_def by (intro typed.emitted kept_give)

lemma kept_hooks:
  assumes "lib_ok l"
  shows "kept tables_ok (emitUploaded l org f)" "kept tables_ok (emitDeleted l org f)"
  unfolding emitUploaded_def emitDeleted_def
  by (simp_all add: kept_refuse kept_hook [OF assms])

lemma kept_documents:
  assumes l: "lib_ok l" and b: "doc_blobs_ok b"
  shows "kept tables_ok (createDirectory l b org c)" "kept tables_ok (deleteDirectory l b org i v)"
    "kept tables_ok (markBranch l b org i v)" "kept tables_ok (moveDirectory l b org i v m)"
    "kept tables_ok (uploadFile l b org i n u)" "kept tables_ok (deleteFile l b org i v)"
    "kept tables_ok (moveFile l b org i v mf)"
proof -
  note bd = doc_blobs_okD [OF b]
  note bodies = typed.framed [OF framed_bodies(1) [OF bd(1)]] typed.framed [OF framed_bodies(2) [OF bd(1)]]
    typed.framed [OF framed_bodies(3) [OF bd(1)]] typed.framed [OF framed_bodies(4) [OF bd(1)]]
    typed.framed [OF framed_bodies(5) [OF bd(1)]] typed.framed [OF framed_bodies(6) [OF bd(1)]]
    typed.framed [OF framed_bodies(7) [OF bd(1)]]
  show "kept tables_ok (createDirectory l b org c)" "kept tables_ok (deleteDirectory l b org i v)"
    "kept tables_ok (markBranch l b org i v)" "kept tables_ok (moveDirectory l b org i v m)"
    "kept tables_ok (uploadFile l b org i n u)" "kept tables_ok (deleteFile l b org i v)"
    "kept tables_ok (moveFile l b org i v mf)"
    unfolding createDirectory_def deleteDirectory_def markBranch_def moveDirectory_def uploadFile_def deleteFile_def
      moveFile_def
    by (intro kept_andthen kept_answer kept_writable l bd typed.commanded typed.written typed.removed bodies
        kept_hooks)+
qed

lemma kept_seedTree:
  assumes l: "lib_ok l" and b: "doc_blobs_ok b"
  shows "kept tables_ok (seedTree l b t)"
proof -
  have entries: "tables_ok s'" if "seedEntries l b org root p es s = (r, s')" "tables_ok s" for org root p es s r s'
  proof -
    obtain n er where "r = (n, er)" by fastforce
    with that(1) have run: "seedEntries l b org root p es s = ((n, er), s')" by simp
    from seedEntries_counted(1) [OF l b run] obtain q where q: "doc_frame q s s'" by (auto simp: counted_def)
    with owners_ok_frame [OF q] that(2) show ?thesis by (simp add: tables_ok_def doc_frame_def)
  qed
  show ?thesis
    by (rule keptI) (auto simp: seedTree_def split: prod.splits sum.splits
        dest: keptD [OF kept_ensureRoot [OF l doc_blobs_okD(1) [OF b]]] entries)
qed

lemma kept_doc_Write:
  assumes "lib_ok l" "doc_blobs_ok b"
  shows "kept tables_ok (doc_Write l b decoded)"
proof -
  have "seed_trees l b ts n s = (r, s') \<Longrightarrow> tables_ok s \<Longrightarrow> tables_ok s'" for ts n s r s'
    by (induction ts arbitrary: n s)
      (auto split: prod.splits option.splits dest: keptD [OF kept_seedTree [OF assms]])
  then show ?thesis
    by (intro keptI) (auto simp: doc_Write_def split: sum.splits)
qed

section \<open>The service\<close>

text \<open>The operations that write: the two domains' services, and the seeder's states.\<close>
datatype service_op =
    OrganizationOp org_command
  | PutLogoOp string upload
  | DeleteLogoOp string
  | CreateDirectoryOp string create_directory
  | DeleteDirectoryOp string string int
  | DeleteBranchOp string string int
  | MoveDirectoryOp string string int move_directory
  | UploadFileOp string string string upload
  | DeleteFileOp string string int
  | MoveFileOp string string int move_file
  | SeedOp string

text \<open>What the seeder reads: the state files, their rows' decoders, the fixtures and
  the content type detection.\<close>
record 'r seed_files =
  sd_read :: "string \<Rightarrow> (string \<times> 'r) list result"
  sd_organizations :: "'r \<Rightarrow> seed_row list result"
  sd_logos :: "'r \<Rightarrow> logo_seed_row list result"
  sd_documents :: "'r \<Rightarrow> seed_tree list result"
  sd_fixtures :: "string \<Rightarrow> string result"
  sd_detect :: "string \<Rightarrow> string"

text \<open>The contributions NewDatabaseAdmin gives the seeder.\<close>
definition service_seeds :: "'r seed_files \<Rightarrow> 'f documents \<Rightarrow> ('r, 'f db) contribution list" where
  "service_seeds sd c =
     seed_contributions (\<lambda>rows. org_Apply (doc_lib c) (sd_organizations sd rows))
       (\<lambda>rows. logo_Write (doc_lib c) (doc_blobs c) (sd_fixtures sd) (sd_detect sd) (sd_logos sd rows))
       (\<lambda>rows. doc_Write (doc_lib c) (doc_blobs c) (sd_documents sd rows))"

text \<open>The state an operation leaves, whatever it answers.\<close>
fun run_service :: "'r seed_files \<Rightarrow> 'f documents \<Rightarrow> service_op \<Rightarrow> 'f db \<Rightarrow> 'f db" where
  "run_service sd c (OrganizationOp x) s = snd (run_org (doc_uuid c) (doc_lib c) x s)"
| "run_service sd c (PutLogoOp org u) s = snd (PutLogo (doc_lib c) (doc_blobs c) org u s)"
| "run_service sd c (DeleteLogoOp org) s = snd (DeleteLogo (doc_lib c) (doc_blobs c) org s)"
| "run_service sd c (CreateDirectoryOp org x) s = snd (CreateDirectory c org x s)"
| "run_service sd c (DeleteDirectoryOp org i v) s = snd (DeleteDirectory c org i v s)"
| "run_service sd c (DeleteBranchOp org i v) s = snd (snd (DeleteBranch c org i v s))"
| "run_service sd c (MoveDirectoryOp org i v m) s = snd (MoveDirectory c org i v m s)"
| "run_service sd c (UploadFileOp org i n u) s = snd (UploadFile c org i n u s)"
| "run_service sd c (DeleteFileOp org i v) s = snd (DeleteFile c org i v s)"
| "run_service sd c (MoveFileOp org i v m) s = snd (MoveFile c org i v m s)"
| "run_service sd c (SeedOp name) s = snd (Seed (doc_lib c) (sd_read sd) (service_seeds sd c) name s)"

text \<open>The states the service reaches from migrated tables, its operations interleaved
  with the library's own work, as the sweep's and the reaper's.\<close>
inductive service_reach :: "'r seed_files \<Rightarrow> 'f documents \<Rightarrow> 'f db \<Rightarrow> bool" for sd c where
  migrated: "service_reach sd c (empty_db f)"
| operation: "service_reach sd c s \<Longrightarrow> service_reach sd c (run_service sd c x s)"
| library: "service_reach sd c s \<Longrightarrow> blob_frame s s' \<Longrightarrow> service_reach sd c s'"

text \<open>The library the service runs on keeps its contracts.\<close>
definition documents_ok :: "'f documents \<Rightarrow> bool" where
  "documents_ok c \<longleftrightarrow> lib_ok (doc_lib c) \<and> doc_blobs_ok (doc_blobs c)"

lemma kept_seeds:
  assumes "documents_ok c"
  shows "kept tables_ok (Seed (doc_lib c) readSeed (service_seeds sd c) name)"
proof (rule typed.seeded)
  show l: "lib_ok (doc_lib c)" using assms by (simp add: documents_ok_def)
  from assms have b: "doc_blobs_ok (doc_blobs c)" by (simp add: documents_ok_def)
  show "list_all (contribution_kept tables_ok) (service_seeds sd c)"
    by (simp add: service_seeds_def seed_contributions_def kept_org_Apply l kept_logo_Write doc_blobs_okD [OF b]
        kept_doc_Write b)
qed

lemma kept_service:
  assumes "documents_ok c"
  shows "tables_ok s \<Longrightarrow> tables_ok (run_service sd c x s)"
proof -
  from assms have l: "lib_ok (doc_lib c)" and b: "doc_blobs_ok (doc_blobs c)" by (simp_all add: documents_ok_def)
  note bd = doc_blobs_okD [OF b]
  have run: "tables_ok s \<Longrightarrow> kept tables_ok m \<Longrightarrow> tables_ok (snd (m s))" for m :: "'a db \<Rightarrow> 'c \<times> 'a db" and s
    by (simp add: kept_def)
  assume s: "tables_ok s"
  show ?thesis
  proof (cases x)
    case (OrganizationOp y)
    with run [OF s kept_org [OF l]] show ?thesis by simp
  next
    case (PutLogoOp org u)
    have "kept tables_ok (PutLogo (doc_lib c) (doc_blobs c) org u)"
      unfolding PutLogo_def by (intro kept_sum kept_refuse kept_putLogo l bd)
    from PutLogoOp run [OF s this] show ?thesis by simp
  next
    case (DeleteLogoOp org)
    with run [OF s kept_deleteLogo [OF l bd(1)]] show ?thesis by (simp add: DeleteLogo_def)
  next
    case (CreateDirectoryOp org y)
    with run [OF s kept_validated [OF kept_documents(1) [OF l b]]] show ?thesis by (simp add: CreateDirectory_def)
  next
    case (DeleteDirectoryOp org i v)
    with run [OF s kept_documents(2) [OF l b]] show ?thesis by (simp add: DeleteDirectory_def)
  next
    case (DeleteBranchOp org i v)
    with run [OF s kept_documents(3) [OF l b, of org i v]] show ?thesis
      by (auto simp: DeleteBranch_def split: prod.splits sum.splits)
  next
    case (MoveDirectoryOp org i v m)
    have "kept tables_ok (MoveDirectory c org i v m)"
      unfolding MoveDirectory_def by (intro kept_if kept_refuse kept_validated kept_documents l b)
    from MoveDirectoryOp run [OF s this] show ?thesis by simp
  next
    case (UploadFileOp org i n u)
    with run [OF s kept_validated [OF kept_documents(5) [OF l b]]] show ?thesis by (simp add: UploadFile_def)
  next
    case (DeleteFileOp org i v)
    with run [OF s kept_documents(6) [OF l b]] show ?thesis by (simp add: DeleteFile_def)
  next
    case (MoveFileOp org i v m)
    with run [OF s kept_validated [OF kept_documents(7) [OF l b]]] show ?thesis by (simp add: MoveFile_def)
  next
    case (SeedOp name)
    with run [OF s kept_seeds [OF assms]] show ?thesis by simp
  qed
qed

text \<open>C2. Every state of the database is well typed, however the operations of the two
  domains, the seeder's states and the library's own work interleave and whether they
  succeed or fail: the organizations are a forest, a file is bound as a logo once, an
  organization has at most one logo and one document root, a root is one
  organization's, and every logo and every root belongs to an organization that
  stands, so no delete ever leaves one behind.\<close>
theorem tables_typed:
  assumes "documents_ok c" "service_reach sd c s"
  shows "orgs_ok (orgs s) \<and> distinct (map im_file (images s)) \<and> distinct (map im_org (images s))
    \<and> distinct (map ow_org (owners s)) \<and> distinct (map ow_dir (owners s))
    \<and> (\<forall>i \<in> im_org ` set (images s) \<union> ow_org ` set (owners s). find_row (orgs s) i \<noteq> None)"
proof -
  from assms(2) have "tables_ok s"
  proof (induction rule: service_reach.induct)
    case (migrated f)
    then show ?case by (simp add: tables_ok_def empty_db_def orgs_ok_def images_ok_def owners_ok_def)
  next
    case (operation s x)
    from kept_service [OF assms(1) operation.IH] show ?case .
  next
    case (library s s')
    from typed.beside [OF library.IH library.hyps(2)] show ?case .
  qed
  then show ?thesis
    by (auto simp: tables_ok_def images_ok_def owners_ok_def find_row_None)
qed

definition demo_files :: "unit seed_files" where
  "demo_files = \<lparr>sd_read = (\<lambda>_. Inr []), sd_organizations = (\<lambda>_. Inr []), sd_logos = (\<lambda>_. Inr []),
     sd_documents = (\<lambda>_. Inr []), sd_fixtures = (\<lambda>_. Inr []), sd_detect = (\<lambda>_. [])\<rparr>"

definition demo_documents :: "ref_fs documents" where
  "demo_documents = \<lparr>doc_lib = plain_lib, doc_blobs = ref_blobfs, doc_uuid = (\<lambda>_. True),
     doc_ops = \<lparr>OpEq = ''eq'', OpIn = ''in'', OpIsNull = ''is_null'', OpIsNotNull = ''is_not_null''\<rparr>\<rparr>"

text \<open>An organization, and the first write under its root's alias.\<close>
definition demo_steps :: "service_op list" where
  "demo_steps = [OrganizationOp (CreateO acme),
     CreateDirectoryOp ''x'' \<lparr>cd_parent = RootAlias, cd_name = ''docs''\<rparr>]"

definition demo_state :: "ref_fs db" where
  "demo_state = fold (run_service demo_files demo_documents) demo_steps (empty_db \<lparr>rdirs = [], rfiles = []\<rparr>)"

lemma demo_reached: "service_reach demo_files demo_documents demo_state"
  unfolding demo_state_def demo_steps_def fold.simps comp_apply id_apply
  by (intro service_reach.intros)

lemma demo_documents_ok: "documents_ok demo_documents"
  by (simp add: documents_ok_def demo_documents_def plain_lib_ok ref_doc_blobs_ok)

theorem tables_typed_witness:
  "orgs demo_state = [acme_row] \<and> map ow_org (owners demo_state) = [''x'']
    \<and> find_row (orgs demo_state) ''x'' \<noteq> None"
proof -
  have acme: "run_service demo_files demo_documents (OrganizationOp (CreateO acme)) (empty_db f)
    = (empty_db f)\<lparr>orgs := [acme_row], outbox := [Event OrganizationCreated ''x'' (OrganizationP (stored_data acme_row))]\<rparr>" for f
    by (simp add: demo_documents_def forget_def Create_def create_Validate_def acme_def validCode_def validName_def
        validParent_def code_ok_demo errors_join_def store_create_def create_body_def create_row_def
        row_violation_def plain_lib_def transact_def emit_def andthen_def reading_def give_def raiseStored_def
        stored_row_def stored_data_def find_row_def empty_db_def fresh_id_def acme_row_def Let_def
        del: match_code.simps)
  have root: "orgs demo_state = [acme_row]" "map ow_org (owners demo_state) = [''x'']"
    unfolding demo_state_def demo_steps_def fold.simps comp_apply id_apply acme
    by (simp_all add: demo_documents_def CreateDirectory_def create_directory_Validate_def validDirectory_def
        doc_validName_def errors_join_def validated_def createDirectory_def writable_def new_root_simps answer_def
        create_directory_body_def ref_create_def empty_db_def)
  from root(2) have "''x'' \<in> ow_org ` set (owners demo_state)" by (metis list.set_map list.set_intros(1))
  then have "find_row (orgs demo_state) ''x'' \<noteq> None"
    using tables_typed [OF demo_documents_ok demo_reached] by blast
  with root show ?thesis by simp
qed

end
