(* ===== verification/Harness.thy ===== *)
theory Harness
  imports ConfigProperties AdminProperties Stores SlabInput
begin

text \<open>
  The service's test support, whose checks the suites rest on: internal/outboxtest, the
  events a recorded session committed, and src/integration, the environment a service is
  launched in, the state it is driven to through the admin mount, and the stream a test
  awaits. A test that fails at once is None. Decoding JSON, URLs and the process's own
  environment are parameters.
\<close>

section \<open>The outbox of a recorded session\<close>

datatype sql_op = OpExec | OpCommit | OpRollback | OpOther string

datatype bound_arg = BytesArg string | TextArg string | RawArg string | OtherArg

record sql_call =
  sc_op :: sql_op
  sc_sql :: string
  sc_args :: "bound_arg list"

text \<open>strings.Contains.\<close>
definition contains :: "string \<Rightarrow> string \<Rightarrow> bool" where
  "contains s sub = (case cut_sub sub s of (_, _, found) \<Rightarrow> found)"

definition IsWrite :: "sql_call \<Rightarrow> bool" where
  "IsWrite c \<longleftrightarrow> sc_op c = OpExec \<and> contains (sc_sql c) ''messaging_outbox''"

definition Writes :: "sql_call list \<Rightarrow> sql_call list" where
  "Writes cs = filter IsWrite cs"

fun bytesOf :: "bound_arg \<Rightarrow> string option" where
  "bytesOf (BytesArg b) = Some b"
| "bytesOf (TextArg b) = Some b"
| "bytesOf (RawArg b) = Some b"
| "bytesOf OtherArg = None"

text \<open>Decode, over the header's and the event's decoders.\<close>
definition Decode :: "(string \<Rightarrow> 'h option) \<Rightarrow> ('h \<Rightarrow> string \<Rightarrow> 'e option) \<Rightarrow> sql_call \<Rightarrow> 'e option" where
  "Decode header decode c =
     (if length (sc_args c) \<noteq> 4 then None
      else do {
        raw \<leftarrow> bytesOf (sc_args c ! 2);
        h \<leftarrow> header raw;
        d \<leftarrow> bytesOf (sc_args c ! 3);
        decode h d })"

text \<open>The loop of Committed: out is what committed, open what the transaction holds.\<close>
fun committed_from :: "(sql_call \<Rightarrow> 'e option) \<Rightarrow> sql_call list \<Rightarrow> 'e list \<Rightarrow> 'e list \<Rightarrow> 'e list option" where
  "committed_from dec [] out held = Some out"
| "committed_from dec (c # cs) out held =
     (if IsWrite c then (case dec c of None \<Rightarrow> None | Some e \<Rightarrow> committed_from dec cs out (held @ [e]))
      else (case sc_op c of
              OpRollback \<Rightarrow> committed_from dec cs out []
            | OpCommit \<Rightarrow> committed_from dec cs (out @ held) []
            | _ \<Rightarrow> committed_from dec cs out held))"

definition Committed :: "(sql_call \<Rightarrow> 'e option) \<Rightarrow> sql_call list \<Rightarrow> 'e list option" where
  "Committed dec cs = committed_from dec cs [] []"

definition NoneCommitted :: "(sql_call \<Rightarrow> 'e option) \<Rightarrow> sql_call list \<Rightarrow> bool" where
  "NoneCommitted dec cs \<longleftrightarrow> Committed dec cs = Some []"

text \<open>What a recorder stamps, and the checks of an event a test received.\<close>
record 'v stamped =
  se_type :: string
  se_subject :: string
  se_source :: string
  se_id :: string
  se_time :: int
  se_content :: string
  se_data :: "(string \<times> 'v) list option"

definition stamp_source :: string where
  "stamp_source = ''web-service''"
definition stamp_id :: string where
  "stamp_id = ''00000000-0000-7000-8000-0000000000ee''"

text \<open>2026-10-14 12:00 UTC, in seconds of the epoch.\<close>
definition stamp_time :: int where
  "stamp_time = 1791979200"

definition WantEnvelope :: "'v stamped \<Rightarrow> string \<Rightarrow> string \<Rightarrow> bool" where
  "WantEnvelope e ty subject \<longleftrightarrow> se_type e = ty \<and> se_subject e = subject \<and> se_source e = stamp_source
     \<and> se_id e = stamp_id \<and> se_time e = stamp_time \<and> se_content e = ''application/json''"

text \<open>Want: the data, an object with distinct fields, is as large as want and holds each
  of its fields.\<close>
definition Want :: "'v stamped \<Rightarrow> string \<Rightarrow> string \<Rightarrow> (string \<times> 'v) list \<Rightarrow> bool" where
  "Want e ty subject want \<longleftrightarrow> WantEnvelope e ty subject \<and>
     (case se_data e of None \<Rightarrow> False
      | Some got \<Rightarrow> length got = length want \<and> list_all (\<lambda>(k, v). map_of got k = Some v) want)"

subsection \<open>What it reads is the outbox\<close>

text \<open>The calls of a command: its writes, each call decoding to its event, and the commit;
  or a rollback, of a body that failed, or of a recorder that failed once it had
  written as many events as written says.\<close>
definition command_calls ::
    "(event \<Rightarrow> sql_call) \<Rightarrow> (event list \<Rightarrow> nat) \<Rightarrow> 'f lib \<Rightarrow> ('f db, 'a \<times> event list) step \<Rightarrow> 'f db \<Rightarrow> sql_call list" where
  "command_calls enc written l body s =
     (case body s of
        (Inl e, s1) \<Rightarrow> [\<lparr>sc_op = OpRollback, sc_sql = [], sc_args = []\<rparr>]
      | (Inr (a, q), s1) \<Rightarrow>
          (case record_events l q s1 of
             (Inl e, s2) \<Rightarrow> map enc (take (written q) q) @ [\<lparr>sc_op = OpRollback, sc_sql = [], sc_args = []\<rparr>]
           | (Inr _, s2) \<Rightarrow> map enc q @ [\<lparr>sc_op = OpCommit, sc_sql = [], sc_args = []\<rparr>]))"

text \<open>A session: the commands one after another, with the calls recorded.\<close>
fun session ::
    "(event \<Rightarrow> sql_call) \<Rightarrow> (event list \<Rightarrow> nat) \<Rightarrow> 'f lib \<Rightarrow> ('f db, 'a \<times> event list) step list \<Rightarrow> 'f db
      \<Rightarrow> sql_call list \<times> 'f db" where
  "session enc written l [] s = ([], s)"
| "session enc written l (body # bodies) s =
     (case session enc written l bodies (snd (transact l (emit l body) s)) of
        (cs, s') \<Rightarrow> (command_calls enc written l body s @ cs, s'))"

text \<open>A database whose transactions open and commit.\<close>
definition commits :: "'f lib \<Rightarrow> bool" where
  "commits l \<longleftrightarrow> (\<forall>s. begin_tx l s = None) \<and> (\<forall>s s1. end_tx l s s1 None = (None, s1))"

lemma committed_out: "committed_from dec cs (out0 @ out) held = map_option (\<lambda>es. out0 @ es) (committed_from dec cs out held)"
  by (induction dec cs out held rule: committed_from.induct)
    (simp_all split: option.split sql_op.split)

lemma committed_writes:
  "\<forall>e \<in> set q. IsWrite (enc e) \<and> dec (enc e) = Some e \<Longrightarrow>
   committed_from dec (map enc q @ cs) out held = committed_from dec cs out (held @ q)"
  by (induction q arbitrary: held) simp_all

text \<open>A body that leaves the outbox to the recorder, each event it queues a call of the
  session that decodes to it.\<close>
definition recorded_as :: "(event \<Rightarrow> sql_call) \<Rightarrow> (sql_call \<Rightarrow> event option) \<Rightarrow> ('f db, 'a \<times> event list) step \<Rightarrow> bool" where
  "recorded_as enc dec body \<longleftrightarrow> (\<forall>s. outbox (snd (body s)) = outbox s \<and>
     (\<forall>a q s1. body s = (Inr (a, q), s1) \<longrightarrow> (\<forall>e \<in> set q. IsWrite (enc e) \<and> dec (enc e) = Some e)))"

lemma recorded_asD:
  assumes "recorded_as enc dec body" "body s = (r, s1)"
  shows "outbox s1 = outbox s" and "r = Inr (a, q) \<Longrightarrow> \<forall>e \<in> set q. IsWrite (enc e) \<and> dec (enc e) = Some e"
  using assms by (auto simp: recorded_as_def dest: spec [of _ s])

lemma command_recorded:
  assumes l: "lib_ok l" "commits l" and body: "body s = (Inr (a, q), s1)"
  shows "record_events l q s1 = (Inr (), s1\<lparr>outbox := outbox s1 @ q\<rparr>) \<and> snd (transact l (emit l body) s) = s1\<lparr>outbox := outbox s1 @ q\<rparr>
    \<or> (\<exists>e. record_events l q s1 = (Inl e, s1)) \<and> snd (transact l (emit l body) s) = s"
  using lib_okD(5) [OF l(1), of q s1] l(2) lib_okD(3) [OF l(1)] by (auto simp: commits_def transact_def emit_def body)

text \<open>One command: what its calls add to what is read is what the outbox gains.\<close>
lemma command_gains:
  assumes l: "lib_ok l" "commits l" and rec: "recorded_as enc dec body"
  shows "\<exists>gained. outbox (snd (transact l (emit l body) s)) = outbox s @ gained \<and>
    (\<forall>cs. committed_from dec (command_calls enc written l body s @ cs) [] [] = committed_from dec cs gained [])"
proof -
  obtain r s1 where body: "body s = (r, s1)" by fastforce
  have calls: "\<not> IsWrite \<lparr>sc_op = OpRollback, sc_sql = [], sc_args = []\<rparr>" "\<not> IsWrite \<lparr>sc_op = OpCommit, sc_sql = [], sc_args = []\<rparr>"
    by (simp_all add: IsWrite_def)
  show ?thesis
  proof (cases r)
    case (Inl e)
    have "transact l (emit l body) s = (Inl e, s)"
      by (rule command_body_Inl [OF l(1)], rule body [unfolded Inl]) (use l(2) in \<open>simp add: commits_def\<close>)
    with body Inl calls show ?thesis by (simp add: command_calls_def)
  next
    case (Inr aq)
    obtain a q where aq: "aq = (a, q)" by fastforce
    have q: "\<forall>e \<in> set (take k q). IsWrite (enc e) \<and> dec (enc e) = Some e" for k
      using recorded_asD(2) [OF rec body] Inr aq by (auto dest: in_set_takeD)
    from command_recorded [OF l, of body s a q s1] body Inr aq consider
      (stood) "record_events l q s1 = (Inr (), s1\<lparr>outbox := outbox s1 @ q\<rparr>)"
          "snd (transact l (emit l body) s) = s1\<lparr>outbox := outbox s1 @ q\<rparr>"
      | (failed) e where "record_events l q s1 = (Inl e, s1)" "snd (transact l (emit l body) s) = s" by auto
    then show ?thesis
    proof cases
      case stood
      with q [of "length q"] calls body Inr aq recorded_asD(1) [OF rec body] show ?thesis
        by (simp add: command_calls_def committed_writes [of q enc dec])
    next
      case failed
      with q [of "written q"] calls body Inr aq show ?thesis
        by (simp add: command_calls_def committed_writes [of "take (written q) q" enc dec])
    qed
  qed
qed

text \<open>C37. The events the support package reads off a recorded session are the ones the
  service committed: over any commands run one after another on a database whose
  transactions open and commit, the read succeeds and is exactly what the outbox
  gained. The events of a command that failed are never among them, those the recorder
  wrote before it failed included.\<close>
theorem committed_is_outbox:
  assumes l: "lib_ok l" "commits l"
    and bodies: "\<forall>body \<in> set bodies. recorded_as enc dec body"
    and run: "session enc written l bodies s = (cs, s')"
  shows "\<exists>es. Committed dec cs = Some es \<and> outbox s' = outbox s @ es"
  using bodies run
proof (induction bodies arbitrary: s cs)
  case Nil
  then show ?case by (simp add: Committed_def)
next
  case (Cons body bodies)
  let ?t = "snd (transact l (emit l body) s)"
  from Cons.prems obtain cs1 where rest: "session enc written l bodies ?t = (cs1, s')"
      "cs = command_calls enc written l body s @ cs1" by (auto split: prod.splits)
  from Cons.IH [OF _ rest(1)] Cons.prems(1) obtain es where es: "Committed dec cs1 = Some es" "outbox s' = outbox ?t @ es"
    by auto
  obtain gained where gained: "outbox ?t = outbox s @ gained"
      "\<forall>cs. committed_from dec (command_calls enc written l body s @ cs) [] [] = committed_from dec cs gained []"
    using command_gains [OF l, of enc dec body s written] Cons.prems(1) by auto
  with rest(2) es committed_out [of dec cs1 gained "[]" "[]"] show ?case by (simp add: Committed_def)
qed

text \<open>A reset's event and a command refused after it.\<close>
definition reset_call :: "event \<Rightarrow> sql_call" where
  "reset_call e = \<lparr>sc_op = OpExec, sc_sql = ''INSERT INTO messaging_outbox'',
     sc_args = [TextArg stamp_source, TextArg stamp_id, BytesArg ''{}'', RawArg (ev_subject e)]\<rparr>"

definition read_reset :: "sql_call \<Rightarrow> event option" where
  "read_reset = Decode Some (\<lambda>_ subject. Some (Event StateReset subject (StateP subject)))"

definition reset_session :: "(unit db, unit \<times> event list) step list" where
  "reset_session = [give ((), [Event StateReset ''default'' (StateP ''default'')]), refuse (plain ''conflict'')]"

theorem committed_is_outbox_witness:
  "Committed read_reset (fst (session reset_call length plain_lib reset_session (empty_db ())))
     = Some [Event StateReset ''default'' (StateP ''default'')]"
proof -
  have is_write: "IsWrite (reset_call e)" for e
    by (simp add: IsWrite_def reset_call_def contains_def has_prefix_def)
  have "read_reset (reset_call (Event StateReset x (StateP x))) = Some (Event StateReset x (StateP x))" for x
    by (simp add: read_reset_def reset_call_def Decode_def)
  with is_write have rec: "\<forall>body \<in> set reset_session. recorded_as reset_call read_reset body"
    by (simp add: reset_session_def recorded_as_def give_def refuse_def)
  obtain cs s' where run: "session reset_call length plain_lib reset_session (empty_db ()) = (cs, s')" by fastforce
  have "outbox (snd (session reset_call length plain_lib reset_session (empty_db ()))) = [Event StateReset ''default'' (StateP ''default'')]"
    by (simp add: reset_session_def plain_lib_def transact_def emit_def give_def refuse_def empty_db_def)
  moreover have "commits (plain_lib :: unit lib)" by (simp add: commits_def plain_lib_def)
  ultimately show ?thesis using committed_is_outbox [OF plain_lib_ok _ rec run] run
    by (auto simp: empty_db_def)
qed

lemma Want_exact:
  assumes "distinct (map fst got)" "distinct (map fst want)" "se_data e = Some got"
  shows "Want e ty subject want \<longleftrightarrow> WantEnvelope e ty subject \<and> map_of got = map_of want"
proof -
  have "length got = length want \<and> list_all (\<lambda>(k, v). map_of got k = Some v) want \<longleftrightarrow> set got = set want"
  proof
    assume h: "length got = length want \<and> list_all (\<lambda>(k, v). map_of got k = Some v) want"
    then have "set want \<subseteq> set got" by (auto simp: list_all_iff dest: map_of_SomeD)
    moreover have "card (set want) = card (set got)"
      using h assms(1,2) by (metis distinct_card distinct_map)
    ultimately show "set got = set want" by (metis card_subset_eq List.finite_set)
  next
    assume h: "set got = set want"
    then have "length got = length want" using assms(1,2) by (metis distinct_card distinct_map)
    with h assms(1) show "length got = length want \<and> list_all (\<lambda>(k, v). map_of got k = Some v) want"
      by (auto simp: list_all_iff)
  qed
  also have "\<dots> \<longleftrightarrow> map_of got = map_of want"
    using assms(1,2) by (metis map_of_inject_set set_map_of_compr)
  finally show ?thesis using assms(3) by (simp add: Want_def)
qed

section \<open>Addresses\<close>

text \<open>net.JoinHostPort, and net.SplitHostPort, whose error is only that there is one.\<close>
definition JoinHostPort :: "string \<Rightarrow> string \<Rightarrow> string" where
  "JoinHostPort host port = (if CHR '':'' \<in> set host then ''['' @ host @ '']:'' @ port else host @ '':'' @ port)"

text \<open>The text before and after the last colon.\<close>
definition last_colon :: "string \<Rightarrow> (string \<times> string) option" where
  "last_colon s =
     (case cut_at (CHR '':'') (rev s) of (after, before, found) \<Rightarrow> if found then Some (rev before, rev after) else None)"

definition SplitHostPort :: "string \<Rightarrow> (string \<times> string) option" where
  "SplitHostPort s =
     (case last_colon s of
        None \<Rightarrow> None
      | Some (before, port) \<Rightarrow>
          if has_prefix ''['' s
          then (case cut_at (CHR '']'') before of
                  (opened, after, closed) \<Rightarrow>
                    if \<not> closed \<or> after \<noteq> [] \<or> CHR ''['' \<in> set (tl opened) \<union> set port \<or> CHR '']'' \<in> set port then None
                    else Some (tl opened, port))
          else if {CHR '':'', CHR ''['', CHR '']''} \<inter> set before \<noteq> {} \<or> {CHR ''['', CHR '']''} \<inter> set port \<noteq> {} then None
          else Some (before, port))"

section \<open>The environment of a launched service\<close>

definition defaultDatabaseHost :: string where "defaultDatabaseHost = ''127.0.0.1''"
definition defaultDatabasePort :: string where "defaultDatabasePort = ''5432''"
definition defaultDatabasePassword :: string where "defaultDatabasePassword = ''app''"
definition defaultStorageEndpoint :: string where "defaultStorageEndpoint = ''http://127.0.0.1:10000/devstoreaccount1''"
definition defaultStorageAccount :: string where "defaultStorageAccount = ''devstoreaccount1''"
definition defaultStorageKey :: string where
  "defaultStorageKey = ''Eby8vdM02xNOcqFlqUwJPLlmEtlCDXJ1OUzFT50uSRZ6IFsuFq2UVErCz4I6tq/K1SZFPTOtr/KBHBeksoGMGw==''"
definition defaultObservabilityEndpoint :: string where "defaultObservabilityEndpoint = ''127.0.0.1:4317''"
definition defaultNATSURL :: string where "defaultNATSURL = ''nats://127.0.0.1:4222''"
definition ServiceZone :: string where "ServiceZone = ''Asia/Kolkata''"
definition defaultRateLimitRequests :: string where "defaultRateLimitRequests = ''1000''"

text \<open>The harness's own environment, and net/url's parse, host and text of a URL.\<close>
record 'u surrounds =
  os_getenv :: "string \<Rightarrow> string"
  url_parse :: "string \<Rightarrow> 'u option"
  url_host :: "'u \<Rightarrow> string"
  with_host :: "string \<Rightarrow> 'u \<Rightarrow> 'u"
  url_text :: "'u \<Rightarrow> string"

record launch_options =
  lo_Seed :: string
  lo_Database :: string
  lo_Storage :: string
  lo_NATS :: string
  lo_Env :: "string list"

text \<open>getenv: the parent's value, or def.\<close>
definition harness_getenv :: "'u surrounds \<Rightarrow> string \<Rightarrow> string \<Rightarrow> string" where
  "harness_getenv x name def = (if os_getenv x name \<noteq> [] then os_getenv x name else def)"

definition databaseHostPort :: "'u surrounds \<Rightarrow> string \<times> string" where
  "databaseHostPort x =
     (harness_getenv x ''APP_DATABASE_HOST'' defaultDatabaseHost, harness_getenv x ''APP_DATABASE_PORT'' defaultDatabasePort)"

text \<open>A URL the parent sets, or the default when it does not parse or names no host.\<close>
definition url_or :: "'u surrounds \<Rightarrow> string \<Rightarrow> string \<Rightarrow> 'u option" where
  "url_or x name def =
     (case url_parse x (harness_getenv x name def) of
        None \<Rightarrow> url_parse x def
      | Some u \<Rightarrow> if url_host x u = [] then url_parse x def else Some u)"

definition storageURL :: "'u surrounds \<Rightarrow> 'u option" where
  "storageURL x = url_or x ''APP_STORAGE_ENDPOINT'' defaultStorageEndpoint"

definition brokerURL :: "'u surrounds \<Rightarrow> 'u option" where
  "brokerURL x = url_or x ''APP_NATS_URL'' defaultNATSURL"

definition StorageAddr :: "'u surrounds \<Rightarrow> string option" where
  "StorageAddr x = map_option (url_host x) (storageURL x)"

definition NATSAddr :: "'u surrounds \<Rightarrow> string option" where
  "NATSAddr x = map_option (url_host x) (brokerURL x)"

definition DatabaseAddr :: "'u surrounds \<Rightarrow> string" where
  "DatabaseAddr x = (case databaseHostPort x of (host, port) \<Rightarrow> JoinHostPort host port)"

text \<open>A URL's host moved to an override, when there is one.\<close>
definition moved_to :: "'u surrounds \<Rightarrow> string \<Rightarrow> 'u \<Rightarrow> 'u" where
  "moved_to x host u = (if host \<noteq> [] then with_host x host u else u)"

text \<open>The entries environment composes, in order, before the options' own.\<close>
definition composed ::
    "'u surrounds \<Rightarrow> launch_options \<Rightarrow> string \<times> string \<Rightarrow> string \<times> string \<Rightarrow> 'u \<Rightarrow> 'u \<Rightarrow> string list" where
  "composed x opts server database storage nats =
     [''TZ='' @ ServiceZone,
      ''APP_ENV='',
      ''APP_LOG_LEVEL=debug'',
      ''APP_LOG_FORMAT=json'',
      ''APP_SERVER_HOST='' @ fst server,
      ''APP_SERVER_PORT='' @ snd server,
      ''APP_DATABASE_HOST='' @ fst database,
      ''APP_DATABASE_PORT='' @ snd database,
      ''APP_DATABASE_PASSWORD='' @ harness_getenv x ''APP_DATABASE_PASSWORD'' defaultDatabasePassword,
      ''APP_STORAGE_ENDPOINT='' @ url_text x (moved_to x (lo_Storage opts) storage),
      ''APP_STORAGE_ACCOUNT='' @ harness_getenv x ''APP_STORAGE_ACCOUNT'' defaultStorageAccount,
      ''APP_STORAGE_KEY='' @ harness_getenv x ''APP_STORAGE_KEY'' defaultStorageKey,
      ''APP_STORAGE_OPTIONS_MAX_RETRIES=1'',
      ''APP_NATS_URL='' @ url_text x (moved_to x (lo_NATS opts) nats),
      ''APP_OBSERVABILITY_ENDPOINT='' @ harness_getenv x ''APP_OBSERVABILITY_ENDPOINT'' defaultObservabilityEndpoint,
      ''APP_ADMIN_SEED='' @ lo_Seed opts,
      ''APP_RATE_LIMIT_REQUESTS='' @ defaultRateLimitRequests]"

text \<open>environment; a URL that is nil panics (None).\<close>
definition environment :: "'u surrounds \<Rightarrow> launch_options \<Rightarrow> string \<Rightarrow> string \<Rightarrow> string \<Rightarrow> string list option" where
  "environment x opts addr dbHost dbPort = do {
     let database = (if lo_Database opts \<noteq> [] then (dbHost, dbPort) else databaseHostPort x);
     let server = (case SplitHostPort addr of None \<Rightarrow> ([], []) | Some hp \<Rightarrow> hp);
     storage \<leftarrow> storageURL x;
     nats \<leftarrow> brokerURL x;
     Some (composed x opts server database storage nats @ lo_Env opts) }"

text \<open>Launch: the service's address on the port reserved, and its environment; a database
  override that is no host:port fails the test.\<close>
definition Launch :: "'u surrounds \<Rightarrow> launch_options \<Rightarrow> int \<Rightarrow> (string \<times> string list) option" where
  "Launch x opts free_port =
     (case SplitHostPort (lo_Database opts) of
        None \<Rightarrow>
          if lo_Database opts \<noteq> [] then None
          else map_option (\<lambda>env. (JoinHostPort ''127.0.0.1'' (itoa free_port), env))
                 (environment x opts (JoinHostPort ''127.0.0.1'' (itoa free_port)) [] [])
      | Some (host, port) \<Rightarrow>
          map_option (\<lambda>env. (JoinHostPort ''127.0.0.1'' (itoa free_port), env))
            (environment x opts (JoinHostPort ''127.0.0.1'' (itoa free_port)) host port))"

definition service_URL :: "string \<Rightarrow> string" where
  "service_URL addr = ''http://'' @ addr"

text \<open>os/exec's reading of the entries, the last of a name counting, and os.Getenv in the
  process.\<close>
definition entry_of :: "string \<Rightarrow> string \<times> string" where
  "entry_of e = (case cut_at (CHR ''='') e of (k, v, _) \<Rightarrow> (k, v))"

definition process_getenv :: "string list \<Rightarrow> string \<Rightarrow> string" where
  "process_getenv env name = (case map_of (rev (map entry_of env)) name of None \<Rightarrow> [] | Some v \<Rightarrow> v)"

lemma process_getenv_append: "process_getenv (own @ extra) name =
    (case map_of (rev (map entry_of extra)) name of Some v \<Rightarrow> v | None \<Rightarrow> process_getenv own name)"
  by (simp add: process_getenv_def map_add_def split: option.split)

lemma cut_at_none: "c \<notin> set s \<Longrightarrow> cut_at c s = (s, [], False)"
  by (induction s) auto

lemma cut_at_append: "c \<notin> set s \<Longrightarrow> cut_at c (s @ c # t) = (s, t, True)"
  by (induction s) auto

lemma digits_clear: "{CHR '':'', CHR ''['', CHR '']''} \<inter> set (decimal n) = {}"
  using decimal_digits [of n] by (auto simp: list_all_iff is_digit_def)

lemma split_joined:
  assumes "{CHR '':'', CHR ''['', CHR '']''} \<inter> set host = {}" "{CHR '':'', CHR ''['', CHR '']''} \<inter> set port = {}"
  shows "SplitHostPort (JoinHostPort host port) = Some (host, port)"
proof -
  have "cut_at CHR '':'' (rev port @ CHR '':'' # rev host) = (rev port, rev host, True)"
    using assms(2) by (intro cut_at_append) simp
  then have "last_colon (host @ '':'' @ port) = Some (host, port)"
    by (simp add: last_colon_def)
  moreover have "\<not> has_prefix ''['' (host @ '':'' @ port)"
    using assms(1) by (cases host) (auto simp: has_prefix_def)
  ultimately show ?thesis using assms by (auto simp: JoinHostPort_def SplitHostPort_def)
qed

text \<open>What a test moves by its options, and what it leaves to the parent or the compose
  stack: the harness's own entries.\<close>
definition launched :: "launch_options \<Rightarrow> string \<Rightarrow> string \<times> string \<Rightarrow> (string \<times> string) list" where
  "launched opts port database =
     [(''TZ'', ServiceZone), (''APP_ENV'', []), (''APP_SERVER_HOST'', ''127.0.0.1''), (''APP_SERVER_PORT'', port),
      (''APP_DATABASE_HOST'', fst database), (''APP_DATABASE_PORT'', snd database),
      (''APP_ADMIN_SEED'', lo_Seed opts), (''APP_RATE_LIMIT_REQUESTS'', defaultRateLimitRequests)]"

lemma composed_entries: "map entry_of (composed x opts (host, port) (dh, dp) storage nats) =
    [(''TZ'', ServiceZone), (''APP_ENV'', []), (''APP_LOG_LEVEL'', ''debug''), (''APP_LOG_FORMAT'', ''json''),
     (''APP_SERVER_HOST'', host), (''APP_SERVER_PORT'', port), (''APP_DATABASE_HOST'', dh), (''APP_DATABASE_PORT'', dp),
     (''APP_DATABASE_PASSWORD'', harness_getenv x ''APP_DATABASE_PASSWORD'' defaultDatabasePassword),
     (''APP_STORAGE_ENDPOINT'', url_text x (moved_to x (lo_Storage opts) storage)),
     (''APP_STORAGE_ACCOUNT'', harness_getenv x ''APP_STORAGE_ACCOUNT'' defaultStorageAccount),
     (''APP_STORAGE_KEY'', harness_getenv x ''APP_STORAGE_KEY'' defaultStorageKey), (''APP_STORAGE_OPTIONS_MAX_RETRIES'', ''1''),
     (''APP_NATS_URL'', url_text x (moved_to x (lo_NATS opts) nats)),
     (''APP_OBSERVABILITY_ENDPOINT'', harness_getenv x ''APP_OBSERVABILITY_ENDPOINT'' defaultObservabilityEndpoint),
     (''APP_ADMIN_SEED'', lo_Seed opts), (''APP_RATE_LIMIT_REQUESTS'', defaultRateLimitRequests)]"
  by (simp add: composed_def entry_of_def)

lemma process_getenv_entry:
  assumes "distinct (map fst (map entry_of env))" "(n, v) \<in> set (map entry_of env)"
  shows "process_getenv env n = v"
proof -
  have "map_of (rev (map entry_of env)) n = Some v"
    by (rule map_of_is_SomeI) (use assms in \<open>simp_all only: rev_map [symmetric] set_rev distinct_rev\<close>)
  then show ?thesis by (simp add: process_getenv_def)
qed

lemma composed_reads: "\<forall>(n, v) \<in> set (launched opts port database).
    process_getenv (composed x opts (''127.0.0.1'', port) database storage nats) n = v"
proof -
  obtain dh dp where d: "database = (dh, dp)" by fastforce
  have keys: "distinct (map fst (map entry_of (composed x opts (''127.0.0.1'', port) (dh, dp) storage nats)))"
    unfolding composed_entries by simp
  have "set (launched opts port (dh, dp)) \<subseteq> set (map entry_of (composed x opts (''127.0.0.1'', port) (dh, dp) storage nats))"
    unfolding composed_entries launched_def fst_conv snd_conv by simp
  then show ?thesis unfolding d by (auto intro!: process_getenv_entry [OF keys])
qed

lemma environment_own:
  assumes env: "environment x opts addr h q = Some env" and addr: "SplitHostPort addr = Some (''127.0.0.1'', port)"
    and database: "database = (if lo_Database opts \<noteq> [] then (h, q) else databaseHostPort x)"
  shows "\<exists>own. env = own @ lo_Env opts \<and> (\<forall>(n, v) \<in> set (launched opts port database). process_getenv own n = v)"
proof -
  from env addr database obtain storage nats where
    "env = composed x opts (''127.0.0.1'', port) database storage nats @ lo_Env opts"
    by (auto simp: environment_def Let_def split: Option.bind_splits)
  from exI [of "\<lambda>own. env = own @ lo_Env opts \<and> (\<forall>(n, v) \<in> set (launched opts port database). process_getenv own n = v)",
    OF conjI [OF this composed_reads]] show ?thesis .
qed

lemma Launch_environment:
  assumes run: "Launch x opts p = Some (addr, env)"
  obtains h q where "environment x opts (JoinHostPort ''127.0.0.1'' (itoa p)) h q = Some env"
    "addr = JoinHostPort ''127.0.0.1'' (itoa p)"
    "lo_Database opts \<noteq> [] \<longrightarrow> SplitHostPort (lo_Database opts) = Some (h, q)"
proof (cases "SplitHostPort (lo_Database opts)")
  case None
  with run have "lo_Database opts = []" "environment x opts (JoinHostPort ''127.0.0.1'' (itoa p)) [] [] = Some env"
      "addr = JoinHostPort ''127.0.0.1'' (itoa p)"
    unfolding Launch_def by (simp_all only: option.case split: if_splits) (simp_all only: map_option_eq_Some prod.inject, blast+)
  with that [of "[]" "[]"] show ?thesis by blast
next
  case (Some hq)
  obtain h q where hq: "hq = (h, q)" by fastforce
  with run Some have "environment x opts (JoinHostPort ''127.0.0.1'' (itoa p)) h q = Some env"
      "addr = JoinHostPort ''127.0.0.1'' (itoa p)"
    unfolding Launch_def by (simp_all only: option.case prod.case) (simp_all only: map_option_eq_Some prod.inject, blast+)
  with Some hq that [of h q] show ?thesis by blast
qed

text \<open>A launched service reads the environment its test meant: whatever the harness's
  process had, no overlay is named, the server listens where the test will call it, the
  database is the test's override or the parent's or the compose stack's, the seed is the
  one the options name, and an entry of Options.Env wins over each; a service whose
  configuration finalizes over it seeds that state.\<close>
theorem launched_reads_options:
  assumes run: "Launch x opts (int p) = Some (addr, env)"
    and given: "lo_Database opts \<noteq> [] \<Longrightarrow> SplitHostPort (lo_Database opts) = Some database"
    and default: "lo_Database opts = [] \<Longrightarrow> database = databaseHostPort x"
    and L: "getenv L = process_getenv env" "env_name L ''app'' ''admin_seed'' = ''APP_ADMIN_SEED''"
  shows "addr = ''127.0.0.1:'' @ itoa (int p)
    \<and> (\<forall>(n, v) \<in> set (launched opts (itoa (int p)) database).
         process_getenv env n = (case map_of (rev (map entry_of (lo_Env opts))) n of Some w \<Rightarrow> w | None \<Rightarrow> v))
    \<and> (map_of (rev (map entry_of (lo_Env opts))) ''APP_ADMIN_SEED'' = None \<and> lo_Seed opts \<noteq> [] \<longrightarrow>
         map_sum id SeedState (admin_Finalize L ''app'' c) = Inr (lo_Seed opts))"
proof -
  let ?addr = "JoinHostPort ''127.0.0.1'' (itoa (int p))"
  have split: "SplitHostPort ?addr = Some (''127.0.0.1'', itoa (int p))"
    by (rule split_joined) (use digits_clear [of p] in \<open>simp_all add: itoa_def\<close>)
  obtain h q where env: "environment x opts ?addr h q = Some env" "addr = ?addr"
      "lo_Database opts \<noteq> [] \<longrightarrow> SplitHostPort (lo_Database opts) = Some (h, q)"
    by (rule Launch_environment [OF run]) (rule that)
  with given default have "database = (if lo_Database opts \<noteq> [] then (h, q) else databaseHostPort x)" by auto
  from environment_own [OF env(1) split this] obtain own where own: "env = own @ lo_Env opts"
      "\<forall>(n, v) \<in> set (launched opts (itoa (int p)) database). process_getenv own n = v" by blast
  have reads: "\<forall>(n, v) \<in> set (launched opts (itoa (int p)) database).
      process_getenv env n = (case map_of (rev (map entry_of (lo_Env opts))) n of Some w \<Rightarrow> w | None \<Rightarrow> v)"
    using own(2) by (auto simp: own(1) process_getenv_append split: option.split)
  have "(''APP_ADMIN_SEED'', lo_Seed opts) \<in> set (launched opts (itoa (int p)) database)" by (simp add: launched_def)
  with reads have "process_getenv env ''APP_ADMIN_SEED'' =
      (case map_of (rev (map entry_of (lo_Env opts))) ''APP_ADMIN_SEED'' of Some w \<Rightarrow> w | None \<Rightarrow> lo_Seed opts)"
    by blast
  then have "map_of (rev (map entry_of (lo_Env opts))) ''APP_ADMIN_SEED'' = None \<and> lo_Seed opts \<noteq> [] \<longrightarrow>
      map_sum id SeedState (admin_Finalize L ''app'' c) = Inr (lo_Seed opts)"
    by (simp add: admin_Finalize_def L Let_def SeedState_def)
  with reads env(2) show ?thesis by (simp add: JoinHostPort_def)
qed

text \<open>A harness whose URLs are their own text, and a test that seeds a state and forwards
  the database.\<close>
definition plain_surrounds :: "string surrounds" where
  "plain_surrounds = \<lparr>os_getenv = (\<lambda>_. []), url_parse = Some, url_host = (\<lambda>u. u), with_host = (\<lambda>host u. host),
     url_text = (\<lambda>u. u)\<rparr>"

definition forwarded :: launch_options where
  "forwarded = \<lparr>lo_Seed = ''default'', lo_Database = ''127.0.0.1:7000'', lo_Storage = [], lo_NATS = [],
     lo_Env = [''APP_RATE_LIMIT_REQUESTS=2'']\<rparr>"

theorem launched_reads_options_witness:
  "\<exists>addr env. Launch plain_surrounds forwarded (int 8080) = Some (addr, env)
    \<and> process_getenv env ''APP_DATABASE_PORT'' = ''7000'' \<and> process_getenv env ''APP_RATE_LIMIT_REQUESTS'' = ''2''"
proof -
  have split: "SplitHostPort ''127.0.0.1:7000'' = Some (''127.0.0.1'', ''7000'')"
    by (simp add: SplitHostPort_def last_colon_def has_prefix_def)
  have urls: "storageURL plain_surrounds \<noteq> None" "brokerURL plain_surrounds \<noteq> None"
    by (simp_all add: storageURL_def brokerURL_def url_or_def plain_surrounds_def)
  then obtain addr env where run: "Launch plain_surrounds forwarded (int 8080) = Some (addr, env)"
    by (auto simp: Launch_def forwarded_def split environment_def Let_def)
  let ?L = "\<lparr>env_name = (\<lambda>_ _. ''APP_ADMIN_SEED''), getenv = process_getenv env, set_int = (\<lambda>_ d. Inr d),
    set_duration = (\<lambda>_ d. Inr d), duration_text = (\<lambda>_. [])\<rparr>"
  have given: "SplitHostPort (lo_Database forwarded) = Some (''127.0.0.1'', ''7000'')"
    using split by (simp add: forwarded_def)
  have "\<forall>(n, v) \<in> set (launched forwarded (itoa (int 8080)) (''127.0.0.1'', ''7000'')).
      process_getenv env n = (case map_of (rev (map entry_of (lo_Env forwarded))) n of Some w \<Rightarrow> w | None \<Rightarrow> v)"
    using launched_reads_options [OF run given, of ?L "\<lparr>SeedName = None\<rparr>"] by (simp add: forwarded_def)
  moreover have "map entry_of (lo_Env forwarded) = [(''APP_RATE_LIMIT_REQUESTS'', ''2'')]"
    by (simp add: forwarded_def entry_of_def)
  ultimately have "process_getenv env ''APP_DATABASE_PORT'' = ''7000''" "process_getenv env ''APP_RATE_LIMIT_REQUESTS'' = ''2''"
    by (simp_all add: launched_def)
  with run show ?thesis by blast
qed

section \<open>The state through the admin mount\<close>

record migration =
  mg_Version :: int
  mg_Name :: string
  mg_Transactional :: bool
  mg_Applied :: bool

record migration_set =
  ss_Name :: string
  ss_Version :: int
  ss_Latest :: int
  ss_Dirty :: bool
  ss_Pending :: "int list"
  ss_Migrations :: "migration list"

record schema_status =
  sh_Ready :: bool
  sh_Sets :: "migration_set list"

record transition =
  tn_State :: string
  tn_Schema :: schema_status
  tn_Seeded :: "(string \<times> int) list"

definition no_set :: migration_set where
  "no_set = \<lparr>ss_Name = [], ss_Version = 0, ss_Latest = 0, ss_Dirty = False, ss_Pending = [], ss_Migrations = []\<rparr>"

text \<open>SchemaStatus.Set: the named set, or the zero one.\<close>
definition schema_Set :: "schema_status \<Rightarrow> string \<Rightarrow> migration_set" where
  "schema_Set st name = (case List.find (\<lambda>x. ss_Name x = name) (sh_Sets st) of None \<Rightarrow> no_set | Some x \<Rightarrow> x)"

text \<open>What a response of the mount decodes to, and the requests the harness builds: a
  body for each of the operations that takes one.\<close>
datatype admin_value = Schema_w schema_status | States_w "string list" | Seeded_w "(string \<times> int) list" | Transition_w transition

datatype admin_request = NoBody | StepsBody steps_body | StateBody state_body | ResetBody reset_body

text \<open>webtest.Decode: the body of a response under the status wanted; any other answer
  fails the test.\<close>
definition decode_ok :: "(admin_value \<Rightarrow> 'b option) \<Rightarrow> ('s, admin_value response) step \<Rightarrow> 's \<Rightarrow> 'b option \<times> 's" where
  "decode_ok as m s =
     (case m s of
        (Inl e, s1) \<Rightarrow> (None, s1)
      | (Inr rs, s1) \<Rightarrow> ((if rs_status rs = 200 then Option.bind (rs_body rs) as else None), s1))"

fun schema_value :: "admin_value \<Rightarrow> schema_status option" where
  "schema_value (Schema_w st) = Some st" | "schema_value _ = None"
fun states_value :: "admin_value \<Rightarrow> string list option" where
  "states_value (States_w xs) = Some xs" | "states_value _ = None"
fun seeded_value :: "admin_value \<Rightarrow> (string \<times> int) list option" where
  "seeded_value (Seeded_w n) = Some n" | "seeded_value _ = None"
fun transition_value :: "admin_value \<Rightarrow> transition option" where
  "transition_value (Transition_w t) = Some t" | "transition_value _ = None"

type_synonym 's mount = "(admin_request, 's, admin_value) database_handler"

definition harness_Reset :: "'s mount \<Rightarrow> string \<Rightarrow> 's \<Rightarrow> transition option \<times> 's" where
  "harness_Reset h st = decode_ok transition_value (db_state h (ResetBody \<lparr>rb_state = st, rb_confirm = True\<rparr>))"

definition harness_States :: "'s mount \<Rightarrow> 's \<Rightarrow> string list option \<times> 's" where
  "harness_States h = decode_ok states_value (db_states h NoBody)"

definition Schema :: "'s mount \<Rightarrow> 's \<Rightarrow> schema_status option \<times> 's" where
  "Schema h = decode_ok schema_value (db_status h NoBody)"

text \<open>Seed: no body when it names no state.\<close>
definition harness_Seed :: "'s mount \<Rightarrow> string \<Rightarrow> 's \<Rightarrow> (string \<times> int) list option \<times> 's" where
  "harness_Seed h st = decode_ok seeded_value (db_seed h (if st = [] then NoBody else StateBody \<lparr>tb_state = st\<rparr>))"

text \<open>Revert: the sets from the last, each that has a version reverted by it.\<close>
fun revert_sets :: "'s mount \<Rightarrow> migration_set list \<Rightarrow> 's \<Rightarrow> bool \<times> 's" where
  "revert_sets h [] s = (True, s)"
| "revert_sets h (x # xs) s =
     (if ss_Version x = 0 then revert_sets h xs s
      else (case decode_ok schema_value (db_down h (StepsBody \<lparr>sb_set = ss_Name x, sb_steps = ss_Version x\<rparr>)) s of
              (None, s1) \<Rightarrow> (False, s1)
            | (Some _, s1) \<Rightarrow> revert_sets h xs s1))"

definition Revert :: "'s mount \<Rightarrow> 's \<Rightarrow> bool \<times> 's" where
  "Revert h s =
     (case Schema h s of
        (None, s1) \<Rightarrow> (False, s1)
      | (Some st, s1) \<Rightarrow> revert_sets h (rev (sh_Sets st)) s1)"

text \<open>What the migrator documents of a schema, whose sets stand at the versions applied
  gives in declared order: the status shows them; a set goes down by at most its version,
  once every set declared after it is empty; and the mount reads the bodies it is sent,
  under a gate that opens.\<close>
definition migrates :: "('s \<Rightarrow> (string \<times> int) list) \<Rightarrow> 's mount \<Rightarrow> bool" where
  "migrates applied h \<longleftrightarrow>
     (\<forall>s. \<exists>st. sv_status (dh_service h) s = (Inr (Schema_w st), s) \<and> map (\<lambda>x. (ss_Name x, ss_Version x)) (sh_Sets st) = applied s) \<and>
     (\<forall>s n v k before after. applied s = before @ (n, v) # after \<and> (\<forall>x \<in> set after. snd x = 0) \<and> 0 < k \<and> k \<le> v \<longrightarrow>
        (\<exists>st s'. sv_down (dh_service h) n k s = (Inr (Schema_w st), s') \<and> applied s' = before @ (n, v - k) # after)) \<and>
     (\<forall>b. dh_steps h maxBody (StepsBody b) = Inr b) \<and>
     (\<forall>s. \<exists>s1. Exclusive (dh_gate h) s = (None, s1) \<and> applied s1 = applied s) \<and>
     (\<forall>s. applied (release (dh_gate h) s) = applied s)"

lemma migratesD:
  assumes "migrates applied h"
  shows "\<exists>st. sv_status (dh_service h) s = (Inr (Schema_w st), s) \<and> map (\<lambda>x. (ss_Name x, ss_Version x)) (sh_Sets st) = applied s"
    and "applied s = before @ (n, v) # after \<Longrightarrow> \<forall>x \<in> set after. snd x = 0 \<Longrightarrow> 0 < k \<Longrightarrow> k \<le> v \<Longrightarrow>
      \<exists>st s'. sv_down (dh_service h) n k s = (Inr (Schema_w st), s') \<and> applied s' = before @ (n, v - k) # after"
    and "dh_steps h maxBody (StepsBody b) = Inr b"
    and "\<exists>s1. Exclusive (dh_gate h) s = (None, s1) \<and> applied s1 = applied s"
    and "applied (release (dh_gate h) s) = applied s"
  using assms unfolding migrates_def by blast+

lemma down_posted:
  assumes m: "migrates applied h" and s: "applied s = before @ (n, v) # after" "\<forall>x \<in> set after. snd x = 0" "0 < v"
  shows "\<exists>st s'. decode_ok schema_value (db_down h (StepsBody \<lparr>sb_set = n, sb_steps = v\<rparr>)) s = (Some st, s')
    \<and> applied s' = before @ (n, 0) # after"
proof -
  obtain s1 where gate: "Exclusive (dh_gate h) s = (None, s1)" "applied s1 = applied s"
    using migratesD(4) [OF m] by blast
  from gate(2) s(1) have "applied s1 = before @ (n, v) # after" by simp
  from migratesD(2) [OF m this s(2,3) order_refl] obtain st s2 where
    down: "sv_down (dh_service h) n v s1 = (Inr (Schema_w st), s2)" "applied s2 = before @ (n, 0) # after" by auto
  have "decode_ok schema_value (db_down h (StepsBody \<lparr>sb_set = n, sb_steps = v\<rparr>)) s
      = (Some st, release (dh_gate h) s2)"
    using s(3) by (simp add: decode_ok_def db_down_def migratesD(3) [OF m] input_simps respond_def reply_def
        andthen_def exclusive_def gate(1) down(1) give_def WriteJSON_def)
  with down(2) migratesD(5) [OF m, of s2] show ?thesis by auto
qed

lemma reverted:
  assumes m: "migrates applied h"
  shows "map (\<lambda>x. (ss_Name x, ss_Version x)) xs = rev before \<Longrightarrow> applied s = before @ after \<Longrightarrow>
    \<forall>x \<in> set after. snd x = 0 \<Longrightarrow> \<forall>x \<in> set before. 0 \<le> snd x \<Longrightarrow>
    \<exists>s'. revert_sets h xs s = (True, s') \<and> applied s' = map (\<lambda>(n, _). (n, 0)) before @ after"
proof (induction xs arbitrary: before after s)
  case (Cons x xs)
  let ?before = "butlast before"
  from Cons.prems(1) have before: "before = ?before @ [(ss_Name x, ss_Version x)]"
      "map (\<lambda>x. (ss_Name x, ss_Version x)) xs = rev ?before"
    by (metis (no_types, lifting) butlast_snoc list.simps(9) rev.simps(2) rev_swap)+
  have emptied: "map (\<lambda>(n, _). (n, 0)) before @ after = map (\<lambda>(n, _). (n, 0)) ?before @ (ss_Name x, 0) # after"
    by (subst before(1)) simp
  show ?case
  proof (cases "ss_Version x = 0")
    case True
    from Cons.prems(2) before(1) True have "applied s = ?before @ (ss_Name x, 0) # after"
      by (metis append.assoc append_Cons append_Nil)
    then obtain s' where s': "revert_sets h xs s = (True, s')"
        "applied s' = map (\<lambda>(n, _). (n, 0)) ?before @ (ss_Name x, 0) # after"
      using Cons.IH [OF before(2), of s "(ss_Name x, 0) # after"] Cons.prems(3,4) by (auto dest: in_set_butlastD)
    with True emptied show ?thesis by simp
  next
    case False
    with Cons.prems(4) before(1) have pos: "0 < ss_Version x"
      by (metis in_set_conv_decomp order_less_le snd_conv)
    from Cons.prems(2) before(1) have "applied s = ?before @ (ss_Name x, ss_Version x) # after"
      by (metis append.assoc append_Cons append_Nil)
    from down_posted [OF m this Cons.prems(3) pos] obtain st s1 where
      down: "decode_ok schema_value (db_down h (StepsBody \<lparr>sb_set = ss_Name x, sb_steps = ss_Version x\<rparr>)) s = (Some st, s1)"
        "applied s1 = ?before @ (ss_Name x, 0) # after" by blast
    obtain s' where "revert_sets h xs s1 = (True, s')"
        "applied s' = map (\<lambda>(n, _). (n, 0)) ?before @ (ss_Name x, 0) # after"
      using Cons.IH [OF before(2) down(2)] Cons.prems(3,4) by (auto dest: in_set_butlastD)
    with False down(1) emptied show ?thesis by simp
  qed
qed simp

text \<open>C38. Revert empties the schema through the mount's own down route, whatever was
  applied: no post of it is refused, since it goes from the last set declared to the
  first, and every set is left with no version.\<close>
theorem revert_empties:
  assumes m: "migrates applied h" and s: "\<forall>x \<in> set (applied s). 0 \<le> snd x"
  shows "\<exists>s'. Revert h s = (True, s') \<and> applied s' = map (\<lambda>(n, _). (n, 0)) (applied s)"
proof -
  obtain st where st: "sv_status (dh_service h) s = (Inr (Schema_w st), s)"
      "map (\<lambda>x. (ss_Name x, ss_Version x)) (sh_Sets st) = applied s"
    using migratesD(1) [OF m] by blast
  have "Schema h s = (Some st, s)"
    by (simp add: Schema_def decode_ok_def db_status_def respond_def reply_def andthen_def st(1) give_def WriteJSON_def)
  moreover have sets: "map (\<lambda>x. (ss_Name x, ss_Version x)) (rev (sh_Sets st)) = rev (applied s)"
    using st(2) by (metis rev_map)
  from reverted [OF m this _ _ s, of s "[]"] obtain s' where "revert_sets h (rev (sh_Sets st)) s = (True, s')"
      "applied s' = map (\<lambda>(n, _). (n, 0)) (applied s)" by auto
  ultimately show ?thesis by (simp add: Revert_def)
qed

text \<open>A mount over the sets' versions and a gate that opens: a down takes the last set that
  is not empty, from the end of the declared order.\<close>
fun down_last :: "string \<Rightarrow> int \<Rightarrow> (string \<times> int) list \<Rightarrow> (string \<times> int) list" where
  "down_last n k [] = []"
| "down_last n k ((m, v) # xs) =
     (if v = 0 then (m, v) # down_last n k xs else if m = n then (m, v - k) # xs else (m, v) # xs)"

definition schema_of :: "(string \<times> int) list \<Rightarrow> admin_value" where
  "schema_of xs = Schema_w \<lparr>sh_Ready = False, sh_Sets = map (\<lambda>(n, v). no_set\<lparr>ss_Name := n, ss_Version := v\<rparr>) xs\<rparr>"

definition sets_mount :: "(bool \<times> (string \<times> int) list) mount" where
  "sets_mount =
     \<lparr>dh_service = \<lparr>sv_diagnose = give (States_w []), sv_status = (\<lambda>s. (Inr (schema_of (snd s)), s)), sv_catalog = States_w [],
        sv_statements = States_w [], sv_states = States_w [], sv_verify = give (), sv_up = give (States_w []),
        sv_down = (\<lambda>n k (b, xs). (Inr (schema_of (rev (down_last n k (rev xs)))), (b, rev (down_last n k (rev xs))))),
        sv_steps = (\<lambda>_ _. give (States_w [])), sv_force = (\<lambda>_ _. give (States_w [])), sv_seed = (\<lambda>_. give (Seeded_w [])),
        sv_reset = (\<lambda>_. give (States_w []))\<rparr>,
      dh_gate = \<lparr>Exclusive = (\<lambda>(b, xs). (None, (True, xs))), release = (\<lambda>(b, xs). (False, xs))\<rparr>,
      dh_steps = (\<lambda>_ r. case r of StepsBody b \<Rightarrow> Inr b | _ \<Rightarrow> Inl (plain ''EOF'')),
      dh_force = (\<lambda>_ _. Inl (plain ''EOF'')), dh_state = (\<lambda>_ _. Inl (plain ''EOF'')), dh_reset = (\<lambda>_ _. Inl (plain ''EOF'')),
      ContentLength = (\<lambda>_. 0)\<rparr>"

lemma down_last_found: "\<forall>x \<in> set after. snd x = 0 \<Longrightarrow> v \<noteq> 0 \<Longrightarrow>
    down_last n k (after @ (n, v) # before) = after @ (n, v - k) # before"
  by (induction after) auto

lemma sets_mount_migrates: "migrates snd sets_mount"
  unfolding migrates_def
proof (intro conjI allI impI)
  fix s :: "bool \<times> (string \<times> int) list" and n v k before after
  assume h: "snd s = before @ (n, v) # after \<and> (\<forall>x \<in> set after. snd x = 0) \<and> 0 < k \<and> k \<le> v"
  then have "down_last n k (rev (snd s)) = rev after @ (n, v - k) # rev before"
    using down_last_found [of "rev after" v n k "rev before"] by simp
  then show "\<exists>st s'. sv_down (dh_service sets_mount) n k s = (Inr (Schema_w st), s') \<and> snd s' = before @ (n, v - k) # after"
    by (cases s) (simp add: sets_mount_def schema_of_def)
next
  fix s :: "bool \<times> (string \<times> int) list"
  show "\<exists>st. sv_status (dh_service sets_mount) s = (Inr (Schema_w st), s) \<and>
      map (\<lambda>x. (ss_Name x, ss_Version x)) (sh_Sets st) = snd s"
    by (simp add: sets_mount_def schema_of_def comp_def case_prod_unfold)
next
  fix b
  show "dh_steps sets_mount maxBody (StepsBody b) = Inr b" by (simp add: sets_mount_def)
next
  fix s :: "bool \<times> (string \<times> int) list"
  show "\<exists>s1. Exclusive (dh_gate sets_mount) s = (None, s1) \<and> snd s1 = snd s" by (cases s) (simp add: sets_mount_def)
  show "snd (release (dh_gate sets_mount) s) = snd s" by (cases s) (simp add: sets_mount_def)
qed

definition three_sets :: "bool \<times> (string \<times> int) list" where
  "three_sets = (False, [(''messaging'', 2), (''blobfs'', 0), (''app'', 4)])"

theorem revert_empties_witness:
  "snd (snd (Revert sets_mount three_sets)) = [(''messaging'', 0), (''blobfs'', 0), (''app'', 0)]"
proof -
  have "\<forall>x \<in> set (snd three_sets). 0 \<le> snd x" by (simp add: three_sets_def)
  from revert_empties [where s = three_sets, OF sets_mount_migrates this] show ?thesis
    by (auto simp: three_sets_def)
qed

section \<open>The stream a test awaits\<close>

definition eventStream :: string where "eventStream = ''WEB_SERVICE''"
definition eventPrefix :: string where "eventPrefix = ''web-service''"

definition token_char :: "char \<Rightarrow> bool" where
  "token_char c \<longleftrightarrow> lower_alnum c \<or> (let n = (of_char c :: nat) in 65 \<le> n \<and> n \<le> 90) \<or> c = CHR ''-'' \<or> c = CHR ''_''"

text \<open>durableName, of a test's name and the moment in nanoseconds; a test's name is ASCII.\<close>
definition durableName :: "string \<Rightarrow> int \<Rightarrow> string" where
  "durableName test now = ''it_'' @ map (\<lambda>c. if token_char c then c else CHR ''_'') test @ ''_'' @ itoa now"

text \<open>The stream's handler and Received: what has arrived, in its order.\<close>
definition stream_receive :: "event \<Rightarrow> event list \<Rightarrow> event list" where
  "stream_receive e got = got @ [e]"

definition Received :: "event list \<Rightarrow> event list" where
  "Received got = got"

text \<open>Await over the stream as each poll finds it: the first that holds an event about the
  subject; None is the failsafe.\<close>
definition stream_Await :: "event list list \<Rightarrow> string \<Rightarrow> event list option" where
  "stream_Await polls subject = List.find (list_ex (\<lambda>e. ev_subject e = subject)) (map Received polls)"

lemma durableName_token: "0 \<le> now \<Longrightarrow> list_all token_char (durableName test now)"
  using decimal_digits [of "nat now"]
  by (auto simp: durableName_def itoa_def list_all_iff token_char_def lower_alnum_def is_digit_def Let_def)

text \<open>The stream delivers in commit order: polled while it receives what was published, what
  Await returns holds every event committed before the first one about the subject.\<close>
lemma Await_before:
  assumes got: "stream_Await (map (\<lambda>n. fold stream_receive (take n published) []) polls) subject = Some got"
    and published: "published = before @ e # after" "\<forall>x \<in> set before. ev_subject x \<noteq> subject"
  shows "prefix before got"
proof -
  have folded: "fold stream_receive es got = got @ es" for es got
    by (induction es arbitrary: got) (simp_all add: stream_receive_def)
  from got obtain n where n: "got = take n published" "list_ex (\<lambda>e. ev_subject e = subject) got"
    unfolding stream_Await_def by (drule_tac find_Some_in) (auto simp: Received_def folded)
  have "prefix got published" unfolding n(1) by (rule take_is_prefix)
  then have "prefix got (before @ e # after)" unfolding published(1) .
  moreover have "\<not> prefix got before" using n(2) published(2) by (auto simp: list_ex_iff dest: set_mono_prefix)
  ultimately show ?thesis by (metis prefix_same_cases prefixI)
qed

end
