(* ===== verification/Spec2Isabelle.thy ===== *)
theory Spec2Isabelle
  imports Reads Objects OrgProperties OrgEffects OrgLocking SeedProperties OrgLogoProperties DocSeedProperties DocReads
    OrgHandlerProperties DocHandlerProperties AdminProperties ConfigProperties ReactorProperties AppProperties SeedFiles
    SlabProperties SlabClientProperties SlabCommandProperties SlabApp SlabStorageProperties SlabRunProperties
    SlabConditions Integrity Harness
begin

text \<open>
  A verification library for the reference web service (go-web-service).

  \<^bold>\<open>The program.\<close> The service keeps organizations, a forest of named rows each with at
  most one active logo, and the documents of each organization, a hierarchy of
  directories and files in a shared object store (blobfs). Every command runs in one
  transaction with the events it raises, which an outbox relays to a broker; a sweeper
  removes what a delete marked. An admin mount migrates, seeds and resets the schema.
  The process is a dependency graph whose constructors use one another. A second program,
  slab (tools/slab), is the service's command line client: commands over the four APIs, a
  watch of its events, and scenarios that drive the running service and check its answers.

  \<^bold>\<open>The theories, and the code each models.\<close>
  \<^item> Prelude: the functions of the Go standard library the code calls on strings, and
    the hint collections. Errors: Go's error trees, errors.Is, errors.As, wrapping.
  \<^item> Problems: data/status.go, the shared problem matcher. Reads: data/directives.go,
    the lowering of a query and the two collection reads.
  \<^item> OrgEntities, OrgTable, OrgForest, OrgStore, OrgCommands, OrgSeed:
    domain/organization/entities.go, database.go, service.go, messaging.go and the
    statements, the table with its constraints, the transactions and their events.
    OrgLogo, OrgLogoSeed: domain/organization/storage.go. OrgHandler: handler.go.
  \<^item> DocEntities, DocStore, DocCommands, DocSeed, DocHandler: the same files of
    domain/document. Blobfs is the library beneath both, as a record of operations with
    its documented contract; RefBlobfs is a reference file system that satisfies it.
  \<^item> Database: the tables, the outbox, transactions, the recorder, and data/locks.go.
    Objects: data/storage.go and data/sweep.go. Seeding, SeedFiles: data/data.go and
    data/seed.go. Stores: the newStore of both domains, data.New and NewStorage, and the
    stores and contributions internal/app/admin.go wires.
  \<^item> Integrity: the service as a whole, the operations of both domains and the seeder's
    states over the one database, with the calculus that carries a property of the tables
    through the combinators every step is built of.
  \<^item> Harness: the test support, internal/outboxtest and src/integration.
  \<^item> Web: sdk/web.go and the SDK's reads and responses as records.
  \<^item> Config: internal/config, the merge and finalize of every service block.
  \<^item> AdminDatabase, AdminStorage: admin/database and admin/storage.
  \<^item> Reactors, AppGraph: internal/app, the reclaimers and metrics, and the graph of
    nodes, given as the Use and After calls of each constructor; data/migrations.go and
    cmd/server.
  \<^item> SlabStyle, SlabOutput: tools/slab/style and output. SlabHttp: httpx. SlabInput,
    SlabRepo: input, repo and statement. SlabClient: the clients of domain and admin.
    SlabCommands, SlabRuns: their commands and the runs of those. SlabEvents: events.
    SlabApp: internal/app, cmd/slab and the need nodes.
  \<^item> SlabStage: scenarios/scenarios.go and calls.go, a run as a step over the trace of what
    it told, showed, sent and waited for. SlabDomain: domain.go and problems.go.
    SlabStorage: storage.go. SlabScenarios: events.go and sqlate.go. SlabSweeper:
    sweeper.go.

  A table is a list of rows in a record of the database's state; an operation is a step
  from a state to Go's value-or-error sum and the state after. A handler is a function of
  the request to such a step; a request is abstract, read through the SDK's record.

  \<^bold>\<open>What the lemmas show.\<close>
  \<^item> Organizations: every state commands and seeds reach is a forest (OrgProperties); a
    command commits exactly its event, about the organization it acted on, or nothing, a
    version is spent once, a transfer succeeds exactly when it is sound (OrgEffects). A
    transfer is a script of statements, run through in its own transaction by the store
    and a statement at a time, between other sessions', by OrgLocking: with the lock it
    takes every interleaving keeps the forest, without it two of them make a cycle;
    the routes answer what an abstract decision on the rows says (OrgHandlerProperties).
  \<^item> Documents: a command commits exactly the event of the row its step returned, after
    the root's when it opened the root (DocEffects states what each outcome tells), one
    root per organization whatever the race, nothing outside the organization's root is seen or changed (DocProperties);
    counts, announcements and presentations (DocSeedProperties, DocReads); the routes
    (DocHandlerProperties). The Effects theories hold the frames these rest on.
  \<^item> Integrity: in every state the service reaches, whatever operations, seeds and library
    work ran and however they ended, the three tables keep every key and foreign key.
    Stores: the wiring compiles, registers and verifies every statement a store binds.
  \<^item> Harness: what a suite reads off a session is what the service committed, a launched
    service reads the environment its test meant, and a revert empties the schema.
  \<^item> Errors: the seven codes and their details; wrapping never changes an answer.
  \<^item> Seeds: order, rollback, idempotence, the registry, the states listed and read.
  \<^item> Administration: schema changes run with the gate held; a reset's event.
  \<^item> Configuration and process: layers compose, a finalized configuration is in bounds,
    builds the sweeper and the routes; the order of a run; the metrics are the history.
  \<^item> slab: what color and the read flags lose, nothing (SlabProperties); every client and
    command takes the route meant for it and succeeds on what its handler answers
    (SlabClientProperties, SlabCommandProperties); a completed scenario sent exactly the
    requests it narrates, with the answers it names, and every walk and poll of one ends
    (SlabScenarioProperties, SlabStorageProperties, SlabRunProperties); the counts and
    settings a scenario shows are the service's own (SlabRunProperties), and the refusals
    its steps accept are the ones the service's handlers give their requests
    (SlabConditions).

  \<^bold>\<open>Interfaces.\<close> The locales are problem_matcher and its composition composed_matchers
  (what an error writer relies on, interpreted on the service's matchers), versioned_commands
  (what the client of a versioned row relies on, interpreted on the guarded organization
  commands), row_contribution (what the seeder relies on, interpreted on the organization
  seed), overlay_block (what layering relies on, interpreted on the three service
  blocks) and kept_tables (what the preservation calculus relies on, interpreted on the
  tables' typing). Each interpretation stands in the theory of its provider.

  \<^bold>\<open>Contracts.\<close> Library code is a parameter, and what the code relies on is a named
  predicate: lib_ok and calm (sqlate, the recorder, the driver), the blobfs contracts
  (doc_blobs_ok, begins_once, mark_contract), reads_link (the SDK's reads of what slab sends),
  config_lib_ok (go-core's config), gate_ok (go-core's gate), resets (go-database's
  admin service), sweeper_lib_ok (the retentions and the sweeper), migrates (the migrator
  behind the mount), commits (a database whose transactions open and commit). Each has an instance
  in the development, which the witnesses run on.

  \<^bold>\<open>Bounds and fuel.\<close> The ancestor walk of the cycle check is a partial function, proved
  to return on every forest (OrgForest), so on every reachable state. The levels of the
  read model take as fuel the number of the rows, which a chain in a forest never passes.
  slab's poll and its walk of a document tree are partial functions too: the first is
  proved to return once its limit is past, the second on every tree a service serves.
  The cursor walk carries the 101 pages its code allows. Every other recursion is
  structural or has its measure. Versions and sizes are integers: the database's bigint
  does not wrap, it fails, and no reachable version comes near its bound. A count of
  passes is an integer, where slab reads a float into an int64.

  \<^bold>\<open>Not modelled.\<close> The libraries themselves, the command line and scenario runners of
  go-cli-sdk among them; the JSON codecs, save the transfer body's own; logging, tracing
  and the metrics' transport; the prose of a scenario's notes, of which the values stated
  are kept; the test fixtures that open a terminal, a file or an application for one
  test, and the clients the integration harness opens, which are the libraries';
  wall-clock time, beyond the ages a configuration carries and the instants a scenario
  compares; cancellation inside a library call, which is one of the errors it may return.
\<close>

end
